(* ===== verification/Prelude.thy ===== *)
theory Prelude
  imports Main "HOL-Library.Multiset" "HOL-Library.AList" "HOL-Library.Char_ord" "HOL-Library.List_Lexorder"
begin

text \<open>
  Vocabulary shared by every component of the model: the outcome of a request handler, SQL-style
  operations on tables kept as lists of rows (SELECT, UPDATE .. WHERE, DELETE .. WHERE, COUNT),
  the decimal rendering Python's f-strings use when cache keys are built, and the glob matching
  of Redis SCAN. The lemmas are declared \<open>[simp]\<close> or collected in \<open>table_simps\<close>.
\<close>

named_theorems table_simps \<open>rewriting of counts and updates on tables\<close>

section \<open>Outcomes of handlers\<close>

text \<open>
  A handler returns, raises an \<open>HTTPException\<close> (or an \<open>AppException\<close>) with a status code and a
  detail, or lets some other Python exception escape.
\<close>

datatype exn =
    IntegrityError
  | StaleDataError
  | OperationalError "string option"
  | NameError
  | AttributeError
  | TypeError
  | ValueError
  | ValidationError
  | RuntimeError
  | DataError
  | ConnectionError
  | MissingGreenlet
  | OverflowError

datatype 'a outcome = Return 'a | Http nat string | Raise exn

fun is_Return :: "'a outcome \<Rightarrow> bool" where
  "is_Return (Return _) = True"
| "is_Return _ = False"

lemma is_Return_iff: "is_Return r \<longleftrightarrow> (\<exists>x. r = Return x)"
  by (cases r) auto

text \<open>A comprehension over fallible items: the first failure wins.\<close>

fun sequence :: "'a outcome list \<Rightarrow> 'a list outcome" where
  "sequence [] = Return []"
| "sequence (Return x # xs) = (case sequence xs of
     Return ys \<Rightarrow> Return (x # ys) | Http c m \<Rightarrow> Http c m | Raise e \<Rightarrow> Raise e)"
| "sequence (Http c m # xs) = Http c m"
| "sequence (Raise e # xs) = Raise e"

fun map_outcome :: "('a \<Rightarrow> 'b) \<Rightarrow> 'a outcome \<Rightarrow> 'b outcome" where
  "map_outcome f (Return x) = Return (f x)"
| "map_outcome f (Http c m) = Http c m"
| "map_outcome f (Raise e) = Raise e"

lemma map_outcome_Return_iff: "map_outcome f r = Return y \<longleftrightarrow> (\<exists>x. r = Return x \<and> y = f x)"
  by (cases r) auto

lemma sequence_all [simp]: "sequence (map (\<lambda>x. Return (f x)) xs) = Return (map f xs)"
  by (induction xs) auto

lemma sequence_Return: "sequence rs = Return xs \<Longrightarrow> rs = map Return xs"
proof (induction rs arbitrary: xs)
  case (Cons r rs)
  then show ?case by (cases r; cases "sequence rs") auto
qed simp

lemma sequence_raise: "Raise e \<in> set rs \<Longrightarrow> \<forall>r\<in>set rs. is_Return r \<or> r = Raise e \<Longrightarrow> sequence rs = Raise e"
proof (induction rs)
  case (Cons r rs)
  then show ?case by (cases r) auto
qed simp

section \<open>Tables as lists of rows\<close>

definition cnt :: "('a \<Rightarrow> bool) \<Rightarrow> 'a list \<Rightarrow> int" where
  "cnt P xs = int (length (filter P xs))"

definition update_where :: "('a \<Rightarrow> bool) \<Rightarrow> ('a \<Rightarrow> 'a) \<Rightarrow> 'a list \<Rightarrow> 'a list" where
  "update_where P f xs = map (\<lambda>r. if P r then f r else r) xs"

definition delete_where :: "('a \<Rightarrow> bool) \<Rightarrow> 'a list \<Rightarrow> 'a list" where
  "delete_where P xs = filter (\<lambda>r. \<not> P r) xs"

lemma cnt_Nil [simp]: "cnt P [] = 0"
  by (simp add: cnt_def)

lemma cnt_Cons [simp]: "cnt P (x # xs) = (if P x then 1 else 0) + cnt P xs"
  by (simp add: cnt_def)

lemma cnt_append [simp]: "cnt P (xs @ ys) = cnt P xs + cnt P ys"
  by (simp add: cnt_def)

lemma cnt_nonneg [simp]: "0 \<le> cnt P xs"
  by (simp add: cnt_def)

lemma cnt_zero_iff: "cnt P xs = 0 \<longleftrightarrow> (\<forall>x\<in>set xs. \<not> P x)"
  by (auto simp: cnt_def filter_empty_conv)

lemma cnt_pos: "x \<in> set xs \<Longrightarrow> P x \<Longrightarrow> 0 < cnt P xs"
  by (metis cnt_nonneg cnt_zero_iff order_le_less)

lemma cnt_partition: "cnt P (filter Q xs) + cnt P (filter (\<lambda>x. \<not> Q x) xs) = cnt P xs"
  by (induction xs) auto

lemma cnt_delete_where:
  "cnt P (delete_where Q xs) = cnt P xs - cnt (\<lambda>x. P x \<and> Q x) xs"
  by (induction xs) (auto simp: delete_where_def)

lemma cnt_cong: "(\<And>x. x \<in> set xs \<Longrightarrow> P x = Q x) \<Longrightarrow> cnt P xs = cnt Q xs"
  unfolding cnt_def by (metis filter_cong)

lemma cnt_update_where_same:
  "(\<And>x. P x \<Longrightarrow> Q (f x) = Q x) \<Longrightarrow> cnt Q (update_where P f xs) = cnt Q xs"
  by (induction xs) (auto simp: update_where_def)

lemma update_where_Nil [simp]: "update_where P f [] = []"
  by (simp add: update_where_def)

lemma update_where_Cons [simp]:
  "update_where P f (x # xs) = (if P x then f x else x) # update_where P f xs"
  by (simp add: update_where_def)

lemma update_where_append [simp]:
  "update_where P f (xs @ ys) = update_where P f xs @ update_where P f ys"
  by (simp add: update_where_def)

lemma length_update_where [simp]: "length (update_where P f xs) = length xs"
  by (simp add: update_where_def)

lemma map_update_where [table_simps]:
  "(\<And>x. P x \<Longrightarrow> g (f x) = g x) \<Longrightarrow> map g (update_where P f xs) = map g xs"
  by (induction xs) auto

lemma set_update_where:
  "set (update_where P f xs) = (\<lambda>r. if P r then f r else r) ` set xs"
  by (simp add: update_where_def)

lemma update_where_none: "(\<And>x. x \<in> set xs \<Longrightarrow> \<not> P x) \<Longrightarrow> update_where P f xs = xs"
  by (induction xs) auto

lemma set_delete_where [simp]: "set (delete_where P xs) = {x \<in> set xs. \<not> P x}"
  by (simp add: delete_where_def)

lemma delete_where_Nil [simp]: "delete_where P [] = []"
  by (simp add: delete_where_def)

lemma delete_where_Cons [simp]:
  "delete_where P (x # xs) = (if P x then delete_where P xs else x # delete_where P xs)"
  by (simp add: delete_where_def)

lemma delete_where_none: "(\<And>x. x \<in> set xs \<Longrightarrow> \<not> P x) \<Longrightarrow> delete_where P xs = xs"
  by (induction xs) auto

lemma distinct_map_delete_where [simp]: "distinct (map f xs) \<Longrightarrow> distinct (map f (delete_where P xs))"
  by (simp add: delete_where_def distinct_map_filter)

text \<open>\<open>result.scalars().first()\<close> on a SELECT: the first matching row, or \<open>None\<close>.\<close>

lemma find_SomeD: "find P xs = Some x \<Longrightarrow> x \<in> set xs \<and> P x"
  by (auto simp: find_Some_iff)

lemma find_NoneD: "find P xs = None \<Longrightarrow> x \<in> set xs \<Longrightarrow> \<not> P x"
  by (auto simp: find_None_iff)

lemma find_key_unique:
  "distinct (map key xs) \<Longrightarrow> x \<in> set xs \<Longrightarrow> find (\<lambda>r. key r = key x) xs = Some x"
  by (induction xs) force+

lemma find_update_where:
  "(\<And>r. Q (f r) = Q r) \<Longrightarrow>
   find Q (update_where P f xs) = map_option (\<lambda>r. if P r then f r else r) (find Q xs)"
  by (induction xs) auto

lemma find_eq_SomeI: "find P xs = Some y \<Longrightarrow> (\<exists>x\<in>set xs. P x)"
  by (auto dest: find_SomeD)

text \<open>\<open>ORDER BY .. OFFSET o LIMIT l + 1\<close>, and the \<open>has_more\<close> flag computed from the extra row.\<close>

definition page :: "nat \<Rightarrow> nat \<Rightarrow> 'a list \<Rightarrow> 'a list" where
  "page offset limit xs = take limit (take (limit + 1) (drop offset xs))"

definition page_more :: "nat \<Rightarrow> nat \<Rightarrow> 'a list \<Rightarrow> bool" where
  "page_more offset limit xs \<longleftrightarrow> limit < length (take (limit + 1) (drop offset xs))"

text \<open>
  \<open>ORDER BY key\<close>: the order of rows with equal keys is not specified and may differ from one execution of the query
  to the next; \<open>tie\<close> is their rank in this one.
\<close>

definition order_by :: "('a \<Rightarrow> int) \<Rightarrow> ('a \<Rightarrow> int) \<Rightarrow> 'a list \<Rightarrow> 'a list" where
  "order_by tie key rows = sort_key key (sort_key tie rows)"

lemma order_by_simps [simp]:
  "mset (order_by tie key rows) = mset rows" "set (order_by tie key rows) = set rows"
  "length (order_by tie key rows) = length rows" "sorted (map key (order_by tie key rows))"
  "distinct (order_by tie key rows) = distinct rows" "order_by tie key [] = []" "order_by tie key [x] = [x]"
  by (simp_all add: order_by_def)

lemma order_by_unique:
  assumes "distinct (map key rows)"
  shows "order_by tie key rows = order_by tie' key rows"
  unfolding order_by_def
proof (rule sort_key_inj_key_eq)
  show "mset (sort_key tie rows) = mset (sort_key key (sort_key tie' rows))" by simp
  show "inj_on key (set (sort_key tie rows))" using assms by (simp add: distinct_map)
  show "sorted (map key (sort_key key (sort_key tie' rows)))" by simp
qed

lemma page_simp [simp]: "page offset limit xs = take limit (drop offset xs)"
  by (simp add: page_def min_def)

lemma page_more_iff: "page_more offset limit xs \<longleftrightarrow> offset + limit < length xs"
  by (auto simp: page_more_def)

section \<open>Decimal rendering\<close>

definition digit :: "nat \<Rightarrow> char" where
  "digit n = char_of (48 + n)"

fun str_nat :: "nat \<Rightarrow> string" where
  "str_nat n = (if n < 10 then [digit n] else str_nat (n div 10) @ [digit (n mod 10)])"

declare str_nat.simps [simp del]

definition str_int :: "int \<Rightarrow> string" where
  "str_int i = (if i < 0 then CHR ''-'' # str_nat (nat (- i)) else str_nat (nat i))"

definition undigit :: "char \<Rightarrow> nat" where
  "undigit c = of_char c - 48"

definition val_digits :: "string \<Rightarrow> nat" where
  "val_digits s = fold (\<lambda>c acc. 10 * acc + undigit c) s 0"

lemma undigit_digit: "n < 10 \<Longrightarrow> undigit (digit n) = n"
  by (simp add: undigit_def digit_def)

lemma digit_range: "n < 10 \<Longrightarrow> of_char (digit n) \<in> {48..57::nat}"
  by (simp add: digit_def)

lemma str_nat_chars: "set (str_nat n) \<subseteq> {c. of_char c \<in> {48..57::nat}}"
proof (induction n rule: str_nat.induct)
  case (1 n)
  then show ?case
    by (subst str_nat.simps) (auto simp: digit_def)
qed

lemma str_nat_not_Nil [simp]: "str_nat n \<noteq> []"
  by (subst str_nat.simps) simp

lemma val_digits_snoc: "val_digits (s @ [c]) = 10 * val_digits s + undigit c"
  by (simp add: val_digits_def)

lemma val_digits_str_nat: "val_digits (str_nat n) = n"
proof (induction n rule: str_nat.induct)
  case (1 n)
  show ?case
  proof (cases "n < 10")
    case True
    then show ?thesis
      by (subst str_nat.simps) (simp add: val_digits_def undigit_digit)
  next
    case False
    with 1 show ?thesis
      by (subst str_nat.simps) (simp add: val_digits_snoc undigit_digit)
  qed
qed

lemma str_nat_inj: "str_nat m = str_nat n \<longleftrightarrow> m = n"
  by (metis val_digits_str_nat)

lemma str_nat_no_char: "of_char c \<notin> {48..57::nat} \<Longrightarrow> c \<notin> set (str_nat n)"
  using str_nat_chars [of n] by auto

lemma str_int_inj [simp]: "str_int i = str_int j \<longleftrightarrow> i = j"
proof -
  have "CHR ''-'' \<notin> set (str_nat n)" for n
    by (rule str_nat_no_char) simp
  then have neg: "str_nat m \<noteq> CHR ''-'' # s" for m s
    by (metis list.set_intros(1))
  show ?thesis
    by (auto simp: str_int_def str_nat_inj neg neg [symmetric] split: if_splits)
qed

lemma str_int_chars: "c \<in> set (str_int i) \<Longrightarrow> of_char c \<in> insert 45 {48..57::nat}"
  using str_nat_chars by (fastforce simp: str_int_def split: if_splits)

lemma str_int_no_colon [simp]: "CHR '':'' \<notin> set (str_int i)"
  using str_int_chars [of "CHR '':''" i] by auto

lemma str_int_no_star [simp]: "CHR ''*'' \<notin> set (str_int i)"
  using str_int_chars [of "CHR ''*''" i] by auto

text \<open>Two \<open>:\<close>-separated keys agree exactly when their first fields do.\<close>

lemma colon_field_inj:
  assumes "CHR '':'' \<notin> set a" "CHR '':'' \<notin> set b"
    and "a @ CHR '':'' # s = b @ CHR '':'' # t"
  shows "a = b \<and> s = t"
  using assms
proof (induction a arbitrary: b)
  case Nil
  then show ?case by (cases b) auto
next
  case (Cons x a)
  then show ?case by (cases b) auto
qed

section \<open>Glob patterns of Redis SCAN\<close>

text \<open>Only \<open>*\<close> is special in the patterns the code builds.\<close>

fun glob_match :: "string \<Rightarrow> string \<Rightarrow> bool" where
  "glob_match [] [] = True"
| "glob_match [] (d # s) = False"
| "glob_match (c # p) [] = (c = CHR ''*'' \<and> glob_match p [])"
| "glob_match (c # p) (d # s) =
     (if c = CHR ''*'' then glob_match p (d # s) \<or> glob_match (c # p) s
      else c = d \<and> glob_match p s)"

lemma glob_star_all: "glob_match ''*'' s"
  by (induction s) auto

lemma glob_literal: "CHR ''*'' \<notin> set p \<Longrightarrow> glob_match p s \<longleftrightarrow> s = p"
  by (induction p s rule: glob_match.induct) auto

lemma glob_prefix:
  "CHR ''*'' \<notin> set p \<Longrightarrow> glob_match (p @ ''*'') s \<longleftrightarrow> (\<exists>r. s = p @ r)"
proof (induction p arbitrary: s)
  case Nil
  then show ?case using glob_star_all by simp
next
  case (Cons c p)
  then show ?case by (cases s) auto
qed

end
