(* ===== verification/Json.thy ===== *)
theory Json
  imports Complex_Main Prelude
begin

text \<open>
  JSON values: response bodies, cached payloads, pub/sub messages and WebSocket frames. A Python
  dict is an association list in insertion order; \<open>AList.update\<close> is \<open>d[k] = v\<close> (in place for an
  existing key, at the end for a new one). \<open>JTime\<close> is the ISO rendering of a timestamp.
\<close>

datatype json =
    JNull
  | JBool bool
  | JInt int
  | JFloat rat
  | JInf
  | JStr string
  | JTime int
  | JArr "json list"
  | JObj "(string \<times> json) list"

text \<open>\<open>d.get(k)\<close>: \<open>None\<close> for a missing key.\<close>

definition dict_get :: "string \<Rightarrow> (string \<times> json) list \<Rightarrow> json" where
  "dict_get k d = (case map_of d k of None \<Rightarrow> JNull | Some v \<Rightarrow> v)"

definition dict_set :: "string \<Rightarrow> json \<Rightarrow> (string \<times> json) list \<Rightarrow> (string \<times> json) list" where
  "dict_set k v d = AList.update k v d"

lemma dict_get_set [simp]: "dict_get k (dict_set k' v d) = (if k = k' then v else dict_get k d)"
  by (simp add: dict_get_def dict_set_def update_conv)

text \<open>\<open>isinstance(v, int)\<close>: Python's \<open>bool\<close> is a subclass of \<open>int\<close>.\<close>

fun is_int :: "json \<Rightarrow> bool" where
  "is_int (JInt _) = True"
| "is_int (JBool _) = True"
| "is_int _ = False"

text \<open>The integer an \<open>int\<close> (or \<open>bool\<close>) compares as.\<close>

fun int_value :: "json \<Rightarrow> int" where
  "int_value (JInt i) = i"
| "int_value (JBool b) = (if b then 1 else 0)"
| "int_value _ = 0"

text \<open>Python truth value.\<close>

fun truthy :: "json \<Rightarrow> bool" where
  "truthy JNull = False"
| "truthy (JBool b) = b"
| "truthy (JInt i) = (i \<noteq> 0)"
| "truthy (JFloat x) = (x \<noteq> 0)"
| "truthy JInf = True"
| "truthy (JStr s) = (s \<noteq> [])"
| "truthy (JTime _) = True"
| "truthy (JArr xs) = (xs \<noteq> [])"
| "truthy (JObj d) = (d \<noteq> [])"

definition jstr_opt :: "string option \<Rightarrow> json" where
  "jstr_opt s = (case s of None \<Rightarrow> JNull | Some t \<Rightarrow> JStr t)"

definition jint_opt :: "int option \<Rightarrow> json" where
  "jint_opt i = (case i of None \<Rightarrow> JNull | Some j \<Rightarrow> JInt j)"

definition jtime_opt :: "int option \<Rightarrow> json" where
  "jtime_opt i = (case i of None \<Rightarrow> JNull | Some j \<Rightarrow> JTime j)"

text \<open>A one-field body such as \<open>SuccessResponse(message=..)\<close>.\<close>

definition message_body :: "string \<Rightarrow> json" where
  "message_body s = JObj [(''message'', JStr s)]"

end
