(* ===== verification/Redis.thy ===== *)
theory Redis
  imports Json
begin

text \<open>
  The Redis keyspace and \<open>app/services/redis_service.py\<close>. The keyspace is an association list from
  keys to values with an optional deadline (milliseconds); an entry whose deadline has passed is
  absent. \<open>r_up\<close> says whether the server answers: every helper swallows the exception of a call to
  a server that is down. \<open>json.dumps\<close> followed by \<open>json.loads\<close> is the identity on the JSON values
  the code stores, so JSON strings are stored as JSON values.
\<close>

datatype rval =
    RJson json
  | RStr string
  | RInt int
  | RHash rat int      \<comment> \<open>the fields \<open>tokens\<close> and \<open>ts\<close> of a rate-limit bucket\<close>
  | RSet "string list"

record redis =
  r_store :: "(string \<times> (rval \<times> int option)) list"
  r_up :: bool
  r_published :: "(string \<times> json) list"

section \<open>Commands\<close>

definition live :: "int \<Rightarrow> int option \<Rightarrow> bool" where
  "live now dl = (case dl of None \<Rightarrow> True | Some e \<Rightarrow> now < e)"

text \<open>GET / HMGET / SMEMBERS on the live entry, at the time \<open>now\<close> in milliseconds.\<close>

definition r_get :: "int \<Rightarrow> string \<Rightarrow> redis \<Rightarrow> rval option" where
  "r_get now k r = (case map_of (r_store r) k of
      None \<Rightarrow> None
    | Some (v, dl) \<Rightarrow> if live now dl then Some v else None)"

definition r_set :: "string \<Rightarrow> rval \<Rightarrow> int option \<Rightarrow> redis \<Rightarrow> redis" where
  "r_set k v dl r = r\<lparr>r_store := AList.update k (v, dl) (r_store r)\<rparr>"

definition r_del :: "string \<Rightarrow> redis \<Rightarrow> redis" where
  "r_del k r = r\<lparr>r_store := AList.delete k (r_store r)\<rparr>"

definition r_del_matching :: "string \<Rightarrow> redis \<Rightarrow> redis" where
  "r_del_matching pat r = r\<lparr>r_store := filter (\<lambda>e. \<not> glob_match pat (fst e)) (r_store r)\<rparr>"

definition r_publish :: "string \<Rightarrow> json \<Rightarrow> redis \<Rightarrow> redis" where
  "r_publish ch p r = r\<lparr>r_published := r_published r @ [(ch, p)]\<rparr>"

lemma r_get_set [simp]:
  "r_get now k (r_set k' v dl r) =
   (if k = k' then (if live now dl then Some v else None) else r_get now k r)"
  by (simp add: r_get_def r_set_def update_conv)

lemma r_get_del [simp]: "r_get now k (r_del k' r) = (if k = k' then None else r_get now k r)"
  by (simp add: r_get_def r_del_def delete_conv)

lemma r_get_del_matching [simp]:
  "r_get now k (r_del_matching pat r) = (if glob_match pat k then None else r_get now k r)"
proof -
  have "map_of (filter (\<lambda>e. \<not> glob_match pat (fst e)) xs) k =
      (if glob_match pat k then None else map_of xs k)" for xs :: "(string \<times> (rval \<times> int option)) list"
    by (induction xs) auto
  then show ?thesis by (simp add: r_get_def r_del_matching_def)
qed

lemma r_up_commands [simp]:
  "r_up (r_set k v dl r) = r_up r" "r_up (r_del k r) = r_up r"
  "r_up (r_del_matching pat r) = r_up r" "r_up (r_publish ch p r) = r_up r"
  by (simp_all add: r_set_def r_del_def r_del_matching_def r_publish_def)

lemma r_get_publish [simp]: "r_get now k (r_publish ch p r) = r_get now k r"
  by (simp add: r_get_def r_publish_def)

section \<open>The helpers of \<open>redis_service\<close>\<close>

definition set_cache :: "int \<Rightarrow> string \<Rightarrow> json \<Rightarrow> int \<Rightarrow> redis \<Rightarrow> redis" where
  "set_cache now k v ttl r =
     (if r_up r \<and> 0 < ttl then r_set k (RJson v) (Some (now + ttl * 1000)) r else r)"

definition get_cache :: "int \<Rightarrow> string \<Rightarrow> redis \<Rightarrow> json option" where
  "get_cache now k r =
     (if r_up r then (case r_get now k r of Some (RJson v) \<Rightarrow> Some v | _ \<Rightarrow> None) else None)"

definition delete_cache :: "string \<Rightarrow> redis \<Rightarrow> redis" where
  "delete_cache k r = (if r_up r then r_del k r else r)"

definition delete_cache_pattern :: "string \<Rightarrow> redis \<Rightarrow> redis" where
  "delete_cache_pattern pat r = (if r_up r then r_del_matching pat r else r)"

definition add_to_blacklist :: "int \<Rightarrow> string \<Rightarrow> int \<Rightarrow> redis \<Rightarrow> redis" where
  "add_to_blacklist now token ttl r =
     (if r_up r \<and> 0 < ttl
      then r_set (''blacklist:'' @ token) (RStr ''true'') (Some (now + ttl * 1000)) r else r)"

definition is_blacklisted :: "int \<Rightarrow> string \<Rightarrow> redis \<Rightarrow> bool" where
  "is_blacklisted now token r \<longleftrightarrow> r_up r \<and> r_get now (''blacklist:'' @ token) r \<noteq> None"

definition get_auth_cache_and_blacklist :: "int \<Rightarrow> string \<Rightarrow> redis \<Rightarrow> bool \<times> json option" where
  "get_auth_cache_and_blacklist now token r =
     (if r_up r then
        if r_get now (''blacklist:'' @ token) r \<noteq> None then (True, None)
        else (False, case r_get now (''auth:user:'' @ token) r of Some (RJson v) \<Rightarrow> Some v | _ \<Rightarrow> None)
      else (False, None))"

definition increment_cache_version :: "int \<Rightarrow> string \<Rightarrow> redis \<Rightarrow> int \<times> redis" where
  "increment_cache_version now domain r =
     (if r_up r then
        let k = domain @ '':version'';
            n = (case r_get now k r of Some (RInt i) \<Rightarrow> i + 1 | _ \<Rightarrow> 1)
        in (n, r_set k (RInt n) None r)
      else (1, r))"

definition get_cache_version :: "int \<Rightarrow> string \<Rightarrow> redis \<Rightarrow> int" where
  "get_cache_version now domain r =
     (if r_up r then
        case r_get now (domain @ '':version'') r of
          Some (RInt i) \<Rightarrow> i | _ \<Rightarrow> 1
      else 1)"

definition build_versioned_feed_cache_key :: "string \<Rightarrow> int \<Rightarrow> int \<Rightarrow> int \<Rightarrow> int \<Rightarrow> string" where
  "build_versioned_feed_cache_key feed_type user_id offset limit version =
     ''feed:'' @ feed_type @ '':'' @ str_int user_id @ '':v'' @ str_int version @ '':'' @
     str_int offset @ '':'' @ str_int limit"

definition view_queue_key :: string where
  "view_queue_key = ''post:views:queue''"

definition queue_post_view :: "int \<Rightarrow> int \<Rightarrow> int \<Rightarrow> redis \<Rightarrow> redis" where
  "queue_post_view now post_id user_id r =
     (if r_up r then
        let member = str_int post_id @ '':'' @ str_int user_id;
            old = (case r_get now view_queue_key r of Some (RSet xs) \<Rightarrow> xs | _ \<Rightarrow> [])
        in r_set view_queue_key (RSet (List.insert member old)) None r
      else r)"

section \<open>Contracts\<close>

text \<open>
  What the callers rely on: a value put under a key is read back until its deadline, a deleted key
  is absent, and other keys are untouched.
\<close>

locale keyspace =
  fixes lookup :: "int \<Rightarrow> string \<Rightarrow> 's \<Rightarrow> 'v option"
    and put :: "string \<Rightarrow> 'v \<Rightarrow> int option \<Rightarrow> 's \<Rightarrow> 's"
    and del :: "string \<Rightarrow> 's \<Rightarrow> 's"
  assumes lookup_put: "lookup now k (put k' v dl s) =
      (if k = k' then (if live now dl then Some v else None) else lookup now k s)"
    and lookup_del: "lookup now k (del k' s) = (if k = k' then None else lookup now k s)"
begin

lemma put_before_deadline: "now < e \<Longrightarrow> lookup now k (put k v (Some e) s) = Some v"
  by (simp add: lookup_put live_def)

lemma put_after_deadline: "e \<le> now \<Longrightarrow> lookup now k (put k v (Some e) s) = None"
  by (simp add: lookup_put live_def)

lemma put_other: "k \<noteq> k' \<Longrightarrow> lookup now k (put k' v dl s) = lookup now k s"
  by (simp add: lookup_put)

lemma put_overwrites: "lookup now k' (put k v dl (put k v' dl' s)) = lookup now k' (put k v dl s)"
  by (simp add: lookup_put)

end

interpretation ks: keyspace r_get r_set r_del
  by unfold_locales auto

lemma helpers_r_up [simp]:
  "r_up (set_cache now k v ttl r) = r_up r" "r_up (delete_cache k r) = r_up r"
  "r_up (delete_cache_pattern k r) = r_up r" "r_up (add_to_blacklist now k ttl r) = r_up r"
  "r_up (snd (increment_cache_version now k r)) = r_up r"
  "r_up (queue_post_view now i j r) = r_up r"
  by (simp_all add: set_cache_def delete_cache_def delete_cache_pattern_def add_to_blacklist_def
      increment_cache_version_def queue_post_view_def Let_def)

lemma get_cache_after_delete: "get_cache now k (delete_cache k r) = None"
  by (simp add: get_cache_def delete_cache_def)

lemma get_cache_delete_other: "k \<noteq> k' \<Longrightarrow> get_cache now k (delete_cache k' r) = get_cache now k r"
  by (simp add: get_cache_def delete_cache_def)

lemma get_cache_delete_pattern:
  "get_cache now k (delete_cache_pattern pat r) = (if glob_match pat k then None else get_cache now k r)"
  by (simp add: get_cache_def delete_cache_pattern_def)

lemma get_cache_set:
  "r_up r \<Longrightarrow> now' < now + ttl * 1000 \<Longrightarrow> 0 < ttl \<Longrightarrow>
   get_cache now' k (set_cache now k v ttl r) = Some v"
  by (simp add: get_cache_def set_cache_def live_def)

lemma get_cache_increment_version:
  "k \<noteq> domain @ '':version'' \<Longrightarrow>
   get_cache now' k (snd (increment_cache_version now domain r)) = get_cache now' k r"
  by (simp add: get_cache_def increment_cache_version_def Let_def)

text \<open>
  Key arithmetic: the pattern \<open>post:i:*\<close> matches the keys of post \<open>i\<close> and of no other post.
\<close>

lemma id_pattern_exact:
  assumes "CHR ''*'' \<notin> set pre"
  shows "glob_match (pre @ str_int i @ '':*'') (pre @ str_int j @ CHR '':'' # rest) \<longleftrightarrow> i = j"
proof -
  have "glob_match ((pre @ str_int i @ '':'') @ ''*'') (pre @ str_int j @ CHR '':'' # rest) \<longleftrightarrow>
      (\<exists>r. str_int j @ CHR '':'' # rest = str_int i @ CHR '':'' # r)"
    using assms by (subst glob_prefix) auto
  also have "\<dots> \<longleftrightarrow> i = j"
    using colon_field_inj [of "str_int j" "str_int i" rest] by auto
  finally show ?thesis by simp
qed

end
