(* ===== verification/Binary64.thy ===== *)
theory Binary64
  imports Complex_Main "HOL-Library.Log_Nat"
begin

text \<open>
  Python's floats: the results of the operations on doubles (IEEE 754 binary64, ties to even) as rationals. Every
  operation of the source is the exact one followed by \<open>fl64\<close>. Exponents are unbounded here: overflow and subnormal numbers
  lie outside of the values the program computes with.
\<close>

section \<open>Rounding to 53 bits\<close>

text \<open>\<open>\<lfloor>log 2 \<bar>x\<bar>\<rfloor>\<close> for \<open>x \<noteq> 0\<close>\<close>

definition exponent :: "rat \<Rightarrow> int" where
  "exponent x = (if 1 \<le> \<bar>x\<bar> then bitlen \<lfloor>\<bar>x\<bar>\<rfloor> - 1 else - bitlen (\<lceil>1 / \<bar>x\<bar>\<rceil> - 1))"

definition round_even :: "rat \<Rightarrow> int" where
  "round_even q =
     (let n = \<lfloor>q\<rfloor>; f = q - of_int n
      in if f < 1 / 2 then n else if 1 / 2 < f then n + 1 else if even n then n else n + 1)"

definition fl64 :: "rat \<Rightarrow> rat" where
  "fl64 x =
     (if x = 0 then 0
      else let ulp = 2 powi (exponent x - 52) in of_int (round_even (x / ulp)) * ulp)"

lemma round_even_near: "\<bar>of_int (round_even q) - q\<bar> \<le> 1 / 2"
proof -
  have "of_int \<lfloor>q\<rfloor> \<le> q" "q < of_int \<lfloor>q\<rfloor> + 1" by linarith+
  then show ?thesis by (auto simp: round_even_def Let_def)
qed

lemma round_even_int [simp]: "round_even (of_int n) = n"
  by (simp add: round_even_def)

lemma exponent_bounds:
  assumes "x \<noteq> 0"
  shows "2 powi exponent x \<le> \<bar>x\<bar>" "\<bar>x\<bar> < 2 powi (exponent x + 1)"
proof -
  have "2 powi exponent x \<le> \<bar>x\<bar> \<and> \<bar>x\<bar> < 2 powi (exponent x + 1)"
  proof (cases "1 \<le> \<bar>x\<bar>")
    case True
    let ?n = "\<lfloor>\<bar>x\<bar>\<rfloor>"
    have n: "0 < ?n" using True by linarith
    then have "1 \<le> bitlen ?n" using bitlen_eq_zero_iff [of ?n] bitlen_nonneg [of ?n] by linarith
    then obtain k where k: "bitlen ?n = int k + 1" by (metis add.commute zle_iff_zadd)
    then have e: "exponent x = int k" using True by (simp add: exponent_def)
    have "2 ^ k \<le> ?n" "?n < 2 ^ (k + 1)" using bitlen_bounds [OF n] k by (simp_all add: nat_add_distrib)
    then have "of_int (2 ^ k) \<le> \<bar>x\<bar>" "\<bar>x\<bar> < of_int (2 ^ (k + 1))" by (simp_all only: le_floor_iff floor_less_iff)
    then have "2 powi int k \<le> \<bar>x\<bar>" "\<bar>x\<bar> < 2 powi int (k + 1)" by (simp_all only: power_int_of_nat of_int_power of_int_numeral)
    then show ?thesis by (simp add: e add.commute)
  next
    case False
    let ?n = "\<lceil>1 / \<bar>x\<bar>\<rceil> - 1"
    have x: "0 < \<bar>x\<bar>" using assms by simp
    then have "1 < 1 / \<bar>x\<bar>" using False by simp
    then have n: "0 < ?n" by linarith
    then have "1 \<le> bitlen ?n" using bitlen_eq_zero_iff [of ?n] bitlen_nonneg [of ?n] by linarith
    then obtain k where k: "bitlen ?n = int k + 1" by (metis add.commute zle_iff_zadd)
    then have e: "exponent x = - int (k + 1)" using False by (simp add: exponent_def)
    have "2 ^ k \<le> ?n" "?n < 2 ^ (k + 1)" using bitlen_bounds [OF n] k by (simp_all add: nat_add_distrib)
    then have "(2 :: int) ^ k < \<lceil>1 / \<bar>x\<bar>\<rceil>" "\<lceil>1 / \<bar>x\<bar>\<rceil> \<le> (2 :: int) ^ (k + 1)" by simp_all
    then have "of_int (2 ^ k) < 1 / \<bar>x\<bar>" "1 / \<bar>x\<bar> \<le> of_int (2 ^ (k + 1))" by (simp_all only: less_ceiling_iff ceiling_le_iff)
    then have "2 ^ k * \<bar>x\<bar> < 1" "1 \<le> 2 ^ (k + 1) * \<bar>x\<bar>" using x by (simp_all add: field_simps)
    then have "\<bar>x\<bar> < 1 / 2 ^ k" "1 / 2 ^ (k + 1) \<le> \<bar>x\<bar>" by (simp_all add: field_simps)
    then have "\<bar>x\<bar> < 2 powi - int k" "2 powi - int (k + 1) \<le> \<bar>x\<bar>"
      by (simp_all only: power_int_minus power_int_of_nat inverse_eq_divide)
    then show ?thesis by (simp add: e)
  qed
  then show "2 powi exponent x \<le> \<bar>x\<bar>" "\<bar>x\<bar> < 2 powi (exponent x + 1)" by blast+
qed

lemma fl64_error: "\<bar>fl64 x - x\<bar> \<le> \<bar>x\<bar> / 2 ^ 53"
proof (cases "x = 0")
  case True
  then show ?thesis by (simp add: fl64_def)
next
  case False
  define ulp :: rat where "ulp = 2 powi (exponent x - 52)"
  have pos: "0 < ulp" by (simp add: ulp_def)
  have "fl64 x - x = (of_int (round_even (x / ulp)) - x / ulp) * ulp"
    using False pos by (simp add: fl64_def ulp_def [symmetric] Let_def left_diff_distrib)
  then have "\<bar>fl64 x - x\<bar> \<le> 1 / 2 * ulp"
    using pos mult_right_mono [OF round_even_near [of "x / ulp"], of ulp] by (simp add: abs_mult)
  also have "ulp * 2 ^ 52 = 2 powi exponent x"
  proof -
    have "exponent x = (exponent x - 52) + int 52" by simp
    then show ?thesis unfolding ulp_def by (metis power_int_add power_int_of_nat zero_neq_numeral)
  qed
  then have "1 / 2 * ulp \<le> \<bar>x\<bar> / 2 ^ 53" using exponent_bounds(1) [OF False] by simp
  finally show ?thesis .
qed

lemma fl64_int: "\<bar>n\<bar> \<le> 2 ^ 53 \<Longrightarrow> fl64 (of_int n) = of_int n"
proof (cases "n = 0")
  case False
  assume n: "\<bar>n\<bar> \<le> 2 ^ 53"
  have b: "2 powi exponent (of_int n) \<le> (of_int \<bar>n\<bar> :: rat)" using exponent_bounds(1) [of "of_int n"] False by simp
  show ?thesis
  proof (cases "exponent (of_int n) \<le> 52")
    case True
    then obtain k where k: "exponent (of_int n) - 52 = - int k" by (metis diff_le_0_iff_le nonpos_int_cases)
    have "(of_int n :: rat) / 2 powi (- int k) = of_int (n * 2 ^ k)" by (simp add: power_int_minus divide_inverse)
    then have "round_even (of_int n / 2 powi (- int k)) = n * 2 ^ k" by (metis round_even_int)
    then show ?thesis using False by (simp add: fl64_def k power_int_minus Let_def)
  next
    case False
    then have "(2 :: rat) powi int 53 \<le> 2 powi exponent (of_int n)" by (intro power_int_increasing) simp_all
    then have "(2 :: rat) ^ 53 \<le> of_int \<bar>n\<bar>" using b by (simp only: power_int_of_nat)
    then have "of_int (2 ^ 53) \<le> (of_int \<bar>n\<bar> :: rat)" by simp
    then have eq: "\<bar>n\<bar> = 2 ^ 53" using n by (simp only: of_int_le_iff)
    then have "n = 2 ^ 53 \<or> n = - (2 ^ 53)" by linarith
    moreover have "exponent (2 ^ 53) = 53" "exponent (- (2 ^ 53)) = 53" by code_simp+
    ultimately show ?thesis
      using round_even_int [of "2 ^ 52"] round_even_int [of "- (2 ^ 52)"] by (auto simp: fl64_def Let_def)
  qed
qed (simp add: fl64_def)

section \<open>What the proofs use of rounding\<close>

text \<open>The unit roundoff.\<close>

definition eps :: rat where "eps = 1 / 2 ^ 53"

lemma eps_bounds: "0 < eps" "eps \<le> 1 / 1000"
  by (simp_all add: eps_def)

locale rounding =
  fixes fl :: "rat \<Rightarrow> rat"
  assumes error: "\<bar>fl x - x\<bar> \<le> \<bar>x\<bar> / 2 ^ 53"
    and exact: "\<bar>n\<bar> \<le> 2 ^ 53 \<Longrightarrow> fl (of_int n) = of_int n"
begin

lemma rounded:
  assumes "0 \<le> x"
  shows "x * (1 - eps) \<le> fl x" "fl x \<le> x * (1 + eps)"
proof -
  have "\<bar>fl x - x\<bar> \<le> x * eps" using error [of x] assms by (simp add: eps_def)
  then have "fl x - x \<le> x * eps" "- (fl x - x) \<le> x * eps" by (simp_all only: abs_le_iff)
  then show "x * (1 - eps) \<le> fl x" "fl x \<le> x * (1 + eps)" by (simp_all add: algebra_simps)
qed

lemma rounded_nonneg:
  assumes "0 \<le> x"
  shows "0 \<le> fl x"
proof -
  have "0 \<le> x * (1 - eps)" using assms eps_bounds by simp
  then show ?thesis using rounded(1) [OF assms] by linarith
qed

lemma rounded_zero [simp]: "fl 0 = 0"
  using exact [of 0] by simp

text \<open>The relative errors of consecutive operations add up, in first order.\<close>

lemma lower_chain:
  assumes "0 \<le> x" "x * (1 - of_nat k * eps) \<le> y" "0 \<le> y"
  shows "x * (1 - of_nat (Suc k) * eps) \<le> fl y"
proof -
  have "x * (1 - of_nat (Suc k) * eps) \<le> x * (1 - of_nat k * eps) * (1 - eps)"
    using assms(1) eps_bounds by (simp add: algebra_simps)
  also have "\<dots> \<le> y * (1 - eps)" using assms(2) eps_bounds by (intro mult_right_mono) simp_all
  also have "\<dots> \<le> fl y" by (rule rounded(1) [OF assms(3)])
  finally show ?thesis .
qed

lemma product_below:
  assumes "0 \<le> x" "0 \<le> y"
  shows "x * y * (1 - 2 * eps) \<le> fl (fl x * y)"
proof -
  have "x * y * (1 - of_nat 1 * eps) \<le> fl x * y"
    using mult_right_mono [OF rounded(1) [OF assms(1)] assms(2)] by (simp add: algebra_simps)
  from lower_chain [OF _ this] show ?thesis using assms rounded_nonneg by simp
qed

lemma product_above:
  assumes "0 \<le> x" "0 \<le> y"
  shows "fl (fl x * y) \<le> x * y * (1 + eps) ^ 2"
proof -
  have "fl (fl x * y) \<le> fl x * y * (1 + eps)" using assms rounded_nonneg by (intro rounded(2)) simp
  also have "\<dots> \<le> (x * (1 + eps)) * y * (1 + eps)"
    using rounded(2) [OF assms(1)] assms(2) eps_bounds by (intro mult_right_mono) simp_all
  finally show ?thesis by (simp add: power2_eq_square algebra_simps)
qed

end

interpretation double: rounding fl64
  by unfold_locales (rule fl64_error, rule fl64_int)

end
