(* ===== verification/RateLimit.thy ===== *)
theory RateLimit
  imports Redis Binary64
begin

text \<open>
  The token-bucket rate limiter of \<open>app/services/rate_limit_service.py\<close>. The bucket of a key is the
  Redis hash \<open>{tokens, ts}\<close>; Python's floats are doubles: every operation is rounded by \<open>fl64\<close>. One pass of the
  optimistic WATCH/MULTI/EXEC loop is \<open>bucket_step\<close>; the loop itself takes the list of the writes by
  other clients that hit the watched key between WATCH and EXEC, one per failed attempt.
\<close>

section \<open>One pass\<close>

definition refill_window_ms :: "int \<Rightarrow> int" where
  "refill_window_ms window = max window 1 * 1000"

definition refill_per_ms :: "int \<Rightarrow> int \<Rightarrow> rat" where
  "refill_per_ms max_calls window = fl64 (of_int max_calls / of_int (refill_window_ms window))"

definition bucket_ttl_ms :: "int \<Rightarrow> int" where
  "bucket_ttl_ms window = max (refill_window_ms window * 2) 1000"

definition refilled :: "int \<Rightarrow> int \<Rightarrow> int \<Rightarrow> (rat \<times> int) option \<Rightarrow> rat" where
  "refilled now_ms max_calls window b =
     (let tokens = (case b of Some (t, _) \<Rightarrow> t | None \<Rightarrow> fl64 (of_int max_calls));
          last_refill_ms = (case b of Some (_, ts) \<Rightarrow> ts | None \<Rightarrow> now_ms);
          elapsed_ms = max 0 (now_ms - last_refill_ms);
          refill_amount = fl64 (fl64 (of_int elapsed_ms) * refill_per_ms max_calls window)
      in min (fl64 (of_int max_calls)) (fl64 (tokens + refill_amount)))"

definition bucket_step ::
    "int \<Rightarrow> int \<Rightarrow> int \<Rightarrow> (rat \<times> int) option \<Rightarrow> (bool \<times> int) \<times> (rat \<times> int)" where
  "bucket_step now_ms max_calls window b =
     (let tokens = refilled now_ms max_calls window b
      in if 1 \<le> tokens then ((True, max 1 \<lceil>fl64 (0 / 1000)\<rceil>), (fl64 (tokens - 1), now_ms))
         else let deficit = fl64 (1 - tokens);
                  retry_after_ms = \<lceil>fl64 (deficit / refill_per_ms max_calls window)\<rceil>
           in ((False, max 1 \<lceil>fl64 (of_int retry_after_ms / 1000)\<rceil>), (tokens, now_ms)))"

definition read_bucket :: "int \<Rightarrow> string \<Rightarrow> redis \<Rightarrow> (rat \<times> int) option" where
  "read_bucket now_ms k r = (case r_get now_ms k r of Some (RHash t ts) \<Rightarrow> Some (t, ts) | _ \<Rightarrow> None)"

section \<open>The retry loop and the dependency\<close>

fun consume_loop :: "int \<Rightarrow> string \<Rightarrow> int \<Rightarrow> int \<Rightarrow> (redis \<Rightarrow> redis) list \<Rightarrow> redis \<Rightarrow>
    (bool \<times> int) \<times> redis" where
  "consume_loop now_ms k max_calls window (conflict # rest) r =
     consume_loop now_ms k max_calls window rest (conflict r)"
| "consume_loop now_ms k max_calls window [] r =
     (let (verdict, (tokens, ts)) = bucket_step now_ms max_calls window (read_bucket now_ms k r)
      in (verdict, r_set k (RHash tokens ts) (Some (now_ms + bucket_ttl_ms window)) r))"

definition consume_token_bucket :: "int \<Rightarrow> string \<Rightarrow> int \<Rightarrow> int \<Rightarrow> (redis \<Rightarrow> redis) list \<Rightarrow> redis \<Rightarrow>
    (bool \<times> int) \<times> redis" where
  "consume_token_bucket now_ms k max_calls window conflicts r =
     (if max_calls \<le> 0 then ((False, 1), r) else consume_loop now_ms k max_calls window conflicts r)"

text \<open>\<open>_check\<close>: 429 with the \<open>Retry-After\<close> seconds; a Redis failure lets the request through.\<close>

definition check_rate :: "int \<Rightarrow> string \<Rightarrow> int \<Rightarrow> int \<Rightarrow> (redis \<Rightarrow> redis) list \<Rightarrow> redis \<Rightarrow>
    unit outcome \<times> redis" where
  "check_rate now_ms k max_calls window conflicts r =
     (if max_calls \<le> 0 then (Http 429 (''Rate limit exceeded. Try again in 1s.''), r)
      else if \<not> r_up r then (Return (), r)
      else case consume_token_bucket now_ms k max_calls window conflicts r of
        ((allowed, retry_after), r') \<Rightarrow>
          (if allowed then Return ()
           else Http 429 (''Rate limit exceeded. Try again in '' @ str_int retry_after @ ''s.''), r'))"

definition ip_rate_key :: "string \<Rightarrow> string option \<Rightarrow> string" where
  "ip_rate_key endpoint_id host =
     ''rl:'' @ endpoint_id @ '':ip:'' @ (case host of None \<Rightarrow> ''unknown'' | Some ip \<Rightarrow> ip)"

definition user_rate_key :: "string \<Rightarrow> int \<Rightarrow> string" where
  "user_rate_key endpoint_id user_id = ''rl:'' @ endpoint_id @ '':user:'' @ str_int user_id"

definition ip_rate_limit :: "string \<Rightarrow> int \<Rightarrow> int \<Rightarrow> int \<Rightarrow> string option \<Rightarrow> (redis \<Rightarrow> redis) list \<Rightarrow>
    redis \<Rightarrow> unit outcome \<times> redis" where
  "ip_rate_limit endpoint_id max_calls window now_ms host conflicts r =
     check_rate now_ms (ip_rate_key endpoint_id host) max_calls window conflicts r"

definition user_rate_limit :: "string \<Rightarrow> int \<Rightarrow> int \<Rightarrow> int \<Rightarrow> int \<Rightarrow> (redis \<Rightarrow> redis) list \<Rightarrow>
    redis \<Rightarrow> unit outcome \<times> redis" where
  "user_rate_limit endpoint_id max_calls window now_ms user_id conflicts r =
     check_rate now_ms (user_rate_key endpoint_id user_id) max_calls window conflicts r"

section \<open>Runs of one bucket\<close>

text \<open>The requests of one key at the given times; the answer list says which were allowed.\<close>

fun bucket_run :: "int \<Rightarrow> int \<Rightarrow> (rat \<times> int) option \<Rightarrow> int list \<Rightarrow> bool list \<times> (rat \<times> int) option" where
  "bucket_run max_calls window b [] = ([], b)"
| "bucket_run max_calls window b (t # ts) =
     (let ((allowed, _), b') = bucket_step t max_calls window b;
          (rest, b'') = bucket_run max_calls window (Some b') ts
      in (allowed # rest, b''))"

definition granted :: "bool list \<Rightarrow> int" where
  "granted = cnt id"

text \<open>A stored bucket: between 0 and \<open>max_calls\<close> tokens.\<close>

definition bucket_ok :: "int \<Rightarrow> (rat \<times> int) option \<Rightarrow> bool" where
  "bucket_ok max_calls b \<longleftrightarrow> (case b of None \<Rightarrow> True | Some (t, _) \<Rightarrow> 0 \<le> t \<and> t \<le> of_int max_calls)"

lemma refill_window_pos [simp]: "0 < refill_window_ms window"
  by (simp add: refill_window_ms_def)

lemma refill_window_nonneg [simp]: "0 \<le> refill_window_ms window"
  by (rule order_less_imp_le) simp

lemma refill_window_ge: "1 \<le> refill_window_ms window"
  using refill_window_pos [of window] by linarith

lemma rate_bounds:
  assumes "0 < max_calls"
  shows "of_int max_calls / of_int (refill_window_ms window) * (1 - eps) \<le> refill_per_ms max_calls window"
    and "refill_per_ms max_calls window \<le> of_int max_calls / of_int (refill_window_ms window) * (1 + eps)"
    and "0 < refill_per_ms max_calls window"
proof -
  have q: "0 < (of_int max_calls / of_int (refill_window_ms window) :: rat)" using assms by simp
  show "of_int max_calls / of_int (refill_window_ms window) * (1 - eps) \<le> refill_per_ms max_calls window"
    and "refill_per_ms max_calls window \<le> of_int max_calls / of_int (refill_window_ms window) * (1 + eps)"
    unfolding refill_per_ms_def using q by (intro double.rounded; simp)+
  then show "0 < refill_per_ms max_calls window"
    using mult_pos_pos [OF q, of "1 - eps"] eps_bounds by linarith
qed

text \<open>What is credited for a time, below and above.\<close>

lemma credit_bounds:
  assumes "0 < max_calls" "0 \<le> el"
  shows "of_int el * refill_per_ms max_calls window * (1 - 2 * eps) \<le>
      fl64 (fl64 (of_int el) * refill_per_ms max_calls window)"
    and "fl64 (fl64 (of_int el) * refill_per_ms max_calls window) \<le>
      of_int el * (of_int max_calls / of_int (refill_window_ms window)) * (1 + 4 * eps)"
proof -
  let ?r = "refill_per_ms max_calls window" and ?q = "of_int max_calls / of_int (refill_window_ms window) :: rat"
  note rate = rate_bounds [OF assms(1), of window]
  show "of_int el * ?r * (1 - 2 * eps) \<le> fl64 (fl64 (of_int el) * ?r)"
    using assms(2) rate(3) by (intro double.product_below) simp_all
  have "fl64 (fl64 (of_int el) * ?r) \<le> of_int el * ?r * (1 + eps) ^ 2"
    using assms(2) rate(3) by (intro double.product_above) simp_all
  also have "\<dots> \<le> of_int el * (?q * (1 + eps)) * (1 + eps) ^ 2"
    using rate(2) assms(2) by (intro mult_right_mono mult_left_mono) simp_all
  also have "\<dots> = of_int el * ?q * (1 + eps) ^ 3" by (simp add: power3_eq_cube power2_eq_square)
  also have "\<dots> \<le> of_int el * ?q * (1 + 4 * eps)"
  proof (rule mult_left_mono)
    show "(1 + eps) ^ 3 \<le> 1 + 4 * eps" by (simp add: eps_def power3_eq_cube)
    show "0 \<le> of_int el * ?q" using assms by simp
  qed
  finally show "fl64 (fl64 (of_int el) * ?r) \<le> of_int el * ?q * (1 + 4 * eps)" .
qed

text \<open>Limits of up to \<open>2\<^sup>5\<^sup>3\<close> calls are doubles.\<close>

lemma limit_exact: "0 \<le> max_calls \<Longrightarrow> max_calls \<le> 2 ^ 53 \<Longrightarrow> fl64 (of_int max_calls) = of_int max_calls"
  by (rule double.exact) simp

lemma credit_nonneg: "0 < max_calls \<Longrightarrow> 0 \<le> fl64 (fl64 (of_int (max 0 el)) * refill_per_ms max_calls window)"
  using rate_bounds(3) [of max_calls window] by (intro double.rounded_nonneg mult_nonneg_nonneg) simp_all

lemma refilled_range:
  assumes "bucket_ok max_calls b" "0 < max_calls" "max_calls \<le> 2 ^ 53"
  shows "0 \<le> refilled now max_calls window b" "refilled now max_calls window b \<le> of_int max_calls"
proof -
  have lim: "fl64 (of_int max_calls) = of_int max_calls" using assms by (intro limit_exact) simp_all
  have "0 \<le> t \<Longrightarrow> 0 \<le> fl64 (t + fl64 (fl64 (of_int (max 0 el)) * refill_per_ms max_calls window))" for t el
    using credit_nonneg [OF assms(2), of el window] by (intro double.rounded_nonneg) simp
  then show "0 \<le> refilled now max_calls window b" "refilled now max_calls window b \<le> of_int max_calls"
    using assms(1,2) by (auto simp: refilled_def bucket_ok_def Let_def lim split: option.splits)
qed

lemma eps_limit: "m \<le> 2 ^ 53 \<Longrightarrow> of_int m * eps \<le> 1"
proof -
  assume "m \<le> 2 ^ 53"
  then have "(of_int m :: rat) \<le> of_int (2 ^ 53)" by (simp only: of_int_le_iff)
  then show ?thesis by (simp add: eps_def)
qed

lemma taken_token:
  assumes "1 \<le> t" "t \<le> of_int max_calls" "max_calls \<le> 2 ^ 53"
  shows "0 \<le> fl64 (t - 1)" "fl64 (t - 1) \<le> t - 1 + of_int max_calls * eps" "fl64 (t - 1) \<le> of_int max_calls"
proof -
  show "0 \<le> fl64 (t - 1)" using assms(1) by (intro double.rounded_nonneg) simp
  have "(t - 1) * eps \<le> of_int max_calls * eps" using assms(2) eps_bounds by (intro mult_right_mono) simp_all
  then show up: "fl64 (t - 1) \<le> t - 1 + of_int max_calls * eps"
    using double.rounded(2) [of "t - 1"] assms(1) by (simp add: algebra_simps)
  then show "fl64 (t - 1) \<le> of_int max_calls" using eps_limit [OF assms(3)] assms(2) by linarith
qed

lemma bucket_step_ok:
  assumes "bucket_ok max_calls b" "0 < max_calls" "max_calls \<le> 2 ^ 53"
  shows "bucket_ok max_calls (Some (snd (bucket_step now max_calls window b)))"
  using refilled_range [OF assms, of now window] taken_token [OF _ _ assms(3), of "refilled now max_calls window b"]
  by (auto simp: bucket_step_def bucket_ok_def Let_def)

lemma bucket_step_time: "snd (snd (bucket_step now max_calls window b)) = now"
  by (simp add: bucket_step_def Let_def)

lemma bucket_step_allowed:
  "fst (fst (bucket_step now max_calls window b)) \<longleftrightarrow> 1 \<le> refilled now max_calls window b"
  by (simp add: bucket_step_def Let_def)

text \<open>The accounting of one step: a grant costs one token, at most the refill is credited, and rounding adds little.\<close>

lemma bucket_step_tokens:
  assumes "bucket_ok max_calls b" "0 < max_calls" "max_calls \<le> 2 ^ 53"
  shows "fst (snd (bucket_step now max_calls window b)) + (if fst (fst (bucket_step now max_calls window b)) then 1 else 0) \<le>
    refilled now max_calls window b + of_int max_calls * eps"
proof -
  have "0 \<le> of_int max_calls * eps" using assms(2) eps_bounds by simp
  then show ?thesis
    using taken_token(2) [OF _ refilled_range(2) [OF assms] assms(3), of now window] by (auto simp: bucket_step_def Let_def)
qed

lemma refilled_le:
  assumes "0 \<le> t" "0 < max_calls" "max_calls \<le> 2 ^ 53" "ts \<le> now"
  shows "refilled now max_calls window (Some (t, ts)) \<le>
   t + of_int (now - ts) * (of_int max_calls / of_int (refill_window_ms window)) * (1 + 4 * eps) + of_int max_calls * eps"
proof -
  let ?a = "fl64 (fl64 (of_int (now - ts)) * refill_per_ms max_calls window)"
  let ?c = "of_int (now - ts) * (of_int max_calls / of_int (refill_window_ms window)) * (1 + 4 * eps)"
  have a: "0 \<le> ?a" "?a \<le> ?c"
    using credit_nonneg [OF assms(2), of "now - ts" window] credit_bounds(2) [OF assms(2), of "now - ts" window] assms(4)
    by simp_all
  have "min (of_int max_calls) (fl64 (t + ?a)) \<le> t + ?a + of_int max_calls * eps"
  proof (cases "t + ?a \<le> of_int max_calls")
    case True
    then have "(t + ?a) * eps \<le> of_int max_calls * eps" using eps_bounds by (intro mult_right_mono) simp_all
    moreover have "fl64 (t + ?a) \<le> (t + ?a) * (1 + eps)" using a assms(1) by (intro double.rounded(2)) simp
    ultimately show ?thesis by (simp add: algebra_simps min_le_iff_disj)
  next
    case False
    moreover have "0 \<le> of_int max_calls * eps" using assms(2) eps_bounds by simp
    ultimately show ?thesis by (simp add: min_le_iff_disj)
  qed
  moreover have "max 0 (now - ts) = now - ts" using assms(4) by simp
  ultimately show ?thesis
    using a(2) limit_exact [of max_calls] assms(2,3) by (simp add: refilled_def Let_def)
qed

lemma bucket_run_bound:
  assumes "0 < max_calls" "max_calls \<le> 2 ^ 53" "bucket_ok max_calls (Some (t, ts0))" "sorted (ts0 # ts)"
  shows "of_int (granted (fst (bucket_run max_calls window (Some (t, ts0)) ts))) \<le>
    t + of_int (last (ts0 # ts) - ts0) * (of_int max_calls / of_int (refill_window_ms window)) * (1 + 4 * eps) +
    2 * of_nat (length ts) * of_int max_calls * eps"
  using assms(3,4)
proof (induction ts arbitrary: t ts0)
  case Nil
  then show ?case by (simp add: granted_def bucket_ok_def)
next
  case (Cons s ts)
  let ?q = "of_int max_calls / of_int (refill_window_ms window) * (1 + 4 * eps)" and ?m = "of_int max_calls * eps"
  let ?step = "bucket_step s max_calls window (Some (t, ts0))"
  obtain a ra t' where step: "?step = ((a, ra), (t', s))"
    using bucket_step_time [of s max_calls window "Some (t, ts0)"] by (metis prod.collapse)
  have ok: "bucket_ok max_calls (Some (t', s))"
    using bucket_step_ok [OF Cons.prems(1) assms(1,2), of s window] step by simp
  have IH: "of_int (granted (fst (bucket_run max_calls window (Some (t', s)) ts))) \<le>
      t' + of_int (last (s # ts) - s) * ?q + 2 * of_nat (length ts) * ?m"
    using Cons.IH [OF ok] Cons.prems(2) by (simp add: mult.assoc)
  have "ts0 \<le> s" "0 \<le> t" using Cons.prems by (simp_all add: bucket_ok_def)
  then have "(if a then 1 else 0) + t' \<le> t + of_int (s - ts0) * ?q + 2 * ?m"
    using bucket_step_tokens [OF Cons.prems(1) assms(1,2), of s window] step
      refilled_le [OF _ assms(1,2), of t ts0 s window] by (simp add: mult.assoc split: if_splits)
  moreover have "of_int (last (ts0 # s # ts) - ts0) * ?q = of_int (s - ts0) * ?q + of_int (last (s # ts) - s) * ?q"
    unfolding distrib_right [symmetric] of_int_add [symmetric] by simp
  moreover have "2 * of_nat (length (s # ts)) * ?m = 2 * ?m + 2 * of_nat (length ts) * ?m" by (simp add: algebra_simps)
  ultimately have "(if a then 1 else 0) + of_int (granted (fst (bucket_run max_calls window (Some (t', s)) ts))) \<le>
      t + of_int (last (ts0 # s # ts) - ts0) * ?q + 2 * of_nat (length (s # ts)) * ?m"
    using IH by linarith
  then show ?case
    using step by (auto simp: granted_def mult.assoc split: prod.split if_splits)
qed

text \<open>A bucket that Redis has expired was full again.\<close>

lemma expired_bucket_full:
  assumes "0 < max_calls" "max_calls \<le> 2 ^ 53" "bucket_ok max_calls (Some (t, ts))" "ts + bucket_ttl_ms window \<le> now"
  shows "refilled now max_calls window (Some (t, ts)) = refilled now max_calls window None"
proof -
  let ?M = "of_int max_calls :: rat" and ?r = "refill_per_ms max_calls window" and ?W = "of_int (refill_window_ms window) :: rat"
  let ?a = "fl64 (fl64 (of_int (now - ts)) * ?r)"
  have el: "2 * refill_window_ms window \<le> now - ts" using assms(4) by (simp add: bucket_ttl_ms_def)
  then have el0: "0 \<le> now - ts" using refill_window_nonneg [of window] by linarith
  have "?M * (9 / 5) \<le> ?M * (2 * (1 - eps) * (1 - 2 * eps))"
    using assms(1) by (intro mult_left_mono) (simp_all add: eps_def)
  also have "\<dots> = 2 * ?W * (?M / ?W * (1 - eps)) * (1 - 2 * eps)"
    using refill_window_pos [of window] by (simp add: less_imp_neq [THEN not_sym])
  also have "\<dots> \<le> of_int (now - ts) * ?r * (1 - 2 * eps)"
  proof -
    have "2 * ?W \<le> of_int (now - ts)" using el by (metis of_int_le_iff of_int_mult of_int_numeral)
    then show ?thesis
      using rate_bounds(1,3) [OF assms(1), of window] el0 assms(1) eps_bounds by (intro mult_right_mono mult_mono) simp_all
  qed
  also have "\<dots> \<le> ?a" using credit_bounds(1) [OF assms(1) el0] .
  finally have a: "?M * (9 / 5) \<le> t + ?a" using assms(3) by (simp add: bucket_ok_def)
  have "?M \<le> ?M * (9 / 5 * (1 - eps))" using assms(1) by (simp add: eps_def)
  also have "\<dots> \<le> (t + ?a) * (1 - eps)" using a eps_bounds by (simp only: mult.assoc [symmetric]) (intro mult_right_mono; simp)
  also have "\<dots> \<le> fl64 (t + ?a)" using a assms(1) by (intro double.rounded(1)) simp
  finally show ?thesis
    using el0 assms(1) limit_exact [of max_calls] assms(2) by (simp add: refilled_def Let_def)
qed

text \<open>Waiting the advertised seconds and one millisecond more refills a whole token.\<close>

lemma retry_after_enough:
  assumes "0 < max_calls" "max_calls \<le> 2 ^ 53" "refill_window_ms window \<le> 2 ^ 49" "bucket_ok max_calls b"
    and step: "bucket_step now max_calls window b = ((False, retry_after), b')"
    and "now + retry_after * 1000 + 1 \<le> now'"
  shows "fst (fst (bucket_step now' max_calls window (Some b')))"
proof -
  let ?r = "refill_per_ms max_calls window" and ?t = "refilled now max_calls window b"
  let ?x = "fl64 (fl64 (1 - ?t) / ?r)" let ?s = "fl64 (of_int \<lceil>?x\<rceil> / 1000)"
  let ?el = "of_int (now' - now) :: rat" let ?a = "fl64 (fl64 ?el * ?r)"
  note r = rate_bounds [OF assms(1), of window]
  have t: "0 \<le> ?t" "?t < 1" and b': "b' = (?t, now)" and ra: "retry_after = max 1 \<lceil>?s\<rceil>"
    using refilled_range [OF assms(4,1,2), of now window] step by (auto simp: bucket_step_def Let_def split: if_splits)
  have d: "0 \<le> fl64 (1 - ?t)" using t by (intro double.rounded_nonneg) simp
  have "(1 - ?t) * (1 - of_nat 1 * eps) \<le> fl64 (1 - ?t)" using double.rounded(1) [of "1 - ?t"] t by simp
  then have "(1 - ?t) / ?r * (1 - of_nat 1 * eps) \<le> fl64 (1 - ?t) / ?r" using r(3) by (simp add: divide_right_mono)
  from double.lower_chain [OF _ this] have x: "(1 - ?t) / ?r * (1 - of_nat 2 * eps) \<le> ?x" using t d r(3) by simp
  have x0: "0 \<le> ?x" using d r(3) by (intro double.rounded_nonneg) simp
  have "(1 - ?t) / ?r / 1000 * (1 - of_nat 2 * eps) \<le> of_int \<lceil>?x\<rceil> / 1000"
    using order_trans [OF x le_of_int_ceiling] by simp
  from double.lower_chain [OF _ this] have "(1 - ?t) / ?r / 1000 * (1 - 3 * eps) \<le> ?s" using t r(3) x0 by simp
  also have "?s \<le> of_int retry_after" unfolding ra by (rule order_trans [OF le_of_int_ceiling]) simp
  finally have "(1 - ?t) / ?r / 1000 * (1 - 3 * eps) * 1000 \<le> of_int retry_after * 1000" by (intro mult_right_mono) simp_all
  then have s: "(1 - ?t) / ?r * (1 - 3 * eps) \<le> of_int (retry_after * 1000)" by simp
  have "of_int (retry_after * 1000 + 1) \<le> ?el" using assms(6) by (simp only: of_int_le_iff)
  then have "(1 - ?t) / ?r * (1 - 3 * eps) + 1 \<le> ?el" using s by simp
  then have "((1 - ?t) / ?r * (1 - 3 * eps) + 1) * ?r \<le> ?el * ?r" using r(3) by (intro mult_right_mono) simp_all
  then have el: "(1 - ?t) * (1 - 3 * eps) + ?r \<le> ?el * ?r" using r(3) by (simp add: distrib_right)
  have el0: "0 \<le> now' - now" using assms(6) ra by simp
  have rate: "8 * eps \<le> ?r"
  proof -
    have "refill_window_ms window * 1 \<le> 2 ^ 49 * max_calls" using assms(1,3) by (intro mult_mono) simp_all
    then have "of_int (refill_window_ms window) \<le> (2 ^ 49 * of_int max_calls :: rat)" 
      using of_int_le_iff [of "refill_window_ms window" "2 ^ 49 * max_calls", where 'a = rat] by simp
    then have "1 / 2 ^ 49 \<le> (of_int max_calls / of_int (refill_window_ms window) :: rat)" by (simp add: field_simps)
    then have "1 / 2 ^ 49 * (1 - eps) \<le> of_int max_calls / of_int (refill_window_ms window) * (1 - eps)"
      using eps_bounds by (intro mult_right_mono) simp_all
    then show ?thesis using r(1) by (simp add: eps_def)
  qed
  have "1 \<le> (1 - 5 * eps + 8 * eps * (1 - 2 * eps)) * (1 - eps)" by (simp add: eps_def)
  also have "\<dots> \<le> (?t + ?a) * (1 - eps)"
  proof (rule mult_right_mono)
    have "((1 - ?t) * (1 - 3 * eps) + ?r) * (1 - 2 * eps) \<le> ?el * ?r * (1 - 2 * eps)"
      using el eps_bounds by (intro mult_right_mono) simp_all
    also have "\<dots> \<le> ?a" using credit_bounds(1) [OF assms(1) el0] .
    finally have "(1 - ?t) * ((1 - 3 * eps) * (1 - 2 * eps)) + ?r * (1 - 2 * eps) \<le> ?a" by (simp add: algebra_simps)
    moreover have "8 * eps * (1 - 2 * eps) \<le> ?r * (1 - 2 * eps)" using rate eps_bounds by (intro mult_right_mono) simp_all
    moreover have "(1 - ?t) * (1 - 5 * eps) \<le> (1 - ?t) * ((1 - 3 * eps) * (1 - 2 * eps))"
      using t by (intro mult_left_mono) (simp_all add: eps_def)
    moreover have "?t * eps \<le> 1 * eps" "0 \<le> ?t * eps" using t eps_bounds by (auto intro: mult_right_mono)
    ultimately show "1 - 5 * eps + 8 * eps * (1 - 2 * eps) \<le> ?t + ?a" by (simp add: algebra_simps)
  qed (use eps_bounds in simp)
  also have "\<dots> \<le> fl64 (?t + ?a)"
    using t credit_nonneg [OF assms(1), of "now' - now" window] el0 by (intro double.rounded(1)) simp
  finally show ?thesis
    using assms(1,2) limit_exact [of max_calls] el0 by (simp add: bucket_step_allowed b' refilled_def Let_def)
qed

section \<open>Runs against Redis\<close>

text \<open>
  The same requests sent through \<open>check_rate\<close> to a Redis that answers, with the key expiring
  between them; the answer list says which were let through.
\<close>

fun rate_run :: "string \<Rightarrow> int \<Rightarrow> int \<Rightarrow> int list \<Rightarrow> redis \<Rightarrow> bool list \<times> redis" where
  "rate_run k max_calls window [] r = ([], r)"
| "rate_run k max_calls window (t # ts) r =
     (let (res, r') = check_rate t k max_calls window [] r;
          (rest, r'') = rate_run k max_calls window ts r'
      in (is_Return res # rest, r''))"

definition stored_bucket :: "string \<Rightarrow> int \<Rightarrow> (rat \<times> int) option \<Rightarrow> redis \<Rightarrow> bool" where
  "stored_bucket k window b r \<longleftrightarrow> map_of (r_store r) k =
     map_option (\<lambda>(t, ts). (RHash t ts, Some (ts + bucket_ttl_ms window))) b"

lemma bucket_step_cong:
  "refilled now max_calls window b = refilled now max_calls window b' \<Longrightarrow>
   bucket_step now max_calls window b = bucket_step now max_calls window b'"
  by (simp add: bucket_step_def)

text \<open>Reading through the expiry gives the verdict of the bucket that never expires.\<close>

lemma read_stored_bucket:
  assumes "0 < max_calls" "max_calls \<le> 2 ^ 53" "bucket_ok max_calls b" "stored_bucket k window b r"
  shows "bucket_step now max_calls window (read_bucket now k r) = bucket_step now max_calls window b"
proof (cases b)
  case None
  then show ?thesis using assms(4) by (simp add: stored_bucket_def read_bucket_def r_get_def)
next
  case (Some p)
  obtain t ts where p: "p = (t, ts)" by (cases p)
  show ?thesis
  proof (cases "now < ts + bucket_ttl_ms window")
    case True
    then show ?thesis
      using assms(4) Some p by (simp add: stored_bucket_def read_bucket_def r_get_def live_def)
  next
    case False
    then have "read_bucket now k r = None"
      using assms(4) Some p by (simp add: stored_bucket_def read_bucket_def r_get_def live_def)
    with False show ?thesis
      using assms(1-3) Some p by (auto intro!: bucket_step_cong expired_bucket_full [symmetric])
  qed
qed

lemma check_rate_step:
  assumes "0 < max_calls" "max_calls \<le> 2 ^ 53" "bucket_ok max_calls b" "stored_bucket k window b r" "r_up r"
  shows "is_Return (fst (check_rate now k max_calls window [] r)) \<longleftrightarrow>
      fst (fst (bucket_step now max_calls window b))"
    and "stored_bucket k window (Some (snd (bucket_step now max_calls window b)))
      (snd (check_rate now k max_calls window [] r))"
    and "r_up (snd (check_rate now k max_calls window [] r))"
proof -
  have eq: "bucket_step now max_calls window (read_bucket now k r) =
      bucket_step now max_calls window b"
    using assms(1-4) by (rule read_stored_bucket)
  have ts: "snd (snd (bucket_step now max_calls window b)) = now" by (rule bucket_step_time)
  show "is_Return (fst (check_rate now k max_calls window [] r)) \<longleftrightarrow>
      fst (fst (bucket_step now max_calls window b))"
    and "r_up (snd (check_rate now k max_calls window [] r))"
    using assms(1,5) by (simp_all add: check_rate_def consume_token_bucket_def eq split_def Let_def)
  show "stored_bucket k window (Some (snd (bucket_step now max_calls window b)))
      (snd (check_rate now k max_calls window [] r))"
    using assms(1,5) ts
    by (simp add: check_rate_def consume_token_bucket_def eq split_def Let_def stored_bucket_def
        r_set_def update_conv)
qed

lemma rate_run_refines:
  assumes "0 < max_calls" "max_calls \<le> 2 ^ 53" "bucket_ok max_calls b" "stored_bucket k window b r" "r_up r"
  shows "fst (rate_run k max_calls window ts r) = fst (bucket_run max_calls window b ts)"
  using assms(3-5)
proof (induction ts arbitrary: b r)
  case (Cons t ts)
  note step = check_rate_step [OF assms(1,2) Cons.prems, of t]
  from Cons.IH [OF bucket_step_ok [OF Cons.prems(1) assms(1,2)] step(2,3)] step(1) show ?case
    by (simp add: split_def Let_def)
qed simp

lemma fresh_run_bound:
  assumes "0 < max_calls" "max_calls \<le> 2 ^ 53" "sorted (t # ts)"
  shows "of_int (granted (fst (bucket_run max_calls window None (t # ts)))) \<le>
    of_int max_calls + of_int (last (t # ts) - t) * (of_int max_calls / of_int (refill_window_ms window)) * (1 + 4 * eps) +
    2 * of_nat (length ts + 1) * of_int max_calls * eps"
proof -
  have "bucket_run max_calls window None (t # ts) =
      bucket_run max_calls window (Some (of_int max_calls, t)) (t # ts)"
    using bucket_step_cong [of t max_calls window None "Some (of_int max_calls, t)"] limit_exact [of max_calls] assms(1,2)
    by (simp add: refilled_def Let_def)
  then show ?thesis
    using bucket_run_bound [of max_calls "of_int max_calls" t "t # ts" window] assms
    by (simp add: bucket_ok_def)
qed

text \<open>As long as the rounding errors of the run add up to less than one token, the bound is the one of exact arithmetic.\<close>

lemma run_room:
  assumes "0 < max_calls" "0 \<le> el" "1 \<le> n"
  shows "max_calls \<le> (4 * el + 2 * n * refill_window_ms window) * max_calls"
proof -
  have "1 * 1 \<le> n * refill_window_ms window" using refill_window_ge [of window] assms(3) by (intro mult_mono) simp_all
  then have "1 \<le> 4 * el + 2 * (n * refill_window_ms window)" using assms(2) by linarith
  then show ?thesis using assms(1) by (simp add: mult.assoc)
qed

lemma fresh_run_exact:
  assumes "0 < max_calls" "sorted (t # ts)"
    and room: "(4 * (last (t # ts) - t) + 2 * int (length ts + 1) * refill_window_ms window) * max_calls < 2 ^ 53"
  shows "granted (fst (bucket_run max_calls window None (t # ts))) * refill_window_ms window \<le>
    max_calls * refill_window_ms window + (last (t # ts) - t) * max_calls"
proof -
  let ?g = "granted (fst (bucket_run max_calls window None (t # ts)))" and ?W = "refill_window_ms window"
  let ?el = "last (t # ts) - t" and ?n = "int (length ts + 1)"
  have el: "0 \<le> ?el" using assms(2) by (auto simp: last_in_set)
  have le: "max_calls \<le> 2 ^ 53"
    using run_room [OF assms(1) el, of ?n window] room by linarith
  have W: "0 < (of_int ?W :: rat)" by simp
  have scaled: "(m + x * (m / w) * (1 + 4 * e) + 2 * n * m * e) * w = m * w + x * m + (4 * x + 2 * n * w) * m * e"
    if "w \<noteq> 0" for m x w n e :: rat using that by (simp add: field_simps)
  have "of_int ?g * of_int ?W \<le> (of_int max_calls + of_int ?el * (of_int max_calls / of_int ?W) * (1 + 4 * eps) +
      2 * of_nat (length ts + 1) * of_int max_calls * eps) * (of_int ?W :: rat)"
    using fresh_run_bound [OF assms(1) le assms(2), of window] W by (intro mult_right_mono) simp_all
  also have "\<dots> = of_int (max_calls * ?W + ?el * max_calls) + of_int ((4 * ?el + 2 * ?n * ?W) * max_calls) * eps"
    unfolding of_int_add of_int_mult of_int_numeral of_int_of_nat_eq [of "length ts + 1"]
    by (rule scaled) (use W in linarith)+
  also have "\<dots> < of_int (max_calls * ?W + ?el * max_calls) + 1"
  proof -
    have "of_int ((4 * ?el + 2 * ?n * ?W) * max_calls) < (of_int (2 ^ 53) :: rat)" using room by (simp only: of_int_less_iff)
    then have "of_int ((4 * ?el + 2 * ?n * ?W) * max_calls) * eps < of_int (2 ^ 53) * eps"
      using eps_bounds by (intro mult_strict_right_mono) simp_all
    then show ?thesis by (simp add: eps_def)
  qed
  finally have "of_int (?g * ?W) < (of_int (max_calls * ?W + ?el * max_calls + 1) :: rat)" by simp
  then show ?thesis by (simp only: of_int_less_iff)
qed

lemma rate_run_open: "0 < max_calls \<Longrightarrow> \<not> r_up r \<Longrightarrow> rate_run k max_calls window ts r = (replicate (length ts) True, r)"
  by (induction ts) (simp_all add: check_rate_def)

text \<open>A conflicting write only delays the pass: the loop decides on the bucket it finally read.\<close>

lemma consume_loop_atomic:
  "consume_loop now k max_calls window conflicts r =
   consume_loop now k max_calls window [] (fold (\<lambda>f. f) conflicts r)"
  by (induction conflicts arbitrary: r) auto

definition blank_redis :: redis where
  "blank_redis = \<lparr>r_store = [], r_up = True, r_published = []\<rparr>"

section \<open>Properties\<close>

text \<open>C12: For a limit that is not the kill switch (\<open>max_calls > 0\<close>), requests against one key, at non-decreasing times and
  starting from an unused key, are let through, while Redis answers, at most \<open>max_calls\<close> times plus the refill
  \<open>elapsed * max_calls / window\<close>, whatever expires in Redis meanwhile; the arithmetic is that of doubles, and the bound is the
  exact one as long as the run is so short that the rounding errors add up to less than one token (for the login limit
  of 5 calls in 60 s, some ten billion requests). While Redis does not answer, the limiter fails open: every request passes.\<close>

theorem rate_limit_window_bound:
  assumes "0 < max_calls" "sorted (t # ts)" "map_of (r_store r) k = None"
    and "(4 * (last (t # ts) - t) + 2 * int (length ts + 1) * refill_window_ms window) * max_calls < 2 ^ 53"
  shows "(r_up r \<longrightarrow> granted (fst (rate_run k max_calls window (t # ts) r)) * refill_window_ms window \<le>
      max_calls * refill_window_ms window + (last (t # ts) - t) * max_calls) \<and>
    (\<not> r_up r \<longrightarrow> fst (rate_run k max_calls window (t # ts) r) = replicate (length ts + 1) True)"
proof (intro conjI impI)
  assume up: "r_up r"
  have "0 \<le> last (t # ts) - t" using assms(2) by (auto simp: last_in_set)
  then have "max_calls \<le> 2 ^ 53"
    using run_room [OF assms(1), of "last (t # ts) - t" "int (length ts + 1)" window] assms(4) by linarith
  then have "fst (rate_run k max_calls window (t # ts) r) = fst (bucket_run max_calls window None (t # ts))"
    using assms up by (intro rate_run_refines) (auto simp: bucket_ok_def stored_bucket_def)
  then show "granted (fst (rate_run k max_calls window (t # ts) r)) * refill_window_ms window \<le>
      max_calls * refill_window_ms window + (last (t # ts) - t) * max_calls"
    using fresh_run_exact [OF assms(1,2,4)] by simp
qed (use rate_run_open [OF assms(1), of r k window "t # ts"] in \<open>simp del: rate_run.simps\<close>)

lemma rate_limit_window_bound_witness:
  "granted (fst (rate_run ''rl:login:ip:1'' 2 60 [0, 5, 30000, 200000] blank_redis)) * 60000 \<le> 2 * 60000 + 200000 * 2 \<and>
   fst (rate_run ''rl:login:ip:1'' 2 60 [0, 5, 30000, 200000] (blank_redis\<lparr>r_up := False\<rparr>)) = [True, True, True, True]"
  using rate_limit_window_bound [of 2 0 "[5, 30000, 200000]" blank_redis "''rl:login:ip:1''" 60]
    rate_limit_window_bound [of 2 0 "[5, 30000, 200000]" "blank_redis\<lparr>r_up := False\<rparr>" "''rl:login:ip:1''" 60]
  by (simp add: blank_redis_def refill_window_ms_def numeral_eq_Suc)

text \<open>C37: Redis answering, a client that was refused and waits the advertised number of seconds and one millisecond more is let
  through, provided nobody else used the key meanwhile; the bucket is read back from Redis, expired or not. (The advertised
  seconds alone are not always enough: \<open>retry_after_one_short\<close>.)\<close>

theorem rate_limit_retry_after_honest:
  assumes "0 < max_calls" "max_calls \<le> 2 ^ 53" "refill_window_ms window \<le> 2 ^ 49"
    and "r_up r" "bucket_ok max_calls b" "stored_bucket k window b r"
    and refused: "consume_token_bucket now k max_calls window [] r = ((False, retry_after), r')"
    and "now + retry_after * 1000 + 1 \<le> now'"
  shows "fst (check_rate now' k max_calls window [] r') = Return ()"
proof -
  let ?s = "bucket_step now max_calls window b"
  have eq: "bucket_step now max_calls window (read_bucket now k r) = ?s"
    using assms(1,2,5,6) by (rule read_stored_bucket)
  have s: "?s = ((False, retry_after), snd ?s)"
    using refused assms(1) by (auto simp: consume_token_bucket_def eq split_def Let_def prod_eq_iff)
  have r': "snd (check_rate now k max_calls window [] r) = r'"
    using refused assms(1,4) by (simp add: check_rate_def)
  note step = check_rate_step [OF assms(1,2,5,6,4), of now, unfolded r']
  have "is_Return (fst (check_rate now' k max_calls window [] r'))"
    using check_rate_step(1) [OF assms(1,2) bucket_step_ok [OF assms(5,1,2)] step(2,3)]
      retry_after_enough [OF assms(1-3,5) s assms(8)] by simp
  then show ?thesis by (auto simp: is_Return_iff)
qed

definition drained_redis :: redis where
  "drained_redis = r_set ''k'' (RHash 0 0) (Some 120000) blank_redis"

lemma drained_refused: "fst (consume_token_bucket 0 ''k'' 2 60 [] drained_redis) = (False, 30)"
  by code_simp

lemma rate_limit_retry_after_honest_witness:
  "fst (check_rate 30001 ''k'' 2 60 [] (snd (consume_token_bucket 0 ''k'' 2 60 [] drained_redis))) = Return ()"
proof -
  have "stored_bucket ''k'' 60 (Some (0, 0)) drained_redis"
    by (simp add: stored_bucket_def drained_redis_def r_set_def update_conv bucket_ttl_ms_def
        refill_window_ms_def)
  moreover have "consume_token_bucket 0 ''k'' 2 60 [] drained_redis =
      ((False, 30), snd (consume_token_bucket 0 ''k'' 2 60 [] drained_redis))"
    using drained_refused by (simp add: prod_eq_iff)
  ultimately show ?thesis
    using rate_limit_retry_after_honest [of 2 60 drained_redis "Some (0, 0)" "''k''" 0 30
        "snd (consume_token_bucket 0 ''k'' 2 60 [] drained_redis)" 30001]
    by (simp add: drained_redis_def blank_redis_def bucket_ok_def refill_window_ms_def)
qed

text \<open>The advertised seconds alone: five calls empty the login bucket at 0 ms, the refusal at 2000 ms advertises 10 s, and at
  12000 ms the doubles have refilled 0.9999999999999999 tokens, so the call is refused again.\<close>

lemma five_calls_drain: "snd (rate_run ''k'' 5 60 [0, 0, 0, 0, 0] blank_redis) = drained_redis"
  by code_simp

lemma login_refilled_2000: "refilled 2000 5 60 (Some (0, 0)) = 6004799503160661 / 36028797018963968"
  by code_simp

lemma login_refilled_12000: "refilled 12000 5 60 (Some (6004799503160661 / 36028797018963968, 2000)) < 1"
  by code_simp

lemma login_retry_2000:
  "\<lceil>fl64 (of_int \<lceil>fl64 (fl64 (30023997515803307 / 36028797018963968) / refill_per_ms 5 60)\<rceil> / 1000)\<rceil> = 10"
  by code_simp

lemma retry_after_one_short:
  "bucket_step 2000 5 60 (Some (0, 0)) = ((False, 10), (6004799503160661 / 36028797018963968, 2000))"
  "\<not> fst (fst (bucket_step 12000 5 60 (Some (6004799503160661 / 36028797018963968, 2000))))"
  by (simp_all add: bucket_step_def login_refilled_2000 login_retry_2000 Let_def not_le login_refilled_12000)

end
