(* ===== verification/Idempotency.thy ===== *)
theory Idempotency
  imports Redis "HOL-Library.Multiset"
begin

text \<open>
  The \<open>@idempotent\<close> decorator of \<open>app/services/idempotency_service.py\<close>: the request hash, the
  record kept in Redis under the scope key, and the wrapper around a handler. SHA-256 is the
  parameter \<open>sha\<close> of the definitions that hash. The wrapped handler is a parameter, a state
  transformer on the keyspace and the rest \<open>'d\<close> of the world.
\<close>

section \<open>The request hash\<close>

text \<open>The Python values a bound argument can hold; \<open>PModel\<close> is a pydantic model with its dump.\<close>

datatype pyval =
    PNone
  | PStr string
  | PInt int
  | PFloat rat
  | PBool bool
  | PDict "(string \<times> pyval) list"
  | PList "pyval list"
  | PTuple "pyval list"
  | PSet "string list"
  | PUpload "string option" "string option"
  | PModel "(string \<times> pyval) list"
  | PRepr string

function normalize_for_hash :: "pyval \<Rightarrow> json" where
  "normalize_for_hash PNone = JNull"
| "normalize_for_hash (PStr s) = JStr s"
| "normalize_for_hash (PInt i) = JInt i"
| "normalize_for_hash (PFloat x) = JFloat x"
| "normalize_for_hash (PBool b) = JBool b"
| "normalize_for_hash (PDict d) =
     JObj (map (\<lambda>kv. (fst kv, normalize_for_hash (snd kv))) (sort_key fst d))"
| "normalize_for_hash (PList xs) = JArr (map normalize_for_hash xs)"
| "normalize_for_hash (PTuple xs) = JArr (map normalize_for_hash xs)"
| "normalize_for_hash (PSet xs) = JArr (map JStr (sort xs))"
| "normalize_for_hash (PUpload filename content_type) =
     JObj [(''filename'', jstr_opt filename), (''content_type'', jstr_opt content_type)]"
| "normalize_for_hash (PModel d) =
     JObj (map (\<lambda>kv. (fst kv, normalize_for_hash (snd kv))) (sort_key fst d))"
| "normalize_for_hash (PRepr s) = JStr s"
  by pat_completeness auto

lemma size_snd_in_list: "kv \<in> set d \<Longrightarrow> size (snd kv) < Suc (size_list (size_prod (\<lambda>x. 0) size) d)"
  by (induction d) (auto simp: less_Suc_eq_le)

termination normalize_for_hash
  by (relation "measure size") (auto simp: size_snd_in_list less_Suc_eq_le size_list_estimation')

definition ignored_argument_names :: "string list" where
  "ignored_argument_names =
     [''idempotency_key'', ''currentUser'', ''current_user'', ''db'', ''dbs'', ''_'']"

definition request_payload :: "(string \<times> pyval) list \<Rightarrow> json" where
  "request_payload arguments =
     JObj (map (\<lambda>kv. (fst kv, normalize_for_hash (snd kv)))
       (sort_key fst (filter (\<lambda>kv. fst kv \<notin> set ignored_argument_names) arguments)))"

definition build_request_hash :: "(json \<Rightarrow> string) \<Rightarrow> (string \<times> pyval) list \<Rightarrow> string" where
  "build_request_hash sha arguments = sha (request_payload arguments)"

definition build_path_hash :: "(json \<Rightarrow> string) \<Rightarrow> string \<Rightarrow> string" where
  "build_path_hash sha path = take 16 (sha (JStr path))"

definition build_scope_key :: "(json \<Rightarrow> string) \<Rightarrow> int option \<Rightarrow> string \<Rightarrow> string \<Rightarrow> string" where
  "build_scope_key sha user_id endpoint idempotency_key =
     (let user_part = (case user_id of Some i \<Rightarrow> ''user:'' @ str_int i | None \<Rightarrow> ''public'');
          path_hash = build_path_hash sha endpoint
      in ''idempotency:'' @ user_part @ '':'' @ path_hash @ '':'' @ idempotency_key)"

section \<open>The record in Redis\<close>

definition status_processing :: string where "status_processing = ''processing''"
definition status_completed :: string where "status_completed = ''completed''"

definition build_record :: "string \<Rightarrow> string \<Rightarrow> json \<Rightarrow> json" where
  "build_record state request_hash body =
     JObj ([(''schema_version'', JInt 1), (''state'', JStr state),
            (''request_hash'', JStr request_hash)] @
           (if body = JNull then [] else [(''body'', body)]))"

definition get_idempotency_result :: "int \<Rightarrow> string \<Rightarrow> redis \<Rightarrow> json option" where
  "get_idempotency_result now k r =
     (if r_up r then (case r_get now k r of Some (RJson v) \<Rightarrow> Some v | _ \<Rightarrow> None) else None)"

text \<open>\<open>SET key v NX EX ttl\<close>; a Redis failure counts as success.\<close>

definition set_idempotency_processing :: "int \<Rightarrow> string \<Rightarrow> string \<Rightarrow> int \<Rightarrow> redis \<Rightarrow> bool \<times> redis" where
  "set_idempotency_processing now k request_hash ttl r =
     (if \<not> r_up r then (True, r)
      else if r_get now k r \<noteq> None then (False, r)
      else (True, r_set k (RJson (build_record status_processing request_hash JNull))
              (Some (now + ttl * 1000)) r))"

definition set_idempotency_completed :: "int \<Rightarrow> string \<Rightarrow> string \<Rightarrow> json \<Rightarrow> int \<Rightarrow> redis \<Rightarrow> redis" where
  "set_idempotency_completed now k request_hash body ttl r =
     (if r_up r then r_set k (RJson (build_record status_completed request_hash body))
        (Some (now + ttl * 1000)) r
      else r)"

definition delete_idempotency_key :: "string \<Rightarrow> redis \<Rightarrow> redis" where
  "delete_idempotency_key k r = (if r_up r then r_del k r else r)"

section \<open>The wrapper\<close>

definition different_request :: string where
  "different_request = ''Idempotency-Key already used with different request data.''"

definition being_processed :: string where
  "being_processed = ''Request is already being processed. Please try again later.''"

definition record_get :: "string \<Rightarrow> json \<Rightarrow> json" where
  "record_get f v = (case v of JObj d \<Rightarrow> dict_get f d | _ \<Rightarrow> JNull)"

text \<open>\<open>run_wrapped\<close>: from the SET NX on.\<close>

definition run_wrapped :: "int \<Rightarrow> int \<Rightarrow> int \<Rightarrow> string \<Rightarrow> string \<Rightarrow>
    (redis \<times> 'd \<Rightarrow> json outcome \<times> redis \<times> 'd) \<Rightarrow> redis \<times> 'd \<Rightarrow> json outcome \<times> redis \<times> 'd" where
  "run_wrapped now processing_ttl completed_ttl redis_key request_hash func w =
     (case set_idempotency_processing now redis_key request_hash processing_ttl (fst w) of
       (processing_success, r) \<Rightarrow>
         if \<not> processing_success then (Http 409 being_processed, r, snd w)
         else (case func (r, snd w) of
           (Return body, r', d') \<Rightarrow>
              (Return body, set_idempotency_completed now redis_key request_hash body completed_ttl r', d')
         | (failure, r', d') \<Rightarrow> (failure, delete_idempotency_key redis_key r', d')))"

definition idempotent :: "int \<Rightarrow> int \<Rightarrow> int \<Rightarrow> string option \<Rightarrow> string \<Rightarrow> string \<Rightarrow>
    (redis \<times> 'd \<Rightarrow> json outcome \<times> redis \<times> 'd) \<Rightarrow> redis \<times> 'd \<Rightarrow> json outcome \<times> redis \<times> 'd" where
  "idempotent now processing_ttl completed_ttl idempotency_key redis_key request_hash func w =
     (if idempotency_key = None \<or> idempotency_key = Some [] then func w
      else case get_idempotency_result now redis_key (fst w) of
        None \<Rightarrow> run_wrapped now processing_ttl completed_ttl redis_key request_hash func w
      | Some existing \<Rightarrow>
          if \<not> truthy existing
          then run_wrapped now processing_ttl completed_ttl redis_key request_hash func w
          else if record_get ''request_hash'' existing \<noteq> JStr request_hash
          then (Http 409 different_request, w)
          else if record_get ''state'' existing = JStr status_completed
          then (Return (record_get ''body'' existing), w)
          else if record_get ''state'' existing = JStr status_processing
          then (Http 409 being_processed, w)
          else run_wrapped now processing_ttl completed_ttl redis_key request_hash func w)"

section \<open>Lemmas\<close>

lemma build_record_fields [simp]:
  "record_get ''state'' (build_record s h b) = JStr s"
  "record_get ''request_hash'' (build_record s h b) = JStr h"
  "record_get ''body'' (build_record s h b) = b"
  "truthy (build_record s h b)"
  by (auto simp: build_record_def record_get_def dict_get_def)

lemma build_record_inj [simp]:
  "build_record s h b = build_record s' h' b' \<longleftrightarrow> s = s' \<and> h = h' \<and> b = b'"
  by (metis build_record_fields(1-3) json.inject(4))

lemma status_distinct [simp]: "status_completed \<noteq> status_processing" "status_processing \<noteq> status_completed"
  by (simp_all add: status_completed_def status_processing_def)

lemma get_result_after_processing:
  "r_up r \<Longrightarrow> set_idempotency_processing now k h ttl r = (True, r') \<Longrightarrow> now' < now + ttl * 1000 \<Longrightarrow>
   get_idempotency_result now' k r' = Some (build_record status_processing h JNull)"
  by (auto simp: set_idempotency_processing_def get_idempotency_result_def live_def split: if_splits)

lemma get_result_after_completed:
  "r_up r \<Longrightarrow> now' < now + ttl * 1000 \<Longrightarrow>
   get_idempotency_result now' k (set_idempotency_completed now k h b ttl r) =
     Some (build_record status_completed h b)"
  by (simp add: set_idempotency_completed_def get_idempotency_result_def live_def)

lemma get_result_after_delete:
  "get_idempotency_result now k (delete_idempotency_key k r) = None"
  by (simp add: delete_idempotency_key_def get_idempotency_result_def)

lemma idempotent_completed:
  assumes "idempotency_key = Some (c # cs)"
    and "get_idempotency_result now k (fst w) = Some (build_record status_completed h b)"
  shows "idempotent now ptl ctl idempotency_key k h func w = (Return b, w)"
  using assms by (simp add: idempotent_def)

lemma sort_key_permuted:
  assumes "mset xs = mset ys" "distinct (map fst xs)"
  shows "sort_key fst xs = sort_key fst ys"
proof (rule sort_key_inj_key_eq)
  show "mset xs = mset (sort_key fst ys)" using assms(1) by simp
  show "inj_on fst (set xs)" using assms(2) by (simp add: distinct_map)
  show "sorted (map fst (sort_key fst ys))" by simp
qed

lemma request_payload_permuted:
  assumes "mset xs = mset ys" "distinct (map fst xs)"
  shows "request_payload xs = request_payload ys"
proof -
  let ?keep = "\<lambda>kv :: string \<times> pyval. fst kv \<notin> set ignored_argument_names"
  have "mset (filter ?keep xs) = mset (filter ?keep ys)"
    using assms(1) by (simp add: mset_filter)
  then have "sort_key fst (filter ?keep xs) = sort_key fst (filter ?keep ys)"
    using assms(2) by (intro sort_key_permuted) (auto simp: distinct_map_filter)
  then show ?thesis by (simp add: request_payload_def)
qed

section \<open>Concurrent duplicates\<close>

text \<open>
  Requests with one scope key and one request hash, interleaved at the Redis commands: the GET,
  the SET NX and the handler's end (which stores the body or deletes the key), with a clock that
  lets records expire. In a \<open>timely\<close> run the clock does not pass the deadline of the record under the
  key: handlers end within the processing TTL and the duplicates come within the completed TTL.
\<close>

datatype phase = Start | Checked | Running | Answered "json outcome"

record race =
  ra_clock :: int
  ra_redis :: redis
  ra_clients :: "phase list"
  ra_started :: int      \<comment> \<open>runs of the handler begun\<close>
  ra_executions :: int   \<comment> \<open>runs that returned a body\<close>
  ra_failed :: int       \<comment> \<open>runs that raised\<close>

definition after_get :: "string \<Rightarrow> json option \<Rightarrow> phase" where
  "after_get h res = (case res of None \<Rightarrow> Checked
    | Some existing \<Rightarrow>
        if \<not> truthy existing then Checked
        else if record_get ''request_hash'' existing \<noteq> JStr h then Answered (Http 409 different_request)
        else if record_get ''state'' existing = JStr status_completed
        then Answered (Return (record_get ''body'' existing))
        else if record_get ''state'' existing = JStr status_processing
        then Answered (Http 409 being_processed)
        else Checked)"

definition set_client :: "nat \<Rightarrow> phase \<Rightarrow> race \<Rightarrow> race" where
  "set_client i ph s = s\<lparr>ra_clients := (ra_clients s)[i := ph]\<rparr>"

inductive idem_step :: "bool \<Rightarrow> int \<Rightarrow> int \<Rightarrow> string \<Rightarrow> string \<Rightarrow> race \<Rightarrow> race \<Rightarrow> bool"
  for timely ptl ctl k h where
  tick: "ra_clock s \<le> t \<Longrightarrow>
    timely \<longrightarrow> r_get (ra_clock s) k (ra_redis s) = r_get t k (ra_redis s) \<Longrightarrow>
    idem_step timely ptl ctl k h s (s\<lparr>ra_clock := t\<rparr>)"
| check: "i < length (ra_clients s) \<Longrightarrow> ra_clients s ! i = Start \<Longrightarrow>
    idem_step timely ptl ctl k h s
      (set_client i (after_get h (get_idempotency_result (ra_clock s) k (ra_redis s))) s)"
| acquire: "i < length (ra_clients s) \<Longrightarrow> ra_clients s ! i = Checked \<Longrightarrow>
    set_idempotency_processing (ra_clock s) k h ptl (ra_redis s) = (True, r) \<Longrightarrow>
    idem_step timely ptl ctl k h s (set_client i Running (s\<lparr>ra_redis := r, ra_started := ra_started s + 1\<rparr>))"
| refuse: "i < length (ra_clients s) \<Longrightarrow> ra_clients s ! i = Checked \<Longrightarrow>
    set_idempotency_processing (ra_clock s) k h ptl (ra_redis s) = (False, r) \<Longrightarrow>
    idem_step timely ptl ctl k h s
      (set_client i (Answered (Http 409 being_processed)) (s\<lparr>ra_redis := r\<rparr>))"
| succeed: "i < length (ra_clients s) \<Longrightarrow> ra_clients s ! i = Running \<Longrightarrow>
    idem_step timely ptl ctl k h s (set_client i (Answered (Return body))
      (s\<lparr>ra_redis := set_idempotency_completed (ra_clock s) k h body ctl (ra_redis s),
         ra_executions := ra_executions s + 1\<rparr>))"
| fail: "i < length (ra_clients s) \<Longrightarrow> ra_clients s ! i = Running \<Longrightarrow> \<not> is_Return failure \<Longrightarrow>
    idem_step timely ptl ctl k h s (set_client i (Answered failure)
      (s\<lparr>ra_redis := delete_idempotency_key k (ra_redis s), ra_failed := ra_failed s + 1\<rparr>))"

inductive_cases idem_stepE: "idem_step timely ptl ctl k h s s'"

definition race_start :: "redis \<Rightarrow> int \<Rightarrow> nat \<Rightarrow> race" where
  "race_start r now n = \<lparr>ra_clock = now, ra_redis = r, ra_clients = replicate n Start,
     ra_started = 0, ra_executions = 0, ra_failed = 0\<rparr>"

fun in_handler :: "phase \<Rightarrow> bool" where
  "in_handler Running = True"
| "in_handler _ = False"

fun answered_other :: "json option \<Rightarrow> phase \<Rightarrow> bool" where
  "answered_other b (Answered (Return b')) = (b \<noteq> Some b')"
| "answered_other b _ = False"

text \<open>
  The invariant of timely runs follows the record under the key: absent, nobody is in the handler;
  processing, at most one client is; completed, the handler has run once, nobody is in it, and
  every client that got a body got the stored one.
\<close>

definition race_inv :: "string \<Rightarrow> string \<Rightarrow> race \<Rightarrow> bool" where
  "race_inv k h s \<longleftrightarrow> r_up (ra_redis s) \<and>
     (r_get (ra_clock s) k (ra_redis s) = None \<and> ra_executions s = 0 \<and>
        cnt in_handler (ra_clients s) = 0 \<and> cnt (answered_other None) (ra_clients s) = 0 \<or>
      r_get (ra_clock s) k (ra_redis s) = Some (RJson (build_record status_processing h JNull)) \<and>
        ra_executions s = 0 \<and> cnt in_handler (ra_clients s) \<le> 1 \<and>
        cnt (answered_other None) (ra_clients s) = 0 \<or>
      (\<exists>b. r_get (ra_clock s) k (ra_redis s) = Some (RJson (build_record status_completed h b)) \<and>
        ra_executions s = 1 \<and> cnt in_handler (ra_clients s) = 0 \<and>
        cnt (answered_other (Some b)) (ra_clients s) = 0))"

lemma set_client_simps [simp]:
  "ra_clock (set_client i ph s) = ra_clock s" "ra_redis (set_client i ph s) = ra_redis s"
  "ra_executions (set_client i ph s) = ra_executions s"
  "ra_started (set_client i ph s) = ra_started s" "ra_failed (set_client i ph s) = ra_failed s"
  "ra_clients (set_client i ph s) = (ra_clients s)[i := ph]"
  by (simp_all add: set_client_def)

lemma cnt_list_update:
  "i < length xs \<Longrightarrow>
   cnt P (xs[i := x]) = cnt P xs - (if P (xs ! i) then 1 else 0) + (if P x then 1 else 0)"
  by (induction xs arbitrary: i) (auto split: nat.splits)

lemma cnt_member_pos: "i < length xs \<Longrightarrow> P (xs ! i) \<Longrightarrow> 0 < cnt P xs"
  by (meson cnt_pos nth_mem)

lemma after_get_idle [simp]: "\<not> in_handler (after_get h res)"
  by (auto simp: after_get_def split: option.splits)

lemma after_get_none [simp]: "after_get h None = Checked"
  by (simp add: after_get_def)

lemma after_get_record [simp]:
  "after_get h (Some (build_record status_processing h b)) = Answered (Http 409 being_processed)"
  "after_get h (Some (build_record status_completed h b)) = Answered (Return b)"
  by (simp_all add: after_get_def)

lemma answered_other_failure [simp]: "\<not> is_Return f \<Longrightarrow> \<not> answered_other b (Answered f)"
  by (cases f) auto

lemma acquire_effect:
  assumes "set_idempotency_processing now k h ptl r = (True, r')" "r_up r" "0 < ptl"
  shows "r_get now k r = None" "r_up r'"
    "r_get now k r' = Some (RJson (build_record status_processing h JNull))"
  using assms by (auto simp: set_idempotency_processing_def live_def split: if_splits)

lemma refuse_effect: "set_idempotency_processing now k h ptl r = (False, r') \<Longrightarrow> r' = r"
  by (auto simp: set_idempotency_processing_def split: if_splits)

lemma cnt_answered_weaken:
  assumes "cnt (answered_other None) xs = 0"
  shows "cnt (answered_other b) xs = 0"
  unfolding cnt_zero_iff
proof
  fix ph assume "ph \<in> set xs"
  then have "\<not> answered_other None ph" using assms by (simp add: cnt_zero_iff)
  then show "\<not> answered_other b ph" by (cases "(b, ph)" rule: answered_other.cases) simp_all
qed

text \<open>The three situations of the invariant, one at a time.\<close>

lemma race_invE:
  assumes "race_inv k h s"
  obtains (absent) "r_up (ra_redis s)" "r_get (ra_clock s) k (ra_redis s) = None"
      "ra_executions s = 0" "cnt in_handler (ra_clients s) = 0"
      "cnt (answered_other None) (ra_clients s) = 0"
  | (processing) "r_up (ra_redis s)"
      "r_get (ra_clock s) k (ra_redis s) = Some (RJson (build_record status_processing h JNull))"
      "ra_executions s = 0" "cnt in_handler (ra_clients s) \<le> 1"
      "cnt (answered_other None) (ra_clients s) = 0"
  | (completed) b where "r_up (ra_redis s)"
      "r_get (ra_clock s) k (ra_redis s) = Some (RJson (build_record status_completed h b))"
      "ra_executions s = 1" "cnt in_handler (ra_clients s) = 0"
      "cnt (answered_other (Some b)) (ra_clients s) = 0"
proof -
  note cases = assms [unfolded race_inv_def]
  show thesis
    using cases by (elim conjE disjE exE) (rule that; assumption)+
qed

lemma idem_step_inv:
  assumes "idem_step True ptl ctl k h s s'" "race_inv k h s" "0 < ptl" "0 < ctl"
  shows "race_inv k h s'"
  using assms(1)
proof cases
  case (tick t)
  then show ?thesis using assms(2) by (auto simp: race_inv_def)
next
  case (check i)
  from assms(2) show ?thesis
    by (cases rule: race_invE)
      (simp_all add: race_inv_def check cnt_list_update get_idempotency_result_def)
next
  case (acquire i r)
  have up: "r_up (ra_redis s)" using assms(2) by (simp add: race_inv_def)
  show ?thesis
    using assms(2) acquire acquire_effect [OF acquire(4) up assms(3)]
    by (auto simp: race_inv_def cnt_list_update)
next
  case (refuse i r)
  then show ?thesis
    using assms(2) refuse_effect [OF refuse(4)] by (auto simp: race_inv_def cnt_list_update)
next
  case (succeed i body)
  have run: "0 < cnt in_handler (ra_clients s)" using succeed by (simp add: cnt_member_pos)
  from assms(2) show ?thesis
    using run assms(4) by (cases rule: race_invE)
      (simp_all add: race_inv_def succeed cnt_list_update cnt_answered_weaken
        set_idempotency_completed_def live_def)
next
  case (fail i failure)
  have run: "0 < cnt in_handler (ra_clients s)" using fail by (simp add: cnt_member_pos)
  from assms(2) show ?thesis
    using run by (cases rule: race_invE)
      (simp_all add: race_inv_def fail cnt_list_update delete_idempotency_key_def)
qed

lemma race_start_inv: "r_up r \<Longrightarrow> r_get now k r = None \<Longrightarrow> race_inv k h (race_start r now n)"
  by (simp add: race_inv_def race_start_def cnt_zero_iff)

lemma timely_reachable_inv:
  assumes "(idem_step True ptl ctl k h)\<^sup>*\<^sup>* (race_start r now n) s"
    and "r_up r" "r_get now k r = None" "0 < ptl" "0 < ctl"
  shows "race_inv k h s"
  using assms(1) by (induction rule: rtranclp_induct)
    (auto intro: race_start_inv assms(2,3) idem_step_inv [OF _ _ assms(4,5)])

text \<open>Every run that was started is still going on or has ended, in any run and with Redis up or down.\<close>

lemma started_accounted_step:
  assumes "idem_step timely ptl ctl k h s s'"
    and "ra_started s = ra_executions s + ra_failed s + cnt in_handler (ra_clients s)"
  shows "ra_started s' = ra_executions s' + ra_failed s' + cnt in_handler (ra_clients s')"
  using assms(1)
proof cases
  case (succeed i body)
  then have "0 < cnt in_handler (ra_clients s)" by (simp add: cnt_member_pos)
  with succeed assms(2) show ?thesis by (simp add: cnt_list_update)
next
  case (fail i failure)
  then have "0 < cnt in_handler (ra_clients s)" by (simp add: cnt_member_pos)
  with fail assms(2) show ?thesis by (simp add: cnt_list_update)
qed (use assms(2) in \<open>simp_all add: cnt_list_update\<close>)

lemma started_accounted:
  assumes "(idem_step timely ptl ctl k h)\<^sup>*\<^sup>* (race_start r now n) s"
  shows "ra_started s = ra_executions s + ra_failed s + cnt in_handler (ra_clients s)"
  using assms
proof (induction rule: rtranclp_induct)
  case base
  then show ?case by (simp add: race_start_def cnt_zero_iff)
qed (rule started_accounted_step)

section \<open>Properties\<close>

definition idle_redis :: redis where
  "idle_redis = \<lparr>r_store = [], r_up = True, r_published = []\<rparr>"

definition counting_handler :: "redis \<times> int \<Rightarrow> json outcome \<times> redis \<times> int" where
  "counting_handler w = (Return (JInt (snd w)), fst w, snd w + 1)"

definition failing_handler :: "redis \<times> int \<Rightarrow> json outcome \<times> redis \<times> int" where
  "failing_handler w = (Http 404 ''not found'', w)"

text \<open>C3: Duplicates of one request (same scope key and hash) are interleaved in any order at the Redis commands,
  with Redis reachable throughout and no record expiring during the run. The runs of the handler never
  overlap; a run that raises releases the key, so the handler may be started again, but at most one run
  ever succeeds and after it none is in progress: every other start has failed. All clients that are
  answered with a body are answered with the same one.\<close>

theorem idempotent_exactly_once:
  assumes "(idem_step True ptl ctl k h)\<^sup>*\<^sup>* (race_start r now n) s"
    and "r_up r" "r_get now k r = None" "0 < ptl" "0 < ctl"
  shows "ra_executions s + cnt in_handler (ra_clients s) \<le> 1 \<and>
    ra_started s = ra_failed s + ra_executions s + cnt in_handler (ra_clients s) \<and>
    (\<exists>b. list_all (\<lambda>ph. \<not> answered_other (Some b) ph) (ra_clients s))"
  using timely_reachable_inv [OF assms] started_accounted [OF assms(1)]
  by (cases rule: race_invE) (auto simp: list_all_iff cnt_zero_iff [symmetric]
      dest: cnt_answered_weaken)

lemma idempotent_exactly_once_witness:
  "\<exists>s. (idem_step True 60 600 ''k'' ''h'')\<^sup>*\<^sup>* (race_start idle_redis 0 2) s \<and>
      cnt in_handler (ra_clients s) = 1 \<and> ra_executions s = 0 \<and> ra_started s = 1"
proof -
  let ?s0 = "race_start idle_redis 0 2"
  let ?s1 = "set_client 0 Checked ?s0"
  let ?s2 = "set_client 0 Running (?s1\<lparr>ra_redis :=
       snd (set_idempotency_processing 0 ''k'' ''h'' 60 idle_redis), ra_started := ra_started ?s1 + 1\<rparr>)"
  have "idem_step True 60 600 ''k'' ''h'' ?s0 ?s1"
    using idem_step.check [of 0 ?s0 True 60 600 "''k''" "''h''"]
    by (simp add: race_start_def idle_redis_def get_idempotency_result_def r_get_def)
  moreover have "idem_step True 60 600 ''k'' ''h'' ?s1 ?s2"
    by (rule idem_step.acquire) (simp_all add: race_start_def idle_redis_def
        set_idempotency_processing_def r_get_def)
  ultimately have reach: "(idem_step True 60 600 ''k'' ''h'')\<^sup>*\<^sup>* ?s0 ?s2"
    by (meson converse_rtranclp_into_rtranclp rtranclp.rtrancl_refl)
  moreover have "cnt in_handler (ra_clients ?s2) = 1" "ra_failed ?s2 = 0"
    by (simp_all add: race_start_def numeral_2_eq_2)
  moreover have "ra_executions ?s2 = 0 \<and> ra_started ?s2 = 1"
    using idempotent_exactly_once [OF reach]
    by (simp add: race_start_def idle_redis_def r_get_def numeral_2_eq_2)
  ultimately show ?thesis using reach by blast
qed

text \<open>C23: Redis being reachable when the record is looked up and stored and still at the repetition: once a
  request with an unused idempotency key has succeeded, a repetition within the completed TTL returns
  the stored body and changes nothing, whatever the handler would do now; a repetition with different
  request data is refused with 409 and changes nothing either. (With Redis down the wrapper runs the
  handler every time.)\<close>

theorem idempotent_replay:
  assumes "r_up (fst w)" "r_get now rk (fst w) = None"
    and "idempotent now ptl ctl (Some (c # cs)) rk h func w = (Return b, w')"
    and "r_up (fst w')" "now' < now + ctl * 1000"
  shows "idempotent now' ptl' ctl' (Some (c # cs)) rk h' func' w' =
    (if h' = h then (Return b, w') else (Http 409 different_request, w'))"
proof -
  have run: "run_wrapped now ptl ctl rk h func w = (Return b, w')"
    using assms(1-3) by (simp add: idempotent_def get_idempotency_result_def)
  obtain r d where w': "w' = (set_idempotency_completed now rk h b ctl r, d)"
    using run unfolding run_wrapped_def by (auto split: prod.splits if_splits outcome.splits)
  then have "r_up r" using assms(4) by (simp add: set_idempotency_completed_def split: if_splits)
  then have "get_idempotency_result now' rk (fst w') = Some (build_record status_completed h b)"
    using assms(5) w' by (simp add: get_result_after_completed)
  then show ?thesis by (simp add: idempotent_def)
qed

lemma idempotent_replay_witness:
  "snd (snd (idempotent 0 60 600 (Some ''a'') ''k'' ''h'' counting_handler (idle_redis, 7))) = 8 \<and>
   idempotent 5000 60 600 (Some ''a'') ''k'' ''h'' counting_handler
     (snd (idempotent 0 60 600 (Some ''a'') ''k'' ''h'' counting_handler (idle_redis, 7))) =
     (Return (JInt 7), snd (idempotent 0 60 600 (Some ''a'') ''k'' ''h'' counting_handler (idle_redis, 7)))"
proof -
  let ?first = "idempotent 0 60 600 (Some ''a'') ''k'' ''h'' counting_handler (idle_redis, 7)"
  have first: "fst ?first = Return (JInt 7)" "r_up (fst (snd ?first))" "snd (snd ?first) = 8"
    by (simp_all add: idempotent_def run_wrapped_def counting_handler_def idle_redis_def
        get_idempotency_result_def set_idempotency_processing_def set_idempotency_completed_def r_get_def)
  then have "?first = (Return (JInt 7), snd ?first)" by (simp add: prod_eq_iff)
  with first show ?thesis
    using idempotent_replay [of "(idle_redis, 7)" 0 "''k''" 60 600 "CHR ''a''" "[]" "''h''"
        counting_handler "JInt 7" "snd ?first" 5000 60 600 "''h''" counting_handler]
    by (simp add: idle_redis_def r_get_def)
qed

text \<open>When the handler fails the key is released: nothing is stored under the scope key afterwards, so the
  client's retry runs the handler again.\<close>

theorem idempotent_failure_releases:
  assumes "r_up (fst w)" "r_get now rk (fst w) = None"
    and "idempotent now ptl ctl (Some (c # cs)) rk h func w = (res, w')"
    and "\<not> is_Return res" "r_up (fst w')"
  shows "r_get now' rk (fst w') = None \<and>
    idempotent now' ptl ctl (Some (c # cs)) rk h func' w' = run_wrapped now' ptl ctl rk h func' w'"
proof -
  have run: "run_wrapped now ptl ctl rk h func w = (res, w')"
    using assms(1-3) by (simp add: idempotent_def get_idempotency_result_def)
  obtain r d where w': "w' = (delete_idempotency_key rk r, d)"
    using run assms(1,2,4) unfolding run_wrapped_def
    by (auto simp: set_idempotency_processing_def split: prod.splits if_splits outcome.splits)
  then have "r_up r" using assms(5) by (simp add: delete_idempotency_key_def split: if_splits)
  then have none: "r_get now' rk (fst w') = None" by (simp add: w' delete_idempotency_key_def)
  then show ?thesis by (simp add: idempotent_def get_idempotency_result_def)
qed

lemma idempotent_failure_releases_witness:
  "r_get 5 ''k'' (fst (snd (idempotent 0 60 600 (Some ''a'') ''k'' ''h'' failing_handler (idle_redis, 7)))) = None"
proof -
  let ?first = "idempotent 0 60 600 (Some ''a'') ''k'' ''h'' failing_handler (idle_redis, 7)"
  have pair: "?first = (fst ?first, snd ?first)" by simp
  have "fst ?first = Http 404 ''not found''" "r_up (fst (snd ?first))"
    by (simp_all add: idempotent_def run_wrapped_def failing_handler_def idle_redis_def
        get_idempotency_result_def set_idempotency_processing_def delete_idempotency_key_def r_get_def)
  then show ?thesis
    using idempotent_failure_releases [OF _ _ pair, where now' = 5 and func' = failing_handler]
    by (simp add: idle_redis_def r_get_def)
qed

text \<open>With Redis down the decorator is transparent: the request runs exactly as if it carried no key.\<close>

theorem idempotent_redis_down_transparent:
  assumes "\<not> r_up (fst w)" "\<not> r_up (fst (snd (func w)))"
  shows "idempotent now ptl ctl key rk h func w = func w"
  using assms by (cases w)
    (auto simp: idempotent_def run_wrapped_def get_idempotency_result_def
      set_idempotency_processing_def set_idempotency_completed_def delete_idempotency_key_def
      split: prod.split outcome.split)

lemma idempotent_redis_down_transparent_witness:
  "idempotent 0 60 600 (Some ''a'') ''k'' ''h'' counting_handler (idle_redis\<lparr>r_up := False\<rparr>, 7) =
   (Return (JInt 7), idle_redis\<lparr>r_up := False\<rparr>, 8)"
  using idempotent_redis_down_transparent [of "(idle_redis\<lparr>r_up := False\<rparr>, 7)" counting_handler 0 60 600
      "Some ''a''" "''k''" "''h''"]
  by (simp add: counting_handler_def idle_redis_def)

text \<open>C39: Scope keys isolate users and endpoints: two requests share a record only if they come from the same
  user (or are both anonymous), to endpoints with the same path hash, with the same idempotency key.\<close>

theorem scope_key_isolates:
  assumes "\<And>x. 16 \<le> length (sha x)"
    and "build_scope_key sha u e key = build_scope_key sha u' e' key'"
  shows "u = u' \<and> build_path_hash sha e = build_path_hash sha e' \<and> key = key'"
proof -
  let ?part = "\<lambda>u. case u of Some i \<Rightarrow> ''user:'' @ str_int i | None \<Rightarrow> ''public''"
  have len: "length (build_path_hash sha x) = 16" for x
    using assms(1) by (simp add: build_path_hash_def)
  have eq: "?part u @ CHR '':'' # build_path_hash sha e @ CHR '':'' # key =
      ?part u' @ CHR '':'' # build_path_hash sha e' @ CHR '':'' # key'"
    using assms(2) by (simp add: build_scope_key_def Let_def)
  have "u = u' \<and> build_path_hash sha e @ CHR '':'' # key = build_path_hash sha e' @ CHR '':'' # key'"
  proof (cases u; cases u')
    fix i j assume *: "u = Some i" "u' = Some j"
    then show ?thesis using eq colon_field_inj [of "str_int i" "str_int j"] by auto
  qed (use eq in auto)
  then show ?thesis using len by (simp add: append_eq_append_conv)
qed

definition padded_hash :: "json \<Rightarrow> string" where
  "padded_hash x = (case x of JStr s \<Rightarrow> s @ replicate 16 CHR ''0'' | _ \<Rightarrow> replicate 16 CHR ''0'')"

lemma scope_key_isolates_witness:
  "build_scope_key padded_hash (Some 1) ''p'' ''k'' = build_scope_key padded_hash (Some 1) ''p'' ''k'' \<and>
   build_scope_key padded_hash (Some 1) ''p'' ''k'' \<noteq> build_scope_key padded_hash (Some 2) ''p'' ''k''"
proof -
  have "16 \<le> length (padded_hash x)" for x by (simp add: padded_hash_def split: json.split)
  then show ?thesis using scope_key_isolates [of padded_hash "Some 1" "''p''" "''k''" "Some 2" "''p''" "''k''"]
    by auto
qed

text \<open>The request hash is canonical: it depends neither on the order in which the arguments are bound nor on
  the ignored ones (session, principal, the key itself), so a genuine retry hashes alike.\<close>

theorem request_hash_canonical:
  assumes "mset (filter (\<lambda>a. fst a \<notin> set ignored_argument_names) args) =
      mset (filter (\<lambda>a. fst a \<notin> set ignored_argument_names) args')"
    and "distinct (map fst args)"
  shows "build_request_hash sha args = build_request_hash sha args'"
proof -
  let ?keep = "filter (\<lambda>a :: string \<times> pyval. fst a \<notin> set ignored_argument_names)"
  have "request_payload args = request_payload (?keep args)" "request_payload args' = request_payload (?keep args')"
    by (simp_all add: request_payload_def)
  then show ?thesis
    using assms request_payload_permuted [of "?keep args" "?keep args'"]
    by (simp add: build_request_hash_def distinct_map_filter)
qed

lemma request_hash_canonical_witness:
  "build_request_hash padded_hash [(''content'', PStr ''hi''), (''db'', PRepr ''s1''), (''post_id'', PInt 3)] =
   build_request_hash padded_hash [(''post_id'', PInt 3), (''content'', PStr ''hi''), (''currentUser'', PRepr ''u'')]"
  by (rule request_hash_canonical) (simp_all add: ignored_argument_names_def)

text \<open>
  The record is deleted without checking whose it is. Three clients with a processing TTL of ten
  seconds: the first outlives its lock, the second then takes the lock, and the failure of the first
  deletes it.
\<close>

definition locked_redis :: "int \<Rightarrow> redis" where
  "locked_redis a =
     r_set ''k'' (RJson (build_record status_processing ''h'' JNull)) (Some (a + 10000)) idle_redis"

definition overtaken :: race where
  "overtaken = \<lparr>ra_clock = 10000, ra_redis = locked_redis 10000,
     ra_clients = [Running, Running, Start], ra_started = 2, ra_executions = 0, ra_failed = 0\<rparr>"

definition unlocked :: race where
  "unlocked = \<lparr>ra_clock = 10000, ra_redis = locked_redis 10000,
     ra_clients = [Answered (Http 404 ''x''), Running, Running],
     ra_started = 3, ra_executions = 0, ra_failed = 1\<rparr>"

lemmas race_defs = overtaken_def unlocked_def locked_redis_def race_start_def idle_redis_def

lemma overtaken_reachable: "(idem_step False 10 600 ''k'' ''h'')\<^sup>*\<^sup>* (race_start idle_redis 0 3) overtaken"
proof -
  let ?step = "idem_step False 10 600 ''k'' ''h''"
  let ?s = "\<lambda>t r cs. \<lparr>ra_clock = t, ra_redis = r, ra_clients = cs,
     ra_started = cnt in_handler cs, ra_executions = 0, ra_failed = 0\<rparr> :: race"
  have "?step (race_start idle_redis 0 3) (?s 0 idle_redis [Checked, Start, Start])"
    using idem_step.check [of 0 "race_start idle_redis 0 3" False 10 600 "''k''" "''h''"]
    by (simp add: race_start_def idle_redis_def get_idempotency_result_def r_get_def set_client_def
        numeral_3_eq_3)
  moreover have "?step (?s 0 idle_redis [Checked, Start, Start]) (?s 0 (locked_redis 0) [Running, Start, Start])"
    using idem_step.acquire [of 0 "?s 0 idle_redis [Checked, Start, Start]" "''k''" "''h''" 10 "locked_redis 0"]
    by (simp add: set_idempotency_processing_def set_client_def locked_redis_def idle_redis_def r_get_def)
  moreover have "?step (?s 0 (locked_redis 0) [Running, Start, Start])
      (?s 10000 (locked_redis 0) [Running, Start, Start])"
    using idem_step.tick [of "?s 0 (locked_redis 0) [Running, Start, Start]" 10000 False] by simp
  moreover have "?step (?s 10000 (locked_redis 0) [Running, Start, Start])
      (?s 10000 (locked_redis 0) [Running, Checked, Start])"
    using idem_step.check [of 1 "?s 10000 (locked_redis 0) [Running, Start, Start]" False 10 600 "''k''" "''h''"]
    by (simp add: get_idempotency_result_def set_client_def locked_redis_def live_def idle_redis_def)
  moreover have "?step (?s 10000 (locked_redis 0) [Running, Checked, Start]) overtaken"
  proof -
    have "set_idempotency_processing 10000 ''k'' ''h'' 10 (locked_redis 0) = (True, locked_redis 10000)"
      by (simp add: set_idempotency_processing_def locked_redis_def live_def idle_redis_def
          r_set_def r_get_def)
    then show ?thesis
      using idem_step.acquire [of 1 "?s 10000 (locked_redis 0) [Running, Checked, Start]" "''k''" "''h''" 10 "locked_redis 10000"]
      by (simp add: set_client_def overtaken_def)
  qed
  ultimately show ?thesis by (meson converse_rtranclp_into_rtranclp rtranclp.rtrancl_refl)
qed

lemma overtaken_unlocked: "(idem_step False 10 600 ''k'' ''h'')\<^sup>*\<^sup>* overtaken unlocked"
proof -
  let ?step = "idem_step False 10 600 ''k'' ''h''"
  let ?s = "\<lambda>r cs. \<lparr>ra_clock = 10000, ra_redis = r, ra_clients = cs, ra_started = 2, ra_executions = 0, ra_failed = 1\<rparr> :: race"
  let ?f = "Answered (Http 404 ''x'')"
  have del: "delete_idempotency_key ''k'' (locked_redis 10000) = idle_redis"
    by (simp add: delete_idempotency_key_def r_del_def locked_redis_def idle_redis_def r_set_def)
  have "?step overtaken (?s idle_redis [?f, Running, Start])"
    using idem_step.fail [of 0 overtaken "Http 404 ''x''" False 10 600 "''k''" "''h''"]
    by (simp add: overtaken_def set_client_def del)
  moreover have "?step (?s idle_redis [?f, Running, Start]) (?s idle_redis [?f, Running, Checked])"
    using idem_step.check [of 2 "?s idle_redis [?f, Running, Start]" False 10 600 "''k''" "''h''"]
    by (simp add: get_idempotency_result_def set_client_def r_get_def idle_redis_def)
  moreover have "?step (?s idle_redis [?f, Running, Checked]) unlocked"
    using idem_step.acquire [of 2 "?s idle_redis [?f, Running, Checked]" "''k''" "''h''" 10 "locked_redis 10000"]
    by (simp add: set_idempotency_processing_def set_client_def unlocked_def locked_redis_def
        idle_redis_def r_get_def)
  ultimately show ?thesis by (meson converse_rtranclp_into_rtranclp rtranclp.rtrancl_refl)
qed

text \<open>Without timeliness exclusion is lost: from a reachable state in which the second client holds the live
  lock, the failure of an earlier client whose own lock had expired lets a third client into the
  handler beside the second, with no time passing.\<close>

theorem idempotent_late_failure_unlocks:
  "\<exists>s s'. (idem_step False 10 600 ''k'' ''h'')\<^sup>*\<^sup>* (race_start idle_redis 0 3) s \<and>
     ra_clients s ! 1 = Running \<and> r_get (ra_clock s) ''k'' (ra_redis s) \<noteq> None \<and>
     (idem_step False 10 600 ''k'' ''h'')\<^sup>*\<^sup>* s s' \<and> ra_clock s' = ra_clock s \<and>
     ra_clients s' ! 1 = Running \<and> ra_clients s' ! 2 = Running"
  using overtaken_reachable overtaken_unlocked
  by (intro exI [of _ overtaken] exI [of _ unlocked]) (simp add: race_defs live_def)

end
