(* ===== verification/Schema.thy ===== *)
theory Schema
  imports Prelude
begin

text \<open>
  The tables of \<open>app/models.py\<close>: one record per mapped class (or association table), one field
  per column, nullable columns as options, timestamps as microseconds since the epoch. The
  database is the record of all tables plus the sequences that number new rows.

  Left out of the records: the surrogate keys that nothing in the program reads
  (\<open>saved_posts.created_at\<close> and its \<open>id\<close> are read and kept; the ids of reactions, of the
  deletion marks, of OTPs and of refresh tokens are not), the index declarations, which have no
  observable behaviour, and the lazily loaded relationships, which are the joins written out in
  the queries that use them.
\<close>

section \<open>Rows\<close>

datatype notification_type = like_notif | comment_notif | follow_notif

fun notification_value :: "notification_type \<Rightarrow> string" where
  "notification_value like_notif = ''like''"
| "notification_value comment_notif = ''comment''"
| "notification_value follow_notif = ''follow''"

record connection =
  k_followed_id :: int
  k_follower_id :: int

record shared_post_reply =
  spr_reply_msg_id :: int
  spr_shared_post_id :: int

record shared_post =
  s_id :: int
  s_post_id :: int
  s_from_user_id :: int
  s_to_user_id :: int
  s_message :: "string option"
  s_created_at :: int
  s_is_read :: bool
  s_is_deleted_for_everyone :: bool
  s_reaction_cnt :: int

record deleted_message =
  dm_user_id :: int
  dm_message_id :: int
  dm_deleted_at :: int

record deleted_shared_post =
  dsp_user_id :: int
  dsp_shared_post_id :: int
  dsp_deleted_at :: int

record otp_row =
  o_email :: string
  o_otp :: string
  o_expires_at :: int
  o_created_at :: int

record vote =
  v_post_id :: int
  v_user_id :: int
  v_action :: bool

record comment_vote =
  cv_comment_id :: int
  cv_user_id :: int
  cv_like :: bool

record comment =
  c_id :: int
  c_post_id :: int
  c_user_id :: int
  c_comment_content :: string
  c_created_at :: int
  c_likes :: int

record post =
  p_id :: int
  p_media_path :: "string option"
  p_media_type :: "string option"
  p_title :: string
  p_content :: string
  p_enable_comments :: bool
  p_created_at :: int
  p_user_id :: int
  p_likes :: int
  p_dis_likes :: int
  p_views :: int
  p_comments_cnt :: int
  p_hashtags :: "string option"

record saved_post =
  sv_id :: int
  sv_user_id :: int
  sv_post_id :: int
  sv_created_at :: int

record post_view =
  pv_post_id :: int
  pv_user_id :: int
  pv_viewed_at :: int

record user =
  u_id :: int
  u_username :: string
  u_password :: string
  u_nickname :: "string option"
  u_bio :: "string option"
  u_email :: "string option"
  u_email_verified :: bool
  u_profile_picture :: "string option"
  u_created_at :: int
  u_last_seen_at :: "int option"
  u_followers_cnt :: int
  u_following_cnt :: int
  u_version_id :: int

record message_reply =
  mr_reply_id :: int
  mr_original_id :: int

record message =
  m_id :: int
  m_media_url :: "string option"
  m_media_type :: "string option"
  m_content :: string
  m_sender_id :: int
  m_receiver_id :: int
  m_created_at :: int
  m_is_read :: bool
  m_is_deleted_for_everyone :: bool
  m_is_edited :: bool
  m_edited_at :: "int option"
  m_read_at :: "int option"
  m_reaction_cnt :: int
  m_is_reply_msg :: bool
  m_is_reply_to_share :: bool

record message_reaction =
  r_message_id :: int
  r_user_id :: int
  r_reaction :: string

record shared_post_reaction =
  sr_shared_post_id :: int
  sr_user_id :: int
  sr_reaction :: string

record notification =
  n_id :: int
  n_owner_id :: int
  n_actor_id :: int
  n_type :: notification_type
  n_entity_id :: "int option"
  n_entity_type :: "string option"
  n_text :: string
  n_is_read :: bool
  n_created_at :: int

record refresh_token =
  t_token :: string
  t_user_id :: int
  t_family_id :: string
  t_revoked :: bool
  t_expires_at :: int
  t_created_at :: int

section \<open>The database\<close>

record database =
  users :: "user list"
  connections :: "connection list"
  posts :: "post list"
  votes :: "vote list"
  comments :: "comment list"
  comment_votes :: "comment_vote list"
  saved_posts :: "saved_post list"
  post_views :: "post_view list"
  messages :: "message list"
  message_replies :: "message_reply list"
  message_reactions :: "message_reaction list"
  deleted_messages :: "deleted_message list"
  shared_posts :: "shared_post list"
  shared_post_replies :: "shared_post_reply list"
  shared_post_reactions :: "shared_post_reaction list"
  deleted_shared_posts :: "deleted_shared_post list"
  otps :: "otp_row list"
  notifications :: "notification list"
  refresh_tokens :: "refresh_token list"
  users_seq :: int
  posts_seq :: int
  comments_seq :: int
  saved_posts_seq :: int
  messages_seq :: int
  shared_posts_seq :: int
  notifications_seq :: int

definition empty_db :: database where
  "empty_db = \<lparr>users = [], connections = [], posts = [], votes = [], comments = [],
     comment_votes = [], saved_posts = [], post_views = [], messages = [], message_replies = [],
     message_reactions = [], deleted_messages = [], shared_posts = [], shared_post_replies = [],
     shared_post_reactions = [], deleted_shared_posts = [], otps = [], notifications = [],
     refresh_tokens = [], users_seq = 1, posts_seq = 1, comments_seq = 1, saved_posts_seq = 1,
     messages_seq = 1, shared_posts_seq = 1, notifications_seq = 1\<rparr>"

text \<open>Primary-key lookups: \<open>select(M).where(M.id == i)\<close> followed by \<open>.scalars().first()\<close>.\<close>

definition user_by_id :: "int \<Rightarrow> database \<Rightarrow> user option" where
  "user_by_id i d = find (\<lambda>u. u_id u = i) (users d)"

definition post_by_id :: "int \<Rightarrow> database \<Rightarrow> post option" where
  "post_by_id i d = find (\<lambda>p. p_id p = i) (posts d)"

definition comment_by_id :: "int \<Rightarrow> database \<Rightarrow> comment option" where
  "comment_by_id i d = find (\<lambda>c. c_id c = i) (comments d)"

definition message_by_id :: "int \<Rightarrow> database \<Rightarrow> message option" where
  "message_by_id i d = find (\<lambda>m. m_id m = i) (messages d)"

definition shared_post_by_id :: "int \<Rightarrow> database \<Rightarrow> shared_post option" where
  "shared_post_by_id i d = find (\<lambda>s. s_id s = i) (shared_posts d)"

lemmas lookup_defs = user_by_id_def post_by_id_def comment_by_id_def message_by_id_def
  shared_post_by_id_def

section \<open>Keys and references\<close>

text \<open>
  Both constraints are stated on the column of keys, so that an UPDATE that leaves the column
  alone is discharged by \<open>map_update_where\<close>. \<open>fk refs keys\<close>: every reference is one of the keys
  (FOREIGN KEY). \<open>ids_ok n keys\<close>: the keys are distinct (PRIMARY KEY) and below the sequence \<open>n\<close>.
\<close>

definition fk :: "'k list \<Rightarrow> 'k list \<Rightarrow> bool" where
  "fk refs keys \<longleftrightarrow> set refs \<subseteq> set keys"

definition ids_ok :: "int \<Rightarrow> int list \<Rightarrow> bool" where
  "ids_ok n keys \<longleftrightarrow> distinct keys \<and> (\<forall>k\<in>set keys. k < n)"

lemma fk_Nil [simp]: "fk [] keys"
  by (simp add: fk_def)

lemma fk_append_child [simp]: "fk (refs @ [r]) keys \<longleftrightarrow> fk refs keys \<and> r \<in> set keys"
  by (auto simp: fk_def)

lemma fk_append_parent [simp]: "fk refs keys \<Longrightarrow> fk refs (keys @ keys')"
  by (auto simp: fk_def)

lemma fk_delete_child [simp]: "fk (map f cs) keys \<Longrightarrow> fk (map f (delete_where P cs)) keys"
  by (auto simp: fk_def)

lemma fk_delete_parent:
  "fk (map f cs) (map key ps) \<Longrightarrow> (\<And>c p. c \<in> set cs \<Longrightarrow> p \<in> set ps \<Longrightarrow> f c = key p \<Longrightarrow> \<not> P p) \<Longrightarrow>
   fk (map f cs) (map key (delete_where P ps))"
  by (force simp: fk_def)

lemma ids_ok_Nil [simp]: "ids_ok n []"
  by (simp add: ids_ok_def)

lemma ids_ok_append [simp]: "ids_ok n keys \<Longrightarrow> ids_ok (n + 1) (keys @ [n])"
  by (auto simp: ids_ok_def)

lemma ids_ok_delete [simp]: "ids_ok n (map key rows) \<Longrightarrow> ids_ok n (map key (delete_where P rows))"
  by (auto simp: ids_ok_def distinct_map_delete_where)

lemma ids_ok_fresh: "ids_ok n keys \<Longrightarrow> n \<notin> set keys"
  by (auto simp: ids_ok_def)

end
