(* ===== verification/Counters.thy ===== *)
theory Counters
  imports Schema "HOL-Library.Multiset"
begin

text \<open>
  Denormalised counters. Eight columns cache the number of rows of another table
  (\<open>posts.likes\<close>, \<open>posts.dis_likes\<close>, \<open>posts.comments_cnt\<close>, \<open>posts.views\<close>, \<open>comments.likes\<close>,
  \<open>users.following_cnt\<close>, \<open>users.followers_cnt\<close>, the two \<open>reaction_cnt\<close>). They are kept by the
  row triggers of \<open>alembic/versions/e9b7c6a5d4f2_add_counter_triggers.py\<close> and repaired by
  \<open>app/services/reconciliation_service.py\<close>. The locale \<open>counter\<close> is the contract of one such
  column; it is interpreted on each of the nine columns below.
\<close>

section \<open>The contract of one counter column\<close>

definition counts_match :: "('p \<Rightarrow> int) \<Rightarrow> ('p \<Rightarrow> 'c \<Rightarrow> bool) \<Rightarrow> 'p list \<Rightarrow> 'c list \<Rightarrow> bool" where
  "counts_match get owns ps cs \<longleftrightarrow> (\<forall>p\<in>set ps. get p = cnt (owns p) cs)"

text \<open>One reconciliation pass: \<open>UPDATE .. SET c = n WHERE c != n\<close> with \<open>n\<close> the true count, and its
  \<open>rowcount\<close>.\<close>

definition repair :: "('p \<Rightarrow> int) \<Rightarrow> ((int \<Rightarrow> int) \<Rightarrow> 'p \<Rightarrow> 'p) \<Rightarrow> ('p \<Rightarrow> 'c \<Rightarrow> bool) \<Rightarrow> 'c list \<Rightarrow>
    'p list \<Rightarrow> 'p list" where
  "repair get upd owns cs ps =
     update_where (\<lambda>p. get p \<noteq> cnt (owns p) cs) (\<lambda>p. upd (\<lambda>_. cnt (owns p) cs) p) ps"

definition drifted :: "('p \<Rightarrow> int) \<Rightarrow> ('p \<Rightarrow> 'c \<Rightarrow> bool) \<Rightarrow> 'c list \<Rightarrow> 'p list \<Rightarrow> int" where
  "drifted get owns cs ps = cnt (\<lambda>p. get p \<noteq> cnt (owns p) cs) ps"

lemma counts_match_mset:
  assumes "mset cs = mset cs'"
  shows "counts_match get owns ps cs = counts_match get owns ps cs'"
proof -
  have "cnt P cs = cnt P cs'" for P
    using assms unfolding cnt_def by (metis mset_filter size_mset)
  then show ?thesis by (simp add: counts_match_def)
qed

lemma counts_match_Nil [simp]: "counts_match get owns [] cs"
  by (simp add: counts_match_def)

lemma counts_match_append_parent [simp]:
  "counts_match get owns (ps @ [p]) cs \<longleftrightarrow> counts_match get owns ps cs \<and> get p = cnt (owns p) cs"
  by (auto simp: counts_match_def)

lemma counts_match_delete_parent:
  "counts_match get owns ps cs \<Longrightarrow> counts_match get owns (delete_where P ps) cs"
  by (simp add: counts_match_def)

lemma counts_match_frame:
  assumes "\<And>p. get (g p) = get p" "\<And>p c. owns (g p) c = owns p c"
  shows "counts_match get owns (update_where P g ps) cs = counts_match get owns ps cs"
proof -
  have "owns (g p) = owns p" for p using assms(2) by blast
  then show ?thesis using assms(1) by (induction ps) (auto simp: counts_match_def)
qed

lemma counts_match_frame_child:
  assumes "\<And>p c. c \<in> set cs \<Longrightarrow> P c \<Longrightarrow> owns p (g c) = owns p c"
  shows "counts_match get owns ps (update_where P g cs) = counts_match get owns ps cs"
proof -
  have "cnt (owns p) (update_where P g cs) = cnt (owns p) cs" for p
    using assms by (induction cs) auto
  then show ?thesis by (simp add: counts_match_def)
qed

lemma counts_match_skip:
  "(\<And>p. p \<in> set ps \<Longrightarrow> \<not> owns p c) \<Longrightarrow>
   counts_match get owns ps (cs @ [c]) = counts_match get owns ps cs"
  by (auto simp: counts_match_def)

lemma counts_match_skip_Cons:
  "(\<And>p. p \<in> set ps \<Longrightarrow> \<not> owns p c) \<Longrightarrow>
   counts_match get owns ps (c # cs) = counts_match get owns ps cs"
  by (auto simp: counts_match_def)

lemma counts_match_delete_unowned:
  assumes "\<And>p c. p \<in> set ps \<Longrightarrow> c \<in> set cs \<Longrightarrow> P c \<Longrightarrow> \<not> owns p c"
  shows "counts_match get owns ps (delete_where P cs) = counts_match get owns ps cs"
proof -
  have "cnt (owns p) (delete_where P cs) = cnt (owns p) cs" if "p \<in> set ps" for p
    using assms that by (induction cs) auto
  then show ?thesis by (simp add: counts_match_def)
qed

locale counter =
  fixes get :: "'p \<Rightarrow> int"
    and upd :: "(int \<Rightarrow> int) \<Rightarrow> 'p \<Rightarrow> 'p"
    and owns :: "'p \<Rightarrow> 'c \<Rightarrow> bool"
  assumes get_upd: "get (upd f p) = f (get p)"
    and owns_upd: "owns (upd f p) c = owns p c"
begin

lemma insert_row:
  assumes "counts_match get owns ps cs"
    and "\<And>p. p \<in> set ps \<Longrightarrow> P p = owns p c"
  shows "counts_match get owns (update_where P (upd (\<lambda>n. n + 1)) ps) (cs @ [c])"
proof -
  have "owns (upd f p) = owns p" for f p using owns_upd by blast
  then show ?thesis
    using assms by (auto simp: counts_match_def set_update_where get_upd)
qed

lemma delete_row:
  assumes "counts_match get owns ps (c # cs)"
    and "\<And>p. p \<in> set ps \<Longrightarrow> P p = owns p c"
  shows "counts_match get owns (update_where P (upd (\<lambda>n. max (n - 1) 0)) ps) cs"
proof -
  have "owns (upd f p) = owns p" for f p using owns_upd by blast
  then show ?thesis
    using assms by (auto simp: counts_match_def set_update_where get_upd)
qed

lemma repair_matches: "counts_match get owns (repair get upd owns cs ps) cs"
proof -
  have "owns (upd f p) = owns p" for f p using owns_upd by blast
  then show ?thesis
    by (auto simp: counts_match_def repair_def set_update_where get_upd)
qed

lemma repair_matching: "counts_match get owns ps cs \<Longrightarrow> repair get upd owns cs ps = ps"
  by (auto simp: repair_def counts_match_def intro!: update_where_none)

lemma drifted_zero: "drifted get owns cs ps = 0 \<longleftrightarrow> counts_match get owns ps cs"
  by (simp add: drifted_def counts_match_def cnt_zero_iff)

lemma repair_map:
  "(\<And>f p. key (upd f p) = key p) \<Longrightarrow> map key (repair get upd owns cs ps) = map key ps"
  by (simp add: repair_def map_update_where)

end

section \<open>The counter columns\<close>

text \<open>Which rows a counter counts: the WHERE clauses of the subqueries.\<close>

definition like_of :: "post \<Rightarrow> vote \<Rightarrow> bool" where
  "like_of p v \<longleftrightarrow> v_post_id v = p_id p \<and> v_action v"

definition dislike_of :: "post \<Rightarrow> vote \<Rightarrow> bool" where
  "dislike_of p v \<longleftrightarrow> v_post_id v = p_id p \<and> \<not> v_action v"

definition comment_on :: "post \<Rightarrow> comment \<Rightarrow> bool" where
  "comment_on p c \<longleftrightarrow> c_post_id c = p_id p"

definition view_of :: "post \<Rightarrow> post_view \<Rightarrow> bool" where
  "view_of p w \<longleftrightarrow> pv_post_id w = p_id p"

definition comment_like_of :: "comment \<Rightarrow> comment_vote \<Rightarrow> bool" where
  "comment_like_of c v \<longleftrightarrow> cv_comment_id v = c_id c \<and> cv_like v"

definition following_of :: "user \<Rightarrow> connection \<Rightarrow> bool" where
  "following_of u k \<longleftrightarrow> k_follower_id k = u_id u"

definition follower_of :: "user \<Rightarrow> connection \<Rightarrow> bool" where
  "follower_of u k \<longleftrightarrow> k_followed_id k = u_id u"

definition reaction_on :: "message \<Rightarrow> message_reaction \<Rightarrow> bool" where
  "reaction_on m r \<longleftrightarrow> r_message_id r = m_id m"

definition share_reaction_on :: "shared_post \<Rightarrow> shared_post_reaction \<Rightarrow> bool" where
  "share_reaction_on s r \<longleftrightarrow> sr_shared_post_id r = s_id s"

lemmas owner_defs = like_of_def dislike_of_def comment_on_def view_of_def comment_like_of_def
  following_of_def follower_of_def reaction_on_def share_reaction_on_def

interpretation likes: counter p_likes p_likes_update like_of
  by unfold_locales (auto simp: like_of_def)

interpretation dis_likes: counter p_dis_likes p_dis_likes_update dislike_of
  by unfold_locales (auto simp: dislike_of_def)

interpretation comments_cnt: counter p_comments_cnt p_comments_cnt_update comment_on
  by unfold_locales (auto simp: comment_on_def)

interpretation views: counter p_views p_views_update view_of
  by unfold_locales (auto simp: view_of_def)

interpretation comment_likes: counter c_likes c_likes_update comment_like_of
  by unfold_locales (auto simp: comment_like_of_def)

interpretation following_cnt: counter u_following_cnt u_following_cnt_update following_of
  by unfold_locales (auto simp: following_of_def)

interpretation followers_cnt: counter u_followers_cnt u_followers_cnt_update follower_of
  by unfold_locales (auto simp: follower_of_def)

interpretation reaction_cnt: counter m_reaction_cnt m_reaction_cnt_update reaction_on
  by unfold_locales (auto simp: reaction_on_def)

interpretation share_reaction_cnt: counter s_reaction_cnt s_reaction_cnt_update share_reaction_on
  by unfold_locales (auto simp: share_reaction_on_def)

section \<open>The row triggers\<close>

text \<open>\<open>TG_OP\<close> with the \<open>NEW\<close> and \<open>OLD\<close> rows; \<open>GREATEST(c - 1, 0)\<close> is \<open>max (c - 1) 0\<close>.\<close>

datatype 'r trig = Insert 'r | Delete 'r | Update 'r 'r

fun trg_sync_post_vote_counts :: "vote trig \<Rightarrow> post list \<Rightarrow> post list" where
  "trg_sync_post_vote_counts (Insert new) ps =
     (if v_action new
      then update_where (\<lambda>p. p_id p = v_post_id new) (p_likes_update (\<lambda>n. n + 1)) ps
      else update_where (\<lambda>p. p_id p = v_post_id new) (p_dis_likes_update (\<lambda>n. n + 1)) ps)"
| "trg_sync_post_vote_counts (Delete old) ps =
     (if v_action old
      then update_where (\<lambda>p. p_id p = v_post_id old) (p_likes_update (\<lambda>n. max (n - 1) 0)) ps
      else update_where (\<lambda>p. p_id p = v_post_id old) (p_dis_likes_update (\<lambda>n. max (n - 1) 0)) ps)"
| "trg_sync_post_vote_counts (Update old new) ps =
     (if v_action old = v_action new then ps
      else
        let ps' =
          (if v_action old
           then update_where (\<lambda>p. p_id p = v_post_id old) (p_likes_update (\<lambda>n. max (n - 1) 0)) ps
           else update_where (\<lambda>p. p_id p = v_post_id old)
                  (p_dis_likes_update (\<lambda>n. max (n - 1) 0)) ps)
        in if v_action new
           then update_where (\<lambda>p. p_id p = v_post_id new) (p_likes_update (\<lambda>n. n + 1)) ps'
           else update_where (\<lambda>p. p_id p = v_post_id new) (p_dis_likes_update (\<lambda>n. n + 1)) ps')"

fun trg_sync_comment_vote_counts :: "comment_vote trig \<Rightarrow> comment list \<Rightarrow> comment list" where
  "trg_sync_comment_vote_counts (Insert new) cs =
     (if cv_like new
      then update_where (\<lambda>c. c_id c = cv_comment_id new) (c_likes_update (\<lambda>n. n + 1)) cs else cs)"
| "trg_sync_comment_vote_counts (Delete old) cs =
     (if cv_like old
      then update_where (\<lambda>c. c_id c = cv_comment_id old) (c_likes_update (\<lambda>n. max (n - 1) 0)) cs
      else cs)"
| "trg_sync_comment_vote_counts (Update old new) cs =
     (if cv_like old = cv_like new then cs
      else
        let cs' =
          (if cv_like old
           then update_where (\<lambda>c. c_id c = cv_comment_id old)
                  (c_likes_update (\<lambda>n. max (n - 1) 0)) cs
           else cs)
        in if cv_like new
           then update_where (\<lambda>c. c_id c = cv_comment_id new) (c_likes_update (\<lambda>n. n + 1)) cs'
           else cs')"

fun trg_sync_post_comment_counts :: "comment trig \<Rightarrow> post list \<Rightarrow> post list" where
  "trg_sync_post_comment_counts (Insert new) ps =
     update_where (\<lambda>p. p_id p = c_post_id new) (p_comments_cnt_update (\<lambda>n. n + 1)) ps"
| "trg_sync_post_comment_counts (Delete old) ps =
     update_where (\<lambda>p. p_id p = c_post_id old) (p_comments_cnt_update (\<lambda>n. max (n - 1) 0)) ps"
| "trg_sync_post_comment_counts (Update old new) ps = ps"

fun trg_sync_post_view_counts :: "post_view trig \<Rightarrow> post list \<Rightarrow> post list" where
  "trg_sync_post_view_counts (Insert new) ps =
     update_where (\<lambda>p. p_id p = pv_post_id new) (p_views_update (\<lambda>n. n + 1)) ps"
| "trg_sync_post_view_counts (Delete old) ps =
     update_where (\<lambda>p. p_id p = pv_post_id old) (p_views_update (\<lambda>n. max (n - 1) 0)) ps"
| "trg_sync_post_view_counts (Update old new) ps = ps"

fun trg_sync_connection_counts :: "connection trig \<Rightarrow> user list \<Rightarrow> user list" where
  "trg_sync_connection_counts (Insert new) us =
     update_where (\<lambda>u. u_id u = k_followed_id new) (u_followers_cnt_update (\<lambda>n. n + 1))
       (update_where (\<lambda>u. u_id u = k_follower_id new) (u_following_cnt_update (\<lambda>n. n + 1)) us)"
| "trg_sync_connection_counts (Delete old) us =
     update_where (\<lambda>u. u_id u = k_followed_id old) (u_followers_cnt_update (\<lambda>n. max (n - 1) 0))
       (update_where (\<lambda>u. u_id u = k_follower_id old)
          (u_following_cnt_update (\<lambda>n. max (n - 1) 0)) us)"
| "trg_sync_connection_counts (Update old new) us = us"

fun trg_sync_message_reaction_counts :: "message_reaction trig \<Rightarrow> message list \<Rightarrow> message list" where
  "trg_sync_message_reaction_counts (Insert new) ms =
     update_where (\<lambda>m. m_id m = r_message_id new) (m_reaction_cnt_update (\<lambda>n. n + 1)) ms"
| "trg_sync_message_reaction_counts (Delete old) ms =
     update_where (\<lambda>m. m_id m = r_message_id old) (m_reaction_cnt_update (\<lambda>n. max (n - 1) 0)) ms"
| "trg_sync_message_reaction_counts (Update old new) ms = ms"

fun trg_sync_shared_post_reaction_counts ::
    "shared_post_reaction trig \<Rightarrow> shared_post list \<Rightarrow> shared_post list" where
  "trg_sync_shared_post_reaction_counts (Insert new) ss =
     update_where (\<lambda>s. s_id s = sr_shared_post_id new) (s_reaction_cnt_update (\<lambda>n. n + 1)) ss"
| "trg_sync_shared_post_reaction_counts (Delete old) ss =
     update_where (\<lambda>s. s_id s = sr_shared_post_id old)
       (s_reaction_cnt_update (\<lambda>n. max (n - 1) 0)) ss"
| "trg_sync_shared_post_reaction_counts (Update old new) ss = ss"

text \<open>A statement fires its trigger once for every affected row (FOR EACH ROW).\<close>

definition fire_deletes :: "('c trig \<Rightarrow> 'p list \<Rightarrow> 'p list) \<Rightarrow> ('c \<Rightarrow> bool) \<Rightarrow> 'c list \<Rightarrow>
    'p list \<Rightarrow> 'p list" where
  "fire_deletes trg P cs ps = fold (\<lambda>c. trg (Delete c)) (filter P cs) ps"

definition fire_updates :: "('c trig \<Rightarrow> 'p list \<Rightarrow> 'p list) \<Rightarrow> ('c \<Rightarrow> bool) \<Rightarrow> ('c \<Rightarrow> 'c) \<Rightarrow>
    'c list \<Rightarrow> 'p list \<Rightarrow> 'p list" where
  "fire_updates trg P f cs ps = fold (\<lambda>c. trg (Update c (f c))) (filter P cs) ps"

section \<open>The contract of a trigger\<close>

text \<open>
  A trigger on a child table keeps one counter of the parent table in step with single-row
  changes; \<open>same old new\<close> says which UPDATEs of a child the program makes (the foreign key never
  changes). From the contract: whole DELETE and UPDATE statements keep the counter too.
\<close>

locale synced =
  fixes trg :: "'c trig \<Rightarrow> 'p list \<Rightarrow> 'p list"
    and get :: "'p \<Rightarrow> int"
    and owns :: "'p \<Rightarrow> 'c \<Rightarrow> bool"
    and key :: "'p \<Rightarrow> int"
    and same :: "'c \<Rightarrow> 'c \<Rightarrow> bool"
  assumes on_insert: "counts_match get owns ps cs \<Longrightarrow> counts_match get owns (trg (Insert c) ps) (cs @ [c])"
    and on_delete: "counts_match get owns ps (c # cs) \<Longrightarrow> counts_match get owns (trg (Delete c) ps) cs"
    and on_update: "counts_match get owns ps (c # cs) \<Longrightarrow> same c c' \<Longrightarrow>
      counts_match get owns (trg (Update c c') ps) (c' # cs)"
    and keys: "map key (trg e ps) = map key ps"
begin

lemma fire_deletes_keys: "map key (fire_deletes trg P cs ps) = map key ps"
proof -
  have "map key (fold (\<lambda>c. trg (Delete c)) ds ps) = map key ps" for ds
    by (induction ds arbitrary: ps) (auto simp: keys)
  then show ?thesis by (simp add: fire_deletes_def)
qed

lemma fire_updates_keys: "map key (fire_updates trg P f cs ps) = map key ps"
proof -
  have "map key (fold (\<lambda>c. trg (Update c (f c))) ds ps) = map key ps" for ds
    by (induction ds arbitrary: ps) (auto simp: keys)
  then show ?thesis by (simp add: fire_updates_def)
qed

lemma delete_statement:
  assumes "counts_match get owns ps cs"
  shows "counts_match get owns (fire_deletes trg P cs ps) (delete_where P cs)"
proof -
  have fold: "counts_match get owns (fold (\<lambda>c. trg (Delete c)) ds ps) rest"
    if "counts_match get owns ps (ds @ rest)" for ds rest
    using that by (induction ds arbitrary: ps) (auto dest: on_delete)
  have "mset cs = mset (filter P cs @ delete_where P cs)"
    by (simp add: delete_where_def)
  then have "counts_match get owns ps (filter P cs @ delete_where P cs)"
    using assms counts_match_mset by blast
  then show ?thesis by (simp add: fire_deletes_def fold)
qed

lemma update_statement:
  assumes "counts_match get owns ps cs" and same: "\<And>c. P c \<Longrightarrow> same c (f c)"
  shows "counts_match get owns (fire_updates trg P f cs ps) (update_where P f cs)"
proof -
  have fold: "counts_match get owns (fold (\<lambda>c. trg (Update c (f c))) ds ps) (map f ds @ rest)"
    if "counts_match get owns ps (ds @ rest)" "\<forall>c\<in>set ds. P c" for ds rest
    using that
  proof (induction ds arbitrary: ps rest)
    case (Cons d ds)
    then have "counts_match get owns (trg (Update d (f d)) ps) (f d # ds @ rest)"
      using on_update same by auto
    then have "counts_match get owns (trg (Update d (f d)) ps) (ds @ f d # rest)"
      by (simp add: counts_match_mset [of "f d # ds @ rest" "ds @ f d # rest"])
    with Cons.IH [of "trg (Update d (f d)) ps" "f d # rest"] Cons.prems(2)
    have "counts_match get owns (fold (\<lambda>c. trg (Update c (f c))) (d # ds) ps)
        (map f ds @ f d # rest)"
      by simp
    then show ?case
      by (simp add: counts_match_mset [of "map f ds @ f d # rest" "f d # map f ds @ rest"])
  qed simp
  have "mset cs = mset (filter P cs @ filter (\<lambda>c. \<not> P c) cs)"
    by simp
  then have "counts_match get owns ps (filter P cs @ filter (\<lambda>c. \<not> P c) cs)"
    using assms(1) counts_match_mset by blast
  then have "counts_match get owns (fire_updates trg P f cs ps)
      (map f (filter P cs) @ filter (\<lambda>c. \<not> P c) cs)"
    by (simp add: fire_updates_def fold)
  moreover have "mset (map f (filter P cs) @ filter (\<lambda>c. \<not> P c) cs) = mset (update_where P f cs)"
    by (induction cs) auto
  ultimately show ?thesis using counts_match_mset by blast
qed

end

text \<open>
  Each counter column of each trigger satisfies the contract. The frame lemma
  \<open>counts_match_frame\<close> discharges the counters of the same parent that the trigger leaves alone.
\<close>

lemma update_counter_keys [simp]:
  "map p_id (update_where P (p_likes_update f) ps) = map p_id ps"
  "map p_id (update_where P (p_dis_likes_update f) ps) = map p_id ps"
  "map p_id (update_where P (p_comments_cnt_update f) ps) = map p_id ps"
  "map p_id (update_where P (p_views_update f) ps) = map p_id ps"
  "map c_id (update_where Q (c_likes_update f) cs) = map c_id cs"
  "map u_id (update_where R (u_followers_cnt_update f) us) = map u_id us"
  "map u_id (update_where R (u_following_cnt_update f) us) = map u_id us"
  "map m_id (update_where S (m_reaction_cnt_update f) ms) = map m_id ms"
  "map s_id (update_where T (s_reaction_cnt_update f) ss) = map s_id ss"
  by (simp_all add: map_update_where)

lemma vote_trigger_likes:
  "counts_match p_likes like_of ps cs \<Longrightarrow>
   counts_match p_likes like_of (trg_sync_post_vote_counts (Insert v) ps) (cs @ [v])"
  "counts_match p_likes like_of ps (v # cs) \<Longrightarrow>
   counts_match p_likes like_of (trg_sync_post_vote_counts (Delete v) ps) cs"
  by (auto simp: counts_match_frame counts_match_skip counts_match_skip_Cons like_of_def
      intro!: likes.insert_row likes.delete_row)

lemma vote_trigger_dis_likes:
  "counts_match p_dis_likes dislike_of ps cs \<Longrightarrow>
   counts_match p_dis_likes dislike_of (trg_sync_post_vote_counts (Insert v) ps) (cs @ [v])"
  "counts_match p_dis_likes dislike_of ps (v # cs) \<Longrightarrow>
   counts_match p_dis_likes dislike_of (trg_sync_post_vote_counts (Delete v) ps) cs"
  by (auto simp: counts_match_frame counts_match_skip counts_match_skip_Cons dislike_of_def
      intro!: dis_likes.insert_row dis_likes.delete_row)

lemma vote_trigger_update:
  "v_action old \<noteq> v_action new \<Longrightarrow>
   trg_sync_post_vote_counts (Update old new) ps =
   trg_sync_post_vote_counts (Insert new) (trg_sync_post_vote_counts (Delete old) ps)"
  by (simp add: Let_def)

lemma comment_vote_trigger_update:
  "cv_like old \<noteq> cv_like new \<Longrightarrow>
   trg_sync_comment_vote_counts (Update old new) cs =
   trg_sync_comment_vote_counts (Insert new) (trg_sync_comment_vote_counts (Delete old) cs)"
  by (simp add: Let_def)

lemma counts_match_same_owner:
  "(\<And>p. owns p c = owns p c') \<Longrightarrow>
   counts_match get owns ps (c # cs) = counts_match get owns ps (c' # cs)"
  by (simp add: counts_match_def)

lemma counts_match_reown:
  "counts_match get owns ps (c # cs) \<Longrightarrow> (\<And>p. owns p c = owns p c') \<Longrightarrow>
   counts_match get owns ps (c' # cs)"
  using counts_match_same_owner by metis

lemma counts_match_rotate:
  "counts_match get owns ps (cs @ [c]) = counts_match get owns ps (c # cs)"
  by (rule counts_match_mset) simp

interpretation vote_likes: synced trg_sync_post_vote_counts p_likes like_of p_id
  "\<lambda>old new. v_post_id old = v_post_id new"
proof unfold_locales
  fix ps :: "post list" and cs and c c' :: vote
  assume *: "counts_match p_likes like_of ps (c # cs)" "v_post_id c = v_post_id c'"
  show "counts_match p_likes like_of (trg_sync_post_vote_counts (Update c c') ps) (c' # cs)"
  proof (cases "v_action c = v_action c'")
    case True
    with * have "like_of p c = like_of p c'" for p by (simp add: like_of_def)
    with True * counts_match_same_owner [of like_of c c'] show ?thesis by simp
  next
    case False
    show ?thesis
      using vote_trigger_likes(1) [OF vote_trigger_likes(2) [OF *(1)], of c']
      by (simp only: vote_trigger_update [OF False] counts_match_rotate)
  qed
next
  fix e :: "vote trig" and ps :: "post list"
  show "map p_id (trg_sync_post_vote_counts e ps) = map p_id ps"
    by (cases e) (simp_all add: Let_def)
qed (fact vote_trigger_likes)+

interpretation vote_dis_likes: synced trg_sync_post_vote_counts p_dis_likes dislike_of p_id
  "\<lambda>old new. v_post_id old = v_post_id new"
proof unfold_locales
  fix ps :: "post list" and cs and c c' :: vote
  assume *: "counts_match p_dis_likes dislike_of ps (c # cs)" "v_post_id c = v_post_id c'"
  show "counts_match p_dis_likes dislike_of (trg_sync_post_vote_counts (Update c c') ps) (c' # cs)"
  proof (cases "v_action c = v_action c'")
    case True
    with * have "dislike_of p c = dislike_of p c'" for p by (simp add: dislike_of_def)
    with True * counts_match_same_owner [of dislike_of c c'] show ?thesis by simp
  next
    case False
    show ?thesis
      using vote_trigger_dis_likes(1) [OF vote_trigger_dis_likes(2) [OF *(1)], of c']
      by (simp only: vote_trigger_update [OF False] counts_match_rotate)
  qed
qed (fact vote_trigger_dis_likes vote_likes.keys)+

lemma comment_vote_trigger:
  "counts_match c_likes comment_like_of ps cs \<Longrightarrow>
   counts_match c_likes comment_like_of (trg_sync_comment_vote_counts (Insert v) ps) (cs @ [v])"
  "counts_match c_likes comment_like_of ps (v # cs) \<Longrightarrow>
   counts_match c_likes comment_like_of (trg_sync_comment_vote_counts (Delete v) ps) cs"
  by (auto simp: counts_match_skip counts_match_skip_Cons comment_like_of_def
      intro!: comment_likes.insert_row comment_likes.delete_row)

interpretation comment_vote_likes: synced trg_sync_comment_vote_counts c_likes comment_like_of c_id
  "\<lambda>old new. cv_comment_id old = cv_comment_id new"
proof unfold_locales
  fix ps :: "comment list" and cs and c c' :: comment_vote
  assume *: "counts_match c_likes comment_like_of ps (c # cs)" "cv_comment_id c = cv_comment_id c'"
  show "counts_match c_likes comment_like_of (trg_sync_comment_vote_counts (Update c c') ps) (c' # cs)"
  proof (cases "cv_like c = cv_like c'")
    case True
    with * have "comment_like_of p c = comment_like_of p c'" for p by (simp add: comment_like_of_def)
    with True * counts_match_same_owner [of comment_like_of c c'] show ?thesis by simp
  next
    case False
    show ?thesis
      using comment_vote_trigger(1) [OF comment_vote_trigger(2) [OF *(1)], of c']
      by (simp only: comment_vote_trigger_update [OF False] counts_match_rotate)
  qed
next
  fix e :: "comment_vote trig" and ps :: "comment list"
  show "map c_id (trg_sync_comment_vote_counts e ps) = map c_id ps"
    by (cases e) (simp_all add: Let_def)
qed (fact comment_vote_trigger)+

interpretation post_comments: synced trg_sync_post_comment_counts p_comments_cnt comment_on p_id
  "\<lambda>old new. c_post_id old = c_post_id new"
proof (unfold_locales, goal_cases)
  case (1 ps cs c)
  then show ?case by (auto simp: comment_on_def intro!: comments_cnt.insert_row)
next
  case (2 ps c cs)
  then show ?case by (auto simp: comment_on_def intro!: comments_cnt.delete_row)
next
  case (3 ps c cs c')
  then show ?case by (auto simp: comment_on_def intro: counts_match_reown)
next
  case (4 e ps)
  show ?case by (cases e) simp_all
qed

interpretation post_view_counts: synced trg_sync_post_view_counts p_views view_of p_id
  "\<lambda>old new. pv_post_id old = pv_post_id new"
proof (unfold_locales, goal_cases)
  case (1 ps cs c)
  then show ?case by (auto simp: view_of_def intro!: views.insert_row)
next
  case (2 ps c cs)
  then show ?case by (auto simp: view_of_def intro!: views.delete_row)
next
  case (3 ps c cs c')
  then show ?case by (auto simp: view_of_def intro: counts_match_reown)
next
  case (4 e ps)
  show ?case by (cases e) simp_all
qed

interpretation message_reaction_counts: synced trg_sync_message_reaction_counts m_reaction_cnt reaction_on m_id
  "\<lambda>old new. r_message_id old = r_message_id new"
proof (unfold_locales, goal_cases)
  case (1 ps cs c)
  then show ?case by (auto simp: reaction_on_def intro!: reaction_cnt.insert_row)
next
  case (2 ps c cs)
  then show ?case by (auto simp: reaction_on_def intro!: reaction_cnt.delete_row)
next
  case (3 ps c cs c')
  then show ?case by (auto simp: reaction_on_def intro: counts_match_reown)
next
  case (4 e ps)
  show ?case by (cases e) simp_all
qed

interpretation share_reaction_counts: synced trg_sync_shared_post_reaction_counts s_reaction_cnt share_reaction_on s_id
  "\<lambda>old new. sr_shared_post_id old = sr_shared_post_id new"
proof (unfold_locales, goal_cases)
  case (1 ps cs c)
  then show ?case by (auto simp: share_reaction_on_def intro!: share_reaction_cnt.insert_row)
next
  case (2 ps c cs)
  then show ?case by (auto simp: share_reaction_on_def intro!: share_reaction_cnt.delete_row)
next
  case (3 ps c cs c')
  then show ?case by (auto simp: share_reaction_on_def intro: counts_match_reown)
next
  case (4 e ps)
  show ?case by (cases e) simp_all
qed

interpretation connection_following: synced trg_sync_connection_counts u_following_cnt following_of
  u_id "\<lambda>old new. old = new"
proof (unfold_locales, goal_cases)
  case (1 us ks k)
  then show ?case by (auto simp: following_of_def counts_match_frame intro!: following_cnt.insert_row)
next
  case (2 us k ks)
  then show ?case by (auto simp: following_of_def counts_match_frame intro!: following_cnt.delete_row)
next
  case (3 us k ks k')
  then show ?case by simp
next
  case (4 e us)
  show ?case by (cases e) simp_all
qed

interpretation connection_followers: synced trg_sync_connection_counts u_followers_cnt follower_of
  u_id "\<lambda>old new. old = new"
proof (unfold_locales, goal_cases)
  case (1 us ks k)
  then show ?case by (auto simp: follower_of_def counts_match_frame intro!: followers_cnt.insert_row)
next
  case (2 us k ks)
  then show ?case by (auto simp: follower_of_def counts_match_frame intro!: followers_cnt.delete_row)
next
  case (3 us k ks k')
  then show ?case by simp
next
  case (4 e us)
  show ?case by (cases e) simp_all
qed

text \<open>From here on the triggers are used through their contracts only.\<close>

lemmas trigger_simps = trg_sync_post_vote_counts.simps trg_sync_comment_vote_counts.simps
  trg_sync_post_comment_counts.simps trg_sync_post_view_counts.simps
  trg_sync_connection_counts.simps trg_sync_message_reaction_counts.simps
  trg_sync_shared_post_reaction_counts.simps

declare trigger_simps [simp del]

end
