(* ===== verification/Tables.thy ===== *)
theory Tables
  imports Counters
begin

text \<open>
  SQL statements on the whole database: INSERTs that check the constraints of \<open>app/models.py\<close>
  (\<open>None\<close> is \<open>IntegrityError\<close>), DELETEs with the \<open>ON DELETE CASCADE\<close> of the foreign keys, UPDATEs;
  each fires the row triggers of \<open>Counters\<close>. \<open>db_ok\<close> is the invariant of the database: primary
  keys, unique constraints, foreign keys and exact counters; every statement keeps it.
\<close>

section \<open>Constraints\<close>

definition lower :: "string \<Rightarrow> string" where
  "lower = map (\<lambda>c. if 65 \<le> (of_char c :: nat) \<and> (of_char c :: nat) \<le> 90
                     then char_of ((of_char c :: nat) + 32) else c)"

definition email_clash :: "user \<Rightarrow> user \<Rightarrow> bool" where
  "email_clash u v = (case (u_email u, u_email v) of
      (Some a, Some b) \<Rightarrow> lower a = lower b | _ \<Rightarrow> False)"

definition vote_key :: "vote \<Rightarrow> int \<times> int" where
  "vote_key v = (v_post_id v, v_user_id v)"

definition comment_vote_key :: "comment_vote \<Rightarrow> int \<times> int" where
  "comment_vote_key v = (cv_comment_id v, cv_user_id v)"

definition connection_key :: "connection \<Rightarrow> int \<times> int" where
  "connection_key k = (k_followed_id k, k_follower_id k)"

definition saved_key :: "saved_post \<Rightarrow> int \<times> int" where
  "saved_key s = (sv_user_id s, sv_post_id s)"

definition view_key :: "post_view \<Rightarrow> int \<times> int" where
  "view_key w = (pv_post_id w, pv_user_id w)"

definition reaction_key :: "message_reaction \<Rightarrow> int \<times> int" where
  "reaction_key r = (r_message_id r, r_user_id r)"

definition share_reaction_key :: "shared_post_reaction \<Rightarrow> int \<times> int" where
  "share_reaction_key r = (sr_shared_post_id r, sr_user_id r)"

definition deleted_message_key :: "deleted_message \<Rightarrow> int \<times> int" where
  "deleted_message_key r = (dm_user_id r, dm_message_id r)"

definition deleted_share_key :: "deleted_shared_post \<Rightarrow> int \<times> int" where
  "deleted_share_key r = (dsp_user_id r, dsp_shared_post_id r)"

lemmas key_defs = vote_key_def comment_vote_key_def connection_key_def saved_key_def view_key_def
  reaction_key_def share_reaction_key_def deleted_message_key_def deleted_share_key_def

definition media_type_ok :: "string option \<Rightarrow> bool" where
  "media_type_ok t \<longleftrightarrow> t \<in> {None, Some ''false'', Some ''image'', Some ''video'', Some ''audio''}"

text \<open>The invariant, table by table.\<close>

definition wf_users :: "database \<Rightarrow> bool" where
  "wf_users d \<longleftrightarrow> ids_ok (users_seq d) (map u_id (users d)) \<and> distinct (map u_username (users d))"

definition wf_posts :: "database \<Rightarrow> bool" where
  "wf_posts d \<longleftrightarrow> ids_ok (posts_seq d) (map p_id (posts d)) \<and>
     fk (map p_user_id (posts d)) (map u_id (users d))"

definition wf_comments :: "database \<Rightarrow> bool" where
  "wf_comments d \<longleftrightarrow> ids_ok (comments_seq d) (map c_id (comments d)) \<and>
     fk (map c_post_id (comments d)) (map p_id (posts d)) \<and>
     fk (map c_user_id (comments d)) (map u_id (users d))"

definition wf_votes :: "database \<Rightarrow> bool" where
  "wf_votes d \<longleftrightarrow> distinct (map vote_key (votes d)) \<and>
     fk (map v_post_id (votes d)) (map p_id (posts d)) \<and>
     fk (map v_user_id (votes d)) (map u_id (users d))"

definition wf_comment_votes :: "database \<Rightarrow> bool" where
  "wf_comment_votes d \<longleftrightarrow> distinct (map comment_vote_key (comment_votes d)) \<and>
     fk (map cv_comment_id (comment_votes d)) (map c_id (comments d)) \<and>
     fk (map cv_user_id (comment_votes d)) (map u_id (users d))"

definition wf_connections :: "database \<Rightarrow> bool" where
  "wf_connections d \<longleftrightarrow> distinct (map connection_key (connections d)) \<and>
     fk (map k_followed_id (connections d)) (map u_id (users d)) \<and>
     fk (map k_follower_id (connections d)) (map u_id (users d)) \<and>
     list_all (\<lambda>k. k_followed_id k \<noteq> k_follower_id k) (connections d)"

definition wf_saved :: "database \<Rightarrow> bool" where
  "wf_saved d \<longleftrightarrow> distinct (map saved_key (saved_posts d)) \<and>
     ids_ok (saved_posts_seq d) (map sv_id (saved_posts d)) \<and>
     fk (map sv_post_id (saved_posts d)) (map p_id (posts d)) \<and>
     fk (map sv_user_id (saved_posts d)) (map u_id (users d))"

definition wf_views :: "database \<Rightarrow> bool" where
  "wf_views d \<longleftrightarrow> distinct (map view_key (post_views d)) \<and>
     fk (map pv_post_id (post_views d)) (map p_id (posts d)) \<and>
     fk (map pv_user_id (post_views d)) (map u_id (users d))"

definition wf_messages :: "database \<Rightarrow> bool" where
  "wf_messages d \<longleftrightarrow> ids_ok (messages_seq d) (map m_id (messages d)) \<and>
     fk (map m_sender_id (messages d)) (map u_id (users d)) \<and>
     fk (map m_receiver_id (messages d)) (map u_id (users d))"

definition wf_reactions :: "database \<Rightarrow> bool" where
  "wf_reactions d \<longleftrightarrow> distinct (map reaction_key (message_reactions d)) \<and>
     fk (map r_message_id (message_reactions d)) (map m_id (messages d)) \<and>
     fk (map r_user_id (message_reactions d)) (map u_id (users d))"

definition wf_shares :: "database \<Rightarrow> bool" where
  "wf_shares d \<longleftrightarrow> ids_ok (shared_posts_seq d) (map s_id (shared_posts d)) \<and>
     fk (map s_post_id (shared_posts d)) (map p_id (posts d)) \<and>
     fk (map s_from_user_id (shared_posts d)) (map u_id (users d)) \<and>
     fk (map s_to_user_id (shared_posts d)) (map u_id (users d))"

definition wf_share_reactions :: "database \<Rightarrow> bool" where
  "wf_share_reactions d \<longleftrightarrow> distinct (map share_reaction_key (shared_post_reactions d)) \<and>
     fk (map sr_shared_post_id (shared_post_reactions d)) (map s_id (shared_posts d)) \<and>
     fk (map sr_user_id (shared_post_reactions d)) (map u_id (users d))"

definition wf_deleted :: "database \<Rightarrow> bool" where
  "wf_deleted d \<longleftrightarrow> distinct (map deleted_message_key (deleted_messages d)) \<and>
     distinct (map deleted_share_key (deleted_shared_posts d)) \<and>
     fk (map dm_message_id (deleted_messages d)) (map m_id (messages d)) \<and>
     fk (map dm_user_id (deleted_messages d)) (map u_id (users d)) \<and>
     fk (map dsp_shared_post_id (deleted_shared_posts d)) (map s_id (shared_posts d)) \<and>
     fk (map dsp_user_id (deleted_shared_posts d)) (map u_id (users d))"

definition wf_replies :: "database \<Rightarrow> bool" where
  "wf_replies d \<longleftrightarrow>
     fk (map mr_reply_id (message_replies d)) (map m_id (messages d)) \<and>
     fk (map mr_original_id (message_replies d)) (map m_id (messages d)) \<and>
     fk (map spr_reply_msg_id (shared_post_replies d)) (map m_id (messages d)) \<and>
     fk (map spr_shared_post_id (shared_post_replies d)) (map s_id (shared_posts d))"

definition wf_notifications :: "database \<Rightarrow> bool" where
  "wf_notifications d \<longleftrightarrow> ids_ok (notifications_seq d) (map n_id (notifications d)) \<and>
     fk (map n_owner_id (notifications d)) (map u_id (users d)) \<and>
     fk (map n_actor_id (notifications d)) (map u_id (users d))"

definition wf_credentials :: "database \<Rightarrow> bool" where
  "wf_credentials d \<longleftrightarrow> distinct (map o_email (otps d)) \<and>
     distinct (map t_token (refresh_tokens d)) \<and>
     fk (map t_user_id (refresh_tokens d)) (map u_id (users d))"

definition db_wf :: "database \<Rightarrow> bool" where
  "db_wf d \<longleftrightarrow> wf_users d \<and> wf_posts d \<and> wf_comments d \<and> wf_votes d \<and> wf_comment_votes d \<and>
     wf_connections d \<and> wf_saved d \<and> wf_views d \<and> wf_messages d \<and> wf_reactions d \<and>
     wf_shares d \<and> wf_share_reactions d \<and> wf_deleted d \<and> wf_replies d \<and> wf_notifications d \<and>
     wf_credentials d"

lemmas wf_defs = wf_users_def wf_posts_def wf_comments_def wf_votes_def wf_comment_votes_def
  wf_connections_def wf_saved_def wf_views_def wf_messages_def wf_reactions_def wf_shares_def
  wf_share_reactions_def wf_deleted_def wf_replies_def wf_notifications_def wf_credentials_def

text \<open>
  Every counter is exact, except \<open>posts.views\<close>: the view-flush task adds to it without adding
  rows to \<open>post_views\<close> (theory \<open>Tasks\<close>).
\<close>

definition counters_ok :: "database \<Rightarrow> bool" where
  "counters_ok d \<longleftrightarrow>
     counts_match p_likes like_of (posts d) (votes d) \<and>
     counts_match p_dis_likes dislike_of (posts d) (votes d) \<and>
     counts_match p_comments_cnt comment_on (posts d) (comments d) \<and>
     counts_match c_likes comment_like_of (comments d) (comment_votes d) \<and>
     counts_match u_following_cnt following_of (users d) (connections d) \<and>
     counts_match u_followers_cnt follower_of (users d) (connections d) \<and>
     counts_match m_reaction_cnt reaction_on (messages d) (message_reactions d) \<and>
     counts_match s_reaction_cnt share_reaction_on (shared_posts d) (shared_post_reactions d)"

definition db_ok :: "database \<Rightarrow> bool" where
  "db_ok d \<longleftrightarrow> db_wf d \<and> counters_ok d"

lemma db_ok_empty: "db_ok empty_db"
  by (simp add: db_ok_def db_wf_def wf_defs counters_ok_def empty_db_def)

section \<open>Statements\<close>

text \<open>The migrated column \<open>nickname\<close> is NOT NULL, although the model declares it nullable.\<close>

definition insert_user :: "user \<Rightarrow> database \<Rightarrow> database option" where
  "insert_user u d =
     (if u_nickname u = None \<or> (\<exists>v\<in>set (users d). u_username v = u_username u \<or> email_clash u v) then None
      else Some (d\<lparr>users := users d @ [u\<lparr>u_id := users_seq d\<rparr>], users_seq := users_seq d + 1\<rparr>))"

definition insert_post :: "post \<Rightarrow> database \<Rightarrow> database option" where
  "insert_post p d =
     (if p_user_id p \<notin> set (map u_id (users d)) \<or>
         p_media_type p \<notin> {None, Some ''image'', Some ''video''} then None
      else Some (d\<lparr>posts := posts d @ [p\<lparr>p_id := posts_seq d\<rparr>], posts_seq := posts_seq d + 1\<rparr>))"

definition insert_vote :: "vote \<Rightarrow> database \<Rightarrow> database option" where
  "insert_vote v d =
     (if vote_key v \<in> set (map vote_key (votes d)) \<or>
         v_post_id v \<notin> set (map p_id (posts d)) \<or> v_user_id v \<notin> set (map u_id (users d)) then None
      else Some (d\<lparr>votes := votes d @ [v],
                   posts := trg_sync_post_vote_counts (Insert v) (posts d)\<rparr>))"

definition delete_votes :: "(vote \<Rightarrow> bool) \<Rightarrow> database \<Rightarrow> database" where
  "delete_votes P d = d\<lparr>votes := delete_where P (votes d),
     posts := fire_deletes trg_sync_post_vote_counts P (votes d) (posts d)\<rparr>"

definition update_votes :: "(vote \<Rightarrow> bool) \<Rightarrow> bool \<Rightarrow> database \<Rightarrow> database" where
  "update_votes P a d = d\<lparr>votes := update_where P (v_action_update (\<lambda>_. a)) (votes d),
     posts := fire_updates trg_sync_post_vote_counts P (v_action_update (\<lambda>_. a)) (votes d) (posts d)\<rparr>"

definition insert_comment_vote :: "comment_vote \<Rightarrow> database \<Rightarrow> database option" where
  "insert_comment_vote v d =
     (if comment_vote_key v \<in> set (map comment_vote_key (comment_votes d)) \<or>
         cv_comment_id v \<notin> set (map c_id (comments d)) \<or>
         cv_user_id v \<notin> set (map u_id (users d)) then None
      else Some (d\<lparr>comment_votes := comment_votes d @ [v],
                   comments := trg_sync_comment_vote_counts (Insert v) (comments d)\<rparr>))"

definition delete_comment_votes :: "(comment_vote \<Rightarrow> bool) \<Rightarrow> database \<Rightarrow> database" where
  "delete_comment_votes P d = d\<lparr>comment_votes := delete_where P (comment_votes d),
     comments := fire_deletes trg_sync_comment_vote_counts P (comment_votes d) (comments d)\<rparr>"

definition update_comment_votes :: "(comment_vote \<Rightarrow> bool) \<Rightarrow> bool \<Rightarrow> database \<Rightarrow> database" where
  "update_comment_votes P a d =
     d\<lparr>comment_votes := update_where P (cv_like_update (\<lambda>_. a)) (comment_votes d),
       comments := fire_updates trg_sync_comment_vote_counts P (cv_like_update (\<lambda>_. a))
         (comment_votes d) (comments d)\<rparr>"

definition insert_comment :: "comment \<Rightarrow> database \<Rightarrow> database option" where
  "insert_comment c d =
     (if c_post_id c \<notin> set (map p_id (posts d)) \<or> c_user_id c \<notin> set (map u_id (users d)) then None
      else let c' = c\<lparr>c_id := comments_seq d\<rparr>
        in Some (d\<lparr>comments := comments d @ [c'], comments_seq := comments_seq d + 1,
                   posts := trg_sync_post_comment_counts (Insert c') (posts d)\<rparr>))"

text \<open>\<open>comment_votes\<close> refers to \<open>comments\<close> with \<open>ON DELETE CASCADE\<close>.\<close>

definition delete_comments :: "(comment \<Rightarrow> bool) \<Rightarrow> database \<Rightarrow> database" where
  "delete_comments P d =
     (let gone = set (map c_id (filter P (comments d)))
      in delete_comment_votes (\<lambda>v. cv_comment_id v \<in> gone)
           (d\<lparr>comments := delete_where P (comments d),
              posts := fire_deletes trg_sync_post_comment_counts P (comments d) (posts d)\<rparr>))"

definition update_comments :: "(comment \<Rightarrow> bool) \<Rightarrow> string \<Rightarrow> database \<Rightarrow> database" where
  "update_comments P t d =
     d\<lparr>comments := update_where P (c_comment_content_update (\<lambda>_. t)) (comments d)\<rparr>"

definition insert_connection :: "connection \<Rightarrow> database \<Rightarrow> database option" where
  "insert_connection k d =
     (if connection_key k \<in> set (map connection_key (connections d)) \<or>
         k_followed_id k = k_follower_id k \<or>
         k_followed_id k \<notin> set (map u_id (users d)) \<or> k_follower_id k \<notin> set (map u_id (users d))
      then None
      else Some (d\<lparr>connections := connections d @ [k],
                   users := trg_sync_connection_counts (Insert k) (users d)\<rparr>))"

definition delete_connections :: "(connection \<Rightarrow> bool) \<Rightarrow> database \<Rightarrow> database" where
  "delete_connections P d = d\<lparr>connections := delete_where P (connections d),
     users := fire_deletes trg_sync_connection_counts P (connections d) (users d)\<rparr>"

definition insert_saved :: "saved_post \<Rightarrow> database \<Rightarrow> database option" where
  "insert_saved s d =
     (if saved_key s \<in> set (map saved_key (saved_posts d)) \<or>
         sv_post_id s \<notin> set (map p_id (posts d)) \<or> sv_user_id s \<notin> set (map u_id (users d)) then None
      else Some (d\<lparr>saved_posts := saved_posts d @ [s\<lparr>sv_id := saved_posts_seq d\<rparr>],
                   saved_posts_seq := saved_posts_seq d + 1\<rparr>))"

definition delete_saved :: "(saved_post \<Rightarrow> bool) \<Rightarrow> database \<Rightarrow> database" where
  "delete_saved P d = d\<lparr>saved_posts := delete_where P (saved_posts d)\<rparr>"

definition delete_views :: "(post_view \<Rightarrow> bool) \<Rightarrow> database \<Rightarrow> database" where
  "delete_views P d = d\<lparr>post_views := delete_where P (post_views d),
     posts := fire_deletes trg_sync_post_view_counts P (post_views d) (posts d)\<rparr>"

definition insert_message :: "message \<Rightarrow> database \<Rightarrow> database option" where
  "insert_message m d =
     (if m_sender_id m \<notin> set (map u_id (users d)) \<or> m_receiver_id m \<notin> set (map u_id (users d)) \<or>
         \<not> media_type_ok (m_media_type m) then None
      else Some (d\<lparr>messages := messages d @ [m\<lparr>m_id := messages_seq d\<rparr>],
                   messages_seq := messages_seq d + 1\<rparr>))"

definition update_messages :: "(message \<Rightarrow> bool) \<Rightarrow> (message \<Rightarrow> message) \<Rightarrow> database \<Rightarrow> database" where
  "update_messages P f d = d\<lparr>messages := update_where P f (messages d)\<rparr>"

definition insert_reaction :: "message_reaction \<Rightarrow> database \<Rightarrow> database option" where
  "insert_reaction r d =
     (if reaction_key r \<in> set (map reaction_key (message_reactions d)) \<or>
         r_message_id r \<notin> set (map m_id (messages d)) \<or> r_user_id r \<notin> set (map u_id (users d))
      then None
      else Some (d\<lparr>message_reactions := message_reactions d @ [r],
                   messages := trg_sync_message_reaction_counts (Insert r) (messages d)\<rparr>))"

definition delete_reactions :: "(message_reaction \<Rightarrow> bool) \<Rightarrow> database \<Rightarrow> database" where
  "delete_reactions P d = d\<lparr>message_reactions := delete_where P (message_reactions d),
     messages := fire_deletes trg_sync_message_reaction_counts P (message_reactions d) (messages d)\<rparr>"

definition update_reactions :: "(message_reaction \<Rightarrow> bool) \<Rightarrow> string \<Rightarrow> database \<Rightarrow> database" where
  "update_reactions P e d =
     d\<lparr>message_reactions := update_where P (r_reaction_update (\<lambda>_. e)) (message_reactions d)\<rparr>"

definition insert_shared_post :: "shared_post \<Rightarrow> database \<Rightarrow> database option" where
  "insert_shared_post s d =
     (if s_post_id s \<notin> set (map p_id (posts d)) \<or> s_from_user_id s \<notin> set (map u_id (users d)) \<or>
         s_to_user_id s \<notin> set (map u_id (users d)) then None
      else Some (d\<lparr>shared_posts := shared_posts d @ [s\<lparr>s_id := shared_posts_seq d\<rparr>],
                   shared_posts_seq := shared_posts_seq d + 1\<rparr>))"

definition update_shared_posts ::
    "(shared_post \<Rightarrow> bool) \<Rightarrow> (shared_post \<Rightarrow> shared_post) \<Rightarrow> database \<Rightarrow> database" where
  "update_shared_posts P f d = d\<lparr>shared_posts := update_where P f (shared_posts d)\<rparr>"

definition insert_share_reaction :: "shared_post_reaction \<Rightarrow> database \<Rightarrow> database option" where
  "insert_share_reaction r d =
     (if share_reaction_key r \<in> set (map share_reaction_key (shared_post_reactions d)) \<or>
         sr_shared_post_id r \<notin> set (map s_id (shared_posts d)) \<or>
         sr_user_id r \<notin> set (map u_id (users d))
      then None
      else Some (d\<lparr>shared_post_reactions := shared_post_reactions d @ [r],
                   shared_posts := trg_sync_shared_post_reaction_counts (Insert r) (shared_posts d)\<rparr>))"

definition delete_share_reactions :: "(shared_post_reaction \<Rightarrow> bool) \<Rightarrow> database \<Rightarrow> database" where
  "delete_share_reactions P d = d\<lparr>shared_post_reactions := delete_where P (shared_post_reactions d),
     shared_posts := fire_deletes trg_sync_shared_post_reaction_counts P
       (shared_post_reactions d) (shared_posts d)\<rparr>"

definition update_share_reactions :: "(shared_post_reaction \<Rightarrow> bool) \<Rightarrow> string \<Rightarrow> database \<Rightarrow> database" where
  "update_share_reactions P e d = d\<lparr>shared_post_reactions :=
     update_where P (sr_reaction_update (\<lambda>_. e)) (shared_post_reactions d)\<rparr>"

text \<open>
  \<open>DELETE FROM posts\<close>: votes, comments (and their votes), bookmarks and views go with the post.
  Shares also refer to the post with \<open>ON DELETE CASCADE\<close>, but the ORM relationship
  \<open>Post.shared_posts\<close> has neither a delete cascade nor \<open>passive_deletes\<close>, so \<open>session.delete(post)\<close>
  first sets \<open>shared_posts.post_id\<close> to NULL, which the column's \<open>nullable=False\<close> rejects.
\<close>

definition delete_posts :: "(post \<Rightarrow> bool) \<Rightarrow> database \<Rightarrow> database option" where
  "delete_posts P d =
     (let gone = set (map p_id (filter P (posts d)))
      in if (\<exists>s\<in>set (shared_posts d). s_post_id s \<in> gone) then None
         else Some (delete_views (\<lambda>w. pv_post_id w \<in> gone)
                (delete_saved (\<lambda>s. sv_post_id s \<in> gone)
                  (delete_comments (\<lambda>c. c_post_id c \<in> gone)
                    (delete_votes (\<lambda>v. v_post_id v \<in> gone)
                      (d\<lparr>posts := delete_where P (posts d)\<rparr>))))))"

lemmas statement_defs = insert_user_def insert_post_def insert_vote_def delete_votes_def
  update_votes_def insert_comment_vote_def delete_comment_votes_def update_comment_votes_def
  insert_comment_def delete_comments_def update_comments_def insert_connection_def
  delete_connections_def insert_saved_def delete_saved_def delete_views_def insert_message_def
  update_messages_def insert_reaction_def delete_reactions_def update_reactions_def
  insert_shared_post_def update_shared_posts_def insert_share_reaction_def
  delete_share_reactions_def update_share_reactions_def delete_posts_def

end
