(* ===== verification/Table_Invariants.thy ===== *)
theory Table_Invariants
  imports Tables
begin

text \<open>Every SQL statement of \<open>Tables\<close> keeps \<open>db_ok\<close>: keys, references and counters.\<close>

lemma db_okD:
  assumes "db_ok d"
  shows "db_wf d" "counters_ok d"
  using assms by (simp_all add: db_ok_def)

lemmas db_defs = db_ok_def db_wf_def wf_defs counters_ok_def

text \<open>UPDATEs of a column other than the key leave the key column unchanged.\<close>

lemma update_keys [simp]:
  "map vote_key (update_where P (v_action_update f) vs) = map vote_key vs"
  "map v_post_id (update_where P (v_action_update f) vs) = map v_post_id vs"
  "map v_user_id (update_where P (v_action_update f) vs) = map v_user_id vs"
  "map comment_vote_key (update_where Q (cv_like_update f) cvs) = map comment_vote_key cvs"
  "map cv_comment_id (update_where Q (cv_like_update f) cvs) = map cv_comment_id cvs"
  "map cv_user_id (update_where Q (cv_like_update f) cvs) = map cv_user_id cvs"
  by (simp_all add: map_update_where key_defs)

text \<open>The triggers leave every column but the counters alone.\<close>

lemma vote_trigger_owner [simp]:
  "map p_user_id (trg_sync_post_vote_counts e ps) = map p_user_id ps"
  by (cases e) (simp_all add: trigger_simps Let_def map_update_where)

lemma comment_trigger_owner [simp]:
  "map p_user_id (trg_sync_post_comment_counts e ps) = map p_user_id ps"
  by (cases e) (simp_all add: trigger_simps map_update_where)

lemma view_trigger_owner [simp]:
  "map p_user_id (trg_sync_post_view_counts e ps) = map p_user_id ps"
  by (cases e) (simp_all add: trigger_simps map_update_where)

lemma comment_vote_trigger_columns [simp]:
  "map c_post_id (trg_sync_comment_vote_counts e cs) = map c_post_id cs"
  "map c_user_id (trg_sync_comment_vote_counts e cs) = map c_user_id cs"
  by (cases e; simp add: trigger_simps Let_def map_update_where)+

lemma connection_trigger_columns [simp]:
  "map u_username (trg_sync_connection_counts e us) = map u_username us"
  by (cases e) (simp_all add: trigger_simps map_update_where)

lemma reaction_trigger_columns [simp]:
  "map m_sender_id (trg_sync_message_reaction_counts e ms) = map m_sender_id ms"
  "map m_receiver_id (trg_sync_message_reaction_counts e ms) = map m_receiver_id ms"
  by (cases e; simp add: trigger_simps map_update_where)+

lemma share_reaction_trigger_columns [simp]:
  "map s_post_id (trg_sync_shared_post_reaction_counts e ss) = map s_post_id ss"
  "map s_from_user_id (trg_sync_shared_post_reaction_counts e ss) = map s_from_user_id ss"
  "map s_to_user_id (trg_sync_shared_post_reaction_counts e ss) = map s_to_user_id ss"
  by (cases e; simp add: trigger_simps map_update_where)+

lemmas trigger_keys [simp] = vote_likes.keys comment_vote_likes.keys post_comments.keys
  post_view_counts.keys message_reaction_counts.keys share_reaction_counts.keys
  connection_following.keys

lemma fire_deletes_column:
  "(\<And>e ps. map key (trg e ps) = map key ps) \<Longrightarrow> map key (fire_deletes trg P cs ps) = map key ps"
proof -
  assume *: "\<And>e ps. map key (trg e ps) = map key ps"
  have "map key (fold (\<lambda>c. trg (Delete c)) ds ps) = map key ps" for ds
    by (induction ds arbitrary: ps) (auto simp: *)
  then show ?thesis by (simp add: fire_deletes_def)
qed

lemma fire_updates_column:
  "(\<And>e ps. map key (trg e ps) = map key ps) \<Longrightarrow> map key (fire_updates trg P f cs ps) = map key ps"
proof -
  assume *: "\<And>e ps. map key (trg e ps) = map key ps"
  have "map key (fold (\<lambda>c. trg (Update c (f c))) ds ps) = map key ps" for ds
    by (induction ds arbitrary: ps) (auto simp: *)
  then show ?thesis by (simp add: fire_updates_def)
qed

lemmas fire_columns [simp] = fire_deletes_column fire_updates_column

text \<open>A trigger on one child table leaves the counters of the other child tables alone.\<close>

lemma vote_trigger_comments_cnt [simp]:
  "counts_match p_comments_cnt comment_on (trg_sync_post_vote_counts e ps) cs =
   counts_match p_comments_cnt comment_on ps cs"
  by (cases e) (simp_all add: trigger_simps Let_def counts_match_frame comment_on_def)

lemma comment_trigger_likes [simp]:
  "counts_match p_likes like_of (trg_sync_post_comment_counts e ps) vs =
   counts_match p_likes like_of ps vs"
  "counts_match p_dis_likes dislike_of (trg_sync_post_comment_counts e ps) vs =
   counts_match p_dis_likes dislike_of ps vs"
  by (cases e; simp add: trigger_simps counts_match_frame like_of_def dislike_of_def)+

lemma view_trigger_counts [simp]:
  "counts_match p_likes like_of (trg_sync_post_view_counts e ps) vs =
   counts_match p_likes like_of ps vs"
  "counts_match p_dis_likes dislike_of (trg_sync_post_view_counts e ps) vs =
   counts_match p_dis_likes dislike_of ps vs"
  "counts_match p_comments_cnt comment_on (trg_sync_post_view_counts e ps) cs =
   counts_match p_comments_cnt comment_on ps cs"
  by (cases e; simp add: trigger_simps counts_match_frame like_of_def dislike_of_def comment_on_def)+

lemma fire_deletes_frame:
  "(\<And>e ps. counts_match get owns (trg e ps) xs = counts_match get owns ps xs) \<Longrightarrow>
   counts_match get owns (fire_deletes trg P cs ps) xs = counts_match get owns ps xs"
proof -
  assume *: "\<And>e ps. counts_match get owns (trg e ps) xs = counts_match get owns ps xs"
  have "counts_match get owns (fold (\<lambda>c. trg (Delete c)) ds ps) xs = counts_match get owns ps xs"
    for ds by (induction ds arbitrary: ps) (auto simp: *)
  then show ?thesis by (simp add: fire_deletes_def)
qed

lemma fire_updates_frame:
  "(\<And>e ps. counts_match get owns (trg e ps) xs = counts_match get owns ps xs) \<Longrightarrow>
   counts_match get owns (fire_updates trg P f cs ps) xs = counts_match get owns ps xs"
proof -
  assume *: "\<And>e ps. counts_match get owns (trg e ps) xs = counts_match get owns ps xs"
  have "counts_match get owns (fold (\<lambda>c. trg (Update c (f c))) ds ps) xs = counts_match get owns ps xs"
    for ds by (induction ds arbitrary: ps) (auto simp: *)
  then show ?thesis by (simp add: fire_updates_def)
qed

lemmas fire_frames [simp] = fire_deletes_frame fire_updates_frame

lemmas fire_counts = vote_likes.delete_statement vote_dis_likes.delete_statement
  comment_vote_likes.delete_statement post_comments.delete_statement
  post_view_counts.delete_statement message_reaction_counts.delete_statement
  share_reaction_counts.delete_statement connection_following.delete_statement
  connection_followers.delete_statement

text \<open>Comments are both children of posts and parents of votes.\<close>

lemma comments_cnt_columns:
  assumes "map c_post_id cs = map c_post_id cs'"
  shows "counts_match p_comments_cnt comment_on ps cs = counts_match p_comments_cnt comment_on ps cs'"
proof -
  have "cnt (comment_on p) xs = cnt (\<lambda>i. i = p_id p) (map c_post_id xs)" for p xs
    by (induction xs) (auto simp: comment_on_def)
  with assms show ?thesis by (simp add: counts_match_def)
qed

lemma comment_votes_keep_comments_cnt [simp]:
  "counts_match p_comments_cnt comment_on ps (trg_sync_comment_vote_counts e cs) =
   counts_match p_comments_cnt comment_on ps cs"
  "counts_match p_comments_cnt comment_on ps (fire_deletes trg_sync_comment_vote_counts P vs cs) =
   counts_match p_comments_cnt comment_on ps cs"
  "counts_match p_comments_cnt comment_on ps (fire_updates trg_sync_comment_vote_counts P f vs cs) =
   counts_match p_comments_cnt comment_on ps cs"
  by (rule comments_cnt_columns; simp)+

lemma insert_vote_ok: "db_ok d \<Longrightarrow> insert_vote v d = Some d' \<Longrightarrow> db_ok d'"
  by (clarsimp simp: insert_vote_def split: if_splits)
    (simp add: db_defs vote_likes.on_insert vote_dis_likes.on_insert)

lemma delete_votes_ok: "db_ok d \<Longrightarrow> db_ok (delete_votes P d)"
  by (simp add: db_defs delete_votes_def fire_counts)

lemma update_votes_ok: "db_ok d \<Longrightarrow> db_ok (update_votes P a d)"
  by (simp add: db_defs update_votes_def vote_likes.update_statement vote_dis_likes.update_statement)

text \<open>A new parent row starts with zero counters and, its key being fresh, owns no child.\<close>

lemma fresh_not_referenced:
  "ids_ok n keys \<Longrightarrow> fk (map f cs) keys \<Longrightarrow> c \<in> set cs \<Longrightarrow> f c \<noteq> n"
  using ids_ok_fresh [of n keys] by (auto simp: fk_def)

lemma cnt_fresh:
  assumes "ids_ok n keys" "fk (map f cs) keys" "\<And>c. owns p c \<Longrightarrow> f c = n"
  shows "cnt (owns p) cs = 0"
  using assms fresh_not_referenced [of n keys f cs] by (auto simp: cnt_zero_iff)

lemma insert_user_ok:
  assumes d: "db_ok d" and i: "insert_user u d = Some d'"
    and u: "u_followers_cnt u = 0" "u_following_cnt u = 0"
  shows "db_ok d'"
proof -
  have "cnt (following_of (u\<lparr>u_id := users_seq d\<rparr>)) (connections d) = 0"
    "cnt (follower_of (u\<lparr>u_id := users_seq d\<rparr>)) (connections d) = 0"
    using d cnt_fresh [of "users_seq d" "map u_id (users d)" k_follower_id "connections d"
          following_of "u\<lparr>u_id := users_seq d\<rparr>"]
      cnt_fresh [of "users_seq d" "map u_id (users d)" k_followed_id "connections d"
          follower_of "u\<lparr>u_id := users_seq d\<rparr>"]
    by (auto simp: db_defs owner_defs)
  moreover have "u_username u \<notin> u_username ` set (users d)"
    using i by (fastforce simp: insert_user_def split: if_splits)
  ultimately show ?thesis
    using assms by (clarsimp simp: insert_user_def split: if_splits) (simp add: db_defs)
qed

lemma insert_post_ok:
  assumes d: "db_ok d" and i: "insert_post p d = Some d'"
    and p: "p_likes p = 0" "p_dis_likes p = 0" "p_comments_cnt p = 0"
  shows "db_ok d'"
proof -
  let ?p = "p\<lparr>p_id := posts_seq d\<rparr>"
  have "cnt (like_of ?p) (votes d) = 0" "cnt (dislike_of ?p) (votes d) = 0"
    "cnt (comment_on ?p) (comments d) = 0"
    using d cnt_fresh [of "posts_seq d" "map p_id (posts d)" v_post_id "votes d" like_of ?p]
      cnt_fresh [of "posts_seq d" "map p_id (posts d)" v_post_id "votes d" dislike_of ?p]
      cnt_fresh [of "posts_seq d" "map p_id (posts d)" c_post_id "comments d" comment_on ?p]
    by (auto simp: db_defs owner_defs)
  with assms show ?thesis
    by (clarsimp simp: insert_post_def split: if_splits) (auto simp: db_defs)
qed

lemma insert_comment_ok:
  assumes d: "db_ok d" and i: "insert_comment c d = Some d'" and c: "c_likes c = 0"
  shows "db_ok d'"
proof -
  let ?c = "c\<lparr>c_id := comments_seq d\<rparr>"
  have "cnt (comment_like_of ?c) (comment_votes d) = 0"
    using d cnt_fresh [of "comments_seq d" "map c_id (comments d)" cv_comment_id "comment_votes d"
        comment_like_of ?c]
    by (auto simp: db_defs owner_defs)
  with assms show ?thesis
    by (clarsimp simp: insert_comment_def Let_def split: if_splits)
      (simp add: db_defs post_comments.on_insert)
qed

lemma insert_message_ok:
  assumes d: "db_ok d" and i: "insert_message m d = Some d'" and m: "m_reaction_cnt m = 0"
  shows "db_ok d'"
proof -
  let ?m = "m\<lparr>m_id := messages_seq d\<rparr>"
  have "cnt (reaction_on ?m) (message_reactions d) = 0"
    using d cnt_fresh [of "messages_seq d" "map m_id (messages d)" r_message_id
        "message_reactions d" reaction_on ?m]
    by (auto simp: db_defs owner_defs)
  with assms show ?thesis
    by (clarsimp simp: insert_message_def split: if_splits) (simp add: db_defs)
qed

lemma insert_shared_post_ok:
  assumes d: "db_ok d" and i: "insert_shared_post s d = Some d'" and s: "s_reaction_cnt s = 0"
  shows "db_ok d'"
proof -
  let ?s = "s\<lparr>s_id := shared_posts_seq d\<rparr>"
  have "cnt (share_reaction_on ?s) (shared_post_reactions d) = 0"
    using d cnt_fresh [of "shared_posts_seq d" "map s_id (shared_posts d)" sr_shared_post_id
        "shared_post_reactions d" share_reaction_on ?s]
    by (auto simp: db_defs owner_defs)
  with assms show ?thesis
    by (clarsimp simp: insert_shared_post_def split: if_splits) (simp add: db_defs)
qed

lemma insert_comment_vote_ok: "db_ok d \<Longrightarrow> insert_comment_vote x d = Some d' \<Longrightarrow> db_ok d'"
  by (clarsimp simp: insert_comment_vote_def Let_def split: if_splits)
    (simp add: db_defs comment_vote_likes.on_insert)

lemma insert_connection_ok: "db_ok d \<Longrightarrow> insert_connection x d = Some d' \<Longrightarrow> db_ok d'"
  by (clarsimp simp: insert_connection_def Let_def split: if_splits)
    (simp add: db_defs connection_following.on_insert connection_followers.on_insert)

lemma insert_saved_ok: "db_ok d \<Longrightarrow> insert_saved x d = Some d' \<Longrightarrow> db_ok d'"
  by (clarsimp simp: insert_saved_def Let_def split: if_splits)
    (simp add: db_defs saved_key_def)

lemma insert_reaction_ok: "db_ok d \<Longrightarrow> insert_reaction x d = Some d' \<Longrightarrow> db_ok d'"
  by (clarsimp simp: insert_reaction_def Let_def split: if_splits)
    (simp add: db_defs message_reaction_counts.on_insert)

lemma insert_share_reaction_ok: "db_ok d \<Longrightarrow> insert_share_reaction x d = Some d' \<Longrightarrow> db_ok d'"
  by (clarsimp simp: insert_share_reaction_def Let_def split: if_splits)
    (simp add: db_defs share_reaction_counts.on_insert)

lemma delete_comment_votes_ok: "db_ok d \<Longrightarrow> db_ok (delete_comment_votes P d)"
  by (simp add: db_defs delete_comment_votes_def fire_counts)

lemma update_comment_votes_ok: "db_ok d \<Longrightarrow> db_ok (update_comment_votes P a d)"
  by (simp add: db_defs update_comment_votes_def comment_vote_likes.update_statement)

lemma delete_connections_ok: "db_ok d \<Longrightarrow> db_ok (delete_connections P d)"
  by (simp add: db_defs delete_connections_def fire_counts list_all_iff)

lemma delete_saved_ok: "db_ok d \<Longrightarrow> db_ok (delete_saved P d)"
  by (simp add: db_defs delete_saved_def)

lemma delete_views_ok: "db_ok d \<Longrightarrow> db_ok (delete_views P d)"
  by (simp add: db_defs delete_views_def)

lemma delete_reactions_ok: "db_ok d \<Longrightarrow> db_ok (delete_reactions P d)"
  by (simp add: db_defs delete_reactions_def fire_counts)

lemma delete_share_reactions_ok: "db_ok d \<Longrightarrow> db_ok (delete_share_reactions P d)"
  by (simp add: db_defs delete_share_reactions_def fire_counts)

lemma update_reactions_ok: "db_ok d \<Longrightarrow> db_ok (update_reactions P e d)"
  by (simp add: db_defs update_reactions_def map_update_where reaction_key_def
      counts_match_frame_child reaction_on_def)

lemma update_share_reactions_ok: "db_ok d \<Longrightarrow> db_ok (update_share_reactions P e d)"
  by (simp add: db_defs update_share_reactions_def map_update_where share_reaction_key_def
      counts_match_frame_child share_reaction_on_def)

lemma update_comments_ok: "db_ok d \<Longrightarrow> db_ok (update_comments P t d)"
  by (simp add: db_defs update_comments_def map_update_where counts_match_frame
      counts_match_frame_child comment_on_def comment_like_of_def)

lemma update_messages_ok:
  assumes "db_ok d"
    and "\<And>m. m_id (f m) = m_id m" "\<And>m. m_sender_id (f m) = m_sender_id m"
    and "\<And>m. m_receiver_id (f m) = m_receiver_id m" "\<And>m. m_reaction_cnt (f m) = m_reaction_cnt m"
  shows "db_ok (update_messages P f d)"
  using assms
  by (simp add: db_defs update_messages_def map_update_where counts_match_frame reaction_on_def)

lemma update_shared_posts_ok:
  assumes "db_ok d"
    and "\<And>s. s_id (f s) = s_id s" "\<And>s. s_post_id (f s) = s_post_id s"
    and "\<And>s. s_from_user_id (f s) = s_from_user_id s" "\<And>s. s_to_user_id (f s) = s_to_user_id s"
    and "\<And>s. s_reaction_cnt (f s) = s_reaction_cnt s"
  shows "db_ok (update_shared_posts P f d)"
  using assms
  by (simp add: db_defs update_shared_posts_def map_update_where counts_match_frame
      share_reaction_on_def)

text \<open>
  Deletes that cascade. The counters follow from the statements they are composed of; the foreign
  keys hold because exactly the rows that referred to a deleted one are deleted with it.
\<close>

lemma fk_cascade:
  assumes "fk (map f cs) (map key ps)"
  shows "fk (map f (delete_where (\<lambda>c. f c \<in> set (map key (filter P ps))) cs))
           (map key (delete_where P ps))"
  using assms by (force simp: fk_def)

lemma delete_comments_ok: "db_ok d \<Longrightarrow> db_ok (delete_comments P d)"
  by (simp add: db_defs delete_comments_def delete_comment_votes_def Let_def fire_counts
      fk_cascade [where f = cv_comment_id and key = c_id, simplified] counts_match_delete_parent)

lemma fk_keep_parent:
  assumes "fk (map f cs) (map key ps)" "\<forall>c\<in>set cs. f c \<notin> set (map key (filter P ps))"
  shows "fk (map f cs) (map key (delete_where P ps))"
  using assms by (force simp: fk_def)

lemma delete_posts_ok: "db_ok d \<Longrightarrow> delete_posts P d = Some d' \<Longrightarrow> db_ok d'"
  by (clarsimp simp: delete_posts_def Let_def split: if_splits)
    (simp add: db_defs delete_views_def delete_saved_def delete_comments_def delete_votes_def
      delete_comment_votes_def Let_def fire_counts counts_match_delete_parent
      fk_keep_parent [where f = s_post_id and key = p_id, simplified]
      fk_cascade [where f = cv_comment_id and key = c_id, simplified]
      fk_cascade [where f = v_post_id and key = p_id, simplified]
      fk_cascade [where f = c_post_id and key = p_id, simplified]
      fk_cascade [where f = sv_post_id and key = p_id, simplified]
      fk_cascade [where f = pv_post_id and key = p_id, simplified])

text \<open>The CHECK constraints on the counters can never fail: exact counters are not negative.\<close>

lemma counters_nonneg:
  assumes "counters_ok d"
  shows "\<forall>p\<in>set (posts d). 0 \<le> p_likes p \<and> 0 \<le> p_dis_likes p \<and> 0 \<le> p_comments_cnt p"
    and "\<forall>c\<in>set (comments d). 0 \<le> c_likes c"
    and "\<forall>u\<in>set (users d). 0 \<le> u_following_cnt u \<and> 0 \<le> u_followers_cnt u"
    and "\<forall>m\<in>set (messages d). 0 \<le> m_reaction_cnt m"
    and "\<forall>s\<in>set (shared_posts d). 0 \<le> s_reaction_cnt s"
  using assms by (auto simp: counters_ok_def counts_match_def)

end
