(* ===== verification/Sockets.thy ===== *)
theory Sockets
  imports Json
begin

text \<open>
  \<open>ConnectionManager\<close> of \<open>app/utils/socket_manager.py\<close> (without its database methods, theory
  \<open>Presence\<close>): the registry of live WebSockets and the send methods. \<open>delivered\<close> logs the frames a
  socket accepted and \<open>closing\<close> the sockets for which a close was scheduled. \<open>is_online\<close> reads the
  undefined name \<open>ws\<close> and \<open>get_presence_payload\<close> the undefined name \<open>online\<close>, so both raise \<open>NameError\<close>.
\<close>

section \<open>State\<close>

record socket =
  ws_id :: int
  ws_connected :: bool   \<comment> \<open>\<open>application_state == CONNECTED\<close>\<close>
  ws_send_ok :: bool     \<comment> \<open>whether a send on it succeeds\<close>

record manager =
  active_connections :: "(int \<times> socket) list"
  last_seen_map :: "(int \<times> int) list"
  delivered :: "(int \<times> json) list"
  closing :: "int list"

definition new_manager :: manager where
  "new_manager = \<lparr>active_connections = [], last_seen_map = [], delivered = [], closing = []\<rparr>"

definition socket_of :: "int \<Rightarrow> manager \<Rightarrow> socket option" where
  "socket_of user_id m = map_of (active_connections m) user_id"

section \<open>Connecting and disconnecting\<close>

definition disconnect :: "int \<Rightarrow> bool \<Rightarrow> int option \<Rightarrow> manager \<Rightarrow> manager" where
  "disconnect user_id client_initiated last_seen_at m =
     (let ws = socket_of user_id m;
          m1 = m\<lparr>active_connections := AList.delete user_id (active_connections m)\<rparr>;
          m2 = (case last_seen_at of
                  None \<Rightarrow> m1
                | Some t \<Rightarrow> m1\<lparr>last_seen_map := AList.update user_id t (last_seen_map m1)\<rparr>)
      in case ws of
           Some s \<Rightarrow> if \<not> client_initiated \<and> ws_connected s
                     then m2\<lparr>closing := closing m2 @ [ws_id s]\<rparr> else m2
         | None \<Rightarrow> m2)"

definition connect :: "int \<Rightarrow> socket \<Rightarrow> manager \<Rightarrow> manager" where
  "connect user_id websocket m =
     (let m1 = (if socket_of user_id m \<noteq> None then disconnect user_id False None m else m)
      in m1\<lparr>active_connections := AList.update user_id websocket (active_connections m1)\<rparr>)"

section \<open>Presence\<close>

definition is_online :: "int \<Rightarrow> manager \<Rightarrow> bool outcome" where
  "is_online user_id m = Raise NameError"

definition get_last_seen :: "int \<Rightarrow> manager \<Rightarrow> int option" where
  "get_last_seen user_id m = None"

definition get_presence_payload :: "int \<Rightarrow> manager \<Rightarrow> json outcome" where
  "get_presence_payload user_id m = Raise NameError"

definition peer_of :: "(string \<times> json) list \<Rightarrow> int \<Rightarrow> json option" where
  "peer_of payload target_user_id =
     (let sender_id = dict_get ''sender_id'' payload; receiver_id = dict_get ''receiver_id'' payload
      in if is_int sender_id \<and> is_int receiver_id then
           (if target_user_id = int_value receiver_id then Some sender_id
            else if target_user_id = int_value sender_id then Some receiver_id else None)
         else if is_int (dict_get ''actor_id'' payload) then Some (dict_get ''actor_id'' payload)
         else None)"

definition inject_peer_presence :: "json \<Rightarrow> int \<Rightarrow> manager \<Rightarrow> json outcome" where
  "inject_peer_presence message target_user_id m =
     (case message of
        JObj payload \<Rightarrow>
          (case peer_of payload target_user_id of
             None \<Rightarrow> Return (JObj payload)
           | Some peer \<Rightarrow> (case get_presence_payload (int_value peer) m of
                 Return p \<Rightarrow> Return (JObj (dict_set ''peer_presence'' p payload))
               | Http c d \<Rightarrow> Http c d
               | Raise e \<Rightarrow> Raise e))
      | _ \<Rightarrow> Return message)"

section \<open>Sending\<close>

definition push_frame :: "int \<Rightarrow> socket \<Rightarrow> json \<Rightarrow> manager \<Rightarrow> manager" where
  "push_frame user_id ws frame m =
     (if ws_send_ok ws then m\<lparr>delivered := delivered m @ [(ws_id ws, frame)]\<rparr>
      else disconnect user_id False None m)"

definition send_personal_message :: "json \<Rightarrow> int \<Rightarrow> manager \<Rightarrow> manager" where
  "send_personal_message message user_id m =
     (case socket_of user_id m of
        None \<Rightarrow> m
      | Some ws \<Rightarrow> (case inject_peer_presence message user_id m of
            Return payload \<Rightarrow> push_frame user_id ws payload m
          | _ \<Rightarrow> disconnect user_id False None m))"

text \<open>The same with \<open>send_text(json.dumps(..))\<close> in place of \<open>send_json\<close>.\<close>

definition send_json_to_user :: "json \<Rightarrow> int \<Rightarrow> manager \<Rightarrow> manager" where
  "send_json_to_user message user_id m =
     (case socket_of user_id m of
        None \<Rightarrow> m
      | Some ws \<Rightarrow> (case inject_peer_presence message user_id m of
            Return payload \<Rightarrow> push_frame user_id ws payload m
          | _ \<Rightarrow> disconnect user_id False None m))"

definition send_to_user :: "string \<Rightarrow> int \<Rightarrow> manager \<Rightarrow> manager" where
  "send_to_user message receiver_id m =
     (case socket_of receiver_id m of
        None \<Rightarrow> m
      | Some ws \<Rightarrow> push_frame receiver_id ws (JStr message) m)"

definition typing_frame :: "string \<Rightarrow> bool \<Rightarrow> json" where
  "typing_frame message_type status =
     JObj [(''type'', JStr message_type), (''typing_status'', JBool status)]"

definition typing_status :: "string \<Rightarrow> int \<Rightarrow> bool \<Rightarrow> manager \<Rightarrow> manager" where
  "typing_status message_type receiver_id status m =
     send_personal_message (typing_frame message_type status) receiver_id m"

definition ack_presence_heartbeat :: "int \<Rightarrow> manager \<Rightarrow> manager" where
  "ack_presence_heartbeat user_id m =
     send_personal_message (JObj [(''type'', JStr ''presence_ack'')]) user_id m"

section \<open>Lemmas\<close>

lemma socket_of_disconnect [simp]:
  "socket_of i (disconnect j c l m) = (if i = j then None else socket_of i m)"
  by (simp add: disconnect_def socket_of_def delete_conv Let_def split: option.split)

lemma socket_of_connect [simp]:
  "socket_of i (connect j ws m) = (if i = j then Some ws else socket_of i m)"
  by (auto simp: connect_def socket_of_def update_conv Let_def disconnect_def delete_conv split: option.split)

lemma delivered_disconnect [simp]: "delivered (disconnect i c l m) = delivered m"
  by (simp add: disconnect_def Let_def split: option.split)

lemma closing_connect:
  "closing (connect i ws m) = closing m @
     (case socket_of i m of Some old \<Rightarrow> if ws_connected old then [ws_id old] else [] | None \<Rightarrow> [])"
  by (cases "socket_of i m") (simp_all add: connect_def disconnect_def Let_def)

text \<open>At most one socket per user.\<close>

definition one_socket_each :: "manager \<Rightarrow> bool" where
  "one_socket_each m \<longleftrightarrow> distinct (map fst (active_connections m))"

lemma one_socket_disconnect: "one_socket_each m \<Longrightarrow> one_socket_each (disconnect i c l m)"
  by (simp add: one_socket_each_def disconnect_def Let_def distinct_delete split: option.split)

lemma one_socket_connect:
  assumes "one_socket_each m"
  shows "one_socket_each (connect i ws m)"
proof -
  have "one_socket_each (if socket_of i m \<noteq> None then disconnect i False None m else m)"
    using assms one_socket_disconnect by simp
  then show ?thesis
    by (simp add: connect_def one_socket_each_def Let_def distinct_update)
qed

text \<open>What a send does when no peer is named in the frame, and when one is.\<close>

lemma send_plain:
  assumes "socket_of i m = Some ws" "ws_send_ok ws" "peer_of d i = None"
  shows "send_personal_message (JObj d) i m = m\<lparr>delivered := delivered m @ [(ws_id ws, JObj d)]\<rparr>"
  using assms by (simp add: send_personal_message_def inject_peer_presence_def push_frame_def)

lemma send_with_peer:
  assumes "peer_of d i \<noteq> None"
  shows "send_personal_message (JObj d) i m = (if socket_of i m = None then m else disconnect i False None m)"
    and "send_json_to_user (JObj d) i m = (if socket_of i m = None then m else disconnect i False None m)"
  using assms by (auto simp: send_personal_message_def send_json_to_user_def inject_peer_presence_def
      get_presence_payload_def split: option.split)

lemma send_json_same: "send_json_to_user f i m = send_personal_message f i m"
  by (simp add: send_json_to_user_def send_personal_message_def)

lemma send_offline [simp]: "socket_of i m = None \<Longrightarrow> send_personal_message f i m = m"
  by (simp add: send_personal_message_def)

lemma socket_of_push [simp]:
  "socket_of i (push_frame j ws f m) = (if i = j \<and> \<not> ws_send_ok ws then None else socket_of i m)"
  by (simp add: push_frame_def) (simp add: socket_of_def)

lemma socket_of_send_other: "i \<noteq> j \<Longrightarrow> socket_of i (send_personal_message f j m) = socket_of i m"
  by (simp add: send_personal_message_def split: option.split outcome.split)

section \<open>Properties\<close>

text \<open>Any frame that names a sender and a receiver by integer ids, sent to either of them, is never delivered:
  building the peer's presence raises \<open>NameError\<close>, which the send treats as a broken socket, so the
  addressee's healthy connection is closed and dropped.\<close>

theorem peer_frame_drops_connection:
  assumes "socket_of i m = Some ws" "ws_connected ws"
    and "dict_get ''sender_id'' d = JInt s" "dict_get ''receiver_id'' d = JInt r" "i = s \<or> i = r"
  shows "let m' = send_personal_message (JObj d) i m in
    delivered m' = delivered m \<and> socket_of i m' = None \<and> ws_id ws \<in> set (closing m')"
proof -
  have "peer_of d i \<noteq> None" using assms(3-5) by (auto simp: peer_of_def Let_def)
  then show ?thesis
    using assms(1,2) by (simp add: send_with_peer) (simp add: disconnect_def Let_def)
qed

definition demo_socket :: socket where
  "demo_socket = \<lparr>ws_id = 7, ws_connected = True, ws_send_ok = True\<rparr>"

lemma peer_frame_drops_connection_witness:
  "socket_of 2 (send_personal_message (JObj [(''sender_id'', JInt 1), (''receiver_id'', JInt 2)]) 2
     (connect 2 demo_socket new_manager)) = None"
  using peer_frame_drops_connection [of 2 "connect 2 demo_socket new_manager" demo_socket
      "[(''sender_id'', JInt 1), (''receiver_id'', JInt 2)]" 1 2]
  by (simp add: demo_socket_def dict_get_def Let_def)

text \<open>A user has at most one registered socket, and connecting again displaces the old one: the new socket
  is registered, the old one is scheduled for closing if still open, and other users are untouched.\<close>

theorem connect_displaces:
  assumes "one_socket_each m"
  shows "one_socket_each (connect i ws m) \<and> socket_of i (connect i ws m) = Some ws \<and>
    (\<forall>j. j \<noteq> i \<longrightarrow> socket_of j (connect i ws m) = socket_of j m) \<and>
    closing (connect i ws m) =
      closing m @ (case socket_of i m of Some old \<Rightarrow> if ws_connected old then [ws_id old] else [] | None \<Rightarrow> [])"
  using one_socket_connect [OF assms] by (simp add: closing_connect)

lemma connect_displaces_witness:
  "closing (connect 2 (demo_socket\<lparr>ws_id := 8\<rparr>) (connect 2 demo_socket new_manager)) = [7]"
  using connect_displaces [of "connect 2 demo_socket new_manager" 2 "demo_socket\<lparr>ws_id := 8\<rparr>"]
    one_socket_connect [of new_manager 2 demo_socket]
  by (simp add: demo_socket_def new_manager_def one_socket_each_def)
    (simp add: connect_def socket_of_def)

end
