(* ===== verification/Blob.thy ===== *)
theory Blob
  imports Prelude
begin

text \<open>
  \<open>app/services/blob_service.py\<close>. A store maps (directory or container, blob name) to bytes; \<open>account\<close>
  is the Azure account when Azure is configured and \<open>None\<close> for the local file system, where the
  container is mapped to a directory and path traversal is rejected.
\<close>

section \<open>Names\<close>

definition is_alnum :: "char \<Rightarrow> bool" where
  "is_alnum c \<longleftrightarrow> (let n = of_char c :: nat
     in (48 \<le> n \<and> n \<le> 57) \<or> (65 \<le> n \<and> n \<le> 90) \<or> (97 \<le> n \<and> n \<le> 122))"

text \<open>\<open>s.rsplit(".", 1)[-1]\<close>\<close>

definition after_last_dot :: "string \<Rightarrow> string" where
  "after_last_dot s = rev (takeWhile (\<lambda>c. c \<noteq> CHR ''.'') (rev s))"

definition safe_extension :: "string option \<Rightarrow> string" where
  "safe_extension filename = (case filename of
      None \<Rightarrow> []
    | Some f \<Rightarrow>
        if f = [] then []
        else filter is_alnum (if CHR ''.'' \<in> set f then after_last_dot f else []))"

definition container_to_local_path :: "string \<Rightarrow> string" where
  "container_to_local_path container =
     (if container = ''posts-media'' then ''posts_media'' else container)"

definition slashed :: "string \<Rightarrow> string" where
  "slashed s = map (\<lambda>c. if c = CHR 0x5C then CHR ''/'' else c) s"

text \<open>\<open>s.split("/")\<close>\<close>

fun split_slash :: "string \<Rightarrow> string list" where
  "split_slash [] = [[]]"
| "split_slash (c # s) =
     (if c = CHR ''/'' then [] # split_slash s
      else (case split_slash s of seg # segs \<Rightarrow> (c # seg) # segs | [] \<Rightarrow> [[c]]))"

definition traversal :: "string \<Rightarrow> bool" where
  "traversal local_blob \<longleftrightarrow> ''..'' \<in> set (split_slash local_blob) \<or> take 1 local_blob = ''/''"

definition strip_slash :: "string \<Rightarrow> string" where
  "strip_slash s = rev (dropWhile (\<lambda>c. c = CHR ''/'') (rev (dropWhile (\<lambda>c. c = CHR ''/'') s)))"

definition get_blob_url :: "string option \<Rightarrow> string \<Rightarrow> string \<Rightarrow> string" where
  "get_blob_url account container blob_name = (case account of
      Some a \<Rightarrow> ''https://'' @ a @ ''.blob.core.windows.net/'' @ container @ ''/'' @ blob_name
    | None \<Rightarrow> ''/'' @ strip_slash (container_to_local_path container) @ ''/'' @
        slashed (dropWhile (\<lambda>c. c = CHR ''/'') blob_name))"

section \<open>Operations\<close>

type_synonym blobs = "((string \<times> string) \<times> string) list"

definition validate_and_read_file :: "nat \<Rightarrow> string \<Rightarrow> string outcome" where
  "validate_and_read_file max_mb data =
     (if max_mb * 1024 * 1024 < length data
      then Http 413 (''File too large. Max '' @ str_nat max_mb @ '' MiB.'')
      else Return data)"

definition upload_blob :: "string option \<Rightarrow> string \<Rightarrow> string \<Rightarrow> string \<Rightarrow> blobs \<Rightarrow> string outcome \<times> blobs" where
  "upload_blob account container blob_name data store = (case account of
      None \<Rightarrow>
        if traversal (slashed blob_name) then (Http 400 ''Invalid blob name.'', store)
        else (Return (get_blob_url account container blob_name),
              AList.update (container_to_local_path container, slashed blob_name) data store)
    | Some a \<Rightarrow>
        (Return (get_blob_url account container blob_name), AList.update (container, blob_name) data store))"

definition delete_blob :: "string option \<Rightarrow> string \<Rightarrow> string \<Rightarrow> blobs \<Rightarrow> blobs" where
  "delete_blob account container blob_name store = (case account of
      None \<Rightarrow>
        if traversal (slashed blob_name) then store
        else AList.delete (container_to_local_path container, slashed blob_name) store
    | Some a \<Rightarrow> AList.delete (container, blob_name) store)"

section \<open>Lemmas\<close>

lemma split_slash_not_Nil [simp]: "split_slash s \<noteq> []"
  by (cases s) (auto split: list.split)

lemma split_slash_none: "CHR ''/'' \<notin> set s \<Longrightarrow> split_slash s = [s]"
  by (induction s) auto

lemma safe_extension_alnum: "c \<in> set (safe_extension f) \<Longrightarrow> is_alnum c"
  by (auto simp: safe_extension_def split: option.splits if_splits)

lemma alnum_plain [simp]: "\<not> is_alnum (CHR ''/'')" "\<not> is_alnum (CHR 0x5C)" "\<not> is_alnum (CHR ''.'')"
  by (simp_all add: is_alnum_def)

lemma slashed_id: "CHR 0x5C \<notin> set s \<Longrightarrow> slashed s = s"
  by (induction s) (auto simp: slashed_def)

definition plain_name :: "string \<Rightarrow> bool" where
  "plain_name s \<longleftrightarrow> s \<noteq> [] \<and> list_all (\<lambda>c. is_alnum c \<or> c = CHR ''-'') s"

lemma generated_name_safe:
  assumes "plain_name u"
  shows "\<not> traversal (slashed (u @ ''.'' @ safe_extension f))"
    and "CHR ''/'' \<notin> set (u @ ''.'' @ safe_extension f)"
    and "slashed (u @ ''.'' @ safe_extension f) = u @ ''.'' @ safe_extension f"
proof -
  have chars: "c \<noteq> CHR ''/'' \<and> c \<noteq> CHR 0x5C" if "c \<in> set (u @ ''.'' @ safe_extension f)" for c
    using that assms safe_extension_alnum [of c f] alnum_plain
    by (fastforce simp: plain_name_def list_all_iff)
  then show slash: "CHR ''/'' \<notin> set (u @ ''.'' @ safe_extension f)" by blast
  show id: "slashed (u @ ''.'' @ safe_extension f) = u @ ''.'' @ safe_extension f"
    using chars by (intro slashed_id) blast
  obtain c u' where u: "u = c # u'" using assms by (cases u) (auto simp: plain_name_def)
  then have "is_alnum c \<or> c = CHR ''-''" using assms by (simp add: plain_name_def)
  then have "c \<noteq> CHR ''.''" "c \<noteq> CHR ''/''" using alnum_plain(1,3) by fastforce+
  note u = u this
  have "split_slash (u @ ''.'' @ safe_extension f) = [u @ ''.'' @ safe_extension f]"
    using slash by (rule split_slash_none)
  then show "\<not> traversal (slashed (u @ ''.'' @ safe_extension f))"
    unfolding id traversal_def using u by auto
qed

section \<open>Properties\<close>

text \<open>Whatever file name a client supplies, the blob name generated from a random id and the sanitised
  extension is accepted by the traversal guard, stays inside its directory (no separator in it) and
  the upload stores exactly the uploaded bytes under it, in local and in Azure mode.\<close>

theorem upload_generated_name_safe:
  assumes "plain_name uuid"
  shows "let name = uuid @ ''.'' @ safe_extension filename;
      (res, store') = upload_blob account container name data store
    in res = Return (get_blob_url account container name) \<and> CHR ''/'' \<notin> set name \<and>
       CHR 0x5C \<notin> set (safe_extension filename) \<and>
       map_of store' (if account = None then container_to_local_path container else container, name) = Some data"
proof -
  have "CHR 0x5C \<notin> set (safe_extension filename)"
    using safe_extension_alnum [of "CHR 0x5C" filename] alnum_plain(2) by blast
  then show ?thesis
    using generated_name_safe [OF assms, of filename]
    by (cases account) (simp_all add: upload_blob_def update_conv Let_def)
qed

lemma upload_generated_name_safe_witness:
  "map_of (snd (upload_blob None ''posts-media'' (''a1'' @ ''.'' @ safe_extension (Some ''../x.p/ng'')) ''DATA'' []))
     (''posts_media'', ''a1'' @ ''.'' @ safe_extension (Some ''../x.p/ng'')) = Some ''DATA''"
  using upload_generated_name_safe [of "''a1''" "Some ''../x.p/ng''" None "''posts-media''" "''DATA''" "[]"]
  by (simp add: plain_name_def is_alnum_def Let_def split_def container_to_local_path_def)

end
