(* ===== verification/World.thy ===== *)
theory World
  imports Table_Invariants Redis Sockets Blob
begin

text \<open>
  What a request handler acts on: the committed database, Redis, the clock, the Celery queue, the
  registry of WebSockets of its worker process and the blob store.
  A handler maps a world to its outcome and the world it leaves; changes that a session never
  committed are not part of the world it leaves.
\<close>

section \<open>The world\<close>

text \<open>The messages put on the Celery queue by \<open>.delay(..)\<close>.\<close>

datatype task =
    send_otp_email string string
  | send_verification_email string string
  | create_notification_task (tk_actor: int) (tk_owner: int) (tk_type: notification_type)
      (tk_username: string) (tk_entity: "int option") (tk_entity_type: "string option")

record world =
  w_db :: database
  w_redis :: redis
  w_now :: int          \<comment> \<open>microseconds since the epoch, UTC\<close>
  w_tasks :: "task list"
  w_mgr :: manager
  w_blobs :: blobs

definition now_ms :: "world \<Rightarrow> int" where
  "now_ms w = w_now w div 1000"

definition now_s :: "world \<Rightarrow> int" where
  "now_s w = w_now w div 1000000"

definition seconds :: "int \<Rightarrow> int" where
  "seconds n = n * 1000000"

definition minutes :: "int \<Rightarrow> int" where
  "minutes n = n * 60000000"

definition days :: "int \<Rightarrow> int" where
  "days n = n * 86400000000"

lemmas duration_defs = seconds_def minutes_def days_def

definition enqueue :: "task \<Rightarrow> world \<Rightarrow> world" where
  "enqueue t w = w\<lparr>w_tasks := w_tasks w @ [t]\<rparr>"

lemma enqueue_simps [simp]:
  "w_db (enqueue t w) = w_db w" "w_redis (enqueue t w) = w_redis w" "w_now (enqueue t w) = w_now w"
  "w_mgr (enqueue t w) = w_mgr w" "w_blobs (enqueue t w) = w_blobs w"
  "w_tasks (enqueue t w) = w_tasks w @ [t]"
  by (simp_all add: enqueue_def)

text \<open>Applying a Redis helper to the world.\<close>

definition on_redis :: "(redis \<Rightarrow> redis) \<Rightarrow> world \<Rightarrow> world" where
  "on_redis f w = w\<lparr>w_redis := f (w_redis w)\<rparr>"

lemma on_redis_simps [simp]:
  "w_db (on_redis f w) = w_db w" "w_redis (on_redis f w) = f (w_redis w)" "w_now (on_redis f w) = w_now w"
  "w_tasks (on_redis f w) = w_tasks w" "w_mgr (on_redis f w) = w_mgr w" "w_blobs (on_redis f w) = w_blobs w"
  by (simp_all add: on_redis_def)

lemma now_ms_frame [simp]:
  "now_ms (on_redis f w) = now_ms w" "now_ms (enqueue t w) = now_ms w" "now_ms (w\<lparr>w_db := d\<rparr>) = now_ms w"
  "now_ms (w\<lparr>w_redis := r\<rparr>) = now_ms w" "now_ms (w\<lparr>w_mgr := m\<rparr>) = now_ms w"
  "now_ms (w\<lparr>w_blobs := b\<rparr>) = now_ms w"
  by (simp_all add: now_ms_def)

section \<open>Statements on users and credentials\<close>

text \<open>
  An UPDATE of a user through the ORM: the optimistic lock bumps \<open>version_id\<close>. Bulk updates
  (\<open>update(models.User)\<close>) do not.
\<close>

definition orm_update_user :: "int \<Rightarrow> (user \<Rightarrow> user) \<Rightarrow> database \<Rightarrow> database" where
  "orm_update_user i f d = d\<lparr>users :=
     update_where (\<lambda>u. u_id u = i) (\<lambda>u. u_version_id_update (\<lambda>n. n + 1) (f u)) (users d)\<rparr>"

definition set_otps :: "otp_row list \<Rightarrow> database \<Rightarrow> database" where
  "set_otps rows d = d\<lparr>otps := rows\<rparr>"

definition set_refresh_tokens :: "refresh_token list \<Rightarrow> database \<Rightarrow> database" where
  "set_refresh_tokens rows d = d\<lparr>refresh_tokens := rows\<rparr>"

text \<open>The credential tables are not counted anywhere: changing them keeps the other tables' invariant.\<close>

lemma set_otps_ok:
  "db_ok d \<Longrightarrow> distinct (map o_email rows) \<Longrightarrow> db_ok (set_otps rows d)"
  by (simp add: set_otps_def db_defs)

lemma set_refresh_tokens_ok:
  "db_ok d \<Longrightarrow> distinct (map t_token rows) \<Longrightarrow> fk (map t_user_id rows) (map u_id (users d)) \<Longrightarrow>
   db_ok (set_refresh_tokens rows d)"
  by (simp add: set_refresh_tokens_def db_defs)

lemma orm_update_user_ok:
  assumes "db_ok d"
    and "\<And>u. u_id (f u) = u_id u" "\<And>u. u_username (f u) = u_username u"
    and "\<And>u. u_followers_cnt (f u) = u_followers_cnt u" "\<And>u. u_following_cnt (f u) = u_following_cnt u"
  shows "db_ok (orm_update_user i f d)"
  using assms by (simp add: orm_update_user_def db_defs map_update_where counts_match_frame
      following_of_def follower_of_def)

end
