(* ===== verification/Presence.thy ===== *)
theory Presence
  imports World
begin

text \<open>
  The parts of \<open>ConnectionManager\<close> (\<open>app/utils/socket_manager.py\<close>) that use the database or the clock
  (\<open>mark_last_seen\<close>, \<open>_peer_ids\<close>, \<open>broadcast_presence_update\<close>, the heartbeat watchdog), and the pub/sub
  listener of \<open>app/main.py\<close> that hands published frames to the sockets of its worker.
\<close>

definition on_mgr :: "(manager \<Rightarrow> manager) \<Rightarrow> world \<Rightarrow> world" where
  "on_mgr f w = w\<lparr>w_mgr := f (w_mgr w)\<rparr>"

lemma on_mgr_simps [simp]:
  "w_db (on_mgr f w) = w_db w" "w_redis (on_mgr f w) = w_redis w" "w_now (on_mgr f w) = w_now w"
  "w_tasks (on_mgr f w) = w_tasks w" "w_mgr (on_mgr f w) = f (w_mgr w)" "w_blobs (on_mgr f w) = w_blobs w"
  "now_ms (on_mgr f w) = now_ms w"
  by (simp_all add: on_mgr_def now_ms_def)

section \<open>Presence\<close>

text \<open>\<open>mark_last_seen\<close>; a failed commit (\<open>saved = False\<close>) is rolled back, the time is returned anyway.\<close>

definition mark_last_seen :: "bool \<Rightarrow> int \<Rightarrow> world \<Rightarrow> int \<times> world" where
  "mark_last_seen saved user_id w =
     (w_now w, if saved then w\<lparr>w_db := (w_db w)\<lparr>users :=
         update_where (\<lambda>u. u_id u = user_id) (u_last_seen_at_update (\<lambda>_. Some (w_now w))) (users (w_db w))\<rparr>\<rparr> else w)"

definition peer_ids :: "int \<Rightarrow> database \<Rightarrow> int list" where
  "peer_ids user_id d = remdups (filter (\<lambda>i. i \<noteq> user_id)
     (map m_receiver_id (filter (\<lambda>m. m_sender_id m = user_id) (messages d)) @
      map m_sender_id (filter (\<lambda>m. m_receiver_id m = user_id) (messages d)) @
      map s_to_user_id (filter (\<lambda>s. s_from_user_id s = user_id) (shared_posts d)) @
      map s_from_user_id (filter (\<lambda>s. s_to_user_id s = user_id) (shared_posts d))))"

definition presence_update :: "int \<Rightarrow> bool \<Rightarrow> int option \<Rightarrow> json" where
  "presence_update user_id online last_seen_at = JObj [(''type'', JStr ''presence_update''),
     (''presence'', JObj [(''user_id'', JInt user_id), (''online'', JBool online), (''last_seen_at'', jtime_opt last_seen_at)])]"

definition broadcast_presence_update :: "int \<Rightarrow> bool \<Rightarrow> int option \<Rightarrow> world \<Rightarrow> world" where
  "broadcast_presence_update user_id online last_seen_at w =
     on_mgr (fold (send_personal_message (presence_update user_id online last_seen_at)) (peer_ids user_id (w_db w))) w"

lemma broadcast_frame [simp]:
  "w_db (broadcast_presence_update i b t w) = w_db w" "w_redis (broadcast_presence_update i b t w) = w_redis w"
  "w_now (broadcast_presence_update i b t w) = w_now w" "w_tasks (broadcast_presence_update i b t w) = w_tasks w"
  by (simp_all add: broadcast_presence_update_def)

lemma mark_last_seen_ok: "db_ok (w_db w) \<Longrightarrow> db_ok (w_db (snd (mark_last_seen saved i w)))"
  by (simp add: mark_last_seen_def db_defs map_update_where counts_match_frame following_of_def follower_of_def)

lemma peer_ids_iff: "j \<in> set (peer_ids i d) \<longleftrightarrow> j \<noteq> i \<and>
  ((\<exists>m\<in>set (messages d). m_sender_id m = i \<and> m_receiver_id m = j \<or> m_receiver_id m = i \<and> m_sender_id m = j) \<or>
   (\<exists>s\<in>set (shared_posts d). s_from_user_id s = i \<and> s_to_user_id s = j \<or> s_to_user_id s = i \<and> s_from_user_id s = j))"
  by (auto simp: peer_ids_def)

lemma distinct_peer_ids: "distinct (peer_ids i d)"
  by (simp add: peer_ids_def)

section \<open>The heartbeat watchdog\<close>

text \<open>
  \<open>run_presence_watchdog\<close> against the times of the heartbeats to come, in order: each wait starts at \<open>now\<close> and
  ends with a heartbeat, or after \<open>timeout\<close>. An event set while the loop is busy is found by the next wait at
  once. The result is the time at which the socket is closed.
\<close>

fun run_presence_watchdog :: "int \<Rightarrow> int \<Rightarrow> int list \<Rightarrow> int" where
  "run_presence_watchdog timeout now [] = now + timeout"
| "run_presence_watchdog timeout now (beat # beats) =
     (if beat < now + timeout then run_presence_watchdog timeout (max now beat) beats else now + timeout)"

section \<open>The pub/sub listener\<close>

text \<open>
  The dictionary key that \<open>active_connections.get(v)\<close> looks up: Python's \<open>1 == True == 1.0\<close>. An unhashable
  value raises \<open>TypeError\<close>, which the listener swallows: nothing is sent in either case.
\<close>

fun user_key :: "json \<Rightarrow> int option" where
  "user_key (JInt i) = Some i"
| "user_key (JBool b) = Some (if b then 1 else 0)"
| "user_key (JFloat x) = (if x = of_int \<lfloor>x\<rfloor> then Some \<lfloor>x\<rfloor> else None)"
| "user_key _ = None"

definition deliver :: "json \<Rightarrow> manager \<Rightarrow> manager" where
  "deliver data m = (case data of
      JObj payload \<Rightarrow> (case user_key (dict_get ''receiver_id'' payload) of
          None \<Rightarrow> m
        | Some i \<Rightarrow> send_personal_message (JObj payload) i m)
    | _ \<Rightarrow> m)"

definition redis_message_listener :: "string \<Rightarrow> (string \<times> json) list \<Rightarrow> manager \<Rightarrow> manager" where
  "redis_message_listener channel published m =
     fold (\<lambda>(ch, data) m. if ch = channel then deliver data m else m) published m"

definition chat_messages_listener :: "(string \<times> json) list \<Rightarrow> manager \<Rightarrow> manager" where
  "chat_messages_listener = redis_message_listener ''chat:messages''"

definition notification_messages_listener :: "(string \<times> json) list \<Rightarrow> manager \<Rightarrow> manager" where
  "notification_messages_listener = redis_message_listener ''notifications:messages''"

lemma listener_append [simp]:
  "redis_message_listener ch (xs @ ys) m = redis_message_listener ch ys (redis_message_listener ch xs m)"
  by (simp add: redis_message_listener_def)

lemma listener_one: "redis_message_listener ch [(ch', data)] m = (if ch' = ch then deliver data m else m)"
  by (simp add: redis_message_listener_def)

lemma one_socket_send: "one_socket_each m \<Longrightarrow> one_socket_each (send_personal_message f i m)"
  by (auto simp: send_personal_message_def push_frame_def one_socket_disconnect
      split: option.split outcome.split) (simp add: one_socket_each_def)

lemma one_socket_listener: "one_socket_each m \<Longrightarrow> one_socket_each (redis_message_listener ch ps m)"
  unfolding redis_message_listener_def
  by (induction ps arbitrary: m) (auto simp: deliver_def one_socket_send split: json.split option.split)

end
