(* ===== verification/Python.thy ===== *)
theory Python
  imports Json
begin

text \<open>
  The pieces of Python's standard library that the messaging code and the tasks rely on, for ASCII text:
  \<open>str.strip\<close>, \<open>int(..)\<close> on strings and JSON values, \<open>str(datetime)\<close>, and
  \<open>app/utils/time_formatting.py\<close> (\<open>format_timestamp\<close>), which is built on calendar arithmetic.
\<close>

section \<open>Strings and integers\<close>

definition is_space :: "char \<Rightarrow> bool" where
  "is_space c \<longleftrightarrow> (of_char c :: nat) \<in> {9..13} \<union> {28..32}"

definition py_strip :: "string \<Rightarrow> string" where
  "py_strip s = rev (dropWhile is_space (rev (dropWhile is_space s)))"

definition is_digit :: "char \<Rightarrow> bool" where
  "is_digit c \<longleftrightarrow> (of_char c :: nat) \<in> {48..57}"

text \<open>Digits with single underscores between them; the flag says whether the previous character was a digit.\<close>

fun digit_groups :: "bool \<Rightarrow> string \<Rightarrow> bool" where
  "digit_groups after [] \<longleftrightarrow> after"
| "digit_groups after (c # s) \<longleftrightarrow>
     (if is_digit c then digit_groups True s else c = CHR ''_'' \<and> after \<and> digit_groups False s)"

definition unsigned_int :: "string \<Rightarrow> int option" where
  "unsigned_int s = (if digit_groups False s then Some (int (val_digits (filter is_digit s))) else None)"

text \<open>\<open>int(s)\<close>; \<open>None\<close> is \<open>ValueError\<close>.\<close>

definition py_int :: "string \<Rightarrow> int option" where
  "py_int s = (case py_strip s of
      [] \<Rightarrow> None
    | c # r \<Rightarrow> if c = CHR ''-'' then map_option uminus (unsigned_int r)
               else if c = CHR ''+'' then unsigned_int r else unsigned_int (c # r))"

text \<open>\<open>int(v)\<close> on a parsed JSON value.\<close>

definition int_of_str :: "string \<Rightarrow> int outcome" where
  "int_of_str s = (case py_int s of None \<Rightarrow> Raise ValueError | Some i \<Rightarrow> Return i)"

fun int_of_json :: "json \<Rightarrow> int outcome" where
  "int_of_json (JInt i) = Return i"
| "int_of_json (JBool b) = Return (if b then 1 else 0)"
| "int_of_json (JFloat x) = Return (if 0 \<le> x then \<lfloor>x\<rfloor> else \<lceil>x\<rceil>)"
| "int_of_json JInf = Raise OverflowError"
| "int_of_json (JStr s) = int_of_str s"
| "int_of_json _ = Raise TypeError"

lemma str_int_digits: "c \<in> set (str_nat n) \<Longrightarrow> is_digit c"
  using str_nat_chars by (auto simp: is_digit_def)

lemma digit_groups_digits: "(\<And>c. c \<in> set s \<Longrightarrow> is_digit c) \<Longrightarrow> digit_groups b s \<longleftrightarrow> b \<or> s \<noteq> []"
  by (induction s arbitrary: b) auto

lemma unsigned_int_str_nat: "unsigned_int (str_nat n) = Some (int n)"
  using digit_groups_digits [of "str_nat n" False]
  by (simp add: unsigned_int_def str_int_digits filter_id_conv [THEN iffD2] val_digits_str_nat)

lemma strip_no_space: "(\<And>c. c \<in> set s \<Longrightarrow> \<not> is_space c) \<Longrightarrow> py_strip s = s"
  by (metis (no_types, lifting) dropWhile_eq_self_iff hd_in_set py_strip_def rev_rev_ident set_rev)

lemma digit_not_space: "is_digit c \<Longrightarrow> \<not> is_space c"
  by (auto simp: is_digit_def is_space_def)

text \<open>\<open>int(str(i)) == i\<close>\<close>

lemma py_int_str_int [simp]: "py_int (str_int i) = Some i"
proof -
  have "\<not> is_space (CHR ''-'')" by (simp add: is_space_def)
  then have "py_strip (str_int i) = str_int i"
    by (intro strip_no_space) (auto simp: str_int_def digit_not_space str_int_digits split: if_splits)
  moreover have "\<not> is_digit (CHR ''-'')" "\<not> is_digit (CHR ''+'')" by (simp_all add: is_digit_def)
  then have "hd (str_nat n) \<noteq> CHR ''-'' \<and> hd (str_nat n) \<noteq> CHR ''+''" for n
    using str_int_digits [of "hd (str_nat n)" n] hd_in_set [OF str_nat_not_Nil [of n]] by metis
  then have "(case str_nat n of [] \<Rightarrow> None | c # r \<Rightarrow> if c = CHR ''-'' then map_option uminus (unsigned_int r)
      else if c = CHR ''+'' then unsigned_int r else unsigned_int (c # r)) = Some (int n)" for n
    using unsigned_int_str_nat [of n] str_nat_not_Nil [of n] by (cases "str_nat n") (simp_all, metis list.sel(1))
  ultimately show ?thesis by (simp add: py_int_def str_int_def unsigned_int_str_nat)
qed

end
