(* ===== verification/Time_Formatting.thy ===== *)
theory Time_Formatting
  imports Python
begin

text \<open>
  \<open>app/utils/time_formatting.py\<close>. Timestamps are microseconds since the epoch, UTC. \<open>strftime\<close> is the C locale's:
  the calendar date is computed from the day number in the proleptic Gregorian calendar.
\<close>

section \<open>Calendar\<close>

definition day_us :: int where
  "day_us = 86400000000"

definition day_number :: "int \<Rightarrow> int" where
  "day_number t = t div day_us"

text \<open>Year, month and day of a day number, counted in 400-year eras that start on 1 March.\<close>

definition civil_date :: "int \<Rightarrow> int \<times> int \<times> int" where
  "civil_date n =
     (let z = n + 719468; era = z div 146097; doe = z mod 146097;
          yoe = (doe - doe div 1460 + doe div 36524 - doe div 146096) div 365;
          doy = doe - (365 * yoe + yoe div 4 - yoe div 100);
          mp = (5 * doy + 2) div 153;
          d = doy - (153 * mp + 2) div 5 + 1;
          m = (if mp < 10 then mp + 3 else mp - 9)
      in (yoe + era * 400 + (if m \<le> 2 then 1 else 0), m, d))"

definition weekday :: "int \<Rightarrow> string" where
  "weekday n = [''Sunday'', ''Monday'', ''Tuesday'', ''Wednesday'', ''Thursday'', ''Friday'', ''Saturday'']
     ! nat ((n + 4) mod 7)"

definition pad2 :: "int \<Rightarrow> string" where
  "pad2 n = (if n < 10 then CHR ''0'' # str_int n else str_int n)"

definition hour_of :: "int \<Rightarrow> int" where
  "hour_of t = t mod day_us div 3600000000"

definition minute_of :: "int \<Rightarrow> int" where
  "minute_of t = t mod 3600000000 div 60000000"

text \<open>\<open>%I:%M %p\<close>\<close>

definition clock12 :: "int \<Rightarrow> string" where
  "clock12 t =
     (let h = hour_of t; h12 = (if h mod 12 = 0 then 12 else h mod 12)
      in pad2 h12 @ '':'' @ pad2 (minute_of t) @ (if h < 12 then '' AM'' else '' PM''))"

lemma civil_date_examples:
  "civil_date 0 = (1970, 1, 1)" "civil_date 19782 = (2024, 2, 29)" "civil_date 20411 = (2025, 11, 19)"
  "weekday 0 = ''Thursday''" "weekday 20411 = ''Wednesday''"
  by code_simp+

section \<open>\<open>format_timestamp\<close>\<close>

text \<open>\<open>get_local_indian_time\<close>: UTC+5:30.\<close>

definition indian_offset :: int where
  "indian_offset = 19800000000"

definition format_timestamp :: "int \<Rightarrow> int option \<Rightarrow> string" where
  "format_timestamp now dt = (case dt of
      None \<Rightarrow> ''N/A''
    | Some t \<Rightarrow>
        let diff = now - t in
        if diff < 60000000 then ''Just now''
        else if diff < 3600000000 then str_int (diff div 60000000) @ ''m ago''
        else if diff < day_us \<and> day_number now = day_number t then str_int (diff div 3600000000) @ ''h ago''
        else
          let local = t + indian_offset; local_now = now + indian_offset; d = day_number local in
          if day_number local_now - d = 1 then ''Yesterday at '' @ clock12 local
          else if diff div day_us < 7 then weekday d @ '' at '' @ clock12 local
          else (case civil_date d of (y, m, k) \<Rightarrow>
            pad2 k @ ''-'' @ pad2 m @ ''-'' @ str_int y @ '' '' @ clock12 local))"

text \<open>Messages younger than an hour, and the newest one.\<close>

lemma format_minutes:
  "60000000 \<le> now - t \<Longrightarrow> now - t < 3600000000 \<Longrightarrow>
   format_timestamp now (Some t) = str_int ((now - t) div 60000000) @ ''m ago''"
  by (simp add: format_timestamp_def)

lemma format_just_now: "now - t < 60000000 \<Longrightarrow> format_timestamp now (Some t) = ''Just now''"
  by (simp add: format_timestamp_def)

text \<open>\<open>str(datetime)\<close> of a naive UTC time; the microseconds are left out when they are zero.\<close>

definition pad6 :: "int \<Rightarrow> string" where
  "pad6 n = replicate (6 - length (str_int n)) (CHR ''0'') @ str_int n"

definition pad4 :: "int \<Rightarrow> string" where
  "pad4 n = replicate (4 - length (str_int n)) (CHR ''0'') @ str_int n"

definition str_datetime :: "int \<Rightarrow> string" where
  "str_datetime t = (case civil_date (day_number t) of (y, m, d) \<Rightarrow>
     pad4 y @ ''-'' @ pad2 m @ ''-'' @ pad2 d @ '' '' @ pad2 (hour_of t) @ '':'' @ pad2 (minute_of t) @ '':'' @
     pad2 (t mod 60000000 div 1000000) @
     (if t mod 1000000 = 0 then [] else ''.'' @ pad6 (t mod 1000000)))"

end
