(* ===== verification/Oauth2.thy ===== *)
theory Oauth2
  imports World
begin

text \<open>
  \<open>app/oauth2.py\<close>: access tokens, the cached principal and \<open>getCurrentUser\<close>. The JWT library is a pair
  of parameters, \<open>encode\<close> (sign) and \<open>decode\<close> (\<open>None\<close> for a malformed or wrongly signed token); the
  only law used of them is that decoding an encoded token gives its claims.
\<close>

section \<open>Access tokens\<close>

record claims =
  cl_userId :: "int option"
  cl_userName :: "string option"
  cl_expTime :: "int option"
  cl_iat :: int
  cl_jti :: string

definition createAccessToken :: "(claims \<Rightarrow> string) \<Rightarrow> int \<Rightarrow> string \<Rightarrow> int \<Rightarrow> string \<Rightarrow> world \<Rightarrow> string" where
  "createAccessToken encode expire_minutes jti userId userName w =
     encode \<lparr>cl_userId = Some userId, cl_userName = Some userName,
       cl_expTime = Some ((w_now w + minutes expire_minutes) div 1000000),
       cl_iat = now_s w, cl_jti = jti\<rparr>"

text \<open>\<open>decodeToken\<close>: \<open>None\<close> is \<open>JWTError\<close>.\<close>

definition decodeToken :: "(string \<Rightarrow> claims option) \<Rightarrow> string \<Rightarrow> world \<Rightarrow> claims option" where
  "decodeToken decode token w = (case decode token of
      None \<Rightarrow> None
    | Some payload \<Rightarrow> (case cl_expTime payload of
        None \<Rightarrow> None
      | Some e \<Rightarrow> if seconds e < w_now w then None else Some payload))"

section \<open>The principal\<close>

record principal =
  pr_id :: int
  pr_username :: string
  pr_nickname :: "string option"
  pr_bio :: "string option"
  pr_email :: "string option"
  pr_email_verified :: bool
  pr_profile_picture :: "string option"
  pr_created_at :: "int option"
  pr_followers_cnt :: int
  pr_following_cnt :: int

definition principal_of_user :: "user \<Rightarrow> principal" where
  "principal_of_user u = \<lparr>pr_id = u_id u, pr_username = u_username u, pr_nickname = u_nickname u,
     pr_bio = u_bio u, pr_email = u_email u, pr_email_verified = u_email_verified u,
     pr_profile_picture = u_profile_picture u, pr_created_at = Some (u_created_at u),
     pr_followers_cnt = u_followers_cnt u, pr_following_cnt = u_following_cnt u\<rparr>"

definition build_user_cache_payload :: "user \<Rightarrow> (string \<times> json) list" where
  "build_user_cache_payload u =
     [(''id'', JInt (u_id u)), (''username'', JStr (u_username u)),
      (''nickname'', jstr_opt (u_nickname u)), (''bio'', jstr_opt (u_bio u)),
      (''email'', jstr_opt (u_email u)), (''email_verified'', JBool (u_email_verified u)),
      (''profile_picture'', jstr_opt (u_profile_picture u)),
      (''created_at'', JTime (u_created_at u))]"

text \<open>Reading an attribute of the rehydrated object; the counters default to 0.\<close>

fun as_int :: "json \<Rightarrow> int" where
  "as_int (JInt i) = i"
| "as_int _ = 0"

fun as_str :: "json \<Rightarrow> string" where
  "as_str (JStr s) = s"
| "as_str _ = []"

fun as_str_opt :: "json \<Rightarrow> string option" where
  "as_str_opt (JStr s) = Some s"
| "as_str_opt _ = None"

fun as_time_opt :: "json \<Rightarrow> int option" where
  "as_time_opt (JTime t) = Some t"
| "as_time_opt _ = None"

definition build_user_from_cache :: "json \<Rightarrow> principal" where
  "build_user_from_cache cached =
     (let field = (\<lambda>k. case cached of JObj d \<Rightarrow> dict_get k d | _ \<Rightarrow> JNull)
      in \<lparr>pr_id = as_int (field ''id''), pr_username = as_str (field ''username''),
          pr_nickname = as_str_opt (field ''nickname''), pr_bio = as_str_opt (field ''bio''),
          pr_email = as_str_opt (field ''email''), pr_email_verified = truthy (field ''email_verified''),
          pr_profile_picture = as_str_opt (field ''profile_picture''),
          pr_created_at = as_time_opt (field ''created_at''),
          pr_followers_cnt = as_int (field ''followers_cnt''),
          pr_following_cnt = as_int (field ''following_cnt'')\<rparr>)"

definition get_access_token_ttl_seconds :: "int \<Rightarrow> claims \<Rightarrow> world \<Rightarrow> int" where
  "get_access_token_ttl_seconds expire_minutes payload w = (case cl_expTime payload of
      Some e \<Rightarrow> if e \<noteq> 0 then max 0 ((seconds e - w_now w) div 1000000) else expire_minutes * 60
    | None \<Rightarrow> expire_minutes * 60)"

section \<open>Authentication\<close>

definition credentials_message :: string where
  "credentials_message = ''Could not validate credentials''"

definition validate_access_token ::
    "(string \<Rightarrow> claims option) \<Rightarrow> string \<Rightarrow> world \<Rightarrow> claims outcome" where
  "validate_access_token decode token w =
     (if is_blacklisted (now_ms w) token (w_redis w) then Http 401 credentials_message
      else case decodeToken decode token w of
        None \<Rightarrow> Http 401 credentials_message
      | Some payload \<Rightarrow>
          if cl_userId payload = None \<or> cl_userName payload = None then Http 401 credentials_message
          else Return payload)"

definition verifyAccesstoken ::
    "(string \<Rightarrow> claims option) \<Rightarrow> string \<Rightarrow> world \<Rightarrow> user outcome" where
  "verifyAccesstoken decode token w =
     (case validate_access_token decode token w of
        Return payload \<Rightarrow> (case Option.bind (cl_userId payload) (\<lambda>i. user_by_id i (w_db w)) of
            None \<Rightarrow> Http 401 credentials_message
          | Some u \<Rightarrow> Return u)
      | Http c m \<Rightarrow> Http c m
      | Raise e \<Rightarrow> Raise e)"

definition auth_key :: "string \<Rightarrow> string" where
  "auth_key token = ''auth:user:'' @ token"

text \<open>
  \<open>lag\<close>: the microseconds that pass between the computation of the lifetime and the moment Redis starts
  to count it. \<open>getCurrentUser\<close> is the request with a negligible one.
\<close>

definition getCurrentUser_within ::
    "int \<Rightarrow> (string \<Rightarrow> claims option) \<Rightarrow> int \<Rightarrow> string \<Rightarrow> world \<Rightarrow> principal outcome \<times> world" where
  "getCurrentUser_within lag decode expire_minutes token w =
     (case get_auth_cache_and_blacklist (now_ms w) token (w_redis w) of
        (True, _) \<Rightarrow> (Http 401 credentials_message, w)
      | (False, Some cached) \<Rightarrow> (Return (build_user_from_cache cached), w)
      | (False, None) \<Rightarrow>
          (case validate_access_token decode token w of
             Return payload \<Rightarrow>
               (case Option.bind (cl_userId payload) (\<lambda>i. user_by_id i (w_db w)) of
                  None \<Rightarrow> (Http 401 credentials_message, w)
                | Some u \<Rightarrow>
                    (Return (principal_of_user u),
                     w\<lparr>w_now := w_now w + lag,
                       w_redis := set_cache (now_ms (w\<lparr>w_now := w_now w + lag\<rparr>)) (auth_key token)
                         (JObj (build_user_cache_payload u))
                         (get_access_token_ttl_seconds expire_minutes payload w) (w_redis w)\<rparr>))
           | Http c m \<Rightarrow> (Http c m, w)
           | Raise e \<Rightarrow> (Raise e, w)))"

definition getCurrentUser ::
    "(string \<Rightarrow> claims option) \<Rightarrow> int \<Rightarrow> string \<Rightarrow> world \<Rightarrow> principal outcome \<times> world" where
  "getCurrentUser = getCurrentUser_within 0"

section \<open>Lemmas\<close>

text \<open>A cached principal has the identity of the user it was built from.\<close>

lemma jstr_opt_back [simp]: "as_str_opt (jstr_opt s) = s"
  by (simp add: jstr_opt_def split: option.split)

lemma rehydrated_principal:
  "build_user_from_cache (JObj (build_user_cache_payload u)) =
   (principal_of_user u)\<lparr>pr_followers_cnt := 0, pr_following_cnt := 0\<rparr>"
  by (simp add: build_user_from_cache_def build_user_cache_payload_def principal_of_user_def
      dict_get_def Let_def)

text \<open>
  The deadlines of the cached principals: Redis starts to count the lifetime of an entry at most \<open>lag\<close>
  microseconds after it was computed, so an entry for a token that decodes to an expiry \<open>e\<close> is gone that
  long after the second \<open>e\<close> is over.
\<close>

definition auth_cache_bounded :: "int \<Rightarrow> (string \<Rightarrow> claims option) \<Rightarrow> redis \<Rightarrow> bool" where
  "auth_cache_bounded lag decode r \<longleftrightarrow>
     (\<forall>token c e. decode token = Some c \<longrightarrow> cl_expTime c = Some e \<longrightarrow>
        (case map_of (r_store r) (auth_key token) of
           Some (_, Some dl) \<Rightarrow> dl * 1000 < seconds (e + 1) + lag
         | Some (_, None) \<Rightarrow> False
         | None \<Rightarrow> True))"

lemma auth_cache_bounded_set:
  assumes "auth_cache_bounded lag decode r"
    and "\<And>token c e. k = auth_key token \<Longrightarrow> decode token = Some c \<Longrightarrow> cl_expTime c = Some e \<Longrightarrow>
      \<exists>d. dl = Some d \<and> d * 1000 < seconds (e + 1) + lag"
  shows "auth_cache_bounded lag decode (r_set k v dl r)"
  unfolding auth_cache_bounded_def
proof (intro allI impI)
  fix token c e assume "decode token = Some c" "cl_expTime c = Some e"
  then show "case map_of (r_store (r_set k v dl r)) (auth_key token) of
        Some (_, Some dl) \<Rightarrow> dl * 1000 < seconds (e + 1) + lag | Some (_, None) \<Rightarrow> False | None \<Rightarrow> True"
    using assms(1) assms(2) [of token c e] unfolding auth_cache_bounded_def
    by (auto simp: r_set_def update_conv)
qed

lemma auth_cache_bounded_delete:
  "auth_cache_bounded lag decode r \<Longrightarrow> auth_cache_bounded lag decode (delete_cache k r)"
  by (auto simp: auth_cache_bounded_def delete_cache_def r_del_def delete_conv)

lemma auth_key_inj [simp]: "auth_key t = auth_key t' \<longleftrightarrow> t = t'"
  by (simp add: auth_key_def)

lemma auth_cache_bounded_blacklist:
  "auth_cache_bounded lag decode r \<Longrightarrow> auth_cache_bounded lag decode (add_to_blacklist n t ttl r)"
  unfolding add_to_blacklist_def by (auto intro!: auth_cache_bounded_set simp: auth_key_def)

lemma ms_floor: "n div 1000 * 1000 \<le> (n :: int)"
  by presburger

lemma getCurrentUser_bounded:
  assumes "auth_cache_bounded lag decode (w_redis w)" "d \<le> lag" "0 < w_now w"
  shows "auth_cache_bounded lag decode (w_redis (snd (getCurrentUser_within d decode m token w)))"
proof -
  have "auth_cache_bounded lag decode (set_cache (now_ms (w\<lparr>w_now := w_now w + d\<rparr>)) (auth_key token) v
      (get_access_token_ttl_seconds m c w) (w_redis w))"
    if "decode token = Some c" "cl_expTime c = Some e" "\<not> seconds e < w_now w" for c e v
    using assms that ms_floor [of "w_now w + d"] unfolding set_cache_def
    by (auto intro!: auth_cache_bounded_set
        simp: get_access_token_ttl_seconds_def now_ms_def seconds_def max_def)
  then show ?thesis
    using assms(1) unfolding getCurrentUser_within_def validate_access_token_def decodeToken_def
    by (auto split: prod.split bool.split option.splits outcome.splits if_splits)
qed

lemma expired_not_cached:
  assumes "auth_cache_bounded lag decode r" "decode token = Some c" "cl_expTime c = Some e"
    and "seconds (e + 1) + lag \<le> t"
  shows "r_get (t div 1000) (auth_key token) r = None"
proof -
  have "case map_of (r_store r) (auth_key token) of
      Some (_, Some dl) \<Rightarrow> dl * 1000 < seconds (e + 1) + lag | Some (_, None) \<Rightarrow> False | None \<Rightarrow> True"
    using assms(1-3) unfolding auth_cache_bounded_def by blast
  moreover have "dl \<le> t div 1000" if "dl * 1000 < seconds (e + 1) + lag" for dl
    using that assms(4) by linarith
  ultimately show ?thesis
    by (fastforce simp: r_get_def live_def split: option.splits)
qed

lemma expired_token_refused:
  assumes "auth_cache_bounded lag decode (w_redis w)" "decode token = Some c" "cl_expTime c = Some e"
    and "seconds (e + 1) + lag \<le> w_now w" "0 \<le> lag"
  shows "getCurrentUser_within d decode m token w = (Http 401 credentials_message, w)"
proof -
  have "seconds e < w_now w"
    using assms(4,5) by (simp add: seconds_def)
  then have "r_get (now_ms w) (''auth:user:'' @ token) (w_redis w) = None" "decodeToken decode token w = None"
    using expired_not_cached [OF assms(1-4)] assms(2,3)
    by (simp_all add: auth_key_def decodeToken_def now_ms_def)
  then show ?thesis
    by (simp add: getCurrentUser_within_def get_auth_cache_and_blacklist_def validate_access_token_def)
qed

end
