(* ===== verification/Posts.thy ===== *)
theory Posts
  imports Oauth2
begin

text \<open>
  \<open>app/routes/posts.py\<close>, \<open>like.py\<close>, \<open>comment.py\<close> and \<open>saved.py\<close>. Every handler is the body of the route,
  after the dependencies (authentication, rate limit, idempotency) have run; the principal is
  \<open>currentUser\<close>. Rows are inserted with their column defaults, ids come from the sequences.
\<close>

section \<open>Responses\<close>

definition user_basic :: "int \<Rightarrow> string \<Rightarrow> string option \<Rightarrow> string option \<Rightarrow> bool \<Rightarrow> json" where
  "user_basic i username nickname profile_pic is_following =
     JObj [(''id'', JInt i), (''username'', JStr username), (''nickname'', jstr_opt nickname),
       (''profile_pic'', jstr_opt profile_pic), (''is_following'', JBool is_following)]"

definition owner_json :: "user \<Rightarrow> json" where
  "owner_json u = user_basic (u_id u) (u_username u) (u_nickname u) (u_profile_picture u) False"

definition principal_json :: "principal \<Rightarrow> json" where
  "principal_json p = user_basic (pr_id p) (pr_username p) (pr_nickname p) (pr_profile_picture p) False"

definition post_media_url :: "string option \<Rightarrow> post \<Rightarrow> string option" where
  "post_media_url account p = (case p_media_path p of
      None \<Rightarrow> None
    | Some m \<Rightarrow> if m = [] then None else Some (get_blob_url account ''posts-media'' m))"

definition post_detail :: "string option \<Rightarrow> post \<Rightarrow> bool \<Rightarrow> json \<Rightarrow> json" where
  "post_detail account p is_liked owner = JObj
     [(''id'', JInt (p_id p)), (''title'', JStr (p_title p)), (''content'', JStr (p_content p)),
      (''media_url'', jstr_opt (post_media_url account p)), (''media_type'', jstr_opt (p_media_type p)),
      (''likes'', JInt (p_likes p)), (''dislikes'', JInt (p_dis_likes p)), (''views'', JInt (p_views p)),
      (''comments_count'', JInt (p_comments_cnt p)), (''enable_comments'', JBool (p_enable_comments p)),
      (''hashtags'', jstr_opt (p_hashtags p)), (''created_at'', JTime (p_created_at p)),
      (''is_liked'', JBool is_liked), (''owner'', owner)]"

definition not_found :: "string \<Rightarrow> int \<Rightarrow> string" where
  "not_found resource identifier = resource @ '' with identifier '' @ str_int identifier @ '' not found''"

section \<open>Cache keys\<close>

definition post_key :: "int \<Rightarrow> int \<Rightarrow> string" where
  "post_key post_id user_id = ''post:'' @ str_int post_id @ CHR '':'' # str_int user_id"

definition post_pattern :: "int \<Rightarrow> string" where
  "post_pattern post_id = ''post:'' @ str_int post_id @ '':*''"

definition comments_key :: "int \<Rightarrow> nat \<Rightarrow> nat \<Rightarrow> string" where
  "comments_key post_id offset limit =
     ''comments:post:'' @ str_int post_id @ CHR '':'' # str_nat offset @ CHR '':'' # str_nat limit"

definition comments_pattern :: "int \<Rightarrow> string" where
  "comments_pattern post_id = ''comments:post:'' @ str_int post_id @ '':*''"

definition user_posts_pattern :: "int \<Rightarrow> string" where
  "user_posts_pattern user_id = ''user:posts:'' @ str_int user_id @ '':*''"

definition bump_feeds :: "int \<Rightarrow> redis \<Rightarrow> redis" where
  "bump_feeds now r = snd (increment_cache_version now ''feed:explore''
     (snd (increment_cache_version now ''feed:home'' r)))"

section \<open>Reading a post\<close>

definition has_liked :: "int \<Rightarrow> int \<Rightarrow> database \<Rightarrow> bool" where
  "has_liked post_id user_id d \<longleftrightarrow>
     list_ex (\<lambda>v. v_post_id v = post_id \<and> v_user_id v = user_id \<and> v_action v) (votes d)"

definition get_post :: "string option \<Rightarrow> int \<Rightarrow> principal \<Rightarrow> world \<Rightarrow> json outcome \<times> world" where
  "get_post account postId currentUser w =
     (let cache_key = post_key postId (pr_id currentUser);
          from_db = (case post_by_id postId (w_db w) of
              None \<Rightarrow> (Http 404 (not_found ''Post'' postId), w)
            | Some p \<Rightarrow>
                let w1 = on_redis (queue_post_view (now_ms w) postId (pr_id currentUser)) w
                in (case user_by_id (p_user_id p) (w_db w) of
                      None \<Rightarrow> (Raise AttributeError, w1)
                    | Some u \<Rightarrow>
                        let body = post_detail account p (has_liked postId (pr_id currentUser) (w_db w)) (owner_json u)
                        in (Return body, on_redis (set_cache (now_ms w) cache_key body 120) w1)))
      in case get_cache (now_ms w) cache_key (w_redis w) of
           Some cached \<Rightarrow> if truthy cached then (Return cached, w) else from_db
         | None \<Rightarrow> from_db)"

section \<open>Creating, updating, deleting a post\<close>

record upload =
  up_filename :: "string option"
  up_content_type :: string
  up_data :: string

definition post_media_types :: "string list" where
  "post_media_types = [''image/jpeg'', ''image/png'', ''video/mp4'']"

definition new_post :: "string \<Rightarrow> string \<Rightarrow> string option \<Rightarrow> string option \<Rightarrow> int \<Rightarrow> int \<Rightarrow> post" where
  "new_post title content media_path media_type created_at user_id =
     \<lparr>p_id = 0, p_media_path = media_path, p_media_type = media_type, p_title = title, p_content = content,
      p_enable_comments = True, p_created_at = created_at, p_user_id = user_id, p_likes = 0,
      p_dis_likes = 0, p_views = 0, p_comments_cnt = 0, p_hashtags = None\<rparr>"

text \<open>The media part: the stored name and type, or the refusal.\<close>

definition store_media :: "string option \<Rightarrow> nat \<Rightarrow> string \<Rightarrow> upload option \<Rightarrow> world \<Rightarrow>
    (string option \<times> string option) outcome \<times> world" where
  "store_media account max_mb uuid media w = (case media of
      None \<Rightarrow> (Return (None, None), w)
    | Some m \<Rightarrow>
        if up_content_type m \<notin> set post_media_types then (Http 400 ''Only JPG, PNG, MP4 allowed'', w)
        else
          let filename = uuid @ ''.'' @ safe_extension (up_filename m)
          in (case validate_and_read_file max_mb (up_data m) of
                Return bytes \<Rightarrow>
                  (case upload_blob account ''posts-media'' filename bytes (w_blobs w) of
                     (Return _, b) \<Rightarrow>
                       (Return (Some filename,
                          Some (if take 5 (up_content_type m) = ''image'' then ''image'' else ''video'')),
                        w\<lparr>w_blobs := b\<rparr>)
                   | (Http c d, b) \<Rightarrow> (Http c d, w)
                   | (Raise e, b) \<Rightarrow> (Raise e, w))
              | Http c d \<Rightarrow> (Http c d, w)
              | Raise e \<Rightarrow> (Raise e, w)))"

definition create_post :: "string option \<Rightarrow> nat \<Rightarrow> string \<Rightarrow> string \<Rightarrow> string \<Rightarrow> upload option \<Rightarrow>
    principal \<Rightarrow> world \<Rightarrow> json outcome \<times> world" where
  "create_post account max_mb uuid title content media currentUser w =
     (case store_media account max_mb uuid media w of
        (Return (media_path, media_type), w1) \<Rightarrow>
          (let row = new_post title content media_path media_type (w_now w) (pr_id currentUser)
           in case insert_post row (w_db w1) of
                None \<Rightarrow> (Raise IntegrityError, w1)
              | Some d \<Rightarrow>
                  (Return (post_detail account (row\<lparr>p_id := posts_seq (w_db w1)\<rparr>) False (principal_json currentUser)),
                   on_redis (delete_cache_pattern (user_posts_pattern (pr_id currentUser)) \<circ> bump_feeds (now_ms w))
                     (w1\<lparr>w_db := d\<rparr>)))
      | (Http c d, w1) \<Rightarrow> (Http c d, w1)
      | (Raise e, w1) \<Rightarrow> (Raise e, w1))"

definition delete_post :: "string option \<Rightarrow> int \<Rightarrow> principal \<Rightarrow> world \<Rightarrow> json outcome \<times> world" where
  "delete_post account postId currentUser w =
     (case find (\<lambda>p. p_id p = postId \<and> p_user_id p = pr_id currentUser) (posts (w_db w)) of
        None \<Rightarrow> (Http 404 (not_found ''Post'' postId), w)
      | Some p \<Rightarrow>
          let w1 = (case p_media_path p of
                Some m \<Rightarrow> if m = [] then w else w\<lparr>w_blobs := delete_blob account ''posts-media'' m (w_blobs w)\<rparr>
              | None \<Rightarrow> w)
          in (case delete_posts (\<lambda>q. p_id q = postId) (w_db w1) of
                None \<Rightarrow> (Raise IntegrityError, w1)
              | Some d \<Rightarrow>
                  (Return (message_body (''Post '' @ str_int postId @ '' deleted successfully'')),
                   on_redis (delete_cache_pattern (comments_pattern postId) \<circ>
                       delete_cache_pattern (user_posts_pattern (pr_id currentUser)) \<circ>
                       bump_feeds (now_ms w) \<circ> delete_cache_pattern (post_pattern postId))
                     (w1\<lparr>w_db := d\<rparr>))))"

text \<open>The fields present in the request (\<open>exclude_unset\<close>); \<open>None\<close> is an explicit null.\<close>

datatype post_field =
    Title "string option"
  | Content "string option"
  | Enable_comments "bool option"
  | Hashtags "string option"

fun set_post_field :: "post_field \<Rightarrow> post \<Rightarrow> post option" where
  "set_post_field (Title (Some t)) p = Some (p\<lparr>p_title := t\<rparr>)"
| "set_post_field (Content (Some t)) p = Some (p\<lparr>p_content := t\<rparr>)"
| "set_post_field (Enable_comments (Some b)) p = Some (p\<lparr>p_enable_comments := b\<rparr>)"
| "set_post_field (Hashtags h) p = Some (p\<lparr>p_hashtags := h\<rparr>)"
| "set_post_field _ p = None"

text \<open>\<open>None\<close>: a null was assigned to a NOT NULL column.\<close>

fun apply_post_fields :: "post_field list \<Rightarrow> post \<Rightarrow> post option" where
  "apply_post_fields [] p = Some p"
| "apply_post_fields (f # fs) p = Option.bind (set_post_field f p) (apply_post_fields fs)"

definition update_post :: "string option \<Rightarrow> int \<Rightarrow> post_field list \<Rightarrow> principal \<Rightarrow> world \<Rightarrow> json outcome \<times> world" where
  "update_post account postId update_data currentUser w =
     (case post_by_id postId (w_db w) of
        None \<Rightarrow> (Http 404 (not_found ''Post'' postId), w)
      | Some p \<Rightarrow> (case apply_post_fields update_data p of
            None \<Rightarrow> (Raise IntegrityError, w)
          | Some p' \<Rightarrow>
              let w1 = on_redis (bump_feeds (now_ms w) \<circ> delete_cache_pattern (post_pattern postId))
                    (w\<lparr>w_db := (w_db w)\<lparr>posts := update_where (\<lambda>q. p_id q = postId) (\<lambda>_. p') (posts (w_db w))\<rparr>\<rparr>)
              in (case user_by_id (p_user_id p') (w_db w) of
                    None \<Rightarrow> (Raise AttributeError, w1)
                  | Some u \<Rightarrow> (Return (post_detail account p' False (owner_json u)), w1))))"

section \<open>Votes\<close>

definition vote_response :: "string \<Rightarrow> int option \<Rightarrow> int option \<Rightarrow> json" where
  "vote_response msg likes dislikes =
     JObj [(''message'', JStr msg), (''likes'', jint_opt likes), (''dislikes'', jint_opt dislikes)]"

text \<open>After the commit: read the counters, drop the cached post, bump the feed versions.\<close>

definition vote_done :: "string \<Rightarrow> int \<Rightarrow> world \<Rightarrow> json outcome \<times> world" where
  "vote_done msg post_id w =
     (case post_by_id post_id (w_db w) of
        None \<Rightarrow> (Raise TypeError, w)
      | Some p \<Rightarrow> (Return (vote_response msg (Some (p_likes p)) (Some (p_dis_likes p))),
                   on_redis (bump_feeds (now_ms w) \<circ> delete_cache_pattern (post_pattern post_id)) w))"

definition voteOnPost :: "int \<Rightarrow> int \<Rightarrow> bool \<Rightarrow> principal \<Rightarrow> world \<Rightarrow> json outcome \<times> world" where
  "voteOnPost postId post_id choice currentUser w =
     (if post_id \<noteq> postId then (Http 400 ''Path postId and request post_id must match'', w)
      else case post_by_id post_id (w_db w) of
        None \<Rightarrow> (Http 404 (''post with Id '' @ str_int post_id @ '' not Found''), w)
      | Some queriedPost \<Rightarrow>
          let mine = (\<lambda>v. v_post_id v = post_id \<and> v_user_id v = pr_id currentUser)
          in (case find mine (votes (w_db w)) of
                Some currentVote \<Rightarrow>
                  if v_action currentVote = choice
                  then vote_done ''Vote removed successfully'' post_id (w\<lparr>w_db := delete_votes mine (w_db w)\<rparr>)
                  else vote_done ''Vote switched successfully'' post_id (w\<lparr>w_db := update_votes mine choice (w_db w)\<rparr>)
              | None \<Rightarrow>
                  (case insert_vote \<lparr>v_post_id = post_id, v_user_id = pr_id currentUser, v_action = choice\<rparr> (w_db w) of
                     None \<Rightarrow> (Http 409 ''Database error, please try again'', w)
                   | Some d \<Rightarrow>
                       (case vote_done ''New vote added successfully'' post_id (w\<lparr>w_db := d\<rparr>) of
                          (res, w') \<Rightarrow>
                            (res, if choice \<and> pr_id currentUser \<noteq> p_user_id queriedPost
                                  then enqueue (create_notification_task (pr_id currentUser) (p_user_id queriedPost)
                                         like_notif (pr_username currentUser) (Some post_id) (Some ''post'')) w'
                                  else w')))))"

definition comment_vote_done :: "string \<Rightarrow> int \<Rightarrow> world \<Rightarrow> json outcome \<times> world" where
  "comment_vote_done msg comment_id w =
     (Return (vote_response msg (map_option c_likes (comment_by_id comment_id (w_db w))) None), w)"

definition likeAComment :: "int \<Rightarrow> int \<Rightarrow> bool \<Rightarrow> principal \<Rightarrow> world \<Rightarrow> json outcome \<times> world" where
  "likeAComment commentId comment_id choice currentUser w =
     (if comment_id \<noteq> commentId then (Http 400 ''Path commentId and request comment_id must match'', w)
      else case comment_by_id comment_id (w_db w) of
        None \<Rightarrow> (Http 404 (''comment with Id '' @ str_int comment_id @ '' not Found''), w)
      | Some queriedComment \<Rightarrow>
          let mine = (\<lambda>v. cv_comment_id v = comment_id \<and> cv_user_id v = pr_id currentUser)
          in (case find mine (comment_votes (w_db w)) of
                Some currentVote \<Rightarrow>
                  if cv_like currentVote = choice
                  then comment_vote_done ''Vote removed successfully'' comment_id
                         (w\<lparr>w_db := delete_comment_votes mine (w_db w)\<rparr>)
                  else comment_vote_done ''Vote switched successfully'' comment_id
                         (w\<lparr>w_db := update_comment_votes mine choice (w_db w)\<rparr>)
              | None \<Rightarrow>
                  (case insert_comment_vote
                          \<lparr>cv_comment_id = comment_id, cv_user_id = pr_id currentUser, cv_like = choice\<rparr> (w_db w) of
                     None \<Rightarrow> (Http 409 ''Database error, please try again'', w)
                   | Some d \<Rightarrow> comment_vote_done ''New vote added successfully'' comment_id (w\<lparr>w_db := d\<rparr>))))"

section \<open>Comments\<close>

definition comment_detail :: "comment \<Rightarrow> json \<Rightarrow> json" where
  "comment_detail c author = JObj [(''id'', JInt (c_id c)), (''post_id'', JInt (c_post_id c)),
     (''content'', JStr (c_comment_content c)), (''likes'', JInt (c_likes c)),
     (''created_at'', JTime (c_created_at c)), (''user'', author)]"

definition create_comment :: "int \<Rightarrow> string \<Rightarrow> principal \<Rightarrow> world \<Rightarrow> json outcome \<times> world" where
  "create_comment post_id content currentUser w =
     (case post_by_id post_id (w_db w) of
        None \<Rightarrow> (Http 404 (''Post with id '' @ str_int post_id @ '' not found''), w)
      | Some p \<Rightarrow>
          if \<not> p_enable_comments p then (Http 403 ''this post has comments disabled'', w)
          else
            let row = \<lparr>c_id = 0, c_post_id = post_id, c_user_id = pr_id currentUser,
                       c_comment_content = content, c_created_at = w_now w, c_likes = 0\<rparr>
            in (case insert_comment row (w_db w) of
                  None \<Rightarrow> (Raise IntegrityError, w)
                | Some d \<Rightarrow>
                    let w1 = on_redis (bump_feeds (now_ms w) \<circ> delete_cache_pattern (post_pattern post_id) \<circ>
                                       delete_cache_pattern (comments_pattern post_id)) (w\<lparr>w_db := d\<rparr>);
                        w2 = (if pr_id currentUser \<noteq> p_user_id p
                              then enqueue (create_notification_task (pr_id currentUser) (p_user_id p)
                                     comment_notif (pr_username currentUser) (Some post_id) (Some ''post'')) w1
                              else w1)
                    in (Return (comment_detail (row\<lparr>c_id := comments_seq (w_db w)\<rparr>) (principal_json currentUser)), w2)))"

definition own_comment :: "int \<Rightarrow> principal \<Rightarrow> database \<Rightarrow> comment option" where
  "own_comment commentId currentUser d =
     find (\<lambda>c. c_id c = commentId \<and> c_user_id c = pr_id currentUser) (comments d)"

definition comment_missing :: "int \<Rightarrow> string" where
  "comment_missing commentId = ''comment with Id '' @ str_int commentId @ '' not Found''"

definition delete_comment :: "int \<Rightarrow> principal \<Rightarrow> world \<Rightarrow> json outcome \<times> world" where
  "delete_comment commentId currentUser w =
     (case own_comment commentId currentUser (w_db w) of
        None \<Rightarrow> (Http 404 (comment_missing commentId), w)
      | Some c \<Rightarrow>
          (Return (message_body (''Comment '' @ str_int commentId @ '' deleted successfully'')),
           on_redis (delete_cache_pattern (post_pattern (c_post_id c)) \<circ>
                     delete_cache_pattern (comments_pattern (c_post_id c)))
             (w\<lparr>w_db := delete_comments (\<lambda>x. c_id x = commentId) (w_db w)\<rparr>)))"

definition update_comment :: "int \<Rightarrow> string \<Rightarrow> principal \<Rightarrow> world \<Rightarrow> json outcome \<times> world" where
  "update_comment commentId text currentUser w =
     (case own_comment commentId currentUser (w_db w) of
        None \<Rightarrow> (Http 404 (comment_missing commentId), w)
      | Some c \<Rightarrow>
          (Return (comment_detail (c\<lparr>c_comment_content := text\<rparr>) (principal_json currentUser)),
           on_redis (delete_cache_pattern (comments_pattern (c_post_id c)))
             (w\<lparr>w_db := update_comments (\<lambda>x. c_id x = commentId) text (w_db w)\<rparr>)))"

definition pagination :: "nat \<Rightarrow> nat \<Rightarrow> bool \<Rightarrow> json" where
  "pagination limit offset has_more = JObj [(''total'', JNull), (''limit'', JInt (int limit)),
     (''offset'', JInt (int offset)), (''has_more'', JBool has_more)]"

text \<open>Comments of a post joined with their authors, newest first.\<close>

definition comments_of_post :: "(comment \<Rightarrow> int) \<Rightarrow> int \<Rightarrow> database \<Rightarrow> (comment \<times> user) list" where
  "comments_of_post tie post_id d =
     order_by (tie \<circ> fst) (\<lambda>cu. - c_created_at (fst cu))
       (List.map_filter (\<lambda>c. map_option (Pair c) (user_by_id (c_user_id c) d))
         (filter (\<lambda>c. c_post_id c = post_id) (comments d)))"

definition get_post_comments :: "(comment \<Rightarrow> int) \<Rightarrow> int \<Rightarrow> nat \<Rightarrow> nat \<Rightarrow> principal \<Rightarrow> world \<Rightarrow> json outcome \<times> world" where
  "get_post_comments tie post_id limit offset currentUser w =
     (let cache_key = comments_key post_id offset limit;
          rows = comments_of_post tie post_id (w_db w);
          body = JObj [(''comments'', JArr (map (\<lambda>(c, u). comment_detail c (owner_json u)) (page offset limit rows))),
                       (''pagination'', pagination limit offset (page_more offset limit rows))];
          from_db = (Return body, on_redis (set_cache (now_ms w) cache_key body 30) w)
      in case get_cache (now_ms w) cache_key (w_redis w) of
           Some cached \<Rightarrow> if truthy cached then (Return cached, w) else from_db
         | None \<Rightarrow> from_db)"

section \<open>Bookmarks\<close>

definition saved_by :: "int \<Rightarrow> int \<Rightarrow> saved_post \<Rightarrow> bool" where
  "saved_by user_id post_id s \<longleftrightarrow> sv_user_id s = user_id \<and> sv_post_id s = post_id"

definition save_post :: "int \<Rightarrow> principal \<Rightarrow> world \<Rightarrow> json outcome \<times> world" where
  "save_post post_id current_user w =
     (case post_by_id post_id (w_db w) of
        None \<Rightarrow> (Http 404 ''Post not found'', w)
      | Some p \<Rightarrow>
          if find (saved_by (pr_id current_user) post_id) (saved_posts (w_db w)) \<noteq> None
          then (Return (message_body ''Post already saved''), w)
          else (case insert_saved \<lparr>sv_id = 0, sv_user_id = pr_id current_user, sv_post_id = post_id,
                                   sv_created_at = w_now w\<rparr> (w_db w) of
                  None \<Rightarrow> (Raise IntegrityError, w)
                | Some d \<Rightarrow> (Return (message_body ''Post saved''), w\<lparr>w_db := d\<rparr>)))"

definition unsave_post :: "int \<Rightarrow> principal \<Rightarrow> world \<Rightarrow> json outcome \<times> world" where
  "unsave_post post_id current_user w =
     (case find (saved_by (pr_id current_user) post_id) (saved_posts (w_db w)) of
        None \<Rightarrow> (Http 404 ''Saved post not found'', w)
      | Some s \<Rightarrow> (Return (message_body ''Saved post removed''),
                   w\<lparr>w_db := delete_saved (\<lambda>x. sv_id x = sv_id s) (w_db w)\<rparr>))"

definition saved_rows :: "int \<Rightarrow> database \<Rightarrow> (saved_post \<times> post \<times> user) list" where
  "saved_rows user_id d =
     sort_key (\<lambda>r. - sv_created_at (fst r))
       (List.map_filter (\<lambda>s. Option.bind (post_by_id (sv_post_id s) d)
            (\<lambda>p. map_option (\<lambda>u. (s, p, u)) (user_by_id (p_user_id p) d)))
         (filter (\<lambda>s. sv_user_id s = user_id) (saved_posts d)))"

definition get_saved_posts :: "string option \<Rightarrow> principal \<Rightarrow> world \<Rightarrow> json outcome \<times> world" where
  "get_saved_posts account current_user w =
     (Return (JObj [(''saved'', JArr (map (\<lambda>(s, p, u). JObj
          [(''id'', JInt (sv_id s)), (''post_id'', JInt (sv_post_id s)), (''saved_at'', JTime (sv_created_at s)),
           (''post'', post_detail account p (has_liked (p_id p) (pr_id current_user) (w_db w)) (owner_json u))])
        (saved_rows (pr_id current_user) (w_db w))))]), w)"

end
