(* ===== verification/Messaging.thy ===== *)
theory Messaging
  imports Presence Time_Formatting Posts
begin

text \<open>
  Direct messages: \<open>app/messaging/dm.py\<close>, \<open>media_msg.py\<close>, \<open>edit_msg.py\<close>, \<open>delete_msg.py\<close>, \<open>reply_msg.py\<close>,
  \<open>msg_reaction.py\<close>, \<open>read_receipt.py\<close>, \<open>clear_chat.py\<close> and \<open>msg_info.py\<close>. Every change is committed, then a copy
  for each of the two users is published on \<open>chat:messages\<close>; when Redis is down the frames go to the sockets
  of this process.

  The text columns \<open>media_url\<close> and \<open>media_type\<close> have the Python default \<open>False\<close>, which the driver of \<open>db.py\<close>
  rejects (asyncpg encodes only \<open>str\<close> for a text parameter): a message without them is not stored.
  The process runs in UTC.
\<close>

section \<open>Statements\<close>

definition insert_deleted_message :: "deleted_message \<Rightarrow> database \<Rightarrow> database option" where
  "insert_deleted_message x d =
     (if deleted_message_key x \<in> set (map deleted_message_key (deleted_messages d)) \<or>
         dm_message_id x \<notin> set (map m_id (messages d)) \<or> dm_user_id x \<notin> set (map u_id (users d)) then None
      else Some (d\<lparr>deleted_messages := deleted_messages d @ [x]\<rparr>))"

definition insert_message_reply :: "message_reply \<Rightarrow> database \<Rightarrow> database option" where
  "insert_message_reply x d =
     (if x \<in> set (message_replies d) \<or> mr_reply_id x \<notin> set (map m_id (messages d)) \<or>
         mr_original_id x \<notin> set (map m_id (messages d)) then None
      else Some (d\<lparr>message_replies := message_replies d @ [x]\<rparr>))"

definition hidden_from :: "int \<Rightarrow> database \<Rightarrow> message \<Rightarrow> bool" where
  "hidden_from i d m \<longleftrightarrow> list_ex (\<lambda>x. dm_user_id x = i \<and> dm_message_id x = m_id m) (deleted_messages d)"

section \<open>Delivery\<close>

text \<open>\<open>dict(payload)\<close> with \<open>receiver_id\<close> set.\<close>

definition with_receiver :: "int \<Rightarrow> (string \<times> json) list \<Rightarrow> json" where
  "with_receiver i payload = JObj (dict_set ''receiver_id'' (JInt i) payload)"

text \<open>The two \<open>publish\<close> calls, the sender's copy first; \<open>None\<close> when Redis is down.\<close>

definition publish_copies :: "(string \<times> json) list \<Rightarrow> int \<Rightarrow> world \<Rightarrow> world option" where
  "publish_copies payload sender w =
     (if r_up (w_redis w)
      then Some (on_redis (r_publish ''chat:messages'' (JObj payload) \<circ>
                           r_publish ''chat:messages'' (with_receiver sender payload)) w)
      else None)"

definition connected_here :: "int \<Rightarrow> world \<Rightarrow> bool" where
  "connected_here i w \<longleftrightarrow> socket_of i (w_mgr w) \<noteq> None"

definition mark_delivered :: "int \<Rightarrow> world \<Rightarrow> world" where
  "mark_delivered i w = w\<lparr>w_db := update_messages (\<lambda>m. m_id m = i \<and> \<not> m_is_read m)
     (\<lambda>m. m\<lparr>m_is_read := True, m_read_at := Some (w_now w)\<rparr>) (w_db w)\<rparr>"

text \<open>
  The common end of a send: publish; when Redis is down, a connected receiver is sent the frame and the message
  is marked as read, and the sender gets the copy. The local sends never raise.
\<close>

definition publish_or_mark :: "(string \<times> json) list \<Rightarrow> int \<Rightarrow> int \<Rightarrow> int \<Rightarrow> world \<Rightarrow> world" where
  "publish_or_mark payload message_id sender receiver w =
     (case publish_copies payload sender w of
        Some w' \<Rightarrow> w'
      | None \<Rightarrow>
          let w' = (if connected_here receiver w
                    then mark_delivered message_id (on_mgr (send_json_to_user (JObj payload) receiver) w) else w)
          in on_mgr (send_personal_message (with_receiver sender payload) sender) w')"

section \<open>Sending\<close>

record message_schema =
  ms_to :: int
  ms_content :: "string option"
  ms_media_url :: "string option"
  ms_media_type :: "string option"

text \<open>What is inserted, and what the object still shows when it was not refreshed: the default stands for \<open>None\<close>.\<close>

definition fresh_attr :: "string option \<Rightarrow> json" where
  "fresh_attr v = (case v of Some s \<Rightarrow> JStr s | None \<Rightarrow> JBool False)"

text \<open>asyncpg's encoding of a parameter for a text column; \<open>None\<close>: \<open>DataError\<close>.\<close>

fun column_text :: "json \<Rightarrow> string option" where
  "column_text (JStr s) = Some s"
| "column_text _ = None"

definition message_row :: "bool \<Rightarrow> bool \<Rightarrow> string \<Rightarrow> int \<Rightarrow> int \<Rightarrow> string \<Rightarrow> string \<Rightarrow> world \<Rightarrow> message" where
  "message_row is_reply is_share content sender receiver media_type media_url w =
     \<lparr>m_id = messages_seq (w_db w), m_media_url = Some media_url, m_media_type = Some media_type, m_content = content,
      m_sender_id = sender, m_receiver_id = receiver, m_created_at = w_now w, m_is_read = False,
      m_is_deleted_for_everyone = False, m_is_edited = False, m_edited_at = None, m_read_at = None,
      m_reaction_cnt = 0, m_is_reply_msg = is_reply, m_is_reply_to_share = is_share\<rparr>"

definition store_message :: "bool \<Rightarrow> bool \<Rightarrow> int \<Rightarrow> 'a message_schema_scheme \<Rightarrow> world \<Rightarrow>
    message outcome \<times> world" where
  "store_message is_reply is_share sender p w =
     (case (column_text (fresh_attr (ms_media_type p)), column_text (fresh_attr (ms_media_url p))) of
        (Some t, Some u) \<Rightarrow>
          (case ms_content p of
             None \<Rightarrow> (Raise IntegrityError, w)
           | Some c \<Rightarrow>
               let m = message_row is_reply is_share c sender (ms_to p) t u w
               in case insert_message m (w_db w) of
                    None \<Rightarrow> (Raise IntegrityError, w)
                  | Some d \<Rightarrow> (Return m, w\<lparr>w_db := d\<rparr>))
      | _ \<Rightarrow> (Raise DataError, w))"

definition direct_payload :: "int \<Rightarrow> string \<Rightarrow> json \<Rightarrow> json \<Rightarrow> int \<Rightarrow> int \<Rightarrow> string \<Rightarrow> (string \<times> json) list" where
  "direct_payload i content media_url media_type sender receiver timestamp =
     [(''id'', JInt i), (''content'', JStr content), (''media_url'', media_url), (''media_type'', media_type),
      (''sender_id'', JInt sender), (''receiver_id'', JInt receiver), (''type'', JStr ''message''),
      (''timestamp'', JStr timestamp), (''is_reply'', JBool False), (''is_reply_to_share'', JBool False)]"

definition messageUser :: "message_schema \<Rightarrow> int \<Rightarrow> world \<Rightarrow> unit outcome \<times> world" where
  "messageUser payload user_id w =
     (case store_message False False user_id payload w of
        (Return msg, w1) \<Rightarrow>
          let reply_payload = direct_payload (m_id msg) (m_content msg) (fresh_attr (ms_media_url payload))
                (fresh_attr (ms_media_type payload)) user_id (ms_to payload)
                (format_timestamp (w_now w1) (Some (m_created_at msg)))
          in (Return (), publish_or_mark reply_payload (m_id msg) user_id (ms_to payload) w1)
      | (Http c m, w1) \<Rightarrow> (Http c m, w1)
      | (Raise e, w1) \<Rightarrow> (Raise e, w1))"

text \<open>
  \<open>send_media\<close>: the upload comes before the INSERT. \<open>media_type\<close> is the part of the content type before
  the first slash.
\<close>

definition media_blob_name :: "string \<Rightarrow> string \<Rightarrow> string option \<Rightarrow> string" where
  "media_blob_name media_type uuid filename =
     (let ext = safe_extension filename
      in media_type @ ''s/'' @ uuid @ (if ext \<noteq> [] then CHR ''.'' # ext else []))"

definition send_media :: "string option \<Rightarrow> nat \<Rightarrow> string \<Rightarrow> upload \<Rightarrow> int \<Rightarrow> principal \<Rightarrow> world \<Rightarrow>
    json outcome \<times> world" where
  "send_media account max_mb uuid file receiver current_user w =
     (let media_type = takeWhile (\<lambda>c. c \<noteq> CHR ''/'') (up_content_type file);
          me = pr_id current_user
      in case validate_and_read_file max_mb (up_data file) of
        Return bytes \<Rightarrow>
          (case upload_blob account ''chat-media'' (media_blob_name media_type uuid (up_filename file)) bytes (w_blobs w) of
             (Return media_url, b) \<Rightarrow>
               let w0 = w\<lparr>w_blobs := b\<rparr> in
               (case store_message False False me
                   \<lparr>ms_to = receiver, ms_content = Some [], ms_media_url = Some media_url, ms_media_type = Some media_type\<rparr> w0 of
                  (Return msg, w1) \<Rightarrow>
                    let payload = direct_payload (m_id msg) (m_content msg) (JStr media_url) (JStr media_type) me receiver
                          (format_timestamp (w_now w1) (Some (m_created_at msg)))
                    in (Return (JObj [(''media_url'', JStr media_url), (''type'', JStr media_type), (''message_id'', JInt (m_id msg))]),
                        case publish_copies payload me w1 of
                          Some w2 \<Rightarrow> w2
                        | None \<Rightarrow> on_mgr (send_personal_message (with_receiver me payload) me \<circ>
                                          send_json_to_user (JObj payload) receiver) w1)
                | (Http c m, w1) \<Rightarrow> (Http c m, w1)
                | (Raise e, w1) \<Rightarrow> (Raise e, w1))
           | (Http c m, b) \<Rightarrow> (Http c m, w)
           | (Raise e, b) \<Rightarrow> (Raise e, w))
      | Http c m \<Rightarrow> (Http c m, w)
      | Raise e \<Rightarrow> (Raise e, w))"

section \<open>Editing\<close>

definition own_message :: "int \<Rightarrow> int \<Rightarrow> database \<Rightarrow> message option" where
  "own_message message_id sender_id d = find (\<lambda>m. m_id m = message_id \<and> m_sender_id m = sender_id) (messages d)"

definition can_edit_response :: "bool \<Rightarrow> string option \<Rightarrow> json" where
  "can_edit_response can_edit message = JObj [(''can_edit'', JBool can_edit), (''message'', jstr_opt message)]"

definition can_edit :: "int \<Rightarrow> int \<Rightarrow> principal \<Rightarrow> world \<Rightarrow> json outcome \<times> world" where
  "can_edit max_edit_time msg_id currentUser w =
     (case own_message msg_id (pr_id currentUser) (w_db w) of
        None \<Rightarrow> (Return (can_edit_response False (Some ''Message not found'')), w)
      | Some m \<Rightarrow> (Return (can_edit_response (\<not> minutes max_edit_time < w_now w - m_created_at m) None), w))"

definition edit_denied :: "int \<Rightarrow> json" where
  "edit_denied message_id = JObj [(''type'', JStr ''edit_message_denied''), (''message_id'', JInt message_id),
     (''reason'', JStr ''edit_window_expired'')]"

definition edit_payload :: "string \<Rightarrow> int \<Rightarrow> bool \<Rightarrow> (string \<times> json) list" where
  "edit_payload new_content message_id is_edited =
     [(''type'', JStr ''edit_message''), (''new_content'', JStr new_content), (''message_id'', JInt message_id),
      (''is_edited'', JBool is_edited)]"

definition edit_message :: "int \<Rightarrow> int \<Rightarrow> string \<Rightarrow> int \<Rightarrow> int \<Rightarrow> world \<Rightarrow> world" where
  "edit_message max_edit_time message_id new_content sender_id recv_id w =
     (case own_message message_id sender_id (w_db w) of
        None \<Rightarrow> w
      | Some m \<Rightarrow>
          if minutes max_edit_time < w_now w - m_created_at m
          then on_mgr (send_personal_message (edit_denied message_id) sender_id) w
          else if py_strip (m_content m) = new_content
          then let payload = JObj (edit_payload (m_content m) message_id (m_is_edited m))
            in on_mgr (send_personal_message payload sender_id \<circ> send_json_to_user payload recv_id) w
          else
            let target = (\<lambda>x. m_id x = message_id \<and> m_sender_id x = sender_id \<and>
                  w_now w - minutes max_edit_time \<le> m_created_at x \<and> \<not> m_is_deleted_for_everyone x)
            in if \<not> list_ex target (messages (w_db w))
               then on_mgr (send_personal_message (edit_denied message_id) sender_id) w
               else
                 let w1 = w\<lparr>w_db := update_messages target (\<lambda>x. x\<lparr>m_content := new_content, m_is_edited := True,
                       m_is_read := False, m_read_at := None, m_edited_at := Some (w_now w)\<rparr>) (w_db w)\<rparr>;
                     payload = edit_payload new_content message_id True @ [(''receiver_id'', JInt recv_id)]
                 in publish_or_mark payload message_id sender_id recv_id w1)"

section \<open>Deleting\<close>

definition deleteForMe :: "int \<Rightarrow> principal \<Rightarrow> world \<Rightarrow> json outcome \<times> world" where
  "deleteForMe msg_id me w =
     (case message_by_id msg_id (w_db w) of
        None \<Rightarrow> (Return JNull, w)
      | Some m \<Rightarrow>
          let body = (\<lambda>detail. JObj [(''message_id'', JInt msg_id), (''detail'', JStr detail)]) in
          if hidden_from (pr_id me) (w_db w) m then (Return (body ''Already deleted for you''), w)
          else (case insert_deleted_message \<lparr>dm_user_id = pr_id me, dm_message_id = msg_id, dm_deleted_at = w_now w\<rparr> (w_db w) of
              None \<Rightarrow> (Raise IntegrityError, w)
            | Some d \<Rightarrow> (Return (body ''Deleted for you''), w\<lparr>w_db := d\<rparr>)))"

definition delete_payload :: "string \<Rightarrow> string \<Rightarrow> int \<Rightarrow> int \<Rightarrow> (string \<times> json) list" where
  "delete_payload kind id_field i receiver =
     [(''type'', JStr kind), (id_field, JInt i), (''is_deleted_for_everyone'', JBool True), (''receiver_id'', JInt receiver)]"

definition delete_for_everyone :: "int \<Rightarrow> int \<Rightarrow> int \<Rightarrow> world \<Rightarrow> world" where
  "delete_for_everyone message_id sender_id receiver_id w =
     (let target = (\<lambda>x. m_id x = message_id \<and> m_sender_id x = sender_id \<and> \<not> m_is_deleted_for_everyone x)
      in if \<not> list_ex target (messages (w_db w)) then w
         else
           let w1 = w\<lparr>w_db := update_messages target (m_is_deleted_for_everyone_update (\<lambda>_. True)) (w_db w)\<rparr>;
               payload = delete_payload ''delete_message'' ''message_id'' message_id receiver_id;
               w2 = (case publish_copies payload sender_id w1 of None \<Rightarrow> w1 | Some w' \<Rightarrow> w')
           in on_mgr (send_personal_message (with_receiver sender_id payload) sender_id \<circ>
                      send_json_to_user (JObj payload) receiver_id) w2)"

text \<open>\<open>clear_chat\<close>: \<open>INSERT .. SELECT\<close> over the messages of the conversation the user can see.\<close>

definition visible_in_chat :: "int \<Rightarrow> int \<Rightarrow> database \<Rightarrow> message \<Rightarrow> bool" where
  "visible_in_chat me friend d m \<longleftrightarrow> \<not> m_is_deleted_for_everyone m \<and>
     (m_sender_id m = me \<and> m_receiver_id m = friend \<or>
      m_sender_id m = friend \<and> m_receiver_id m = me \<and> m_is_read m) \<and> \<not> hidden_from me d m"

definition clear_chat :: "int \<Rightarrow> principal \<Rightarrow> world \<Rightarrow> json outcome \<times> world" where
  "clear_chat friend_id current_user w =
     (let me = pr_id current_user;
          rows = map (\<lambda>m. \<lparr>dm_user_id = me, dm_message_id = m_id m, dm_deleted_at = w_now w\<rparr>)
                     (filter (visible_in_chat me friend_id (w_db w)) (messages (w_db w)))
      in if rows \<noteq> [] \<and> user_by_id me (w_db w) = None then (Raise IntegrityError, w)
         else (Return (JObj [(''detail'', JStr ''Chat cleared successfully'')]),
               w\<lparr>w_db := (w_db w)\<lparr>deleted_messages := deleted_messages (w_db w) @ rows\<rparr>\<rparr>))"

section \<open>Replies\<close>

record reply_message_schema = message_schema +
  rs_reply_msg_id :: int

definition quoted_message :: "message \<Rightarrow> string \<Rightarrow> json" where
  "quoted_message m sender_name = JObj [(''msg_id'', JInt (m_id m)), (''content'', JStr (m_content m)),
     (''sender_name'', JStr sender_name), (''media_url'', jstr_opt (m_media_url m)), (''media_type'', jstr_opt (m_media_type m))]"

definition reply_payload :: "message \<Rightarrow> string \<Rightarrow> json \<Rightarrow> (string \<times> json) list" where
  "reply_payload msg timestamp reply_to =
     [(''type'', JStr ''message''), (''id'', JInt (m_id msg)), (''content'', JStr (m_content msg)),
      (''sender_id'', JInt (m_sender_id msg)), (''receiver_id'', JInt (m_receiver_id msg)), (''timestamp'', JStr timestamp),
      (''is_reply'', JBool True), (''is_reply_to_share'', JBool False), (''media_url'', jstr_opt (m_media_url msg)),
      (''media_type'', jstr_opt (m_media_type msg)), (''reply_to'', reply_to)]"

text \<open>
  The frame quotes the sender of the original message through a relationship that is not loaded:
  \<open>in_session\<close> are the users the connection's session holds, for any other \<open>MissingGreenlet\<close> is raised.
  In the branch for a connected receiver the exception is caught and the receiver's socket is dropped.
\<close>

definition deliver_reply :: "bool \<Rightarrow> (string \<times> json) list \<Rightarrow> int \<Rightarrow> int \<Rightarrow> int \<Rightarrow> world \<Rightarrow> bool \<times> world" where
  "deliver_reply sender_known frame message_id sender receiver w =
     (if \<not> connected_here receiver w then (False, w)
      else if \<not> sender_known then (False, on_mgr (disconnect receiver True None) w)
      else case publish_copies frame sender w of
          Some w' \<Rightarrow> (True, w')
        | None \<Rightarrow> (False, on_mgr (send_personal_message (with_receiver sender frame) sender)
            (mark_delivered message_id (on_mgr (send_json_to_user (JObj frame) receiver) w))))"

definition reply_msg :: "int list \<Rightarrow> reply_message_schema \<Rightarrow> int \<Rightarrow> world \<Rightarrow> unit outcome \<times> world" where
  "reply_msg in_session payload user_id w =
     (case find (\<lambda>m. m_id m = rs_reply_msg_id payload \<and> \<not> m_is_deleted_for_everyone m \<and> \<not> hidden_from user_id (w_db w) m)
             (messages (w_db w)) of
        None \<Rightarrow> (Return (), w)
      | Some original \<Rightarrow>
          (case store_message True False user_id payload w of
             (Return msg, w1) \<Rightarrow>
               (case insert_message_reply \<lparr>mr_reply_id = m_id msg, mr_original_id = rs_reply_msg_id payload\<rparr> (w_db w1) of
                  None \<Rightarrow> (Raise IntegrityError, w)
                | Some d \<Rightarrow>
                    let w2 = w1\<lparr>w_db := d\<rparr>;
                        sender = user_by_id (m_sender_id original) d;
                        sender_known = (m_sender_id original \<in> set in_session \<and> sender \<noteq> None);
                        frame = reply_payload msg (format_timestamp (w_now w2) (Some (m_created_at msg)))
                          (quoted_message original (u_username (the sender)));
                        (published, w3) = deliver_reply sender_known frame (m_id msg) user_id (m_receiver_id msg) w2
                    in if \<not> sender_known then (Raise MissingGreenlet, w3)
                       else (Return (), if published then w3
                                        else on_mgr (send_personal_message (JObj frame) user_id) w3))
           | (Http c m, w1) \<Rightarrow> (Http c m, w1)
           | (Raise e, w1) \<Rightarrow> (Raise e, w1)))"

section \<open>Reactions\<close>

definition reaction_of :: "int \<Rightarrow> int \<Rightarrow> database \<Rightarrow> message_reaction option" where
  "reaction_of message_id user_id d =
     find (\<lambda>r. r_message_id r = message_id \<and> r_user_id r = user_id) (message_reactions d)"

definition reacted_users :: "(string \<times> user) list \<Rightarrow> json" where
  "reacted_users rows = JArr (map (\<lambda>(reaction, u). JObj [(''user_id'', JInt (u_id u)), (''username'', JStr (u_username u)),
     (''profile_pic'', jstr_opt (u_profile_picture u)), (''reaction'', JStr reaction)]) rows)"

text \<open>For a user who is not part of the conversation the handler returns \<open>None\<close>.\<close>

definition msg_reactions :: "int \<Rightarrow> principal \<Rightarrow> world \<Rightarrow> json outcome \<times> world" where
  "msg_reactions msg_id currentUser w =
     (case message_by_id msg_id (w_db w) of
        None \<Rightarrow> (Http 404 ''Message not found'', w)
      | Some m \<Rightarrow>
          if m_sender_id m \<noteq> pr_id currentUser \<and> m_receiver_id m \<noteq> pr_id currentUser then (Return JNull, w)
          else (Return (reacted_users (List.map_filter (\<lambda>r. map_option (Pair (r_reaction r)) (user_by_id (r_user_id r) (w_db w)))
                  (filter (\<lambda>r. r_message_id r = msg_id) (message_reactions (w_db w))))), w))"

text \<open>Add, remove or change the user's reaction; the reaction shown afterwards and the committed database.\<close>

definition toggle_reaction :: "int \<Rightarrow> string \<Rightarrow> int \<Rightarrow> database \<Rightarrow> string option \<times> database option" where
  "toggle_reaction message_id emoji user_id d =
     (let mine = (\<lambda>r. r_message_id r = message_id \<and> r_user_id r = user_id)
      in case reaction_of message_id user_id d of
           None \<Rightarrow> (Some emoji, insert_reaction \<lparr>r_message_id = message_id, r_user_id = user_id, r_reaction = emoji\<rparr> d)
         | Some r \<Rightarrow> if r_reaction r = emoji then (None, Some (delete_reactions mine d))
                     else (Some emoji, Some (update_reactions mine emoji d)))"

definition reaction_payload :: "message \<Rightarrow> string option \<Rightarrow> int \<Rightarrow> int \<Rightarrow> (string \<times> json) list" where
  "reaction_payload m shown n user_id =
     [(''type'', JStr ''reaction''), (''message_id'', JInt (m_id m)), (''reaction'', jstr_opt shown),
      (''reaction_count'', JInt n), (''reacted_by'', JInt user_id), (''receiver_id'', JInt (m_receiver_id m))]"

definition react :: "int \<Rightarrow> string \<Rightarrow> int \<Rightarrow> world \<Rightarrow> json outcome \<times> world" where
  "react message_id emoji user_id w =
     (case message_by_id message_id (w_db w) of
        None \<Rightarrow> (Return (JObj [(''status'', JStr ''Message not found'')]), w)
      | Some m \<Rightarrow>
          if user_id \<notin> {m_sender_id m, m_receiver_id m} then (Return (JObj [(''status'', JStr ''Unknown User'')]), w)
          else (case toggle_reaction message_id emoji user_id (w_db w) of
                 (_, None) \<Rightarrow> (Raise IntegrityError, w)
               | (shown, Some d) \<Rightarrow>
                   let w1 = w\<lparr>w_db := d\<rparr>;
                       new_count = (case message_by_id message_id d of None \<Rightarrow> 0 | Some m' \<Rightarrow> m_reaction_cnt m');
                       payload = reaction_payload m shown new_count user_id
                   in (Return JNull,
                       case publish_copies payload (m_sender_id m) w1 of
                         Some w2 \<Rightarrow> w2
                       | None \<Rightarrow> on_mgr (send_json_to_user (JObj payload) (m_receiver_id m) \<circ>
                           send_personal_message (with_receiver (m_sender_id m) payload) (m_sender_id m)) w1)))"

section \<open>Read receipts\<close>

text \<open>Every exception is caught and logged; without an unread message nothing is committed or sent.\<close>

definition mark_as_read :: "(string \<times> json) list \<Rightarrow> int \<Rightarrow> world \<Rightarrow> world" where
  "mark_as_read payload reader_id w =
     (case int_of_json (dict_get ''sender_id'' payload) of
        Return sender_id \<Rightarrow>
          let target = (\<lambda>m. m_sender_id m = sender_id \<and> m_receiver_id m = reader_id \<and> \<not> m_is_read m);
              n = cnt target (messages (w_db w))
          in if n = 0 then w
             else
               let w1 = w\<lparr>w_db := update_messages target (\<lambda>m. m\<lparr>m_is_read := True, m_read_at := Some (w_now w)\<rparr>) (w_db w)\<rparr>;
                   receipt = [(''type'', JStr ''read_receipt''), (''reader_id'', JInt reader_id), (''read_at'', JStr (str_datetime (w_now w))),
                     (''read_count'', JInt n), (''conversation_with'', JInt reader_id), (''receiver_id'', JInt sender_id)];
                   w2 = (case publish_copies receipt sender_id w1 of None \<Rightarrow> w1 | Some w' \<Rightarrow> w')
               in on_mgr (send_personal_message (with_receiver sender_id receipt) sender_id) w2
      | _ \<Rightarrow> w)"

text \<open>\<open>get_message_info\<close>\<close>

definition get_message_info :: "int \<Rightarrow> principal \<Rightarrow> world \<Rightarrow> json outcome \<times> world" where
  "get_message_info msg_id currentUser w =
     (case message_by_id msg_id (w_db w) of
        None \<Rightarrow> (Http 404 ''Message not found'', w)
      | Some m \<Rightarrow>
          if m_sender_id m \<noteq> pr_id currentUser \<and> m_receiver_id m \<noteq> pr_id currentUser then (Http 403 ''Not authorized'', w)
          else (Return (JObj [(''message_id'', JInt (m_id m)), (''delivered_at'', JStr (format_timestamp (w_now w) (Some (m_created_at m)))),
                 (''read_at'', if m_read_at m = None then JNull else JStr (format_timestamp (w_now w) (m_read_at m))),
                 (''is_read'', JBool (m_is_read m))]), w))"

end
