(* ===== verification/Shares.thy ===== *)
theory Shares
  imports Messaging
begin

text \<open>
  Posts shared in a conversation: \<open>app/messaging/share.py\<close>, \<open>share_reaction.py\<close>, \<open>reply_to_share.py\<close> and
  \<open>delete_shares.py\<close>.
\<close>

section \<open>Statements\<close>

definition insert_deleted_share :: "deleted_shared_post \<Rightarrow> database \<Rightarrow> database option" where
  "insert_deleted_share x d =
     (if deleted_share_key x \<in> set (map deleted_share_key (deleted_shared_posts d)) \<or>
         dsp_shared_post_id x \<notin> set (map s_id (shared_posts d)) \<or> dsp_user_id x \<notin> set (map u_id (users d)) then None
      else Some (d\<lparr>deleted_shared_posts := deleted_shared_posts d @ [x]\<rparr>))"

definition insert_share_reply :: "shared_post_reply \<Rightarrow> database \<Rightarrow> database option" where
  "insert_share_reply x d =
     (if x \<in> set (shared_post_replies d) \<or> spr_reply_msg_id x \<notin> set (map m_id (messages d)) \<or>
         spr_shared_post_id x \<notin> set (map s_id (shared_posts d)) then None
      else Some (d\<lparr>shared_post_replies := shared_post_replies d @ [x]\<rparr>))"

definition share_hidden_from :: "int \<Rightarrow> database \<Rightarrow> shared_post \<Rightarrow> bool" where
  "share_hidden_from i d s \<longleftrightarrow> list_ex (\<lambda>x. dsp_user_id x = i \<and> dsp_shared_post_id x = s_id s) (deleted_shared_posts d)"

section \<open>Sharing\<close>

record share_post_request =
  sh_post_id :: int
  sh_to_user_id :: int
  sh_message :: "string option"

text \<open>\<open>(post.title or "")[:60] + ("..." if len(post.title) > 60 else "")\<close>\<close>

definition preview_title :: "string \<Rightarrow> string" where
  "preview_title title = take 60 title @ (if 60 < length title then ''...'' else [])"

definition share_preview :: "int \<Rightarrow> post \<Rightarrow> int \<Rightarrow> int \<Rightarrow> (string \<times> json) list" where
  "share_preview shared_id p sender receiver =
     [(''type'', JStr ''shared_post''), (''shared_id'', JInt shared_id), (''post_id'', JInt (p_id p)), (''sender_id'', JInt sender),
      (''receiver_id'', JInt receiver), (''title'', JStr (preview_title (p_title p))), (''media_type'', jstr_opt (p_media_type p)),
      (''media_url'', jstr_opt (p_media_path p))]"

definition shared_post_detail :: "shared_post \<Rightarrow> json" where
  "shared_post_detail s = JObj [(''id'', JInt (s_id s)), (''post_id'', JInt (s_post_id s)), (''from_user_id'', JInt (s_from_user_id s)),
     (''to_user_id'', JInt (s_to_user_id s)), (''message'', jstr_opt (s_message s)), (''created_at'', JTime (s_created_at s)),
     (''is_read'', JBool (s_is_read s))]"

definition mark_share_read :: "int \<Rightarrow> database \<Rightarrow> database" where
  "mark_share_read i d = update_shared_posts (\<lambda>s. s_id s = i \<and> \<not> s_is_read s) (s_is_read_update (\<lambda>_. True)) d"

definition share_post :: "share_post_request \<Rightarrow> principal \<Rightarrow> world \<Rightarrow> json outcome \<times> world" where
  "share_post payload me w =
     (case post_by_id (sh_post_id payload) (w_db w) of
        None \<Rightarrow> (Http 404 ''Post not found'', w)
      | Some p \<Rightarrow>
          (case user_by_id (sh_to_user_id payload) (w_db w) of
             None \<Rightarrow> (Http 404 ''Receiver not found'', w)
           | Some receiver \<Rightarrow>
               if u_id receiver = pr_id me then (Http 400 ''Cannot share with yourself'', w)
               else
                 let s = \<lparr>s_id = shared_posts_seq (w_db w), s_post_id = sh_post_id payload, s_from_user_id = pr_id me,
                          s_to_user_id = u_id receiver, s_message = sh_message payload, s_created_at = w_now w,
                          s_is_read = False, s_is_deleted_for_everyone = False, s_reaction_cnt = 0\<rparr>
                 in case insert_shared_post s (w_db w) of
                      None \<Rightarrow> (Raise IntegrityError, w)
                    | Some d \<Rightarrow>
                        let w1 = w\<lparr>w_db := d\<rparr>; preview = share_preview (s_id s) p (pr_id me) (u_id receiver);
                            online = connected_here (u_id receiver) w1;
                            w2 = (if online then (on_mgr (send_json_to_user (JObj preview) (u_id receiver)) w1)
                                    \<lparr>w_db := mark_share_read (s_id s) d\<rparr> else w1)
                        in (Return (shared_post_detail (s\<lparr>s_is_read := online\<rparr>)),
                            case publish_copies preview (pr_id me) w2 of
                              Some w3 \<Rightarrow> w3
                            | None \<Rightarrow> on_mgr (send_personal_message (with_receiver (pr_id me) preview) (pr_id me) \<circ>
                                send_json_to_user (JObj preview) (u_id receiver)) w2)))"

section \<open>Reactions\<close>

definition share_reaction_of :: "int \<Rightarrow> int \<Rightarrow> database \<Rightarrow> shared_post_reaction option" where
  "share_reaction_of shared_id user_id d =
     find (\<lambda>r. sr_shared_post_id r = shared_id \<and> sr_user_id r = user_id) (shared_post_reactions d)"

text \<open>For a missing share, or one of other users, the handler returns \<open>None\<close>.\<close>

definition get_shared_post_reactions :: "int \<Rightarrow> principal \<Rightarrow> world \<Rightarrow> json outcome \<times> world" where
  "get_shared_post_reactions shared_id currentUser w =
     (case shared_post_by_id shared_id (w_db w) of
        None \<Rightarrow> (Return JNull, w)
      | Some s \<Rightarrow>
          if s_from_user_id s \<noteq> pr_id currentUser \<and> s_to_user_id s \<noteq> pr_id currentUser then (Return JNull, w)
          else (Return (reacted_users (List.map_filter (\<lambda>r. map_option (Pair (sr_reaction r)) (user_by_id (sr_user_id r) (w_db w)))
                  (filter (\<lambda>r. sr_shared_post_id r = shared_id) (shared_post_reactions (w_db w))))), w))"

definition toggle_share_reaction :: "int \<Rightarrow> string \<Rightarrow> int \<Rightarrow> database \<Rightarrow> string option \<times> database option" where
  "toggle_share_reaction shared_id emoji user_id d =
     (let mine = (\<lambda>r. sr_shared_post_id r = shared_id \<and> sr_user_id r = user_id)
      in case share_reaction_of shared_id user_id d of
           None \<Rightarrow> (Some emoji, insert_share_reaction \<lparr>sr_shared_post_id = shared_id, sr_user_id = user_id, sr_reaction = emoji\<rparr> d)
         | Some r \<Rightarrow> if sr_reaction r = emoji then (None, Some (delete_share_reactions mine d))
                     else (Some emoji, Some (update_share_reactions mine emoji d)))"

text \<open>The count in the frame is the one loaded before the change: the object is not refreshed.\<close>

definition share_reaction_payload :: "shared_post \<Rightarrow> string option \<Rightarrow> int \<Rightarrow> (string \<times> json) list" where
  "share_reaction_payload s shown user_id =
     [(''type'', JStr ''reaction_update''),
      (''data'', JObj [(''message_id'', JInt (s_id s)), (''reaction'', jstr_opt shown),
         (''reaction_count'', JInt (s_reaction_cnt s)), (''reacted_by'', JInt user_id)]),
      (''receiver_id'', JInt (s_to_user_id s))]"

definition react_to_shared_post :: "int \<Rightarrow> string \<Rightarrow> int \<Rightarrow> world \<Rightarrow> json outcome \<times> world" where
  "react_to_shared_post shared_id emoji user_id w =
     (case shared_post_by_id shared_id (w_db w) of
        None \<Rightarrow> (Return (JObj [(''status'', JStr ''not found'')]), w)
      | Some s \<Rightarrow>
          if user_id \<notin> {s_from_user_id s, s_to_user_id s} then (Return (JObj [(''status'', JStr ''unauthorized'')]), w)
          else (case toggle_share_reaction shared_id emoji user_id (w_db w) of
                 (_, None) \<Rightarrow> (Raise IntegrityError, w)
               | (shown, Some d) \<Rightarrow>
                   let w1 = w\<lparr>w_db := d\<rparr>; payload = share_reaction_payload s shown user_id
                   in (Return JNull,
                       case publish_copies payload (s_from_user_id s) w1 of
                         Some w2 \<Rightarrow> w2
                       | None \<Rightarrow> on_mgr (send_json_to_user (JObj payload) (s_to_user_id s) \<circ>
                           send_personal_message (with_receiver (s_from_user_id s) payload) (s_from_user_id s)) w1)))"

section \<open>Replies\<close>

record reply_to_share_schema = message_schema +
  rt_shared_post_id :: int

definition post_excerpt :: "string \<Rightarrow> string" where
  "post_excerpt content = (if 100 < length content then take 100 content @ ''...'' else content)"

definition share_reply_payload :: "message \<Rightarrow> json \<Rightarrow> json \<Rightarrow> string \<Rightarrow> shared_post \<Rightarrow> post \<Rightarrow> string \<Rightarrow> (string \<times> json) list" where
  "share_reply_payload msg media_url media_type timestamp s p owner_name =
     [(''type'', JStr ''message''), (''id'', JInt (m_id msg)), (''content'', JStr (m_content msg)),
      (''sender_id'', JInt (m_sender_id msg)), (''receiver_id'', JInt (m_receiver_id msg)), (''timestamp'', JStr timestamp),
      (''is_reply'', JBool True), (''is_reply_to_share'', JBool True), (''media_url'', media_url), (''media_type'', media_type),
      (''reply_to_share'', JObj [(''shared_post_id'', JInt (s_id s)), (''post_id'', JInt (s_post_id s)),
         (''post_content'', JStr (post_excerpt (p_content p))), (''post_owner'', JStr owner_name),
         (''media_url'', jstr_opt (p_media_path p))])]"

text \<open>The message and its link to the share are committed one after the other.\<close>

definition reply_share :: "reply_to_share_schema \<Rightarrow> int \<Rightarrow> world \<Rightarrow> unit outcome \<times> world" where
  "reply_share payload user_id w =
     (case shared_post_by_id (rt_shared_post_id payload) (w_db w) of
        None \<Rightarrow> (Return (), w)
      | Some s \<Rightarrow>
          (case store_message True True user_id payload w of
             (Return msg, w1) \<Rightarrow>
               (case insert_share_reply \<lparr>spr_reply_msg_id = m_id msg, spr_shared_post_id = rt_shared_post_id payload\<rparr> (w_db w1) of
                  None \<Rightarrow> (Raise IntegrityError, w1)
                | Some d \<Rightarrow>
                    let w2 = w1\<lparr>w_db := d\<rparr> in
                    (case Option.bind (post_by_id (s_post_id s) d) (\<lambda>p. map_option (Pair p) (user_by_id (p_user_id p) d)) of
                       None \<Rightarrow> (Raise AttributeError, w2)
                     | Some (p, owner) \<Rightarrow>
                         let frame = share_reply_payload msg (fresh_attr (ms_media_url payload)) (fresh_attr (ms_media_type payload))
                               (format_timestamp (w_now w2) (Some (m_created_at msg))) s p (u_username owner)
                         in (Return (), publish_or_mark frame (m_id msg) user_id (ms_to payload) w2)))
           | (Http c m, w1) \<Rightarrow> (Http c m, w1)
           | (Raise e, w1) \<Rightarrow> (Raise e, w1)))"

section \<open>Deleting\<close>

definition deleteShareForMe :: "int \<Rightarrow> principal \<Rightarrow> world \<Rightarrow> json outcome \<times> world" where
  "deleteShareForMe share_id me w =
     (case shared_post_by_id share_id (w_db w) of
        None \<Rightarrow> (Return JNull, w)
      | Some s \<Rightarrow>
          (case insert_deleted_share \<lparr>dsp_user_id = pr_id me, dsp_shared_post_id = share_id, dsp_deleted_at = w_now w\<rparr> (w_db w) of
             None \<Rightarrow> (Raise IntegrityError, w)
           | Some d \<Rightarrow> (Return (JObj [(''share_id'', JInt share_id), (''detail'', JStr ''Deleted for you'')]), w\<lparr>w_db := d\<rparr>)))"

definition delete_share_for_everyone :: "int \<Rightarrow> int \<Rightarrow> int \<Rightarrow> world \<Rightarrow> world" where
  "delete_share_for_everyone share_id sender_id receiver_id w =
     (let target = (\<lambda>s. s_id s = share_id \<and> s_from_user_id s = sender_id \<and> \<not> s_is_deleted_for_everyone s)
      in if \<not> list_ex target (shared_posts (w_db w)) then w
         else
           let w1 = w\<lparr>w_db := update_shared_posts target (s_is_deleted_for_everyone_update (\<lambda>_. True)) (w_db w)\<rparr>;
               payload = delete_payload ''share_deleted'' ''share_id'' share_id receiver_id
           in case publish_copies payload sender_id w1 of
                Some w2 \<Rightarrow> w2
              | None \<Rightarrow> on_mgr (send_personal_message (with_receiver sender_id payload) sender_id \<circ>
                  send_json_to_user (JObj payload) receiver_id) w1)"

end
