(* ===== verification/Notifications.thy ===== *)
theory Notifications
  imports Presence Posts
begin

text \<open>
  \<open>app/services/notification_service.py\<close>, the Celery task that runs it
  (\<open>app/tasks/notification_tasks.py\<close>) and \<open>app/routes/notifications.py\<close>. A Celery task runs in a worker
  process with a socket registry of its own: \<open>w_mgr\<close> is the registry of the process that runs the code.
\<close>

section \<open>Creating notifications\<close>

definition notification_text :: "notification_type \<Rightarrow> string \<Rightarrow> string" where
  "notification_text t actor = (case t of
      like_notif \<Rightarrow> actor @ '' liked your post''
    | comment_notif \<Rightarrow> actor @ '' commented on your post''
    | follow_notif \<Rightarrow> actor @ '' started following you'')"

text \<open>\<open>NotificationType(v)\<close>: \<open>None\<close> is \<open>ValueError\<close>.\<close>

definition notification_of_value :: "string \<Rightarrow> notification_type option" where
  "notification_of_value v = find (\<lambda>t. notification_value t = v) [like_notif, comment_notif, follow_notif]"

definition insert_notification :: "notification \<Rightarrow> database \<Rightarrow> database option" where
  "insert_notification n d =
     (if n_owner_id n \<notin> set (map u_id (users d)) \<or> n_actor_id n \<notin> set (map u_id (users d)) \<or>
         n_entity_type n \<notin> {None, Some ''post'', Some ''comment''} then None
      else Some (d\<lparr>notifications := notifications d @ [n\<lparr>n_id := notifications_seq d\<rparr>],
                   notifications_seq := notifications_seq d + 1\<rparr>))"

definition notifications_pattern :: "int \<Rightarrow> string" where
  "notifications_pattern i = ''notifications:'' @ str_int i @ '':*''"

definition notifications_key :: "int \<Rightarrow> nat \<Rightarrow> nat \<Rightarrow> string" where
  "notifications_key i offset limit =
     ''notifications:'' @ str_int i @ CHR '':'' # str_nat offset @ CHR '':'' # str_nat limit"

definition unread_key :: "int \<Rightarrow> string" where
  "unread_key i = ''notif:unread:'' @ str_int i"

definition drop_notification_caches :: "int \<Rightarrow> redis \<Rightarrow> redis" where
  "drop_notification_caches i =
     delete_cache_pattern (unread_key i) \<circ> delete_cache_pattern (notifications_pattern i)"

definition notification_payload :: "notification \<Rightarrow> string \<Rightarrow> (string \<times> json) list" where
  "notification_payload n actor_username =
     [(''type'', JStr ''notification''), (''id'', JInt (n_id n)), (''actor_id'', JInt (n_actor_id n)),
      (''actor_username'', JStr actor_username), (''notif_type'', JStr (notification_value (n_type n))),
      (''entity_id'', jint_opt (n_entity_id n)), (''entity_type'', jstr_opt (n_entity_type n)),
      (''text'', JStr (n_text n)), (''is_read'', JBool False), (''created_at'', JTime (n_created_at n)),
      (''receiver_id'', JInt (n_owner_id n))]"

definition new_notification :: "int \<Rightarrow> int \<Rightarrow> notification_type \<Rightarrow> string \<Rightarrow> int option \<Rightarrow>
    string option \<Rightarrow> world \<Rightarrow> notification" where
  "new_notification actor_id owner_id notif_type actor_username entity_id entity_type w =
     \<lparr>n_id = notifications_seq (w_db w), n_owner_id = owner_id, n_actor_id = actor_id, n_type = notif_type,
      n_entity_id = entity_id, n_entity_type = entity_type,
      n_text = notification_text notif_type actor_username, n_is_read = False, n_created_at = w_now w\<rparr>"

definition create_notification :: "int \<Rightarrow> int \<Rightarrow> notification_type \<Rightarrow> string \<Rightarrow> int option \<Rightarrow>
    string option \<Rightarrow> world \<Rightarrow> unit outcome \<times> world" where
  "create_notification actor_id owner_id notif_type actor_username entity_id entity_type w =
     (if actor_id = owner_id then (Return (), w)
      else
        let n = new_notification actor_id owner_id notif_type actor_username entity_id entity_type w
        in case insert_notification n (w_db w) of
             None \<Rightarrow> (Raise IntegrityError, w)
           | Some d \<Rightarrow>
               let w1 = on_redis (drop_notification_caches owner_id) (w\<lparr>w_db := d\<rparr>);
                   payload = JObj (notification_payload n actor_username)
               in (Return (), if r_up (w_redis w1) then on_redis (r_publish ''notifications:messages'' payload) w1
                              else on_mgr (send_personal_message payload owner_id) w1))"

text \<open>
  The Celery task: \<open>retries\<close> attempts were made before. A failure schedules the task again after
  \<open>60 * 2 ** retries\<close> seconds, at most \<open>max_retries = 3\<close> times, then the exception is final.
\<close>

datatype task_result = Done | Retry_in int | Gave_up

definition notification_task :: "nat \<Rightarrow> int \<Rightarrow> int \<Rightarrow> string \<Rightarrow> string \<Rightarrow> int option \<Rightarrow>
    string option \<Rightarrow> world \<Rightarrow> task_result \<times> world" where
  "notification_task retries actor_id owner_id notif_type actor_username entity_id entity_type w =
     (let failed = (if retries < 3 then Retry_in (60 * 2 ^ retries) else Gave_up)
      in case notification_of_value notif_type of
           None \<Rightarrow> (failed, w)
         | Some t \<Rightarrow> (case create_notification actor_id owner_id t actor_username entity_id entity_type w of
               (Return _, w') \<Rightarrow> (Done, w')
             | (_, w') \<Rightarrow> (failed, w')))"

section \<open>Reading notifications\<close>

definition notifications_of :: "int \<Rightarrow> database \<Rightarrow> notification list" where
  "notifications_of i d = sort_key (\<lambda>n. - n_created_at n) (filter (\<lambda>n. n_owner_id n = i) (notifications d))"

definition get_notifications :: "int \<Rightarrow> nat \<Rightarrow> nat \<Rightarrow> database \<Rightarrow> notification list" where
  "get_notifications i limit offset d = take limit (drop offset (notifications_of i d))"

definition get_unread_count :: "int \<Rightarrow> database \<Rightarrow> int" where
  "get_unread_count i d = cnt (\<lambda>n. n_owner_id n = i \<and> \<not> n_is_read n) (notifications d)"

definition mark_all_read :: "int \<Rightarrow> database \<Rightarrow> database" where
  "mark_all_read i d = d\<lparr>notifications :=
     update_where (\<lambda>n. n_owner_id n = i \<and> \<not> n_is_read n) (n_is_read_update (\<lambda>_. True)) (notifications d)\<rparr>"

definition actor_basic :: "user \<Rightarrow> json" where
  "actor_basic u = JObj [(''id'', JInt (u_id u)), (''username'', JStr (u_username u)),
     (''profile_pic'', jstr_opt (u_profile_picture u))]"

definition notification_response :: "notification \<Rightarrow> json \<Rightarrow> json" where
  "notification_response n actor = JObj
     [(''id'', JInt (n_id n)), (''type'', JStr (notification_value (n_type n))), (''actor'', actor), (''text'', JStr (n_text n)),
      (''entity_id'', jint_opt (n_entity_id n)), (''entity_type'', jstr_opt (n_entity_type n)),
      (''is_read'', JBool (n_is_read n)), (''created_at'', JTime (n_created_at n))]"

text \<open>
  The response model reads \<open>n.actor\<close>, a relationship with \<open>lazy="select"\<close> that no query loads. It is available
  only for the users the session already holds (\<open>in_session\<close>); for any other, the implicit query of an
  asynchronous session raises \<open>MissingGreenlet\<close>, which the response model reports as \<open>ValidationError\<close>.
\<close>

definition validated_notification :: "int list \<Rightarrow> database \<Rightarrow> notification \<Rightarrow> json outcome" where
  "validated_notification in_session d n =
     (if n_actor_id n \<in> set in_session then
        (case user_by_id (n_actor_id n) d of
           None \<Rightarrow> Raise ValidationError
         | Some u \<Rightarrow> Return (notification_response n (actor_basic u)))
      else Raise ValidationError)"

definition get_my_notifications :: "int list \<Rightarrow> nat \<Rightarrow> nat \<Rightarrow> principal \<Rightarrow> world \<Rightarrow> json outcome \<times> world" where
  "get_my_notifications in_session limit offset current_user w =
     (let me = pr_id current_user; key = notifications_key me offset limit;
          total = cnt (\<lambda>n. n_owner_id n = me) (notifications (w_db w));
          from_db =
            (case sequence (map (validated_notification in_session (w_db w))
                                        (get_notifications me limit offset (w_db w))) of
               Return items \<Rightarrow>
                 let body = JObj [(''notifications'', JArr items), (''unread_count'', JInt (get_unread_count me (w_db w))),
                       (''total'', JInt total), (''limit'', JInt (int limit)), (''offset'', JInt (int offset)),
                       (''has_more'', JBool (int (offset + limit) < total))]
                 in (Return body, on_redis (set_cache (now_ms w) key body 20) w)
             | Http c m \<Rightarrow> (Http c m, w)
             | Raise e \<Rightarrow> (Raise e, w))
      in case get_cache (now_ms w) key (w_redis w) of
           Some cached \<Rightarrow> if truthy cached then (Return cached, w) else from_db
         | None \<Rightarrow> from_db)"

definition unread_count_body :: "int \<Rightarrow> json" where
  "unread_count_body n = JObj [(''count'', JInt n)]"

definition get_unread_notification_count :: "principal \<Rightarrow> world \<Rightarrow> json outcome \<times> world" where
  "get_unread_notification_count current_user w =
     (let key = unread_key (pr_id current_user);
          body = unread_count_body (get_unread_count (pr_id current_user) (w_db w));
          from_db = (Return body, on_redis (set_cache (now_ms w) key body 20) w)
      in case get_cache (now_ms w) key (w_redis w) of
           Some cached \<Rightarrow> if truthy cached then (Return cached, w) else from_db
         | None \<Rightarrow> from_db)"

definition mark_all_notifications_read :: "principal \<Rightarrow> world \<Rightarrow> json outcome \<times> world" where
  "mark_all_notifications_read current_user w =
     (Return (message_body ''All notifications marked as read''),
      on_redis (drop_notification_caches (pr_id current_user))
        (w\<lparr>w_db := mark_all_read (pr_id current_user) (w_db w)\<rparr>))"

section \<open>Lemmas\<close>

lemma notification_value_roundtrip [simp]: "notification_of_value (notification_value t) = Some t"
  by (cases t) (simp_all add: notification_of_value_def)

lemma new_notification_fields [simp]:
  "n_owner_id (new_notification a i t u e et w) = i" "n_actor_id (new_notification a i t u e et w) = a"
  "n_type (new_notification a i t u e et w) = t" "n_text (new_notification a i t u e et w) = notification_text t u"
  "\<not> n_is_read (new_notification a i t u e et w)" "n_created_at (new_notification a i t u e et w) = w_now w"
  "n_id (new_notification a i t u e et w) = notifications_seq (w_db w)"
  by (simp_all add: new_notification_def)

text \<open>A notification that returns inserts the row, drops the owner's caches and publishes the frame.\<close>

lemma create_notification_returns:
  assumes "create_notification a i t u e et w = (Return (), w')" "a \<noteq> i"
  shows "insert_notification (new_notification a i t u e et w) (w_db w) = Some (w_db w')"
    and "notifications (w_db w') = notifications (w_db w) @ [new_notification a i t u e et w]"
    and "r_up (w_redis w) \<Longrightarrow> w_redis w' = r_publish ''notifications:messages''
          (JObj (notification_payload (new_notification a i t u e et w) u)) (drop_notification_caches i (w_redis w))"
    and "\<not> r_up (w_redis w) \<Longrightarrow> w_redis w' = drop_notification_caches i (w_redis w)"
proof -
  have row: "(new_notification a i t u e et w)\<lparr>n_id := notifications_seq (w_db w)\<rparr> = new_notification a i t u e et w"
    by (simp add: new_notification_def)
  show ins: "insert_notification (new_notification a i t u e et w) (w_db w) = Some (w_db w')"
    and "r_up (w_redis w) \<Longrightarrow> w_redis w' = r_publish ''notifications:messages''
          (JObj (notification_payload (new_notification a i t u e et w) u)) (drop_notification_caches i (w_redis w))"
    and "\<not> r_up (w_redis w) \<Longrightarrow> w_redis w' = drop_notification_caches i (w_redis w)"
    using assms by (auto simp: create_notification_def Let_def drop_notification_caches_def split: option.splits)
  have "w_db w' = (w_db w)\<lparr>notifications := notifications (w_db w) @ [new_notification a i t u e et w],
      notifications_seq := notifications_seq (w_db w) + 1\<rparr>"
    using ins row unfolding insert_notification_def by (metis option.discI option.inject)
  then show "notifications (w_db w') = notifications (w_db w) @ [new_notification a i t u e et w]" by simp
qed

lemma insert_notification_ok: "db_ok d \<Longrightarrow> insert_notification n d = Some d' \<Longrightarrow> db_ok d'"
  by (clarsimp simp: insert_notification_def split: if_splits) (simp add: db_defs)

lemma create_notification_ok:
  "db_ok (w_db w) \<Longrightarrow> db_ok (w_db (snd (create_notification a b t u i e w)))"
  by (auto simp: create_notification_def Let_def split: option.split dest: insert_notification_ok)

lemma notification_task_ok:
  "db_ok (w_db w) \<Longrightarrow> db_ok (w_db (snd (notification_task r a b t u i e w)))"
  using create_notification_ok [of w]
  by (auto simp: notification_task_def Let_def split: option.split outcome.split prod.split) (metis snd_conv)+

lemma mark_all_read_ok: "db_ok d \<Longrightarrow> db_ok (mark_all_read i d)"
  by (simp add: mark_all_read_def db_defs map_update_where)

lemma get_unread_count_insert:
  "insert_notification n d = Some d' \<Longrightarrow>
   get_unread_count i d' = get_unread_count i d + (if n_owner_id n = i \<and> \<not> n_is_read n then 1 else 0)"
  by (auto simp: insert_notification_def get_unread_count_def split: if_splits)

lemma get_unread_count_marked [simp]:
  "get_unread_count i (mark_all_read j d) = (if i = j then 0 else get_unread_count i d)"
proof -
  have marked: "cnt (\<lambda>n. n_owner_id n = i \<and> \<not> n_is_read n)
          (update_where (\<lambda>n. n_owner_id n = j \<and> \<not> n_is_read n) (n_is_read_update (\<lambda>_. True)) xs) =
        (if i = j then 0 else cnt (\<lambda>n. n_owner_id n = i \<and> \<not> n_is_read n) xs)" for xs
    by (induction xs) auto
  show ?thesis by (simp add: get_unread_count_def mark_all_read_def marked)
qed

lemma no_star_unread: "CHR ''*'' \<notin> set (unread_key i)"
  by (simp add: unread_key_def)

text \<open>After the caches are dropped, the badge is computed from the table.\<close>

lemma unread_after_drop:
  assumes "w_redis w' = r" "get_cache (now_ms w') (unread_key (pr_id cu)) r = None"
  shows "fst (get_unread_notification_count cu w') =
    Return (unread_count_body (get_unread_count (pr_id cu) (w_db w')))"
  using assms by (simp add: get_unread_notification_count_def Let_def)

lemma dropped_unread: "get_cache t (unread_key i) (drop_notification_caches i r) = None"
  using no_star_unread [of i]
  by (simp add: drop_notification_caches_def get_cache_delete_pattern glob_literal)

lemma get_cache_publish [simp]: "get_cache t k (r_publish ch p r) = get_cache t k r"
  by (simp add: get_cache_def)

end
