(* ===== verification/Chat_History.thy ===== *)
theory Chat_History
  imports Shares Notifications
begin

text \<open>
  Reading conversations: \<open>app/messaging/chat_history.py\<close> and \<open>load_missed_msgs.py\<close>. Rows without an
  \<open>ORDER BY\<close> come in table order; JSON objects are compared up to the order of their fields.
  \<open>reaction_json\<close> is how FastAPI's encoder renders the loaded reaction objects of a message or share.
\<close>

section \<open>Items\<close>

definition unless_false :: "string option \<Rightarrow> json \<Rightarrow> json" where
  "unless_false media_type v = (if media_type = Some ''false'' then JNull else v)"

text \<open>\<open>f"{base_url}/chat-media{m.media_url}"\<close>\<close>

definition chat_media_url :: "string \<Rightarrow> string option \<Rightarrow> string" where
  "chat_media_url base url = base @ ''/chat-media'' @ (case url of Some u \<Rightarrow> u | None \<Rightarrow> ''None'')"

definition message_item :: "string \<Rightarrow> int \<Rightarrow> json \<Rightarrow> bool \<Rightarrow> message \<Rightarrow> (string \<times> json) list" where
  "message_item base now reactions is_read m =
     [(''type'', JStr ''message''), (''id'', JInt (m_id m)), (''content'', JStr (m_content m)),
      (''sender_id'', JInt (m_sender_id m)), (''receiver_id'', JInt (m_receiver_id m)),
      (''media_type'', unless_false (m_media_type m) (jstr_opt (m_media_type m))),
      (''media_url'', unless_false (m_media_type m) (JStr (chat_media_url base (m_media_url m)))),
      (''timestamp'', JStr (format_timestamp now (Some (m_created_at m)))), (''is_edited'', JBool (m_is_edited m)),
      (''reaction_count'', JInt (m_reaction_cnt m)), (''reactions'', reactions), (''is_read'', JBool is_read)]"

definition replied_share :: "message \<Rightarrow> database \<Rightarrow> shared_post option" where
  "replied_share m d = Option.bind (find (\<lambda>l. spr_reply_msg_id l = m_id m) (shared_post_replies d))
     (\<lambda>l. shared_post_by_id (spr_shared_post_id l) d)"

text \<open>\<open>m.replies_to\<close>: \<open>None\<close> when no link row exists, then \<open>.original_msg\<close> raises.\<close>

definition replied_message :: "message \<Rightarrow> database \<Rightarrow> message option outcome" where
  "replied_message m d = (case find (\<lambda>l. mr_reply_id l = m_id m) (message_replies d) of
      None \<Rightarrow> Raise AttributeError
    | Some l \<Rightarrow> Return (message_by_id (mr_original_id l) d))"

definition username_or :: "string \<Rightarrow> int \<Rightarrow> database \<Rightarrow> string" where
  "username_or other i d = (case user_by_id i d of Some u \<Rightarrow> u_username u | None \<Rightarrow> other)"

text \<open>The quoted media type is the reply's own, guarded by the original's.\<close>

definition reply_fields :: "string \<Rightarrow> database \<Rightarrow> message \<Rightarrow> (string \<times> json) list outcome" where
  "reply_fields base d m =
     (if \<not> m_is_reply_msg m then Return [(''is_reply'', JBool False)]
      else if m_is_reply_to_share m then
        (case replied_share m d of
           None \<Rightarrow> Return []
         | Some s \<Rightarrow> (case post_by_id (s_post_id s) d of
             None \<Rightarrow> Raise AttributeError
           | Some p \<Rightarrow> Return [(''is_reply'', JBool True), (''is_reply_to_share'', JBool True),
               (''reply_to'', JObj [(''share_id'', JInt (s_id s)), (''content'', jstr_opt (p_media_path p)),
                  (''sender_name'', JStr (username_or ''Unknown'' (s_from_user_id s) d))])]))
      else
        (case replied_message m d of
           Return None \<Rightarrow> Return []
         | Return (Some q) \<Rightarrow> Return [(''is_reply'', JBool True),
             (''reply_to'', JObj [(''msg_id'', JInt (m_id q)), (''content'', JStr (m_content q)),
                (''media_type'', unless_false (m_media_type q) (jstr_opt (m_media_type m))),
                (''media_url'', unless_false (m_media_type q) (JStr (chat_media_url base (m_media_url q)))),
                (''sender_name'', JStr (username_or ''Unknown'' (m_sender_id q) d))])]
         | Http c e \<Rightarrow> Http c e
         | Raise e \<Rightarrow> Raise e))"

definition share_item :: "string \<Rightarrow> int \<Rightarrow> json \<Rightarrow> bool \<Rightarrow> database \<Rightarrow> shared_post \<Rightarrow> json outcome" where
  "share_item caption_field now reactions is_read d s =
     (case (post_by_id (s_post_id s) d, user_by_id (s_from_user_id s) d) of
        (Some p, Some u) \<Rightarrow> Return (JObj
          [(''type'', JStr ''shared_post''), (''shared_id'', JInt (s_id s)), (''post_id'', JInt (p_id p)),
           (''sender_id'', JInt (s_from_user_id s)), (''receiver_id'', JInt (s_to_user_id s)), (''title'', JStr (take 60 (p_title p))),
           (''media_type'', jstr_opt (p_media_type p)), (''media_url'', jstr_opt (p_media_path p)),
           (''sender_nickname'', jstr_opt (u_nickname u)), (caption_field, jstr_opt (s_message s)), (''reactions'', reactions),
           (''sent_at'', JStr (format_timestamp now (Some (s_created_at s)))), (''is_read'', JBool is_read)])
      | _ \<Rightarrow> Raise AttributeError)"

section \<open>The history of a conversation\<close>

definition between :: "int \<Rightarrow> int \<Rightarrow> int \<Rightarrow> int \<Rightarrow> bool" where
  "between me friend a b \<longleftrightarrow> a = me \<and> b = friend \<or> a = friend \<and> b = me"

definition chat_messages :: "int \<Rightarrow> int \<Rightarrow> database \<Rightarrow> message list" where
  "chat_messages me friend d = sort_key (\<lambda>m. - m_created_at m)
     (filter (\<lambda>m. \<not> m_is_deleted_for_everyone m \<and> between me friend (m_sender_id m) (m_receiver_id m) \<and>
        \<not> hidden_from me d m) (messages d))"

definition chat_shares :: "int \<Rightarrow> int \<Rightarrow> database \<Rightarrow> shared_post list" where
  "chat_shares me friend d = sort_key (\<lambda>s. - s_created_at s)
     (filter (\<lambda>s. \<not> s_is_deleted_for_everyone s \<and> between me friend (s_from_user_id s) (s_to_user_id s) \<and>
        \<not> share_hidden_from me d s) (shared_posts d))"

definition history_message :: "string \<Rightarrow> (message_reaction \<Rightarrow> json) \<Rightarrow> int \<Rightarrow> database \<Rightarrow> message \<Rightarrow> (string \<times> json) outcome" where
  "history_message base reaction_json now d m =
     map_outcome (\<lambda>extra. (format_timestamp now (Some (m_created_at m)),
         JObj (message_item base now (JArr (map reaction_json (filter (\<lambda>r. r_message_id r = m_id m) (message_reactions d))))
           (m_is_read m) m @ extra)))
       (reply_fields base d m)"

definition history_share :: "(shared_post_reaction \<Rightarrow> json) \<Rightarrow> int \<Rightarrow> database \<Rightarrow> shared_post \<Rightarrow> (string \<times> json) outcome" where
  "history_share reaction_json now d s =
     map_outcome (Pair (format_timestamp now (Some (s_created_at s))))
       (share_item ''message'' now (JArr (map reaction_json (filter (\<lambda>r. sr_shared_post_id r = s_id s) (shared_post_reactions d))))
         (s_is_read s) d s)"

text \<open>The items are sorted by their rendered timestamps, as strings.\<close>

definition get_chat_history :: "string \<Rightarrow> (message_reaction \<Rightarrow> json) \<Rightarrow> (shared_post_reaction \<Rightarrow> json) \<Rightarrow> int \<Rightarrow>
    principal \<Rightarrow> world \<Rightarrow> json outcome \<times> world" where
  "get_chat_history base reaction_json share_reaction_json friend_id currentUser w =
     (let me = pr_id currentUser; d = w_db w;
          items = sequence (map (history_message base reaction_json (w_now w) d) (chat_messages me friend_id d) @
                            map (history_share share_reaction_json (w_now w) d) (chat_shares me friend_id d))
      in (map_outcome (\<lambda>xs. JArr (map snd (sort_key fst xs))) items, w))"

section \<open>Recent conversations\<close>

definition other_user :: "int \<Rightarrow> message \<Rightarrow> int" where
  "other_user me m = (if m_sender_id m = me then m_receiver_id m else m_sender_id m)"

definition recent_rows :: "int \<Rightarrow> database \<Rightarrow> (message \<times> user) list" where
  "recent_rows me d =
     (let mine = sort_key (\<lambda>m. - m_created_at m)
            (filter (\<lambda>m. (m_sender_id m = me \<or> m_receiver_id m = me) \<and> \<not> m_is_deleted_for_everyone m) (messages d));
          latest = List.map_filter (\<lambda>i. find (\<lambda>m. other_user me m = i) mine) (remdups (map (other_user me) mine))
      in List.map_filter (\<lambda>m. map_option (Pair m) (user_by_id (other_user me m) d)) (sort_key (\<lambda>m. - m_created_at m) latest))"

definition recent_item :: "int \<Rightarrow> int \<Rightarrow> manager \<Rightarrow> message \<times> user \<Rightarrow> json outcome" where
  "recent_item now me mgr = (\<lambda>(m, u). map_outcome (\<lambda>online. JObj
     [(''id'', JInt (u_id u)), (''username'', JStr (u_username u)), (''nickname'', jstr_opt (u_nickname u)),
      (''profile_pic'', jstr_opt (u_profile_picture u)), (''online'', JBool online),
      (''last_seen_at'', if online then JNull
         else jtime_opt (if u_last_seen_at u = None then get_last_seen (u_id u) mgr else u_last_seen_at u)),
      (''last_message'', JObj [(''content'', JStr (m_content m)), (''timestamp'', JStr (format_timestamp now (Some (m_created_at m)))),
         (''is_read'', JBool (m_is_read m)), (''is_me'', JBool (m_sender_id m = me)), (''media_type'', jstr_opt (m_media_type m))])])
     (is_online (u_id u) mgr))"

definition get_recent_chats :: "principal \<Rightarrow> world \<Rightarrow> json outcome \<times> world" where
  "get_recent_chats currentUser w =
     (map_outcome JArr (sequence (map (recent_item (w_now w) (pr_id currentUser) (w_mgr w))
        (recent_rows (pr_id currentUser) (w_db w)))), w)"

section \<open>Content missed while offline\<close>

text \<open>
  An item can be sent when it is JSON serialisable: the loaded reaction objects of a message or share are not,
  so only items without reactions are.
\<close>

datatype missed_item = Sendable json | Not_serialisable

definition missed_entry :: "bool \<Rightarrow> json \<Rightarrow> missed_item" where
  "missed_entry has_reactions body = (if has_reactions then Not_serialisable else Sendable body)"

definition missed_messages :: "int \<Rightarrow> database \<Rightarrow> message list" where
  "missed_messages user_id d = sort_key m_created_at
     (filter (\<lambda>m. \<not> m_is_deleted_for_everyone m \<and> m_receiver_id m = user_id \<and> \<not> m_is_read m) (messages d))"

definition missed_shares :: "int \<Rightarrow> database \<Rightarrow> shared_post list" where
  "missed_shares user_id d = sort_key s_created_at
     (filter (\<lambda>s. s_to_user_id s = user_id \<and> \<not> s_is_read s \<and> \<not> s_is_deleted_for_everyone s) (shared_posts d))"

definition missed_notifications :: "int \<Rightarrow> database \<Rightarrow> notification list" where
  "missed_notifications user_id d = sort_key n_created_at
     (filter (\<lambda>n. n_owner_id n = user_id \<and> \<not> n_is_read n) (notifications d))"

text \<open>The claim: the unread messages and shares are marked read and committed before anything is sent.\<close>

definition claim_missed :: "int \<Rightarrow> world \<Rightarrow> world" where
  "claim_missed user_id w =
     (let ms = map m_id (missed_messages user_id (w_db w)); ss = map s_id (missed_shares user_id (w_db w));
          d1 = update_messages (\<lambda>m. m_id m \<in> set ms \<and> \<not> m_is_read m)
                 (\<lambda>m. m\<lparr>m_is_read := True, m_read_at := Some (w_now w)\<rparr>) (w_db w)
      in w\<lparr>w_db := update_shared_posts (\<lambda>s. s_id s \<in> set ss \<and> \<not> s_is_read s) (s_is_read_update (\<lambda>_. True)) d1\<rparr>)"

text \<open>Users that the eager loads of the claimed rows put into the session.\<close>

definition eagerly_loaded :: "int \<Rightarrow> database \<Rightarrow> int list" where
  "eagerly_loaded user_id d =
     map s_from_user_id (missed_shares user_id d) @
     List.map_filter (\<lambda>m. map_option s_from_user_id (replied_share m d)) (missed_messages user_id d) @
     List.map_filter (\<lambda>m. case replied_message m d of Return q \<Rightarrow> map_option m_sender_id q | _ \<Rightarrow> None) (missed_messages user_id d)"

definition missed_notification :: "int list \<Rightarrow> int \<Rightarrow> database \<Rightarrow> notification \<Rightarrow> (string \<times> missed_item) outcome" where
  "missed_notification in_session now d n =
     (if n_actor_id n \<notin> set in_session then Raise MissingGreenlet
      else let timestamp = format_timestamp now (Some (n_created_at n))
        in Return (timestamp, Sendable (JObj [(''type'', JStr ''notification''), (''id'', JInt (n_id n)),
          (''notif_type'', JStr (notification_value (n_type n))), (''actor_id'', JInt (n_actor_id n)),
          (''actor_username'', case user_by_id (n_actor_id n) d of Some u \<Rightarrow> JStr (u_username u) | None \<Rightarrow> JNull),
          (''text'', JStr (n_text n)), (''entity_id'', jint_opt (n_entity_id n)), (''entity_type'', jstr_opt (n_entity_type n)),
          (''timestamp'', JStr timestamp), (''is_read'', JBool (n_is_read n))])))"

definition load_missed_content :: "string \<Rightarrow> int list \<Rightarrow> int \<Rightarrow> world \<Rightarrow> missed_item list outcome \<times> world" where
  "load_missed_content base in_session user_id w =
     (let d = w_db w; now = w_now w;
          ms = map (\<lambda>m. map_outcome (\<lambda>extra. (format_timestamp now (Some (m_created_at m)),
                 missed_entry (list_ex (\<lambda>r. r_message_id r = m_id m) (message_reactions d))
                   (JObj (message_item base now (JArr []) True m @ extra)))) (reply_fields base d m)) (missed_messages user_id d);
          ss = map (\<lambda>s. map_outcome (\<lambda>b. (format_timestamp now (Some (s_created_at s)),
                 missed_entry (list_ex (\<lambda>r. sr_shared_post_id r = s_id s) (shared_post_reactions d)) b))
                 (share_item ''caption_message'' now (JArr []) True d s)) (missed_shares user_id d);
          ns = map (missed_notification (in_session @ eagerly_loaded user_id d) now d) (missed_notifications user_id d)
      in (map_outcome (\<lambda>xs. map snd (sort_key fst xs)) (sequence (ms @ ss @ ns)), claim_missed user_id w))"

end
