(* ===== verification/Chat.thy ===== *)
theory Chat
  imports Chat_History
begin

text \<open>
  The WebSocket handler of \<open>app/messaging/chat.py\<close>: authentication, delivery of missed content, the dispatch loop
  over incoming frames, and the clean-up when the loop ends. A frame is the result of \<open>json.loads\<close>
  (\<open>None\<close>: not JSON). The database session lives as long as the connection; \<open>in_session\<close> are the users it
  holds.
\<close>

record chat_settings =
  cs_max_edit_time :: int            \<comment> \<open>\<open>settings.max_edit_time\<close>, minutes\<close>
  cs_base_url :: string              \<comment> \<open>\<open>settings.base_url\<close>\<close>
  cs_in_session :: "int list"

section \<open>Reading fields of a frame\<close>

definition safe_int :: "json \<Rightarrow> int option outcome" where
  "safe_int v = (case int_of_json v of
      Return i \<Rightarrow> Return (Some i)
    | Raise e \<Rightarrow> if e \<in> {TypeError, ValueError} then Return None else Raise e
    | Http c m \<Rightarrow> Http c m)"

text \<open>Validation of an \<open>Optional[str]\<close> and of a \<open>str\<close> field.\<close>

fun optional_str :: "json \<Rightarrow> string option outcome" where
  "optional_str JNull = Return None"
| "optional_str (JStr s) = Return (Some s)"
| "optional_str _ = Raise ValidationError"

fun required_str :: "json \<Rightarrow> string outcome" where
  "required_str (JStr s) = Return s"
| "required_str _ = Raise ValidationError"

text \<open>\<open>(v or "").strip()\<close>\<close>

definition stripped :: "json \<Rightarrow> string outcome" where
  "stripped v = (if \<not> truthy v then Return [] else case v of JStr s \<Rightarrow> Return (py_strip s) | _ \<Rightarrow> Raise AttributeError)"

text \<open>What handling a frame ends with: the loop goes on, or the exception leaves it.\<close>

datatype frame_result = Next | Failed exn

fun bind_frame :: "'a outcome \<Rightarrow> ('a \<Rightarrow> frame_result \<times> world) \<Rightarrow> world \<Rightarrow> frame_result \<times> world" where
  "bind_frame (Return x) f w = f x"
| "bind_frame (Raise e) f w = (Failed e, w)"
| "bind_frame (Http c m) f w = (Failed RuntimeError, w)"

text \<open>Two integer fields; the frame is skipped when either is missing or malformed.\<close>

definition with_ints :: "json \<Rightarrow> json \<Rightarrow> (int \<Rightarrow> int \<Rightarrow> frame_result \<times> world) \<Rightarrow> world \<Rightarrow> frame_result \<times> world" where
  "with_ints a b f w = bind_frame (safe_int a) (\<lambda>x. bind_frame (safe_int b) (\<lambda>y.
     case (x, y) of (Some i, Some j) \<Rightarrow> f i j | _ \<Rightarrow> (Next, w)) w) w"

definition with_int :: "json \<Rightarrow> (int \<Rightarrow> frame_result \<times> world) \<Rightarrow> world \<Rightarrow> frame_result \<times> world" where
  "with_int a f w = bind_frame (safe_int a) (\<lambda>x. case x of Some i \<Rightarrow> f i | None \<Rightarrow> (Next, w)) w"

fun finish :: "'a outcome \<times> world \<Rightarrow> frame_result \<times> world" where
  "finish (Return _, w) = (Next, w)"
| "finish (Raise e, w) = (Failed e, w)"
| "finish (Http c m, w) = (Failed RuntimeError, w)"

text \<open>The message fields common to the three send frames, in the order the schema validates them.\<close>

definition with_message_schema :: "(string \<times> json) list \<Rightarrow> int \<Rightarrow> (message_schema \<Rightarrow> frame_result \<times> world) \<Rightarrow> world \<Rightarrow>
    frame_result \<times> world" where
  "with_message_schema data receiver f w =
     bind_frame (optional_str (dict_get ''content'' data)) (\<lambda>content.
       bind_frame (optional_str (dict_get ''media_url'' data)) (\<lambda>media_url.
         bind_frame (optional_str (dict_get ''media_type'' data)) (\<lambda>media_type.
           f \<lparr>ms_to = receiver, ms_content = content, ms_media_url = media_url, ms_media_type = media_type\<rparr>) w) w) w"

section \<open>The dispatch loop\<close>

definition dispatch_reaction :: "json \<Rightarrow> json \<Rightarrow> (int \<Rightarrow> string \<Rightarrow> world \<Rightarrow> json outcome \<times> world) \<Rightarrow> world \<Rightarrow>
    frame_result \<times> world" where
  "dispatch_reaction emoji target handler w = bind_frame (safe_int target) (\<lambda>i.
     if \<not> truthy emoji then (Next, w)
     else case i of
       None \<Rightarrow> (Next, w)
     | Some k \<Rightarrow> bind_frame (required_str emoji) (\<lambda>e. finish (handler k e w)) w) w"

definition dispatch :: "chat_settings \<Rightarrow> int \<Rightarrow> (string \<times> json) list \<Rightarrow> world \<Rightarrow> frame_result \<times> world" where
  "dispatch cs me data w =
     (let kind = dict_get ''type'' data; field = (\<lambda>k. dict_get k data) in
      if kind = JStr ''delete_for_everyone'' then
        with_ints (field ''message_id'') (field ''receiver_id'') (\<lambda>i r. (Next, delete_for_everyone i me r w)) w
      else if kind = JStr ''reaction'' then
        dispatch_reaction (field ''reaction'') (field ''message_id'') (\<lambda>i e. react i e me) w
      else if kind = JStr ''shared_post_reaction'' then
        dispatch_reaction (field ''reaction'') (field ''shared_post_id'') (\<lambda>i e. react_to_shared_post i e me) w
      else if kind = JStr ''edit_message'' then
        bind_frame (safe_int (field ''msg_id'')) (\<lambda>i. bind_frame (safe_int (field ''receiver_id'')) (\<lambda>r.
          bind_frame (stripped (field ''new_content'')) (\<lambda>content.
            case (i, r) of
              (Some msg_id, Some recv_id) \<Rightarrow>
                if content = [] then (Next, w)
                else (Next, edit_message (cs_max_edit_time cs) msg_id content me recv_id w)
            | _ \<Rightarrow> (Next, w)) w) w) w
      else if kind = JStr ''delete_share_for_everyone'' then
        with_ints (field ''message_id'') (field ''receiver_id'') (\<lambda>i r. (Next, delete_share_for_everyone i me r w)) w
      else if kind = JStr ''typing'' then
        with_int (field ''receiver_id'') (\<lambda>r. (Next, on_mgr (typing_status ''typing'' r (truthy (field ''is_typing''))) w)) w
      else if kind = JStr ''presence_heartbeat'' then (Next, on_mgr (ack_presence_heartbeat me) w)
      else if kind = JStr ''read_receipt'' then (Next, mark_as_read data me w)
      else if kind = JStr ''reply_message'' then
        with_ints (field ''to'') (field ''reply_msg_id'') (\<lambda>r i. with_message_schema data r (\<lambda>p.
          finish (reply_msg (cs_in_session cs)
            (message_schema.extend p \<lparr>rs_reply_msg_id = i\<rparr>) me w)) w) w
      else if kind = JStr ''reply_to_share'' then
        with_ints (field ''to'') (field ''reply_share_id'') (\<lambda>r i. with_message_schema data r (\<lambda>p.
          finish (reply_share (message_schema.extend p \<lparr>rt_shared_post_id = i\<rparr>) me w)) w) w
      else
        with_int (field ''to'') (\<lambda>r. with_message_schema data r (\<lambda>p. finish (messageUser p me w)) w) w)"

text \<open>A frame that is not JSON is skipped; JSON other than an object has no \<open>.get\<close>.\<close>

definition chat_frame :: "chat_settings \<Rightarrow> int \<Rightarrow> json option \<Rightarrow> world \<Rightarrow> frame_result \<times> world" where
  "chat_frame cs me frame w = (case frame of
      None \<Rightarrow> (Next, w)
    | Some (JObj data) \<Rightarrow> dispatch cs me data w
    | Some _ \<Rightarrow> (Failed AttributeError, w))"

fun chat_loop :: "chat_settings \<Rightarrow> int \<Rightarrow> json option list \<Rightarrow> world \<Rightarrow> frame_result \<times> world" where
  "chat_loop cs me [] w = (Next, w)"
| "chat_loop cs me (frame # frames) w = (case chat_frame cs me frame w of
     (Next, w') \<Rightarrow> chat_loop cs me frames w'
   | (Failed e, w') \<Rightarrow> (Failed e, w'))"

section \<open>The connection\<close>

fun send_missed :: "socket \<Rightarrow> missed_item list \<Rightarrow> manager \<Rightarrow> manager" where
  "send_missed ws [] m = m"
| "send_missed ws (Not_serialisable # items) m = m"
| "send_missed ws (Sendable body # items) m =
     (if ws_send_ok ws then send_missed ws items (m\<lparr>delivered := delivered m @ [(ws_id ws, body)]\<rparr>) else m)"

text \<open>
  \<open>Rejected\<close>: closed with code 1008. \<open>Ended\<close>: the loop ended, by the client's disconnect or an exception.
  \<open>Crashed\<close>: an exception before the loop, with no clean-up.
\<close>

datatype chat_end = Rejected | Ended frame_result | Crashed exn

definition leave :: "bool \<Rightarrow> int \<Rightarrow> frame_result \<Rightarrow> world \<Rightarrow> world" where
  "leave saved user_id res w =
     (let (seen_at, w1) = mark_last_seen saved user_id w
      in broadcast_presence_update user_id False (Some seen_at)
           (on_mgr (disconnect user_id (res = Next) (Some seen_at)) w1))"

definition chat :: "(string \<Rightarrow> claims option) \<Rightarrow> int \<Rightarrow> chat_settings \<Rightarrow> bool \<Rightarrow> socket \<Rightarrow> int \<Rightarrow> string option \<Rightarrow>
    json option list \<Rightarrow> world \<Rightarrow> chat_end \<times> world" where
  "chat decode expire_minutes cs saved websocket user_id token frames w =
     (case token of
        None \<Rightarrow> (Rejected, w)
      | Some t \<Rightarrow>
          if t = [] then (Rejected, w)
          else (case getCurrentUser decode expire_minutes t w of
              (Return current_user, w1) \<Rightarrow>
                if pr_id current_user \<noteq> user_id then (Rejected, w1)
                else
                  let w2 = broadcast_presence_update user_id True None (on_mgr (connect user_id websocket) w1)
                  in (case load_missed_content (cs_base_url cs) (cs_in_session cs) user_id w2 of
                       (Return items, w3) \<Rightarrow>
                         let (res, w4) = chat_loop cs user_id frames (on_mgr (send_missed websocket (rev items)) w3)
                         in (Ended res, leave saved user_id res w4)
                     | (Raise e, w3) \<Rightarrow> (Crashed e, w3)
                     | (Http c m, w3) \<Rightarrow> (Crashed RuntimeError, w3))
            | (_, w1) \<Rightarrow> (Rejected, w1)))"

end
