(* ===== verification/Messaging_Lemmas.thy ===== *)
theory Messaging_Lemmas
  imports Chat
begin

text \<open>
  What the messaging operations keep: the database invariant, and everything that belongs to other users.
  \<open>foreign_messages i d\<close> are the messages not sent by \<open>i\<close>, without the columns that their readers change (read mark
  and reaction count); \<open>foreign_shares\<close> likewise.
\<close>

section \<open>Statements\<close>

lemma insert_deleted_message_ok: "db_ok d \<Longrightarrow> insert_deleted_message x d = Some d' \<Longrightarrow> db_ok d'"
  by (clarsimp simp: insert_deleted_message_def split: if_splits) (simp add: db_defs)

lemma insert_message_reply_ok: "db_ok d \<Longrightarrow> insert_message_reply x d = Some d' \<Longrightarrow> db_ok d'"
  by (clarsimp simp: insert_message_reply_def split: if_splits) (simp add: db_defs)

lemma insert_deleted_share_ok: "db_ok d \<Longrightarrow> insert_deleted_share x d = Some d' \<Longrightarrow> db_ok d'"
  by (clarsimp simp: insert_deleted_share_def split: if_splits) (simp add: db_defs)

lemma insert_share_reply_ok: "db_ok d \<Longrightarrow> insert_share_reply x d = Some d' \<Longrightarrow> db_ok d'"
  by (clarsimp simp: insert_share_reply_def split: if_splits) (simp add: db_defs)

lemma mark_delivered_ok: "db_ok (w_db w) \<Longrightarrow> db_ok (w_db (mark_delivered i w))"
  by (simp add: mark_delivered_def update_messages_ok)

lemma mark_share_read_ok: "db_ok d \<Longrightarrow> db_ok (mark_share_read i d)"
  by (simp add: mark_share_read_def update_shared_posts_ok)

lemma publish_copies_simps [simp]:
  "r_up (w_redis w) \<Longrightarrow> publish_copies p s w = Some (on_redis (r_publish ''chat:messages'' (JObj p) \<circ>
     r_publish ''chat:messages'' (with_receiver s p)) w)"
  "\<not> r_up (w_redis w) \<Longrightarrow> publish_copies p s w = None"
  by (simp_all add: publish_copies_def)

lemma publish_copies_db: "publish_copies p s w = Some w' \<Longrightarrow> w_db w' = w_db w"
  by (auto simp: publish_copies_def split: if_splits)

lemma column_text_fresh [simp]: "column_text (fresh_attr v) = v"
  by (simp add: fresh_attr_def split: option.split)

lemma store_message_Return:
  assumes "store_message r s a p w = (Return m, w')"
  obtains c t u where "ms_content p = Some c" "ms_media_type p = Some t"
    "ms_media_url p = Some u" "m = message_row r s c a (ms_to p) t u w"
    "insert_message m (w_db w) = Some (w_db w')" "w' = w\<lparr>w_db := w_db w'\<rparr>"
  using assms by (auto simp: store_message_def Let_def split: option.splits)

lemma insert_message_Some:
  "insert_message m d = Some d' \<Longrightarrow>
   d' = d\<lparr>messages := messages d @ [m\<lparr>m_id := messages_seq d\<rparr>], messages_seq := messages_seq d + 1\<rparr> \<and>
   m_sender_id m \<in> set (map u_id (users d)) \<and> m_receiver_id m \<in> set (map u_id (users d))"
  by (auto simp: insert_message_def split: if_splits)

lemma message_row_fields [simp]:
  "m_id (message_row r s c a b t u w) = messages_seq (w_db w)" "m_sender_id (message_row r s c a b t u w) = a"
  "m_receiver_id (message_row r s c a b t u w) = b" "m_content (message_row r s c a b t u w) = c"
  "m_reaction_cnt (message_row r s c a b t u w) = 0" "m_created_at (message_row r s c a b t u w) = w_now w"
  "\<not> m_is_read (message_row r s c a b t u w)" "\<not> m_is_deleted_for_everyone (message_row r s c a b t u w)"
  "m_media_type (message_row r s c a b t u w) = Some t" "m_media_url (message_row r s c a b t u w) = Some u"
  "m_is_reply_msg (message_row r s c a b t u w) = r" "m_is_reply_to_share (message_row r s c a b t u w) = s"
  "(message_row r s c a b t u w)\<lparr>m_id := messages_seq (w_db w)\<rparr> = message_row r s c a b t u w"
  by (simp_all add: message_row_def)

lemma store_message_ok: "db_ok (w_db w) \<Longrightarrow> db_ok (w_db (snd (store_message r s a p w)))"
  by (auto simp: store_message_def Let_def split: option.split dest: insert_message_ok)

lemma store_message_failed: "store_message r s a p w = (res, w') \<Longrightarrow> \<not> is_Return res \<Longrightarrow> w' = w"
  by (auto simp: store_message_def Let_def split: option.splits)

section \<open>What belongs to other users\<close>

definition message_core :: "message \<Rightarrow> int \<times> int \<times> int \<times> string \<times> int \<times> bool" where
  "message_core m = (m_id m, m_sender_id m, m_receiver_id m, m_content m, m_created_at m, m_is_deleted_for_everyone m)"

definition share_core :: "shared_post \<Rightarrow> int \<times> int \<times> int \<times> int \<times> string option \<times> bool" where
  "share_core s = (s_id s, s_from_user_id s, s_to_user_id s, s_post_id s, s_message s, s_is_deleted_for_everyone s)"

definition foreign_messages :: "int \<Rightarrow> database \<Rightarrow> (int \<times> int \<times> int \<times> string \<times> int \<times> bool) list" where
  "foreign_messages me d = filter (\<lambda>c. fst (snd c) \<noteq> me) (map message_core (messages d))"

definition foreign_shares :: "int \<Rightarrow> database \<Rightarrow> (int \<times> int \<times> int \<times> int \<times> string option \<times> bool) list" where
  "foreign_shares me d = filter (\<lambda>c. fst (snd c) \<noteq> me) (map share_core (shared_posts d))"

definition keeps_foreign :: "int \<Rightarrow> database \<Rightarrow> database \<Rightarrow> bool" where
  "keeps_foreign me d d' \<longleftrightarrow> foreign_messages me d' = foreign_messages me d \<and> foreign_shares me d' = foreign_shares me d"

lemma keeps_foreign_refl [simp]: "keeps_foreign me d d"
  by (simp add: keeps_foreign_def)

lemma keeps_foreign_trans: "keeps_foreign me d d' \<Longrightarrow> keeps_foreign me d' d'' \<Longrightarrow> keeps_foreign me d d''"
  by (simp add: keeps_foreign_def)

lemma core_triggers [simp]:
  "map message_core (trg_sync_message_reaction_counts e ms) = map message_core ms"
  "map share_core (trg_sync_shared_post_reaction_counts e' ss) = map share_core ss"
  by (cases e; simp add: trigger_simps map_update_where message_core_def)
    (cases e'; simp add: trigger_simps map_update_where share_core_def)

text \<open>An UPDATE keeps them when it changes only the owner's rows, or no column of the core.\<close>

lemma filter_core_update:
  assumes "\<And>r. P r \<Longrightarrow> core (f r) = core r \<or> (fst (snd (core r)) = me \<and> fst (snd (core (f r))) = me)"
  shows "filter (\<lambda>c. fst (snd c) \<noteq> me) (map core (update_where P f rows)) = filter (\<lambda>c. fst (snd c) \<noteq> me) (map core rows)"
proof (induction rows)
  case (Cons r rows)
  then show ?case using assms [of r] by (cases "P r") auto
qed simp

lemma keeps_update_messages:
  assumes "\<And>m. P m \<Longrightarrow> message_core (f m) = message_core m \<or> (m_sender_id m = me \<and> m_sender_id (f m) = me)"
  shows "keeps_foreign me d (update_messages P f d)"
proof -
  have "foreign_messages me (update_messages P f d) = foreign_messages me d"
    unfolding foreign_messages_def update_messages_def
    using assms by simp (intro filter_core_update, auto simp: message_core_def)
  then show ?thesis by (simp add: keeps_foreign_def foreign_shares_def update_messages_def)
qed

lemma keeps_update_shared_posts:
  assumes "\<And>s. P s \<Longrightarrow> share_core (f s) = share_core s \<or> (s_from_user_id s = me \<and> s_from_user_id (f s) = me)"
  shows "keeps_foreign me d (update_shared_posts P f d)"
proof -
  have "foreign_shares me (update_shared_posts P f d) = foreign_shares me d"
    unfolding foreign_shares_def update_shared_posts_def
    using assms by simp (intro filter_core_update, auto simp: share_core_def)
  then show ?thesis by (simp add: keeps_foreign_def foreign_messages_def update_shared_posts_def)
qed

lemma keeps_statements:
  "insert_message m d = Some d' \<Longrightarrow> m_sender_id m = me \<Longrightarrow> keeps_foreign me d d'"
  "insert_message_reply x d = Some d' \<Longrightarrow> keeps_foreign me d d'"
  "insert_share_reply y d = Some d' \<Longrightarrow> keeps_foreign me d d'"
  "insert_reaction r d = Some d' \<Longrightarrow> keeps_foreign me d d'"
  "insert_share_reaction q d = Some d' \<Longrightarrow> keeps_foreign me d d'"
  "keeps_foreign me d (delete_reactions P d)" "keeps_foreign me d (update_reactions P e d)"
  "keeps_foreign me d (delete_share_reactions Q d)" "keeps_foreign me d (update_share_reactions Q e d)"
  by (auto simp: keeps_foreign_def foreign_messages_def foreign_shares_def insert_message_def insert_message_reply_def
      insert_share_reply_def insert_reaction_def insert_share_reaction_def delete_reactions_def update_reactions_def
      delete_share_reactions_def update_share_reactions_def split: if_splits) (simp_all add: message_core_def)

lemma keeps_mark_delivered: "keeps_foreign me (w_db w) (w_db (mark_delivered i w))"
  unfolding mark_delivered_def by simp (rule keeps_update_messages, simp add: message_core_def)

lemma keeps_mark_share_read: "keeps_foreign me d (mark_share_read i d)"
  unfolding mark_share_read_def by (rule keeps_update_shared_posts, simp add: share_core_def)

section \<open>Handlers\<close>

text \<open>A step of user \<open>me\<close> on the database: keeps its invariant and what belongs to others.\<close>

definition safe_step :: "int \<Rightarrow> database \<Rightarrow> database \<Rightarrow> bool" where
  "safe_step me d d' \<longleftrightarrow> (db_ok d \<longrightarrow> db_ok d') \<and> keeps_foreign me d d'"

lemma safe_refl [simp]: "safe_step me d d"
  by (simp add: safe_step_def)

lemma safe_trans: "safe_step me d d' \<Longrightarrow> safe_step me d' d'' \<Longrightarrow> safe_step me d d''"
  using keeps_foreign_trans by (auto simp: safe_step_def)

lemma safe_mark_delivered: "safe_step me (w_db w) (w_db (mark_delivered i w))"
  by (simp add: safe_step_def keeps_mark_delivered mark_delivered_ok)

lemma safe_update_messages:
  assumes "\<And>m. P m \<Longrightarrow> message_core (f m) = message_core m \<or> (m_sender_id m = me \<and> m_sender_id (f m) = me)"
    and "\<And>m. m_id (f m) = m_id m" "\<And>m. m_sender_id (f m) = m_sender_id m"
    and "\<And>m. m_receiver_id (f m) = m_receiver_id m" "\<And>m. m_reaction_cnt (f m) = m_reaction_cnt m"
  shows "safe_step me d (update_messages P f d)"
  using keeps_update_messages [of P f me d] assms update_messages_ok [of d f P] by (simp add: safe_step_def)

lemma safe_update_shared_posts:
  assumes "\<And>s. P s \<Longrightarrow> share_core (f s) = share_core s \<or> (s_from_user_id s = me \<and> s_from_user_id (f s) = me)"
    and "\<And>s. s_id (f s) = s_id s" "\<And>s. s_post_id (f s) = s_post_id s" "\<And>s. s_from_user_id (f s) = s_from_user_id s"
    and "\<And>s. s_to_user_id (f s) = s_to_user_id s" "\<And>s. s_reaction_cnt (f s) = s_reaction_cnt s"
  shows "safe_step me d (update_shared_posts P f d)"
  using keeps_update_shared_posts [of P f me d] assms update_shared_posts_ok [of d f P] by (simp add: safe_step_def)

lemma safe_store_message: "safe_step me (w_db w) (w_db (snd (store_message r s me p w)))"
  by (auto simp: store_message_def Let_def safe_step_def split: option.split
      dest: insert_message_ok keeps_statements(1) [where me = me])

lemma safe_inserts:
  "insert_message_reply x d = Some d' \<Longrightarrow> safe_step me d d'"
  "insert_share_reply y d = Some d' \<Longrightarrow> safe_step me d d'"
  "insert_reaction r d = Some d' \<Longrightarrow> safe_step me d d'"
  "insert_share_reaction q d = Some d' \<Longrightarrow> safe_step me d d'"
  by (auto simp: safe_step_def intro: keeps_statements insert_message_reply_ok insert_share_reply_ok
      insert_reaction_ok insert_share_reaction_ok)

lemma safe_reaction_changes:
  "safe_step me d (delete_reactions P d)" "safe_step me d (update_reactions P e d)"
  "safe_step me d (delete_share_reactions Q d)" "safe_step me d (update_share_reactions Q e d)"
  by (simp_all add: safe_step_def keeps_statements delete_reactions_ok update_reactions_ok
      delete_share_reactions_ok update_share_reactions_ok)

lemma safe_publish_or_mark: "safe_step me (w_db w) (w_db (publish_or_mark p i s r w))"
  using safe_mark_delivered [of me "on_mgr (send_json_to_user (JObj p) r) w" i]
  by (cases "r_up (w_redis w)") (simp_all add: publish_or_mark_def Let_def)

lemma messageUser_safe: "safe_step me (w_db w) (w_db (snd (messageUser p me w)))"
proof (cases "store_message False False me p w")
  case (Pair res w1)
  have s: "safe_step me (w_db w) (w_db w1)"
    using safe_store_message [of me w False False p] Pair by simp
  then show ?thesis
    using Pair by (cases res) (simp_all add: messageUser_def Let_def safe_trans [OF s safe_publish_or_mark])
qed

lemma edit_message_safe: "safe_step me (w_db w) (w_db (edit_message n i c me r w))"
proof -
  let ?t = "\<lambda>x. m_id x = i \<and> m_sender_id x = me \<and> w_now w - minutes n \<le> m_created_at x \<and> \<not> m_is_deleted_for_everyone x"
  let ?f = "\<lambda>x. x\<lparr>m_content := c, m_is_edited := True, m_is_read := False, m_read_at := None, m_edited_at := Some (w_now w)\<rparr>"
  have upd: "safe_step me (w_db w) (w_db (w\<lparr>w_db := update_messages ?t ?f (w_db w)\<rparr>))"
    by simp (rule safe_update_messages, auto)
  show ?thesis
    using safe_trans [OF upd safe_publish_or_mark] by (simp add: edit_message_def Let_def split: option.split)
qed

lemma delete_for_everyone_safe: "safe_step me (w_db w) (w_db (delete_for_everyone i me r w))"
proof -
  let ?t = "\<lambda>x. m_id x = i \<and> m_sender_id x = me \<and> \<not> m_is_deleted_for_everyone x"
  have upd: "safe_step me (w_db w) (update_messages ?t (m_is_deleted_for_everyone_update (\<lambda>_. True)) (w_db w))"
    by (rule safe_update_messages) auto
  then show ?thesis
    by (simp add: delete_for_everyone_def Let_def publish_copies_def)
qed

lemma deliver_reply_safe: "safe_step me (w_db w) (w_db (snd (deliver_reply k f i s r w)))"
  using safe_mark_delivered [of me "on_mgr (send_json_to_user (JObj f) r) w" i]
  by (cases "r_up (w_redis w)") (simp_all add: deliver_reply_def)

lemma reply_msg_safe: "safe_step me (w_db w) (w_db (snd (reply_msg known p me w)))"
proof (cases "find (\<lambda>m. m_id m = rs_reply_msg_id p \<and> \<not> m_is_deleted_for_everyone m \<and> \<not> hidden_from me (w_db w) m) (messages (w_db w))")
  case (Some orig)
  obtain res w1 where st: "store_message True False me p w = (res, w1)" by fastforce
  then have s: "safe_step me (w_db w) (w_db w1)"
    using safe_store_message [of me w True False p] by simp
  show ?thesis
  proof (cases res)
    case (Return msg)
    show ?thesis
    proof (cases "insert_message_reply \<lparr>mr_reply_id = m_id msg, mr_original_id = rs_reply_msg_id p\<rparr> (w_db w1)")
      case None
      then show ?thesis using Some Return st by (simp add: reply_msg_def)
    next
      case (Some d)
      have "safe_step me (w_db w) (w_db (snd (deliver_reply k f i me r (w1\<lparr>w_db := d\<rparr>))))" for k f i r
        using safe_trans [OF safe_trans [OF s safe_inserts(1) [OF Some]] deliver_reply_safe [of me "w1\<lparr>w_db := d\<rparr>" k f i me r, simplified]] .
      then show ?thesis
        using \<open>find _ _ = Some orig\<close> Return st Some by (simp add: reply_msg_def Let_def split_beta)
    qed
  qed (use Some st s in \<open>simp_all add: reply_msg_def\<close>)
qed (simp add: reply_msg_def)

lemma send_pair_db [simp]: "w_db (case publish_copies p s w of Some w' \<Rightarrow> w' | None \<Rightarrow> on_mgr f w) = w_db w"
  by (cases "r_up (w_redis w)") simp_all

lemma toggle_reaction_safe: "toggle_reaction i e me d = (shown, Some d') \<Longrightarrow> safe_step me d d'"
  by (auto simp: toggle_reaction_def Let_def safe_reaction_changes split: option.splits if_splits
      dest: safe_inserts(3) [where me = me])

lemma react_safe: "safe_step me (w_db w) (w_db (snd (react i e me w)))"
  by (simp add: react_def Let_def split: option.split prod.split) (auto dest: toggle_reaction_safe)

lemma mark_as_read_safe: "safe_step me (w_db w) (w_db (mark_as_read p me w))"
proof -
  have upd: "safe_step me (w_db w) (update_messages (\<lambda>m. m_sender_id m = s \<and> m_receiver_id m = me \<and> \<not> m_is_read m)
      (\<lambda>m. m\<lparr>m_is_read := True, m_read_at := Some (w_now w)\<rparr>) (w_db w))" for s
    by (rule safe_update_messages) (auto simp: message_core_def)
  then show ?thesis
    by (simp add: mark_as_read_def Let_def publish_copies_def split: outcome.split)
qed

lemma toggle_share_reaction_safe: "toggle_share_reaction i e me d = (shown, Some d') \<Longrightarrow> safe_step me d d'"
  by (auto simp: toggle_share_reaction_def Let_def safe_reaction_changes split: option.splits if_splits
      dest: safe_inserts(4) [where me = me])

lemma react_to_shared_post_safe: "safe_step me (w_db w) (w_db (snd (react_to_shared_post i e me w)))"
  by (simp add: react_to_shared_post_def Let_def split: option.split prod.split) (auto dest: toggle_share_reaction_safe)

lemma delete_share_for_everyone_safe: "safe_step me (w_db w) (w_db (delete_share_for_everyone i me r w))"
proof -
  let ?t = "\<lambda>s. s_id s = i \<and> s_from_user_id s = me \<and> \<not> s_is_deleted_for_everyone s"
  have "safe_step me (w_db w) (update_shared_posts ?t (s_is_deleted_for_everyone_update (\<lambda>_. True)) (w_db w))"
    by (rule safe_update_shared_posts) auto
  then show ?thesis by (simp add: delete_share_for_everyone_def Let_def)
qed

lemma reply_share_safe: "safe_step me (w_db w) (w_db (snd (reply_share p me w)))"
proof (cases "shared_post_by_id (rt_shared_post_id p) (w_db w)")
  case (Some s)
  obtain res w1 where st: "store_message True True me p w = (res, w1)" by fastforce
  then have stored: "safe_step me (w_db w) (w_db w1)"
    using safe_store_message [of me w True True p] by simp
  show ?thesis
  proof (cases res)
    case (Return msg)
    show ?thesis
    proof (cases "insert_share_reply \<lparr>spr_reply_msg_id = m_id msg, spr_shared_post_id = rt_shared_post_id p\<rparr> (w_db w1)")
      case None
      then show ?thesis using Some Return st stored by (simp add: reply_share_def)
    next
      case link: (Some d)
      have linked: "safe_step me (w_db w) (w_db (w1\<lparr>w_db := d\<rparr>))"
        using safe_trans [OF stored safe_inserts(2) [OF link]] by simp
      then show ?thesis
        using Some Return st link safe_trans [OF linked safe_publish_or_mark]
        by (simp add: reply_share_def Let_def split: option.split)
    qed
  qed (use Some st stored in \<open>simp_all add: reply_share_def\<close>)
qed (simp add: reply_share_def)

lemma claim_missed_safe: "safe_step me (w_db w) (w_db (claim_missed i w))"
proof -
  have m: "safe_step me d (update_messages P (\<lambda>m. m\<lparr>m_is_read := True, m_read_at := t\<rparr>) d)" for P t d
    by (rule safe_update_messages) (auto simp: message_core_def)
  have s: "safe_step me d (update_shared_posts P (s_is_read_update (\<lambda>_. True)) d)" for P d
    by (rule safe_update_shared_posts) (auto simp: share_core_def)
  show ?thesis using safe_trans [OF m s] by (simp add: claim_missed_def Let_def)
qed

section \<open>The dispatch loop\<close>

lemma finish_world [simp]: "snd (finish (res, w)) = w"
  by (cases res) simp_all

lemma bind_frame_safe:
  "(\<And>x. r = Return x \<Longrightarrow> safe_step me d (w_db (snd (f x)))) \<Longrightarrow> safe_step me d (w_db w) \<Longrightarrow>
   safe_step me d (w_db (snd (bind_frame r f w)))"
  by (cases r) simp_all

lemma with_ints_safe:
  "(\<And>i j. safe_step me (w_db w) (w_db (snd (f i j)))) \<Longrightarrow> safe_step me (w_db w) (w_db (snd (with_ints a b f w)))"
  unfolding with_ints_def by (intro bind_frame_safe) (simp_all split: option.split)

lemma with_int_safe:
  "(\<And>i. safe_step me (w_db w) (w_db (snd (f i)))) \<Longrightarrow> safe_step me (w_db w) (w_db (snd (with_int a f w)))"
  unfolding with_int_def by (intro bind_frame_safe) (simp_all split: option.split)

lemma with_message_schema_safe:
  "(\<And>p. safe_step me (w_db w) (w_db (snd (f p)))) \<Longrightarrow> safe_step me (w_db w) (w_db (snd (with_message_schema data r f w)))"
  unfolding with_message_schema_def by (intro bind_frame_safe) simp_all

lemma finish_safe: "safe_step me d (w_db (snd h)) \<Longrightarrow> safe_step me d (w_db (snd (finish h)))"
  by (cases h) simp

lemma dispatch_reaction_safe:
  "(\<And>i e. safe_step me (w_db w) (w_db (snd (f i e w)))) \<Longrightarrow> safe_step me (w_db w) (w_db (snd (dispatch_reaction emoji t f w)))"
  unfolding dispatch_reaction_def
  by (intro bind_frame_safe) (simp_all add: bind_frame_safe finish_safe split: option.split)

lemma dispatch_edit_safe:
  "safe_step me (w_db w) (w_db (snd (bind_frame a (\<lambda>i. bind_frame b (\<lambda>r. bind_frame c (\<lambda>content.
     case i of None \<Rightarrow> (Next, w)
     | Some k \<Rightarrow> (case r of None \<Rightarrow> (Next, w)
         | Some l \<Rightarrow> if content = [] then (Next, w) else (Next, edit_message n k content me l w))) w) w) w)))"
  by (intro bind_frame_safe) (simp_all add: edit_message_safe split: option.split)

lemma safe_if:
  "safe_step me d (w_db (snd a)) \<Longrightarrow> safe_step me d (w_db (snd b)) \<Longrightarrow> safe_step me d (w_db (snd (if c then a else b)))"
  by simp

lemma dispatch_safe: "safe_step me (w_db w) (w_db (snd (dispatch cs me data w)))"
  unfolding dispatch_def Let_def
  by (intro safe_if)
    (simp_all add: with_ints_safe with_int_safe with_message_schema_safe dispatch_reaction_safe finish_safe
      delete_for_everyone_safe react_safe react_to_shared_post_safe delete_share_for_everyone_safe
      mark_as_read_safe reply_msg_safe reply_share_safe messageUser_safe dispatch_edit_safe)

lemma chat_frame_safe: "safe_step me (w_db w) (w_db (snd (chat_frame cs me frame w)))"
  by (simp add: chat_frame_def dispatch_safe split: option.split json.split)

lemma chat_loop_safe: "safe_step me (w_db w) (w_db (snd (chat_loop cs me frames w)))"
proof (induction frames arbitrary: w)
  case (Cons frame frames)
  obtain res w1 where f: "chat_frame cs me frame w = (res, w1)" by fastforce
  then have "safe_step me (w_db w) (w_db w1)" using chat_frame_safe [of me w cs frame] by simp
  then show ?case using f Cons [of w1] by (cases res) (auto intro: safe_trans)
qed simp

end
