(* ===== verification/Tokens.thy ===== *)
theory Tokens
  imports Oauth2
begin

text \<open>
  \<open>app/services/token_service.py\<close>: refresh tokens, their rotation with a grace window in Redis, and
  revocation. \<open>sha\<close> stands for SHA-256 and \<open>raw\<close>, \<open>family\<close>, \<open>jti\<close> for the random values drawn by a call. The
  invariant is that a family has at most one unrevoked token.
\<close>

section \<open>Operations\<close>

text \<open>The row that \<open>create_refresh_token\<close> adds to the session; the caller commits.\<close>

definition create_refresh_token :: "(string \<Rightarrow> string) \<Rightarrow> int \<Rightarrow> string \<Rightarrow> string \<Rightarrow> int \<Rightarrow>
    string option \<Rightarrow> world \<Rightarrow> refresh_token" where
  "create_refresh_token sha expire_days raw new_family user_id family_id w =
     \<lparr>t_token = sha raw, t_user_id = user_id,
      t_family_id = (case family_id of None \<Rightarrow> new_family | Some f \<Rightarrow> f), t_revoked = False,
      t_expires_at = w_now w + days expire_days, t_created_at = w_now w\<rparr>"

definition insert_refresh_token :: "refresh_token \<Rightarrow> database \<Rightarrow> database option" where
  "insert_refresh_token t d =
     (if t_token t \<in> set (map t_token (refresh_tokens d)) \<or> t_user_id t \<notin> set (map u_id (users d)) then None
      else Some (set_refresh_tokens (refresh_tokens d @ [t]) d))"

definition revoke_where :: "(refresh_token \<Rightarrow> bool) \<Rightarrow> database \<Rightarrow> database" where
  "revoke_where P d =
     set_refresh_tokens (update_where P (t_revoked_update (\<lambda>_. True)) (refresh_tokens d)) d"

definition revoke_family :: "string \<Rightarrow> database \<Rightarrow> database" where
  "revoke_family family_id d = revoke_where (\<lambda>t. t_family_id t = family_id) d"

definition revoke_all_user_tokens :: "int \<Rightarrow> database \<Rightarrow> database" where
  "revoke_all_user_tokens user_id d = revoke_where (\<lambda>t. t_user_id t = user_id) d"

definition grace_key :: "string \<Rightarrow> string" where
  "grace_key h = ''rotation_grace:'' @ h"

definition grace_lookup :: "string \<Rightarrow> world \<Rightarrow> (string \<times> string) option" where
  "grace_lookup h w =
     (if r_up (w_redis w) then
        (case r_get (now_ms w) (grace_key h) (w_redis w) of
           Some (RJson (JObj d)) \<Rightarrow>
             (case (map_of d ''access_token'', map_of d ''refresh_token'') of
                (Some (JStr a), Some (JStr r)) \<Rightarrow> Some (a, r) | _ \<Rightarrow> None)
         | _ \<Rightarrow> None)
      else None)"

definition grace_store :: "string \<Rightarrow> string \<Rightarrow> string \<Rightarrow> world \<Rightarrow> redis" where
  "grace_store h access refresh w =
     (if r_up (w_redis w)
      then r_set (grace_key h) (RJson (JObj [(''access_token'', JStr access), (''refresh_token'', JStr refresh)]))
             (Some (now_ms w + 60000)) (w_redis w)
      else w_redis w)"

definition invalid_refresh :: string where
  "invalid_refresh = ''Invalid refresh token.''"

definition reuse_detected :: string where
  "reuse_detected = ''Refresh token reuse detected. All sessions revoked '' @ [CHR 0xE2, CHR 0x80, CHR 0x94] @
     '' please log in again.''"

definition refresh_expired :: string where
  "refresh_expired = ''Refresh token expired. Please log in again.''"

definition rotate_refresh_token :: "(string \<Rightarrow> string) \<Rightarrow> (claims \<Rightarrow> string) \<Rightarrow> int \<Rightarrow> int \<Rightarrow>
    string \<Rightarrow> string \<Rightarrow> string \<Rightarrow> world \<Rightarrow> (string \<times> string) outcome \<times> world" where
  "rotate_refresh_token sha encode expire_minutes expire_days raw jti old w =
     (let h = sha old in
      case find (\<lambda>t. t_token t = h) (refresh_tokens (w_db w)) of
        None \<Rightarrow> (Http 401 invalid_refresh, w)
      | Some old_row \<Rightarrow>
          if t_revoked old_row then
            (case grace_lookup h w of
               Some pair \<Rightarrow> (Return pair, w)
             | None \<Rightarrow> (Http 401 reuse_detected, w\<lparr>w_db := revoke_family (t_family_id old_row) (w_db w)\<rparr>))
          else if t_expires_at old_row < w_now w then
            (Http 401 refresh_expired, w\<lparr>w_db := revoke_where (\<lambda>t. t_token t = h) (w_db w)\<rparr>)
          else
            (case insert_refresh_token
                    (create_refresh_token sha expire_days raw [] (t_user_id old_row)
                       (Some (t_family_id old_row)) w)
                    (revoke_where (\<lambda>t. t_token t = h) (w_db w)) of
               None \<Rightarrow> (Raise IntegrityError, w)
             | Some d \<Rightarrow>
                 (case user_by_id (t_user_id old_row) d of
                    None \<Rightarrow> (Raise AttributeError, w\<lparr>w_db := d\<rparr>)
                  | Some u \<Rightarrow>
                      (let access = createAccessToken encode expire_minutes jti (u_id u) (u_username u) w
                       in (Return (access, raw), w\<lparr>w_db := d, w_redis := grace_store h access raw w\<rparr>)))))"

section \<open>Families\<close>

definition active :: "string \<Rightarrow> refresh_token list \<Rightarrow> int" where
  "active f ts = cnt (\<lambda>t. t_family_id t = f \<and> \<not> t_revoked t) ts"

definition families_ok :: "database \<Rightarrow> bool" where
  "families_ok d \<longleftrightarrow> list_all (\<lambda>t. active (t_family_id t) (refresh_tokens d) \<le> 1) (refresh_tokens d)"

lemma families_ok_all: "families_ok d \<longleftrightarrow> (\<forall>f. active f (refresh_tokens d) \<le> 1)"
proof
  assume ok: "families_ok d"
  show "\<forall>f. active f (refresh_tokens d) \<le> 1"
  proof
    fix f
    show "active f (refresh_tokens d) \<le> 1"
    proof (cases "\<exists>t\<in>set (refresh_tokens d). t_family_id t = f")
      case True
      then show ?thesis using ok by (auto simp: families_ok_def list_all_iff)
    next
      case False
      then have "active f (refresh_tokens d) = 0" by (auto simp: active_def cnt_zero_iff)
      then show ?thesis by simp
    qed
  qed
qed (simp add: families_ok_def list_all_iff)

lemma active_revoke_le: "active f (update_where P (t_revoked_update (\<lambda>_. True)) ts) \<le> active f ts"
  by (induction ts) (auto simp: active_def)

lemma active_revoke_less:
  "t \<in> set ts \<Longrightarrow> P t \<Longrightarrow> \<not> t_revoked t \<Longrightarrow>
   active (t_family_id t) (update_where P (t_revoked_update (\<lambda>_. True)) ts) < active (t_family_id t) ts"
proof (induction ts)
  case (Cons s ts)
  then show ?case
    using active_revoke_le [of "t_family_id t" P ts] by (auto simp: active_def)
qed simp

lemma active_revoked_family:
  "(\<And>t. t_family_id t = f \<Longrightarrow> P t) \<Longrightarrow>
   active f (update_where P (t_revoked_update (\<lambda>_. True)) ts) = 0"
  by (induction ts) (auto simp: active_def)

lemma active_append:
  "active f (ts @ [t]) = active f ts + (if t_family_id t = f \<and> \<not> t_revoked t then 1 else 0)"
  by (simp add: active_def)

lemma set_refresh_tokens_simps [simp]:
  "refresh_tokens (set_refresh_tokens ts d) = ts" "users (set_refresh_tokens ts d) = users d"
  by (simp_all add: set_refresh_tokens_def)

lemma revoke_where_tokens [simp]:
  "refresh_tokens (revoke_where P d) = update_where P (t_revoked_update (\<lambda>_. True)) (refresh_tokens d)"
  "users (revoke_where P d) = users d"
  by (simp_all add: revoke_where_def)

lemma revoke_where_families: "families_ok d \<Longrightarrow> families_ok (revoke_where P d)"
  unfolding families_ok_all revoke_where_tokens using active_revoke_le order_trans by blast

lemma db_ok_tokens:
  "db_ok d \<Longrightarrow> distinct (map t_token (refresh_tokens d))"
  "db_ok d \<Longrightarrow> fk (map t_user_id (refresh_tokens d)) (map u_id (users d))"
  by (simp_all add: db_defs)

lemma revoke_where_ok: "db_ok d \<Longrightarrow> db_ok (revoke_where P d)"
  unfolding revoke_where_def
  by (rule set_refresh_tokens_ok) (simp_all add: map_update_where db_ok_tokens)

lemma insert_refresh_token_ok: "db_ok d \<Longrightarrow> insert_refresh_token t d = Some d' \<Longrightarrow> db_ok d'"
  unfolding insert_refresh_token_def
  by (auto intro!: set_refresh_tokens_ok simp: db_ok_tokens split: if_splits)

text \<open>The table after a successful rotation.\<close>

lemma rotate_success:
  assumes "rotate_refresh_token sha encode em ed raw jti old w = (Return (a, r), w')"
    and "find (\<lambda>t. t_token t = sha old) (refresh_tokens (w_db w)) = Some row" "\<not> t_revoked row"
  shows "refresh_tokens (w_db w') =
      update_where (\<lambda>t. t_token t = sha old) (t_revoked_update (\<lambda>_. True)) (refresh_tokens (w_db w)) @
      [create_refresh_token sha ed raw [] (t_user_id row) (Some (t_family_id row)) w]"
    and "r = raw" "w_redis w' = grace_store (sha old) a raw w" "w_now w \<le> t_expires_at row" "w_now w' = w_now w"
  using assms unfolding rotate_refresh_token_def
  by (auto simp: Let_def insert_refresh_token_def split: if_splits option.splits)

lemma rotate_families:
  assumes "families_ok (w_db w)"
  shows "families_ok (w_db (snd (rotate_refresh_token sha encode em ed raw jti old w)))"
proof (cases "find (\<lambda>t. t_token t = sha old) (refresh_tokens (w_db w))")
  case None
  then show ?thesis using assms by (simp add: rotate_refresh_token_def)
next
  case (Some row)
  let ?revoked = "revoke_where (\<lambda>t. t_token t = sha old) (w_db w)"
  have row: "row \<in> set (refresh_tokens (w_db w))" "t_token row = sha old"
    using Some by (auto dest: find_SomeD)
  have ins: "families_ok d"
    if "\<not> t_revoked row" "insert_refresh_token (create_refresh_token sha ed raw [] (t_user_id row)
        (Some (t_family_id row)) w) ?revoked = Some d" for d
  proof -
    have tokens: "refresh_tokens d = refresh_tokens ?revoked @
        [create_refresh_token sha ed raw [] (t_user_id row) (Some (t_family_id row)) w]"
      using that(2) by (auto simp: insert_refresh_token_def split: if_splits)
    have "active (t_family_id row) (refresh_tokens ?revoked) < active (t_family_id row) (refresh_tokens (w_db w))"
      using row that(1) by (simp add: active_revoke_less)
    moreover have "active f (refresh_tokens ?revoked) \<le> active f (refresh_tokens (w_db w))" for f
      by (simp add: active_revoke_le)
    moreover have "active f (refresh_tokens (w_db w)) \<le> 1" for f
      using assms by (simp add: families_ok_all)
    ultimately show "families_ok d"
      unfolding families_ok_all tokens active_append create_refresh_token_def
      by (auto intro: order_trans) (smt (verit))
  qed
  show ?thesis
    using assms Some ins
    by (auto simp: rotate_refresh_token_def Let_def revoke_family_def
        intro: revoke_where_families split: option.splits)
qed

lemma rotate_db_ok:
  assumes "db_ok (w_db w)"
  shows "db_ok (w_db (snd (rotate_refresh_token sha encode em ed raw jti old w)))"
proof -
  have "db_ok d" if "insert_refresh_token t (revoke_where P (w_db w)) = Some d" for t d P
    using insert_refresh_token_ok [OF revoke_where_ok [OF assms] that] .
  then show ?thesis
    using assms by (auto simp: rotate_refresh_token_def Let_def revoke_family_def
        intro: revoke_where_ok split: option.splits)
qed

end
