(* ===== verification/Otp.thy ===== *)
theory Otp
  imports World
begin

text \<open>
  \<open>app/services/otp_service.py\<close> and the clean-up task of \<open>app/tasks/otp_cleanup_task.py\<close>. The service
  stamps OTPs with \<open>datetime.now()\<close>, naive local time, and the task compares with \<open>datetime.utcnow()\<close>;
  \<open>tz\<close> is the offset of local time from UTC in microseconds. \<open>sha\<close> stands for SHA-256.
\<close>

section \<open>Operations\<close>

definition local_now :: "int \<Rightarrow> world \<Rightarrow> int" where
  "local_now tz w = w_now w + tz"

text \<open>\<open>str(random.randint(100000, 999999))\<close> for a drawn number.\<close>

definition generateOtp :: "int \<Rightarrow> string" where
  "generateOtp drawn = str_int drawn"

definition delete_otps :: "(otp_row \<Rightarrow> bool) \<Rightarrow> database \<Rightarrow> database" where
  "delete_otps P d = set_otps (delete_where P (otps d)) d"

definition saveOtp :: "(string \<Rightarrow> string) \<Rightarrow> int \<Rightarrow> string \<Rightarrow> string \<Rightarrow> int \<Rightarrow> world \<Rightarrow> world" where
  "saveOtp sha tz email otp mins w =
     (let d = delete_otps (\<lambda>r. o_email r = email) (w_db w);
          row = \<lparr>o_email = email, o_otp = sha otp, o_expires_at = local_now tz w + minutes mins,
                 o_created_at = w_now w\<rparr>
      in w\<lparr>w_db := set_otps (otps d @ [row]) d\<rparr>)"

definition checkOtp :: "(string \<Rightarrow> string) \<Rightarrow> int \<Rightarrow> string \<Rightarrow> string \<Rightarrow> world \<Rightarrow> bool \<times> world" where
  "checkOtp sha tz email user_otp w =
     (case find (\<lambda>r. o_email r = email) (otps (w_db w)) of
        None \<Rightarrow> (False, w)
      | Some record \<Rightarrow>
          if o_expires_at record < local_now tz w
          then (False, w\<lparr>w_db := delete_otps (\<lambda>r. o_email r = email) (w_db w)\<rparr>)
          else if o_otp record = sha user_otp
          then (True, w\<lparr>w_db := delete_otps (\<lambda>r. o_email r = email) (w_db w)\<rparr>)
          else (False, w))"

definition cleanup_expired_otps :: "world \<Rightarrow> world" where
  "cleanup_expired_otps w = w\<lparr>w_db := delete_otps (\<lambda>r. o_expires_at r \<le> w_now w) (w_db w)\<rparr>"

section \<open>Lemmas\<close>

lemma set_otps_simps [simp]: "otps (set_otps rows d) = rows" "users (set_otps rows d) = users d"
  "refresh_tokens (set_otps rows d) = refresh_tokens d"
  by (simp_all add: set_otps_def)

lemma delete_otps_simps [simp]:
  "otps (delete_otps P d) = delete_where P (otps d)" "users (delete_otps P d) = users d"
  "refresh_tokens (delete_otps P d) = refresh_tokens d"
  by (simp_all add: delete_otps_def)

lemma otp_calls_frame [simp]:
  "w_now (saveOtp sha tz e otp m w) = w_now w" "w_redis (saveOtp sha tz e otp m w) = w_redis w"
  "w_now (snd (checkOtp sha tz e otp w)) = w_now w" "w_redis (snd (checkOtp sha tz e otp w)) = w_redis w"
  "users (w_db (saveOtp sha tz e otp m w)) = users (w_db w)"
  "refresh_tokens (w_db (saveOtp sha tz e otp m w)) = refresh_tokens (w_db w)"
  "users (w_db (snd (checkOtp sha tz e otp w))) = users (w_db w)"
  "refresh_tokens (w_db (snd (checkOtp sha tz e otp w))) = refresh_tokens (w_db w)"
  by (simp_all add: saveOtp_def checkOtp_def Let_def split: option.split)

lemma find_appended: "(\<And>x. x \<in> set xs \<Longrightarrow> \<not> P x) \<Longrightarrow> P y \<Longrightarrow> find P (xs @ [y]) = Some y"
  by (induction xs) auto

lemma find_none_deleted: "find P (delete_where P xs) = None"
  by (simp add: find_None_iff)

lemma otp_after_save:
  "find (\<lambda>r. o_email r = e) (otps (w_db (saveOtp sha tz e otp m w))) =
   Some \<lparr>o_email = e, o_otp = sha otp, o_expires_at = local_now tz w + minutes m, o_created_at = w_now w\<rparr>"
  unfolding saveOtp_def Let_def by (simp, rule find_appended) auto

lemma db_ok_otps: "db_ok d \<Longrightarrow> distinct (map o_email (otps d))"
  by (simp add: db_defs)

lemma delete_otps_ok: "db_ok d \<Longrightarrow> db_ok (delete_otps P d)"
  unfolding delete_otps_def by (rule set_otps_ok) (simp_all add: db_ok_otps)

lemma saveOtp_ok:
  assumes "db_ok (w_db w)"
  shows "db_ok (w_db (saveOtp sha tz e otp m w))"
proof -
  have "e \<notin> o_email ` set (delete_where (\<lambda>r. o_email r = e) (otps (w_db w)))" by auto
  then show ?thesis
    using assms by (auto simp: saveOtp_def Let_def db_ok_otps intro!: set_otps_ok delete_otps_ok)
qed

lemma checkOtp_ok: "db_ok (w_db w) \<Longrightarrow> db_ok (w_db (snd (checkOtp sha tz e otp w)))"
  by (auto simp: checkOtp_def delete_otps_ok split: option.split)

section \<open>Properties\<close>

text \<open>An OTP works exactly once and only in its lifetime: at any time from its creation up to and including
  its expiry the code it was saved with is accepted, no code is accepted for that address right
  after, and past the expiry it is refused and its row is deleted.\<close>

theorem otp_single_use:
  assumes "w_db v = w_db (saveOtp sha tz e otp mins w)" "w_now w \<le> w_now v"
  shows "if w_now v \<le> w_now w + minutes mins
    then (let (ok, v') = checkOtp sha tz e otp v in ok \<and> (\<forall>otp'. \<not> fst (checkOtp sha tz e otp' v')))
    else (let (ok, v') = checkOtp sha tz e otp v
          in \<not> ok \<and> list_all (\<lambda>r. o_email r \<noteq> e) (otps (w_db v')))"
proof -
  have found: "find (\<lambda>r. o_email r = e) (otps (w_db v)) = Some \<lparr>o_email = e, o_otp = sha otp,
      o_expires_at = local_now tz w + minutes mins, o_created_at = w_now w\<rparr>"
    using assms(1) otp_after_save by simp
  then show ?thesis
    by (simp add: checkOtp_def Let_def local_now_def find_none_deleted list_all_iff)
qed

definition otp_world :: world where
  "otp_world = \<lparr>w_db = empty_db, w_redis = \<lparr>r_store = [], r_up = True, r_published = []\<rparr>, w_now = 0, w_tasks = [], w_mgr = new_manager, w_blobs = []\<rparr>"

lemma otp_single_use_witness:
  "fst (checkOtp id 0 ''a@x'' ''123456'' ((saveOtp id 0 ''a@x'' ''123456'' 5 otp_world)\<lparr>w_now := 60000000\<rparr>))"
  using otp_single_use [of "(saveOtp id 0 ''a@x'' ''123456'' 5 otp_world)\<lparr>w_now := 60000000\<rparr>" id 0 "''a@x''"
      "''123456''" 5 otp_world]
  by (simp add: otp_world_def minutes_def split_def Let_def)

text \<open>There is never more than one OTP per address, and a wrong code neither consumes nor changes the stored
  one: the address owner can still use it (the code leaves the row in place on a mismatch).\<close>

theorem otp_wrong_guess_keeps:
  assumes "sha guess \<noteq> sha otp" "w_now v \<le> w_now w + minutes mins"
    and "w_db v = w_db (saveOtp sha tz e otp mins w)"
  shows "checkOtp sha tz e guess v = (False, v) \<and> fst (checkOtp sha tz e otp v) \<and>
    cnt (\<lambda>r. o_email r = e) (otps (w_db v)) = 1"
proof -
  have found: "find (\<lambda>r. o_email r = e) (otps (w_db v)) = Some \<lparr>o_email = e, o_otp = sha otp,
      o_expires_at = local_now tz w + minutes mins, o_created_at = w_now w\<rparr>"
    using assms(3) otp_after_save by simp
  have "cnt (\<lambda>r. o_email r = e) (delete_where (\<lambda>r. o_email r = e) xs) = 0" for xs
    by (simp add: cnt_zero_iff)
  then have "cnt (\<lambda>r. o_email r = e) (otps (w_db v)) = 1"
    using assms(3) by (simp add: saveOtp_def Let_def)
  then show ?thesis
    using assms(1,2) found by (simp add: checkOtp_def local_now_def)
qed

lemma otp_wrong_guess_keeps_witness:
  "checkOtp id 0 ''a@x'' ''000000'' (saveOtp id 0 ''a@x'' ''123456'' 5 otp_world) =
   (False, saveOtp id 0 ''a@x'' ''123456'' 5 otp_world)"
  using otp_wrong_guess_keeps [of id "''000000''" "''123456''" "saveOtp id 0 ''a@x'' ''123456'' 5 otp_world"
      otp_world 5 0 "''a@x''"]
  by (simp add: otp_world_def minutes_def)

text \<open>The hourly clean-up compares local timestamps with UTC: on a server whose clock is behind UTC by at
  least the lifetime of an OTP it deletes an OTP the moment it has been issued, so that the code
  just sent is refused.\<close>

theorem otp_cleanup_deletes_fresh_otps:
  assumes "tz + minutes mins \<le> 0"
  shows "fst (checkOtp sha tz e otp (cleanup_expired_otps (saveOtp sha tz e otp mins w))) = False"
proof -
  have "find (\<lambda>r. o_email r = e) (otps (w_db (cleanup_expired_otps (saveOtp sha tz e otp mins w)))) = None"
    using assms by (auto simp: find_None_iff cleanup_expired_otps_def saveOtp_def local_now_def Let_def
        dest: arg_cong [of _ _ o_expires_at])
  then show ?thesis by (simp add: checkOtp_def)
qed

lemma otp_cleanup_deletes_fresh_otps_witness:
  "fst (checkOtp id (- 5 * 3600000000) ''a@x'' ''123456''
     (cleanup_expired_otps (saveOtp id (- 5 * 3600000000) ''a@x'' ''123456'' 5 otp_world))) = False"
  by (rule otp_cleanup_deletes_fresh_otps) (simp add: minutes_def)

end
