(* ===== verification/Concurrency.thy ===== *)
theory Concurrency
  imports World
begin

text \<open>
  \<open>app/services/concurrency_service.py\<close>: the retry wrapper for transient PostgreSQL errors and the
  row lock on a user. An operation is a function of the attempt number and the committed state; the
  rollback before a retry discards what the attempt did not commit, so the next attempt starts from
  the state the failed one left committed.
\<close>

section \<open>Transient errors\<close>

definition TRANSIENT_PG_CODES :: "string list" where
  "TRANSIENT_PG_CODES = [''40001'', ''40P01'']"

text \<open>
  The SQLSTATE is looked up in \<open>.sqlstate\<close>, \<open>.pgcode\<close> and their \<open>.orig\<close> counterparts; the first one
  that is set (and not empty) is taken.
\<close>

record pg_error =
  sqlstate :: "string option"
  pgcode :: "string option"
  orig_sqlstate :: "string option"
  orig_pgcode :: "string option"

definition or_else :: "string option \<Rightarrow> string option \<Rightarrow> string option" where
  "or_else a b = (if a = None \<or> a = Some [] then b else a)"

definition pg_code_from_error :: "pg_error \<Rightarrow> string option" where
  "pg_code_from_error e =
     or_else (sqlstate e) (or_else (pgcode e) (or_else (orig_sqlstate e) (orig_pgcode e)))"

definition is_transient_code :: "string option \<Rightarrow> bool" where
  "is_transient_code c = (case c of None \<Rightarrow> False | Some s \<Rightarrow> s \<in> set TRANSIENT_PG_CODES)"

definition is_transient_db_error :: "pg_error \<Rightarrow> bool" where
  "is_transient_db_error e = is_transient_code (pg_code_from_error e)"

text \<open>An \<open>OperationalError\<close> value carries the code that \<open>_pg_code_from_error\<close> finds.\<close>

fun transient :: "'a outcome \<Rightarrow> bool" where
  "transient (Raise (OperationalError c)) = is_transient_code c"
| "transient _ = False"

section \<open>The retry loop\<close>

fun retry_loop :: "(nat \<Rightarrow> 's \<Rightarrow> 'a outcome \<times> 's) \<Rightarrow> nat \<Rightarrow> nat \<Rightarrow> 's \<Rightarrow> 'a outcome \<times> 's" where
  "retry_loop operation attempt 0 s = (Raise RuntimeError, s)"
| "retry_loop operation attempt (Suc k) s =
     (case operation attempt s of
       (res, s') \<Rightarrow>
         if transient res \<and> k \<noteq> 0 then retry_loop operation (attempt + 1) k s' else (res, s'))"

definition run_with_transient_retry ::
    "(nat \<Rightarrow> 's \<Rightarrow> 'a outcome \<times> 's) \<Rightarrow> nat \<Rightarrow> 's \<Rightarrow> 'a outcome \<times> 's" where
  "run_with_transient_retry operation attempts s = retry_loop operation 1 attempts s"

text \<open>
  The delay before the retry after \<open>attempt\<close>, in seconds: \<open>min (base * 2^(attempt-1)) max\<close> times
  \<open>0.5 + random()\<close>.
\<close>

definition retry_delay :: "rat \<Rightarrow> rat \<Rightarrow> rat \<Rightarrow> nat \<Rightarrow> rat" where
  "retry_delay base_delay max_delay rnd attempt =
     min (base_delay * 2 ^ (attempt - 1)) max_delay * (1/2 + rnd)"

section \<open>Locking a user\<close>

definition lock_user_row :: "int option \<Rightarrow> string option \<Rightarrow> database \<Rightarrow> user outcome" where
  "lock_user_row user_id email d =
     (if (user_id = None) = (email = None) then Raise ValueError
      else case find (\<lambda>u. case user_id of
               Some i \<Rightarrow> u_id u = i | None \<Rightarrow> u_email u = email) (users d) of
        None \<Rightarrow> Http 404 ''User not found''
      | Some u \<Rightarrow> Return u)"

lemma lock_by_id [simp]:
  "lock_user_row (Some i) None d =
     (case user_by_id i d of None \<Rightarrow> Http 404 ''User not found'' | Some u \<Rightarrow> Return u)"
  by (simp add: lock_user_row_def user_by_id_def)

lemma lock_by_email:
  "lock_user_row None (Some e) d = Return u \<Longrightarrow> u \<in> set (users d) \<and> u_email u = Some e"
  by (auto simp: lock_user_row_def dest: find_SomeD split: option.splits)

section \<open>Lemmas\<close>

text \<open>
  The attempts \<open>1..n\<close> of a run in which the attempts before the last were transient failures, as the
  states between them.
\<close>

fun attempts_from :: "(nat \<Rightarrow> 's \<Rightarrow> 'a outcome \<times> 's) \<Rightarrow> nat \<Rightarrow> nat \<Rightarrow> 's \<Rightarrow> ('a outcome \<times> 's) list" where
  "attempts_from operation attempt 0 s = []"
| "attempts_from operation attempt (Suc k) s =
     (let r = operation attempt s
      in r # (if transient (fst r) then attempts_from operation (attempt + 1) k (snd r) else []))"

lemma attempts_length: "length (attempts_from operation a k s) \<le> k"
  by (induction operation a k s rule: attempts_from.induct) (auto simp: Let_def)

lemma retry_loop_last:
  "0 < k \<Longrightarrow> retry_loop operation a k s = last (attempts_from operation a k s)"
proof (induction operation a k s rule: attempts_from.induct)
  case (2 operation a k s)
  then show ?case
    by (cases k) (auto simp: Let_def split: prod.split)
qed simp

lemma attempts_butlast:
  "list_all (\<lambda>r. transient (fst r)) (butlast (attempts_from operation a k s))"
  by (induction operation a k s rule: attempts_from.induct) (auto simp: Let_def)

lemma attempts_full:
  "transient (fst (last (attempts_from operation a k s))) \<Longrightarrow> 0 < k \<Longrightarrow>
   length (attempts_from operation a k s) = k"
proof (induction operation a k s rule: attempts_from.induct)
  case (2 operation a k s)
  show ?case
  proof (cases "transient (fst (operation a s)) \<and> 0 < k")
    case True
    then have "attempts_from operation (a + 1) k (snd (operation a s)) \<noteq> []"
      by (cases k) (simp_all add: Let_def)
    with True 2 show ?thesis by (simp add: Let_def)
  next
    case False
    with 2 show ?thesis by (cases k) (auto simp: Let_def)
  qed
qed simp

lemma retry_delay_bounds:
  assumes "0 \<le> base_delay" "0 \<le> max_delay" "0 \<le> rnd" "rnd < 1"
  shows "0 \<le> retry_delay base_delay max_delay rnd attempt"
    and "retry_delay base_delay max_delay rnd attempt \<le> max_delay * (3/2)"
proof -
  have m: "0 \<le> min (base_delay * 2 ^ (attempt - 1)) max_delay" using assms by simp
  then show "0 \<le> retry_delay base_delay max_delay rnd attempt"
    using assms by (simp add: retry_delay_def)
  show "retry_delay base_delay max_delay rnd attempt \<le> max_delay * (3/2)"
    unfolding retry_delay_def using assms m by (intro mult_mono) auto
qed

text \<open>Induction for invariants: what every attempt keeps, the whole run keeps.\<close>

lemma retry_invariant:
  assumes "\<And>a s. I s \<Longrightarrow> I (snd (operation a s))" "I s"
  shows "I (snd (run_with_transient_retry operation attempts s))"
proof -
  have "I (snd (retry_loop operation a k s))" if "I s" for a k s
    using that
  proof (induction k arbitrary: a s)
    case (Suc k)
    obtain r s' where "operation a s = (r, s')" by (cases "operation a s")
    moreover from this have "I s'" using assms(1) [OF Suc.prems, of a] by simp
    ultimately show ?case using Suc.IH [of s' "a + 1"] by simp
  qed simp
  then show ?thesis using assms(2) by (simp add: run_with_transient_retry_def)
qed

section \<open>Properties\<close>

text \<open>C31: The retry wrapper runs the operation at most \<open>attempts\<close> times, each attempt from the state the one before
  left, returns the last attempt's outcome, retries only after serialisation failures and deadlocks,
  and lets such a failure escape only when all attempts are used up.\<close>

theorem transient_retry_attempts:
  assumes "0 < attempts"
  shows "let runs = attempts_from operation 1 attempts s in
    run_with_transient_retry operation attempts s = last runs \<and>
    length runs \<le> attempts \<and> list_all (\<lambda>r. transient (fst r)) (butlast runs) \<and>
    (transient (fst (last runs)) \<longrightarrow> length runs = attempts)"
  unfolding Let_def run_with_transient_retry_def
  by (intro conjI impI retry_loop_last attempts_length attempts_butlast attempts_full assms)

definition flaky :: "nat \<Rightarrow> int \<Rightarrow> int outcome \<times> int" where
  "flaky attempt s = (if attempt < 3 then Raise (OperationalError (Some ''40001'')) else Return s, s + 1)"

lemma transient_retry_attempts_witness:
  "run_with_transient_retry flaky 3 5 = last (attempts_from flaky 1 3 5) \<and>
   run_with_transient_retry flaky 3 5 = (Return 7, 8)"
proof -
  have "run_with_transient_retry flaky 3 5 = (Return 7, 8)"
    by code_simp
  then show ?thesis
    using transient_retry_attempts [of 3 flaky 5, OF zero_less_numeral, unfolded Let_def, THEN conjunct1]
    by (intro conjI)
qed

end
