(* ===== verification/Auth.thy ===== *)
theory Auth
  imports Tokens Otp Concurrency
begin

text \<open>
  \<open>app/routes/auth.py\<close> and \<open>app/routes/changepassword.py\<close>: login, refresh, logout, forgotten and
  authenticated password reset, e-mail verification. bcrypt is the parameter \<open>hashpw\<close>
  (\<open>hashpw password salt\<close>; verifying passes the stored hash as the salt). Each attempt of an operation
  under \<open>run_with_transient_retry\<close> takes the result of its commit from \<open>commits\<close>.
\<close>

section \<open>Passwords (\<open>app/utils/thread_helpers.py\<close>)\<close>

text \<open>Strings are their UTF-8 bytes, so \<open>.encode('utf-8')\<close> is the identity.\<close>

definition hashPassword :: "(string \<Rightarrow> string \<Rightarrow> string) \<Rightarrow> string \<Rightarrow> string \<Rightarrow> string" where
  "hashPassword hashpw salt password = hashpw (take 72 password) salt"

definition verifyPassword :: "(string \<Rightarrow> string \<Rightarrow> string) \<Rightarrow> string \<Rightarrow> string \<Rightarrow> bool" where
  "verifyPassword hashpw plain_password hashed_password \<longleftrightarrow>
     hashpw (take 72 plain_password) hashed_password = hashed_password"

section \<open>Login, refresh, logout\<close>

definition user_by_username :: "string \<Rightarrow> database \<Rightarrow> user option" where
  "user_by_username n d = find (\<lambda>u. u_username u = n) (users d)"

definition login_cache_payload :: "user \<Rightarrow> (string \<times> json) list" where
  "login_cache_payload u = build_user_cache_payload u @
     [(''followers_cnt'', JInt (u_followers_cnt u)), (''following_cnt'', JInt (u_following_cnt u))]"

definition token_model :: "user \<Rightarrow> string \<Rightarrow> string \<Rightarrow> json" where
  "token_model u access refresh = JObj [(''id'', JInt (u_id u)), (''username'', JStr (u_username u)),
     (''accessToken'', JStr access), (''refreshToken'', JStr refresh), (''tokenType'', JStr ''bearer'')]"

definition invalid_credentials :: string where
  "invalid_credentials = ''Invalid credentials''"

text \<open>\<open>lag\<close>: the microseconds between the signing of the token and the moment its principal is cached.\<close>

definition loginUser :: "int \<Rightarrow> (string \<Rightarrow> string) \<Rightarrow> (string \<Rightarrow> string \<Rightarrow> string) \<Rightarrow> (claims \<Rightarrow> string) \<Rightarrow>
    int \<Rightarrow> int \<Rightarrow> string \<Rightarrow> string \<Rightarrow> string \<Rightarrow> string \<Rightarrow> string \<Rightarrow> world \<Rightarrow> json outcome \<times> world" where
  "loginUser lag sha hashpw encode expire_minutes expire_days jti raw family username password w =
     (case user_by_username username (w_db w) of
        None \<Rightarrow> (Http 401 invalid_credentials, w)
      | Some u \<Rightarrow>
          if \<not> verifyPassword hashpw password (u_password u) then (Http 401 invalid_credentials, w)
          else if \<not> u_email_verified u then (Http 403 ''Email not verified'', w)
          else
            let access_token = createAccessToken encode expire_minutes jti (u_id u) (u_username u) w;
                v = w\<lparr>w_now := w_now w + lag\<rparr>;
                r = set_cache (now_ms v) (auth_key access_token) (JObj (login_cache_payload u))
                      (expire_minutes * 60) (w_redis v)
            in (case insert_refresh_token (create_refresh_token sha expire_days raw family (u_id u) None v)
                       (w_db v) of
                  None \<Rightarrow> (Raise IntegrityError, v\<lparr>w_redis := r\<rparr>)
                | Some d \<Rightarrow> (Return (token_model u access_token raw), v\<lparr>w_db := d, w_redis := r\<rparr>)))"

definition refresh_token_route :: "(string \<Rightarrow> string) \<Rightarrow> (claims \<Rightarrow> string) \<Rightarrow> int \<Rightarrow> int \<Rightarrow>
    string \<Rightarrow> string \<Rightarrow> string \<Rightarrow> world \<Rightarrow> json outcome \<times> world" where
  "refresh_token_route sha encode expire_minutes expire_days raw jti old w =
     (case rotate_refresh_token sha encode expire_minutes expire_days raw jti old w of
        (Return (access, refresh), w') \<Rightarrow>
          (Return (JObj [(''accessToken'', JStr access), (''refreshToken'', JStr refresh)]), w')
      | (Http c m, w') \<Rightarrow> (Http c m, w')
      | (Raise e, w') \<Rightarrow> (Raise e, w'))"

definition logout :: "(string \<Rightarrow> claims option) \<Rightarrow> string \<Rightarrow> world \<Rightarrow> json outcome \<times> world" where
  "logout decode token w =
     (case decodeToken decode token w of
        None \<Rightarrow> (Http 401 ''Invalid token'', w)
      | Some payload \<Rightarrow>
          let r = delete_cache (auth_key token) (w_redis w);
              r' = (case cl_expTime payload of
                  Some e \<Rightarrow> if e \<noteq> 0 \<and> 0 < seconds e - w_now w
                             then add_to_blacklist (now_ms w) token ((seconds e - w_now w) div 1000000) r
                             else r
                | None \<Rightarrow> r);
              d = (case cl_userId payload of
                  Some i \<Rightarrow> if i \<noteq> 0 then revoke_all_user_tokens i (w_db w) else w_db w
                | None \<Rightarrow> w_db w)
          in (Return (message_body ''Successfully logged out''), w\<lparr>w_db := d, w_redis := r'\<rparr>))"

section \<open>OTP flows\<close>

definition user_by_email :: "string \<Rightarrow> database \<Rightarrow> user option" where
  "user_by_email e d = find (\<lambda>u. u_email u = Some e) (users d)"

definition otp_sent :: json where
  "otp_sent = message_body ''If an account with this email exists, an OTP has been sent.''"

definition forgot_password :: "(string \<Rightarrow> string) \<Rightarrow> int \<Rightarrow> int \<Rightarrow> string \<Rightarrow> world \<Rightarrow> json outcome \<times> world" where
  "forgot_password sha tz drawn email w =
     (case user_by_email email (w_db w) of
        None \<Rightarrow> (Return otp_sent, w)
      | Some u \<Rightarrow>
          let otp = generateOtp drawn
          in (Return otp_sent, enqueue (send_otp_email email otp) (saveOtp sha tz email otp 5 w)))"

text \<open>How the final commit of an attempt ends.\<close>

datatype commit = Committed | Stale | OpError "string option"

definition commit_user :: "commit \<Rightarrow> string \<Rightarrow> json \<Rightarrow> int \<Rightarrow> (user \<Rightarrow> user) \<Rightarrow> world \<Rightarrow> json outcome \<times> world" where
  "commit_user res conflict ok i f w =
     (case res of
        Committed \<Rightarrow> (Return ok, w\<lparr>w_db := orm_update_user i f (w_db w)\<rparr>)
      | Stale \<Rightarrow> (Http 409 conflict, w)
      | OpError c \<Rightarrow> (Raise (OperationalError c), w))"

definition password_conflict :: string where
  "password_conflict = ''Password was updated concurrently''"

definition reset_password :: "(string \<Rightarrow> string) \<Rightarrow> (string \<Rightarrow> string \<Rightarrow> string) \<Rightarrow> int \<Rightarrow> string \<Rightarrow>
    (nat \<Rightarrow> commit) \<Rightarrow> string \<Rightarrow> string \<Rightarrow> string \<Rightarrow> world \<Rightarrow> json outcome \<times> world" where
  "reset_password sha hashpw tz salt commits email otp new_password w =
     (case checkOtp sha tz email otp w of
        (False, w') \<Rightarrow> (Http 400 ''Invalid or expired OTP.'', w')
      | (True, w') \<Rightarrow>
          run_with_transient_retry (\<lambda>attempt v.
            (case lock_user_row None (Some email) (w_db v) of
               Return u \<Rightarrow> commit_user (commits attempt) password_conflict
                   (message_body ''Password has been reset successfully.'') (u_id u)
                   (u_password_update (\<lambda>_. hashPassword hashpw salt new_password)) v
             | Http c m \<Rightarrow> (Http c m, v)
             | Raise e \<Rightarrow> (Raise e, v))) 3 w')"

definition verify_email :: "(string \<Rightarrow> string) \<Rightarrow> int \<Rightarrow> (nat \<Rightarrow> commit) \<Rightarrow> string \<Rightarrow> string \<Rightarrow>
    world \<Rightarrow> json outcome \<times> world" where
  "verify_email sha tz commits email otp w =
     run_with_transient_retry (\<lambda>attempt v.
       (case lock_user_row None (Some email) (w_db v) of
          Return u \<Rightarrow>
            if u_email_verified u then (Return (message_body ''Email already verified''), v)
            else (case checkOtp sha tz email otp v of
                (False, v') \<Rightarrow> (Http 400 ''Invalid or expired OTP'', v')
              | (True, v') \<Rightarrow> commit_user (commits attempt) ''Email verification was updated concurrently''
                  (message_body ''Email verified successfully'') (u_id u)
                  (u_email_verified_update (\<lambda>_. True)) v')
        | Http c m \<Rightarrow> (Http c m, v)
        | Raise e \<Rightarrow> (Raise e, v))) 3 w"

definition resend_verification_otp :: "(string \<Rightarrow> string) \<Rightarrow> int \<Rightarrow> int \<Rightarrow> string \<Rightarrow> world \<Rightarrow> json outcome \<times> world" where
  "resend_verification_otp sha tz drawn email w =
     (case user_by_email email (w_db w) of
        None \<Rightarrow> (Return otp_sent, w)
      | Some u \<Rightarrow>
          if u_email_verified u then (Return (message_body ''Email already verified''), w)
          else let otp = generateOtp drawn
            in (Return (message_body ''Verification OTP sent to your email.''),
                enqueue (send_verification_email email otp) (saveOtp sha tz email otp 5 w)))"

text \<open>\<open>changepassword.py\<close>; an account without an e-mail cannot store an OTP (NOT NULL).\<close>

definition change_password :: "(string \<Rightarrow> string) \<Rightarrow> int \<Rightarrow> int \<Rightarrow> principal \<Rightarrow> world \<Rightarrow> json outcome \<times> world" where
  "change_password sha tz drawn currentUser w =
     (let otp = generateOtp drawn
      in case pr_email currentUser of
        None \<Rightarrow> (Raise IntegrityError, w)
      | Some e \<Rightarrow> (Return (message_body ''OTP sent to your email! Check inbox''),
                   enqueue (send_otp_email e otp) (saveOtp sha tz e otp 2 w)))"

definition verifyOtp :: "(string \<Rightarrow> string) \<Rightarrow> int \<Rightarrow> string \<Rightarrow> string option \<Rightarrow> world \<Rightarrow> unit outcome \<times> world" where
  "verifyOtp sha tz otp email w =
     (case (case email of None \<Rightarrow> (False, w) | Some e \<Rightarrow> checkOtp sha tz e otp w) of
        (True, w') \<Rightarrow> (Return (), w')
      | (False, w') \<Rightarrow> (Http 400 ''Wrong or expired OTP'', w'))"

definition reset_attempt :: "(string \<Rightarrow> string) \<Rightarrow> (string \<Rightarrow> string \<Rightarrow> string) \<Rightarrow> int \<Rightarrow> string \<Rightarrow>
    (nat \<Rightarrow> commit) \<Rightarrow> int \<Rightarrow> string \<Rightarrow> string \<Rightarrow> string \<Rightarrow> nat \<Rightarrow> world \<Rightarrow> json outcome \<times> world" where
  "reset_attempt sha hashpw tz salt commits user_id old_password otp new_password attempt v =
     (case lock_user_row (Some user_id) None (w_db v) of
        Return u \<Rightarrow>
          if \<not> verifyPassword hashpw old_password (u_password u)
          then (Http 403 ''your old password is incorrect'', v)
          else (case verifyOtp sha tz otp (u_email u) v of
              (Return _, v') \<Rightarrow> commit_user (commits attempt) password_conflict
                  (message_body ''Password changed successfully! Now login with new one.'') (u_id u)
                  (u_password_update (\<lambda>_. hashPassword hashpw salt new_password)) v'
            | (Http c m, v') \<Rightarrow> (Http c m, v')
            | (Raise e, v') \<Rightarrow> (Raise e, v'))
      | Http c m \<Rightarrow> (Http c m, v)
      | Raise e \<Rightarrow> (Raise e, v))"

definition reset_password_authenticated :: "(string \<Rightarrow> string) \<Rightarrow> (string \<Rightarrow> string \<Rightarrow> string) \<Rightarrow> int \<Rightarrow>
    string \<Rightarrow> (nat \<Rightarrow> commit) \<Rightarrow> principal \<Rightarrow> string \<Rightarrow> string \<Rightarrow> string \<Rightarrow> string \<Rightarrow> world \<Rightarrow>
    json outcome \<times> world" where
  "reset_password_authenticated sha hashpw tz salt commits currentUser token old_password otp new_password w =
     (case run_with_transient_retry
             (reset_attempt sha hashpw tz salt commits (pr_id currentUser) old_password otp new_password) 3 w of
        (Return msg, w') \<Rightarrow>
          (Return msg, w'\<lparr>w_redis := delete_cache (auth_key token) (w_redis w'),
                          w_db := revoke_all_user_tokens (pr_id currentUser) (w_db w')\<rparr>)
      | (failure, w') \<Rightarrow> (failure, w'))"

end
