(* ===== verification/Connections.thy ===== *)
theory Connections
  imports Posts
begin

text \<open>
  \<open>app/routes/connect.py\<close> (follow, unfollow, remove a follower, the two lists with their
  \<open>is_following\<close> flag) and \<open>app/routes/feed.py\<close> (home and explore feed). The home feed is cached under
  \<open>feed:home:<user>:<offset>:<limit>\<close>, a key without the version that writers bump.
\<close>

section \<open>Cache keys\<close>

definition user_profile_key :: "int \<Rightarrow> string" where
  "user_profile_key i = ''user_profile:'' @ str_int i"

definition followers_key :: "int \<Rightarrow> string" where
  "followers_key i = ''followers:'' @ str_int i"

definition following_key :: "int \<Rightarrow> string" where
  "following_key i = ''following:'' @ str_int i"

definition feed_key :: "string \<Rightarrow> int \<Rightarrow> nat \<Rightarrow> nat \<Rightarrow> string" where
  "feed_key kind i offset limit =
     ''feed:'' @ kind @ '':'' @ str_int i @ CHR '':'' # str_nat offset @ CHR '':'' # str_nat limit"

definition home_feed_pattern :: "int \<Rightarrow> string" where
  "home_feed_pattern i = ''feed:home:'' @ str_int i @ '':*''"

section \<open>Following\<close>

definition follows :: "int \<Rightarrow> int \<Rightarrow> database \<Rightarrow> bool" where
  "follows a b d \<longleftrightarrow> list_ex (\<lambda>k. k_follower_id k = a \<and> k_followed_id k = b) (connections d)"

definition follow_response :: "string \<Rightarrow> int option \<Rightarrow> json" where
  "follow_response msg following_count =
     JObj [(''message'', JStr msg), (''following_count'', jint_opt following_count)]"

text \<open>The caches dropped by all three writers; the last two keys are the followed and the follower.\<close>

definition drop_connection_caches :: "string \<Rightarrow> int \<Rightarrow> int \<Rightarrow> int \<Rightarrow> int \<Rightarrow> redis \<Rightarrow> redis" where
  "drop_connection_caches token me other followed follower =
     delete_cache (auth_key token) \<circ> delete_cache (following_key follower) \<circ>
     delete_cache (followers_key followed) \<circ> delete_cache (user_profile_key other) \<circ>
     delete_cache (user_profile_key me)"

definition follow_user :: "int \<Rightarrow> principal \<Rightarrow> string \<Rightarrow> world \<Rightarrow> json outcome \<times> world" where
  "follow_user user_id currentUser token w =
     (case user_by_id user_id (w_db w) of
        None \<Rightarrow> (Http 404 ''User doesnt exist'', w)
      | Some u \<Rightarrow>
          if u_id u = pr_id currentUser then (Http 400 ''Cannot follow yourself'', w)
          else if follows (pr_id currentUser) user_id (w_db w)
          then (Http 400 ''Your already following this user'', w)
          else (case insert_connection \<lparr>k_followed_id = user_id, k_follower_id = pr_id currentUser\<rparr> (w_db w) of
              None \<Rightarrow> (Http 400 ''Failed to follow user'', w)
            | Some d \<Rightarrow>
                (Return (follow_response (''Followed user '' @ u_username u) (Some (pr_following_cnt currentUser + 1))),
                 enqueue (create_notification_task (pr_id currentUser) (u_id u) follow_notif
                            (pr_username currentUser) None None)
                   (on_redis (delete_cache (auth_key token) \<circ>
                        delete_cache_pattern (home_feed_pattern (pr_id currentUser)) \<circ>
                        delete_cache (following_key (pr_id currentUser)) \<circ> delete_cache (followers_key (u_id u)) \<circ>
                        delete_cache (user_profile_key (u_id u)) \<circ>
                        delete_cache (user_profile_key (pr_id currentUser)))
                     (w\<lparr>w_db := d\<rparr>)))))"

definition unfollow_user :: "int \<Rightarrow> principal \<Rightarrow> string \<Rightarrow> world \<Rightarrow> json outcome \<times> world" where
  "unfollow_user user_id currentUser token w =
     (case user_by_id user_id (w_db w) of
        None \<Rightarrow> (Http 404 ''User doesnt exist'', w)
      | Some u \<Rightarrow>
          if \<not> follows (pr_id currentUser) user_id (w_db w)
          then (Http 400 ''You are not following this user'', w)
          else
            (Return (follow_response (''Unfollowed user '' @ u_username u)
                (Some (max 0 (pr_following_cnt currentUser - 1)))),
             on_redis (snd \<circ> increment_cache_version (now_ms w) ''feed:home'' \<circ>
                  drop_connection_caches token (pr_id currentUser) user_id user_id (pr_id currentUser))
               (w\<lparr>w_db := delete_connections
                   (\<lambda>k. k_followed_id k = user_id \<and> k_follower_id k = pr_id currentUser) (w_db w)\<rparr>)))"

definition remove_follower_endpoint ::
    "int \<Rightarrow> int \<Rightarrow> principal \<Rightarrow> string \<Rightarrow> world \<Rightarrow> json outcome \<times> world" where
  "remove_follower_endpoint user_id follower_id currentUser token w =
     (if user_id \<noteq> pr_id currentUser
      then (Http 403 ''Can only remove followers from your own account'', w)
      else case user_by_id follower_id (w_db w) of
        None \<Rightarrow> (Http 404 (''User doesn'' @ CHR 0x27 # ''t exist''), w)
      | Some u \<Rightarrow>
          if \<not> follows follower_id (pr_id currentUser) (w_db w)
          then (Http 400 ''This user is not following you'', w)
          else
            (Return (follow_response (''Removed follower '' @ u_username u) None),
             on_redis (drop_connection_caches token (pr_id currentUser) (u_id u) (pr_id currentUser) (u_id u))
               (w\<lparr>w_db := delete_connections
                   (\<lambda>k. k_followed_id k = pr_id currentUser \<and> k_follower_id k = follower_id) (w_db w)\<rparr>)))"

section \<open>Lists\<close>

definition followers_of :: "int \<Rightarrow> database \<Rightarrow> user list" where
  "followers_of i d = List.map_filter (\<lambda>k. user_by_id (k_follower_id k) d)
     (filter (\<lambda>k. k_followed_id k = i) (connections d))"

definition followed_by :: "int \<Rightarrow> database \<Rightarrow> user list" where
  "followed_by i d = List.map_filter (\<lambda>k. user_by_id (k_followed_id k) d)
     (filter (\<lambda>k. k_follower_id k = i) (connections d))"

definition listed_user :: "int \<Rightarrow> database \<Rightarrow> user \<Rightarrow> json" where
  "listed_user me d u =
     user_basic (u_id u) (u_username u) (u_nickname u) (u_profile_picture u) (follows me (u_id u) d)"

definition get_followers_list :: "int \<Rightarrow> principal \<Rightarrow> world \<Rightarrow> json outcome \<times> world" where
  "get_followers_list user_id currentUser w =
     (case user_by_id user_id (w_db w) of
        None \<Rightarrow> (Http 404 ''User not found'', w)
      | Some _ \<Rightarrow>
          (Return (JArr (map (listed_user (pr_id currentUser) (w_db w)) (followers_of user_id (w_db w)))), w))"

definition get_following_list :: "int \<Rightarrow> principal \<Rightarrow> world \<Rightarrow> json outcome \<times> world" where
  "get_following_list user_id currentUser w =
     (case user_by_id user_id (w_db w) of
        None \<Rightarrow> (Http 404 ''User not found'', w)
      | Some _ \<Rightarrow>
          (Return (JArr (map (listed_user (pr_id currentUser) (w_db w)) (followed_by user_id (w_db w)))), w))"

section \<open>Feeds\<close>

definition list_item :: "string option \<Rightarrow> post \<Rightarrow> bool \<Rightarrow> json" where
  "list_item account p is_liked = JObj
     [(''id'', JInt (p_id p)), (''title'', JStr (p_title p)), (''media_url'', jstr_opt (post_media_url account p)),
      (''media_type'', jstr_opt (p_media_type p)), (''likes'', JInt (p_likes p)),
      (''comments_count'', JInt (p_comments_cnt p)), (''created_at'', JTime (p_created_at p)),
      (''is_liked'', JBool is_liked)]"

definition newest_first :: "(post \<Rightarrow> int) \<Rightarrow> post list \<Rightarrow> post list" where
  "newest_first tie ps = order_by tie (\<lambda>p. - p_created_at p) ps"

definition home_rows :: "(post \<Rightarrow> int) \<Rightarrow> int \<Rightarrow> database \<Rightarrow> (post \<times> user) list" where
  "home_rows tie me d = List.map_filter (\<lambda>p. map_option (Pair p) (user_by_id (p_user_id p) d))
     (newest_first tie (filter (\<lambda>p. follows me (p_user_id p) d) (posts d)))"

text \<open>\<open>owner\<close> is a \<open>UserOut\<close>, without a nickname; the response model fills in the defaults.\<close>

definition feed_item :: "string option \<Rightarrow> int \<Rightarrow> database \<Rightarrow> post \<times> user \<Rightarrow> json" where
  "feed_item account me d = (\<lambda>(p, u). JObj
     [(''post_id'', JInt (p_id p)), (''post'', list_item account p (has_liked (p_id p) me d)),
      (''owner'', user_basic (p_user_id p) (u_username u) None (u_profile_picture u) False)])"

definition home_feed_body :: "(post \<Rightarrow> int) \<Rightarrow> string option \<Rightarrow> nat \<Rightarrow> nat \<Rightarrow> int \<Rightarrow> database \<Rightarrow> json" where
  "home_feed_body tie account limit offset me d = JObj
     [(''feed'', JArr (map (feed_item account me d) (page offset limit (home_rows tie me d)))), (''total'', JNull)]"

definition getHomeFeed :: "(post \<Rightarrow> int) \<Rightarrow> string option \<Rightarrow> nat \<Rightarrow> nat \<Rightarrow> principal \<Rightarrow> world \<Rightarrow> json outcome \<times> world" where
  "getHomeFeed tie account limit offset currentUser w =
     (let cache_key = feed_key ''home'' (pr_id currentUser) offset limit;
          body = home_feed_body tie account limit offset (pr_id currentUser) (w_db w);
          from_db = (Return body, on_redis (set_cache (now_ms w) cache_key body 30) w)
      in case get_cache (now_ms w) cache_key (w_redis w) of
           Some cached \<Rightarrow> if truthy cached then (Return cached, w) else from_db
         | None \<Rightarrow> from_db)"

definition post_list_body :: "string option \<Rightarrow> nat \<Rightarrow> nat \<Rightarrow> int \<Rightarrow> database \<Rightarrow> post list \<Rightarrow> json" where
  "post_list_body account limit offset me d rows = JObj
     [(''posts'', JArr (map (\<lambda>p. list_item account p (has_liked (p_id p) me d)) (page offset limit rows))),
      (''pagination'', pagination limit offset (page_more offset limit rows))]"

definition getExploreFeed :: "(post \<Rightarrow> int) \<Rightarrow> string option \<Rightarrow> nat \<Rightarrow> nat \<Rightarrow> principal \<Rightarrow> world \<Rightarrow> json outcome \<times> world" where
  "getExploreFeed tie account limit offset currentUser w =
     (let cache_key = feed_key ''explore'' (pr_id currentUser) offset limit;
          body = post_list_body account limit offset (pr_id currentUser) (w_db w) (newest_first tie (posts (w_db w)));
          from_db = (Return body, on_redis (set_cache (now_ms w) cache_key body 60) w)
      in case get_cache (now_ms w) cache_key (w_redis w) of
           Some cached \<Rightarrow> if truthy cached then (Return cached, w) else from_db
         | None \<Rightarrow> from_db)"

end
