(* ===== verification/Profiles.thy ===== *)
theory Profiles
  imports Auth Connections
begin

text \<open>
  \<open>app/routes/users.py\<close>, \<open>app/routes/me.py\<close> and \<open>app/routes/search.py\<close>: registration, public and own
  profiles, profile pictures, the lists and statistics of a user, and search. Rows without an
  \<open>ORDER BY\<close> come in table order.
\<close>

section \<open>Profiles\<close>

definition posts_count :: "int \<Rightarrow> database \<Rightarrow> int" where
  "posts_count i d = cnt (\<lambda>p. p_user_id p = i) (posts d)"

definition profile_json :: "int \<Rightarrow> string \<Rightarrow> string option \<Rightarrow> string option \<Rightarrow> string option \<Rightarrow> int \<Rightarrow> int \<Rightarrow> int \<Rightarrow>
    bool \<Rightarrow> int \<Rightarrow> json" where
  "profile_json i username nickname bio picture n_posts followers following is_following created_at = JObj
     [(''id'', JInt i), (''username'', JStr username), (''nickname'', jstr_opt nickname), (''bio'', jstr_opt bio),
      (''profile_picture'', jstr_opt picture), (''posts_count'', JInt n_posts), (''followers_count'', JInt followers),
      (''following_count'', JInt following), (''is_following'', JBool is_following), (''created_at'', JTime created_at)]"

text \<open>\<open>bio or ""\<close>\<close>

definition bio_or_empty :: "string option \<Rightarrow> string option" where
  "bio_or_empty bio = (case bio of None \<Rightarrow> Some [] | Some b \<Rightarrow> Some b)"

definition get_user_profile :: "int \<Rightarrow> principal \<Rightarrow> world \<Rightarrow> json outcome \<times> world" where
  "get_user_profile user_id currentUser w =
     (let key = user_profile_key user_id;
          is_following = follows (pr_id currentUser) user_id (w_db w);
          from_db = (case user_by_id user_id (w_db w) of
              None \<Rightarrow> (Http 404 ''User not found'', w)
            | Some u \<Rightarrow>
                let body = profile_json (u_id u) (u_username u) (u_nickname u) (bio_or_empty (u_bio u))
                      (u_profile_picture u) (posts_count user_id (w_db w)) (u_followers_cnt u) (u_following_cnt u)
                      is_following (u_created_at u)
                in (Return body, on_redis (set_cache (now_ms w) key body 120) w))
      in case get_cache (now_ms w) key (w_redis w) of
           Some cached \<Rightarrow>
             if truthy cached then
               (case cached of
                  JObj shown \<Rightarrow> (Return (JObj (dict_set ''is_following'' (JBool is_following) shown)), w)
                | _ \<Rightarrow> (Raise TypeError, w))
             else from_db
         | None \<Rightarrow> from_db)"

definition picture_info :: "string option \<Rightarrow> string \<Rightarrow> json" where
  "picture_info account path = JObj [(''url'', JStr (get_blob_url account ''profilepics'' path)), (''type'', JStr ''image'')]"

definition avatar_answer :: "string option \<Rightarrow> string option \<Rightarrow> json outcome" where
  "avatar_answer account path = (case path of
      None \<Rightarrow> Http 404 ''No profile picture''
    | Some m \<Rightarrow> if m = [] then Http 404 ''No profile picture'' else Return (picture_info account m))"

definition get_user_avatar :: "string option \<Rightarrow> int \<Rightarrow> principal \<Rightarrow> world \<Rightarrow> json outcome \<times> world" where
  "get_user_avatar account user_id currentUser w =
     (case user_by_id user_id (w_db w) of
        None \<Rightarrow> (Raise AttributeError, w)
      | Some u \<Rightarrow> (avatar_answer account (u_profile_picture u), w))"

section \<open>Registration and the list of users\<close>

definition user_response :: "int \<Rightarrow> string \<Rightarrow> int \<Rightarrow> json" where
  "user_response i username created_at =
     JObj [(''id'', JInt i), (''username'', JStr username), (''created_at'', JTime created_at)]"

definition new_user :: "string \<Rightarrow> string \<Rightarrow> string option \<Rightarrow> string \<Rightarrow> int \<Rightarrow> user" where
  "new_user username password nickname email created_at =
     \<lparr>u_id = 0, u_username = username, u_password = password, u_nickname = nickname, u_bio = None,
      u_email = Some email, u_email_verified = False, u_profile_picture = None, u_created_at = created_at,
      u_last_seen_at = None, u_followers_cnt = 0, u_following_cnt = 0, u_version_id = 1\<rparr>"

definition register_user :: "(string \<Rightarrow> string) \<Rightarrow> (string \<Rightarrow> string \<Rightarrow> string) \<Rightarrow> int \<Rightarrow> string \<Rightarrow> int \<Rightarrow>
    string \<Rightarrow> string \<Rightarrow> string option \<Rightarrow> string \<Rightarrow> world \<Rightarrow> json outcome \<times> world" where
  "register_user sha hashpw tz salt drawn username password nickname email w =
     (if user_by_email email (w_db w) \<noteq> None then (Http 409 ''Email already exists'', w)
      else let row = new_user username (hashPassword hashpw salt password) nickname email (w_now w)
        in case insert_user row (w_db w) of
             None \<Rightarrow> (Raise IntegrityError, w)
           | Some d \<Rightarrow>
               let otp = generateOtp drawn;
                   w1 = enqueue (send_verification_email email otp) (saveOtp sha tz email otp 5 (w\<lparr>w_db := d\<rparr>))
               in (Return (user_response (users_seq (w_db w)) username (w_now w)), on_redis (delete_cache ''all_users'') w1))"

definition list_users :: "world \<Rightarrow> json outcome \<times> world" where
  "list_users w =
     (let body = JArr (map (\<lambda>u. user_response (u_id u) (u_username u) (u_created_at u)) (users (w_db w)));
          from_db = (Return body, on_redis (set_cache (now_ms w) ''all_users'' body 60) w)
      in case get_cache (now_ms w) ''all_users'' (w_redis w) of
           Some cached \<Rightarrow> if truthy cached then (Return cached, w) else from_db
         | None \<Rightarrow> from_db)"

section \<open>Cached lists\<close>

text \<open>\<open>get_followers\<close> and \<open>get_following\<close> differ in the key and in the rows.\<close>

definition cached_user_list :: "string \<Rightarrow> (database \<Rightarrow> user list) \<Rightarrow> int \<Rightarrow> world \<Rightarrow> json outcome \<times> world" where
  "cached_user_list key rows user_id w =
     (let found = rows (w_db w);
          body = JArr (map owner_json found);
          from_db =
            (if found = [] \<and> user_by_id user_id (w_db w) = None then (Http 404 ''User not found'', w)
             else (Return body, on_redis (set_cache (now_ms w) key body 120) w))
      in case get_cache (now_ms w) key (w_redis w) of
           Some cached \<Rightarrow> if truthy cached then (Return cached, w) else from_db
         | None \<Rightarrow> from_db)"

definition get_followers :: "int \<Rightarrow> principal \<Rightarrow> world \<Rightarrow> json outcome \<times> world" where
  "get_followers user_id currentUser w = cached_user_list (followers_key user_id) (followers_of user_id) user_id w"

definition get_following :: "int \<Rightarrow> principal \<Rightarrow> world \<Rightarrow> json outcome \<times> world" where
  "get_following user_id currentUser w = cached_user_list (following_key user_id) (followed_by user_id) user_id w"

definition user_posts_key :: "int \<Rightarrow> nat \<Rightarrow> nat \<Rightarrow> string" where
  "user_posts_key i offset limit =
     ''user:posts:'' @ str_int i @ CHR '':'' # str_nat offset @ CHR '':'' # str_nat limit"

definition posts_of :: "(post \<Rightarrow> int) \<Rightarrow> int \<Rightarrow> database \<Rightarrow> post list" where
  "posts_of tie i d = newest_first tie (filter (\<lambda>p. p_user_id p = i) (posts d))"

definition get_user_posts :: "(post \<Rightarrow> int) \<Rightarrow> string option \<Rightarrow> int \<Rightarrow> nat \<Rightarrow> nat \<Rightarrow> principal \<Rightarrow> world \<Rightarrow> json outcome \<times> world" where
  "get_user_posts tie account user_id limit offset currentUser w =
     (let key = user_posts_key user_id offset limit;
          body = post_list_body account limit offset (pr_id currentUser) (w_db w) (posts_of tie user_id (w_db w));
          from_db = (Return body, on_redis (set_cache (now_ms w) key body 60) w)
      in case get_cache (now_ms w) key (w_redis w) of
           Some cached \<Rightarrow> if truthy cached then (Return cached, w) else from_db
         | None \<Rightarrow> from_db)"

section \<open>The current user\<close>

definition own_profile :: "principal \<Rightarrow> string option \<Rightarrow> database \<Rightarrow> json outcome" where
  "own_profile cu bio d =
     (let counts = (case user_by_id (pr_id cu) d of None \<Rightarrow> (0, 0) | Some u \<Rightarrow> (u_followers_cnt u, u_following_cnt u))
      in case pr_created_at cu of
           None \<Rightarrow> Raise ValidationError
         | Some t \<Rightarrow> Return (profile_json (pr_id cu) (pr_username cu) (pr_nickname cu) bio (pr_profile_picture cu)
             (posts_count (pr_id cu) d) (fst counts) (snd counts) False t))"

definition myProfile :: "principal \<Rightarrow> world \<Rightarrow> json outcome \<times> world" where
  "myProfile currentUser w = (own_profile currentUser (bio_or_empty (pr_bio currentUser)) (w_db w), w)"

definition get_current_user_avatar :: "string option \<Rightarrow> principal \<Rightarrow> world \<Rightarrow> json outcome \<times> world" where
  "get_current_user_avatar account currentUser w = (avatar_answer account (pr_profile_picture currentUser), w)"

definition get_current_user_posts :: "(post \<Rightarrow> int) \<Rightarrow> string option \<Rightarrow> nat \<Rightarrow> nat \<Rightarrow> principal \<Rightarrow> world \<Rightarrow> json outcome \<times> world" where
  "get_current_user_posts tie account limit offset currentUser w =
     (Return (post_list_body account limit offset (pr_id currentUser) (w_db w) (posts_of tie (pr_id currentUser) (w_db w))), w)"

text \<open>Truthiness of an optional form field.\<close>

definition given :: "string option \<Rightarrow> bool" where
  "given s \<longleftrightarrow> s \<noteq> None \<and> s \<noteq> Some []"

definition remove_picture :: "(nat \<Rightarrow> commit) \<Rightarrow> int \<Rightarrow> nat \<Rightarrow> world \<Rightarrow> string outcome \<times> world" where
  "remove_picture commits user_id attempt v =
     (case lock_user_row (Some user_id) None (w_db v) of
        Return u \<Rightarrow>
          if \<not> given (u_profile_picture u) then (Http 400 ''No profile picture to remove'', v)
          else (case commits attempt of
              Committed \<Rightarrow> (Return (the (u_profile_picture u)),
                v\<lparr>w_db := orm_update_user (u_id u) (u_profile_picture_update (\<lambda>_. None)) (w_db v)\<rparr>)
            | Stale \<Rightarrow> (Http 409 ''Profile was updated concurrently'', v)
            | OpError c \<Rightarrow> (Raise (OperationalError c), v))
      | Http c m \<Rightarrow> (Http c m, v)
      | Raise e \<Rightarrow> (Raise e, v))"

definition delete_profile_picture ::
    "string option \<Rightarrow> (nat \<Rightarrow> commit) \<Rightarrow> principal \<Rightarrow> world \<Rightarrow> json outcome \<times> world" where
  "delete_profile_picture account commits currentUser w =
     (case run_with_transient_retry (remove_picture commits (pr_id currentUser)) 3 w of
        (Return old_profile_pic, w1) \<Rightarrow>
          (Return (message_body ''Profile picture removed successfully''),
           on_redis (delete_cache (user_profile_key (pr_id currentUser)))
             (w1\<lparr>w_blobs := delete_blob account ''profilepics'' old_profile_pic (w_blobs w1)\<rparr>))
      | (Http c m, w1) \<Rightarrow> (Http c m, w1)
      | (Raise e, w1) \<Rightarrow> (Raise e, w1))"

section \<open>Updating the profile\<close>

text \<open>How the commit of an attempt ends.\<close>

datatype profile_commit = Saved | Taken | Stale_profile | Op_failed "string option"

definition picture_types :: "string list" where
  "picture_types = [''image/jpeg'', ''image/png'', ''image/gif'']"

definition picture_name :: "string \<Rightarrow> string option \<Rightarrow> string" where
  "picture_name uuid filename =
     (let ext = safe_extension filename
      in if ext \<noteq> [] then ''profile_'' @ uuid @ ''.'' @ ext else ''profile_'' @ uuid)"

text \<open>The picture part: the name of the uploaded blob, if any.\<close>

definition store_picture :: "string option \<Rightarrow> nat \<Rightarrow> string \<Rightarrow> upload option \<Rightarrow> world \<Rightarrow>
    string option outcome \<times> world" where
  "store_picture account max_mb uuid picture v = (case picture of
      None \<Rightarrow> (Return None, v)
    | Some m \<Rightarrow>
        if up_content_type m \<notin> set picture_types then (Http 400 ''only jpeg,png,gif files allowed'', v)
        else (case validate_and_read_file max_mb (up_data m) of
            Return bytes \<Rightarrow>
              (case upload_blob account ''profilepics'' (picture_name uuid (up_filename m)) bytes (w_blobs v) of
                 (Return _, b) \<Rightarrow> (Return (Some (picture_name uuid (up_filename m))), v\<lparr>w_blobs := b\<rparr>)
               | (Http c d, b) \<Rightarrow> (Http c d, v)
               | (Raise e, b) \<Rightarrow> (Raise e, v))
          | Http c d \<Rightarrow> (Http c d, v)
          | Raise e \<Rightarrow> (Raise e, v)))"

definition edit_profile :: "string option \<Rightarrow> string option \<Rightarrow> string option \<Rightarrow> user \<Rightarrow> user" where
  "edit_profile username bio blob_name u =
     (let u1 = (if given username then u\<lparr>u_username := the username\<rparr> else u);
          u2 = (if given bio then u1\<lparr>u_bio := bio\<rparr> else u1)
      in if blob_name \<noteq> None then u2\<lparr>u_profile_picture := blob_name\<rparr> else u2)"

definition drop_upload :: "string option \<Rightarrow> string option \<Rightarrow> world \<Rightarrow> world" where
  "drop_upload account blob_name v = (case blob_name of
      None \<Rightarrow> v
    | Some n \<Rightarrow> v\<lparr>w_blobs := delete_blob account ''profilepics'' n (w_blobs v)\<rparr>)"

definition commit_profile :: "string option \<Rightarrow> profile_commit \<Rightarrow> string option \<Rightarrow> string option \<Rightarrow> string option \<Rightarrow>
    user \<Rightarrow> world \<Rightarrow> user outcome \<times> world" where
  "commit_profile account res username bio blob_name u v = (case res of
      Saved \<Rightarrow>
        let d = orm_update_user (u_id u) (edit_profile username bio blob_name) (w_db v);
            changed = edit_profile username bio blob_name u;
            v1 = (if given (u_profile_picture u) \<and> u_profile_picture u \<noteq> u_profile_picture changed
                  then drop_upload account (u_profile_picture u) (v\<lparr>w_db := d\<rparr>) else v\<lparr>w_db := d\<rparr>)
        in (Return changed, on_redis (delete_cache (user_profile_key (u_id u))) v1)
    | Taken \<Rightarrow> (Http 400 ''Username already taken'', drop_upload account blob_name v)
    | Stale_profile \<Rightarrow> (Http 409 ''Profile was updated concurrently'', drop_upload account blob_name v)
    | Op_failed c \<Rightarrow> (Raise (OperationalError c), v))"

definition profile_attempt :: "string option \<Rightarrow> nat \<Rightarrow> (nat \<Rightarrow> string) \<Rightarrow> (nat \<Rightarrow> profile_commit) \<Rightarrow> int \<Rightarrow>
    string option \<Rightarrow> string option \<Rightarrow> upload option \<Rightarrow> nat \<Rightarrow> world \<Rightarrow> user outcome \<times> world" where
  "profile_attempt account max_mb uuids commits user_id username bio picture attempt v =
     (case lock_user_row (Some user_id) None (w_db v) of
        Return u \<Rightarrow>
          if given username \<and> list_ex (\<lambda>x. u_username x = the username \<and> u_id x \<noteq> u_id u) (users (w_db v))
          then (Http 400 ''Username already taken'', v)
          else (case store_picture account max_mb (uuids attempt) picture v of
              (Return blob_name, v1) \<Rightarrow> commit_profile account (commits attempt) username bio blob_name u v1
            | (Http c m, v1) \<Rightarrow> (Http c m, v1)
            | (Raise e, v1) \<Rightarrow> (Raise e, v1))
      | Http c m \<Rightarrow> (Http c m, v)
      | Raise e \<Rightarrow> (Raise e, v))"

definition update_current_user_profile :: "string option \<Rightarrow> nat \<Rightarrow> (nat \<Rightarrow> string) \<Rightarrow> (nat \<Rightarrow> profile_commit) \<Rightarrow>
    string option \<Rightarrow> string option \<Rightarrow> upload option \<Rightarrow> principal \<Rightarrow> string \<Rightarrow> world \<Rightarrow> json outcome \<times> world" where
  "update_current_user_profile account max_mb uuids commits username bio picture currentUser token w =
     (if \<not> given username \<and> \<not> given bio \<and> picture = None
      then (own_profile currentUser (pr_bio currentUser) (w_db w), w)
      else case run_with_transient_retry
          (profile_attempt account max_mb uuids commits (pr_id currentUser) username bio picture) 3 w of
        (Return u, w1) \<Rightarrow>
          (Return (profile_json (u_id u) (u_username u) (u_nickname u) (u_bio u) (u_profile_picture u)
             (posts_count (u_id u) (w_db w1)) (u_followers_cnt u) (u_following_cnt u) False (u_created_at u)),
           on_redis (delete_cache (auth_key token)) w1)
      | (Http c m, w1) \<Rightarrow> (Http c m, w1)
      | (Raise e, w1) \<Rightarrow> (Raise e, w1))"

section \<open>Engagement\<close>

definition voted_rows :: "(vote \<Rightarrow> bool) \<Rightarrow> database \<Rightarrow> (post \<times> user) list" where
  "voted_rows P d = List.map_filter (\<lambda>v. Option.bind (post_by_id (v_post_id v) d)
       (\<lambda>p. map_option (Pair p) (user_by_id (p_user_id p) d)))
     (filter P (votes d))"

definition titled_entry :: "post \<times> user \<Rightarrow> json" where
  "titled_entry = (\<lambda>(p, u). JObj [(''post title'', JStr (p_title p)), (''post id'', JStr (str_int (p_id p))),
     (''post owner'', JStr (u_username u))])"

definition plain_entry :: "post \<times> user \<Rightarrow> json" where
  "plain_entry = (\<lambda>(p, u). JObj [(''post id'', JInt (p_id p)), (''post owner'', JStr (u_username u))])"

definition get_voted_posts :: "principal \<Rightarrow> world \<Rightarrow> json outcome \<times> world" where
  "get_voted_posts cu w = (Return (JObj [(pr_username cu @ '' you have voted on posts'',
     JArr (map titled_entry (voted_rows (\<lambda>v. v_user_id v = pr_id cu) (w_db w))))]), w)"

definition get_vote_stats :: "principal \<Rightarrow> world \<Rightarrow> json outcome \<times> world" where
  "get_vote_stats cu w = (Return (JObj
     [(''liked_posts_count'', JInt (cnt (\<lambda>v. v_user_id v = pr_id cu \<and> v_action v) (votes (w_db w)))),
      (''disliked_posts_count'', JInt (cnt (\<lambda>v. v_user_id v = pr_id cu \<and> \<not> v_action v) (votes (w_db w))))]), w)"

definition get_liked_posts_list :: "principal \<Rightarrow> world \<Rightarrow> json outcome \<times> world" where
  "get_liked_posts_list cu w = (Return (JObj [(pr_username cu @ '' your liked posts includes'',
     JArr (map plain_entry (voted_rows (\<lambda>v. v_user_id v = pr_id cu \<and> v_action v) (w_db w))))]), w)"

definition get_disliked_posts_list :: "principal \<Rightarrow> world \<Rightarrow> json outcome \<times> world" where
  "get_disliked_posts_list cu w = (Return (JObj [(pr_username cu @ '' your disliked posts includes'',
     JArr (map plain_entry (voted_rows (\<lambda>v. v_user_id v = pr_id cu \<and> \<not> v_action v) (w_db w))))]), w)"

text \<open>\<open>GROUP BY\<close> the post: one row for every post with a comment of the user.\<close>

definition get_commented_posts :: "principal \<Rightarrow> world \<Rightarrow> json outcome \<times> world" where
  "get_commented_posts cu w = (Return (JObj [(pr_username cu @ '' you have commented on posts'',
     JArr (map titled_entry (List.map_filter (\<lambda>p. map_option (Pair p) (user_by_id (p_user_id p) (w_db w)))
       (filter (\<lambda>p. list_ex (\<lambda>c. c_post_id c = p_id p \<and> c_user_id c = pr_id cu) (comments (w_db w)))
         (posts (w_db w))))))]), w)"

definition get_comment_stats :: "principal \<Rightarrow> world \<Rightarrow> json outcome \<times> world" where
  "get_comment_stats cu w =
     (let mine = filter (\<lambda>c. c_user_id c = pr_id cu) (comments (w_db w))
      in (Return (JObj [(''total_comments'', JInt (int (length mine))),
            (''unique_posts_commented'', JInt (int (length (remdups (map c_post_id mine)))))]), w))"

section \<open>Search\<close>

text \<open>SQL \<open>LIKE\<close> with \<open>%\<close>, \<open>_\<close> and the escape character; \<open>ILIKE\<close> folds ASCII case.\<close>

fun like_match :: "string \<Rightarrow> string \<Rightarrow> bool" where
  "like_match [] s \<longleftrightarrow> s = []"
| "like_match (c # p) [] \<longleftrightarrow> c = CHR ''%'' \<and> like_match p []"
| "like_match (c # p) (d # s) \<longleftrightarrow>
     (if c = CHR ''%'' then like_match p (d # s) \<or> like_match (c # p) s
      else if c = CHR ''_'' then like_match p s
      else if c = CHR 0x5C then (case p of [] \<Rightarrow> False | e # q \<Rightarrow> e = d \<and> like_match q s)
      else c = d \<and> like_match p s)"

definition ilike :: "string \<Rightarrow> string \<Rightarrow> bool" where
  "ilike pattern s = like_match (lower pattern) (lower s)"

definition contains_pattern :: "string \<Rightarrow> string" where
  "contains_pattern q = ''%'' @ q @ ''%''"

record search_request =
  sq_q :: string
  sq_limit :: nat
  sq_offset :: nat
  sq_order_by :: "string option"

definition hashtag_matches :: "string \<Rightarrow> database \<Rightarrow> post list" where
  "hashtag_matches q d = filter (\<lambda>p. case p_hashtags p of
       None \<Rightarrow> False
     | Some h \<Rightarrow> ilike (contains_pattern (dropWhile (\<lambda>c. c = CHR ''#'') q)) h) (posts d)"

definition username_matches :: "string \<Rightarrow> database \<Rightarrow> user list" where
  "username_matches q d = filter (\<lambda>u. ilike (contains_pattern q) (u_username u)) (users d)"

text \<open>\<open>count(*) OVER ()\<close> is read off the first row of the page.\<close>

definition window_total :: "'a list \<Rightarrow> 'a list \<Rightarrow> int" where
  "window_total rows matches = (if rows = [] then 0 else int (length matches))"

definition search :: "(post \<Rightarrow> int) \<Rightarrow> string option \<Rightarrow> search_request \<Rightarrow> principal \<Rightarrow> world \<Rightarrow> json outcome \<times> world" where
  "search tie account params currenUser w =
     (let q = sq_q params
      in if q \<noteq> [] \<and> hd q = CHR ''#'' then
           let matches = hashtag_matches q (w_db w);
               sorted_rows = (if sq_order_by params = Some ''likes''
                              then sort_key (\<lambda>p. - p_likes p) (newest_first tie matches) else newest_first tie matches);
               rows = take (sq_limit params) (drop (sq_offset params) sorted_rows)
           in (Return (JObj [(''result_type'', JStr ''posts''), (''users'', JNull),
                 (''posts'', JArr (map (\<lambda>p. list_item account p False) rows)),
                 (''total'', JInt (window_total rows matches))]), w)
         else if q \<noteq> [] then
           let matches = username_matches q (w_db w);
               rows = take (sq_limit params) (drop (sq_offset params) (sort_key u_username matches))
           in (Return (JObj [(''result_type'', JStr ''users''), (''users'', JArr (map owner_json rows)), (''posts'', JNull),
                 (''total'', JInt (window_total rows matches))]), w)
         else (Http 400 ''Query Parameters Required'', w))"

end
