(* ===== verification/Samples.thy ===== *)
theory Samples
  imports World
begin

text \<open>A small populated world, on which the witnesses evaluate the handlers: two users, a post with a like
  and a comment, a follow relation.\<close>

definition sample_user :: "int \<Rightarrow> string \<Rightarrow> int \<Rightarrow> int \<Rightarrow> user" where
  "sample_user i name followers following = \<lparr>u_id = i, u_username = name, u_password = ''h:pw'', u_nickname = None,
     u_bio = None, u_email = Some (name @ ''@x.io''), u_email_verified = True, u_profile_picture = None,
     u_created_at = 1, u_last_seen_at = None, u_followers_cnt = followers, u_following_cnt = following, u_version_id = 1\<rparr>"

definition sample_post :: post where
  "sample_post = \<lparr>p_id = 10, p_media_path = Some ''m.png'', p_media_type = Some ''image'', p_title = ''t'', p_content = ''c'',
     p_enable_comments = True, p_created_at = 5, p_user_id = 1, p_likes = 1, p_dis_likes = 0, p_views = 0,
     p_comments_cnt = 1, p_hashtags = None\<rparr>"

definition sample_comment :: comment where
  "sample_comment = \<lparr>c_id = 20, c_post_id = 10, c_user_id = 2, c_comment_content = ''hi'', c_created_at = 6, c_likes = 0\<rparr>"

definition sample_db :: database where
  "sample_db = empty_db\<lparr>users := [sample_user 1 ''ann'' 1 0, sample_user 2 ''bob'' 0 1], users_seq := 3,
     posts := [sample_post], posts_seq := 11, comments := [sample_comment], comments_seq := 21,
     votes := [\<lparr>v_post_id = 10, v_user_id = 1, v_action = True\<rparr>],
     connections := [\<lparr>k_followed_id = 1, k_follower_id = 2\<rparr>]\<rparr>"

definition sample_world :: world where
  "sample_world = \<lparr>w_db = sample_db, w_redis = \<lparr>r_store = [], r_up = True, r_published = []\<rparr>,
     w_now = 9000000, w_tasks = [], w_mgr = new_manager, w_blobs = []\<rparr>"

lemmas sample_defs = sample_world_def sample_db_def sample_post_def sample_comment_def
  sample_user_def empty_db_def

lemma sample_db_ok: "db_ok sample_db"
  by (simp add: db_defs sample_defs ids_ok_def counts_match_def owner_defs fk_def key_defs)

end
