(* ===== verification/Posts_Properties.thy ===== *)
theory Posts_Properties
  imports Posts Samples
begin

text \<open>
  Correctness of \<open>Posts\<close>: every handler keeps the invariant of the database, votes refine a map from
  (post, user) to a choice, a write is visible to every later reader whatever was cached, deleting a
  post removes everything that hangs on it, and listings are complete.
\<close>

section \<open>The handlers keep the invariant\<close>

lemma vote_done_db [simp]: "w_db (snd (vote_done msg i w)) = w_db w"
  by (simp add: vote_done_def split: option.split)

lemma comment_vote_done_db [simp]: "w_db (snd (comment_vote_done msg i w)) = w_db w"
  by (simp add: comment_vote_done_def)

lemma get_post_db [simp]: "w_db (snd (get_post account i cu w)) = w_db w"
  by (simp add: get_post_def Let_def split: option.split)

lemma store_media_db [simp]: "w_db (snd (store_media account mb uuid m w)) = w_db w"
  by (simp add: store_media_def Let_def split: option.split outcome.split prod.split)

lemma voteOnPost_ok: "db_ok (w_db w) \<Longrightarrow> db_ok (w_db (snd (voteOnPost i j choice cu w)))"
  by (auto simp: voteOnPost_def Let_def split_beta delete_votes_ok update_votes_ok if_distrib [of w_db]
      split: option.split intro: insert_vote_ok)

lemma likeAComment_ok: "db_ok (w_db w) \<Longrightarrow> db_ok (w_db (snd (likeAComment i j choice cu w)))"
  by (auto simp: likeAComment_def Let_def delete_comment_votes_ok update_comment_votes_ok
      split: option.split intro: insert_comment_vote_ok)

lemma create_comment_ok: "db_ok (w_db w) \<Longrightarrow> db_ok (w_db (snd (create_comment i t cu w)))"
  by (auto simp: create_comment_def Let_def if_distrib [of w_db]
      split: option.split intro: insert_comment_ok)

lemma delete_comment_ok: "db_ok (w_db w) \<Longrightarrow> db_ok (w_db (snd (delete_comment i cu w)))"
  by (auto simp: delete_comment_def delete_comments_ok split: option.split)

lemma update_comment_ok: "db_ok (w_db w) \<Longrightarrow> db_ok (w_db (snd (update_comment i t cu w)))"
  by (auto simp: update_comment_def update_comments_ok split: option.split)

lemma get_post_comments_db [simp]: "w_db (snd (get_post_comments tie i l n cu w)) = w_db w"
  by (simp add: get_post_comments_def Let_def split: option.split)

lemma save_post_ok: "db_ok (w_db w) \<Longrightarrow> db_ok (w_db (snd (save_post i cu w)))"
  by (auto simp: save_post_def split: option.split intro: insert_saved_ok)

lemma unsave_post_ok: "db_ok (w_db w) \<Longrightarrow> db_ok (w_db (snd (unsave_post i cu w)))"
  by (auto simp: unsave_post_def delete_saved_ok split: option.split)

lemma get_saved_posts_db [simp]: "w_db (snd (get_saved_posts account cu w)) = w_db w"
  by (simp add: get_saved_posts_def)

lemma delete_post_ok: "db_ok (w_db w) \<Longrightarrow> db_ok (w_db (snd (delete_post account i cu w)))"
  by (auto simp: delete_post_def Let_def split: option.splits if_splits intro: delete_posts_ok)

lemma insert_new_post_ok:
  "db_ok d \<Longrightarrow> insert_post (new_post title content mp mt now i) d = Some d' \<Longrightarrow> db_ok d'"
  by (rule insert_post_ok) (assumption | simp add: new_post_def)+

lemma create_post_ok:
  assumes "db_ok (w_db w)"
  shows "db_ok (w_db (snd (create_post account mb uuid title content media cu w)))"
proof (cases "store_media account mb uuid media w")
  case (Pair r w1)
  then have w1: "w_db w1 = w_db w"
    using store_media_db [of account mb uuid media w] by simp
  show ?thesis
    using assms insert_new_post_ok [OF assms]
    by (cases r) (auto simp: create_post_def Pair Let_def w1 split: option.split)
qed

text \<open>\<open>update_post\<close> writes only columns that no constraint and no counter mentions.\<close>

lemma set_post_field_frame:
  "set_post_field f p = Some p' \<Longrightarrow> p_id p' = p_id p \<and> p_user_id p' = p_user_id p \<and>
     p_likes p' = p_likes p \<and> p_dis_likes p' = p_dis_likes p \<and> p_comments_cnt p' = p_comments_cnt p \<and>
     p_views p' = p_views p \<and> p_created_at p' = p_created_at p \<and> p_media_path p' = p_media_path p"
  by (cases "(f, p)" rule: set_post_field.cases) auto

lemma apply_post_fields_frame:
  "apply_post_fields fs p = Some p' \<Longrightarrow> p_id p' = p_id p \<and> p_user_id p' = p_user_id p \<and>
     p_likes p' = p_likes p \<and> p_dis_likes p' = p_dis_likes p \<and> p_comments_cnt p' = p_comments_cnt p \<and>
     p_views p' = p_views p \<and> p_created_at p' = p_created_at p \<and> p_media_path p' = p_media_path p"
proof (induction fs arbitrary: p)
  case Nil
  then show ?case by simp
next
  case (Cons f fs)
  then obtain q where "set_post_field f p = Some q" "apply_post_fields fs q = Some p'"
    by (auto split: bind_splits)
  with Cons.IH [of q] set_post_field_frame [of f p q] show ?case by simp
qed

lemma map_overwrite:
  assumes "distinct (map key xs)" "x \<in> set xs" "key y = key x" "g y = g x"
  shows "map g (update_where (\<lambda>r. key r = key x) (\<lambda>_. y) xs) = map g xs"
proof -
  have "g (if key r = key x then y else r) = g r" if "r \<in> set xs" for r
    using assms(1,2,4) that inj_onD [of key "set xs" r x] by (auto simp: distinct_map)
  then show ?thesis
    by (simp add: update_where_def)
qed

lemma counts_match_map:
  assumes "map (\<lambda>p. (get p, owns p)) ps = map (\<lambda>p. (get p, owns p)) qs"
  shows "counts_match get owns ps cs = counts_match get owns qs cs"
proof -
  have "counts_match get owns rs cs \<longleftrightarrow>
      list_all (\<lambda>q. fst q = cnt (snd q) cs) (map (\<lambda>p. (get p, owns p)) rs)" for rs
    by (simp add: counts_match_def list.pred_set)
  then show ?thesis
    by (simp only: assms)
qed

lemma overwrite_post_ok:
  assumes d: "db_ok d" and p: "post_by_id i d = Some p" and fs: "apply_post_fields fs p = Some p'"
  shows "db_ok (d\<lparr>posts := update_where (\<lambda>q. p_id q = i) (\<lambda>_. p') (posts d)\<rparr>)"
proof -
  have i: "p_id p = i" "p \<in> set (posts d)"
    using p by (auto simp: post_by_id_def dest: find_SomeD)
  have keep: "map g (update_where (\<lambda>q. p_id q = i) (\<lambda>_. p') (posts d)) = map g (posts d)"
    if "g p' = g p" for g :: "post \<Rightarrow> 'a"
    using map_overwrite [of p_id "posts d" p p' g] that d i apply_post_fields_frame [OF fs]
    by (simp add: db_defs ids_ok_def)
  have "like_of p' = like_of p" "dislike_of p' = dislike_of p" "comment_on p' = comment_on p"
    using apply_post_fields_frame [OF fs] by (auto simp: owner_defs fun_eq_iff)
  then have "counts_match p_likes like_of (update_where (\<lambda>q. p_id q = i) (\<lambda>_. p') (posts d)) =
        counts_match p_likes like_of (posts d)"
      "counts_match p_dis_likes dislike_of (update_where (\<lambda>q. p_id q = i) (\<lambda>_. p') (posts d)) =
        counts_match p_dis_likes dislike_of (posts d)"
      "counts_match p_comments_cnt comment_on (update_where (\<lambda>q. p_id q = i) (\<lambda>_. p') (posts d)) =
        counts_match p_comments_cnt comment_on (posts d)"
    using apply_post_fields_frame [OF fs] by (auto intro!: ext counts_match_map keep)
  then show ?thesis
    using d apply_post_fields_frame [OF fs] by (simp add: db_defs keep)
qed

lemma update_post_ok: "db_ok (w_db w) \<Longrightarrow> db_ok (w_db (snd (update_post account i fs cu w)))"
  by (auto simp: update_post_def Let_def split: option.splits intro: overwrite_post_ok)

section \<open>Votes\<close>

text \<open>The abstract state of voting: a partial map from (post, user) to the choice; one vote toggles it.\<close>

definition vote_map :: "database \<Rightarrow> int \<times> int \<Rightarrow> bool option" where
  "vote_map d = (\<lambda>(i, u). map_option v_action (find (\<lambda>v. v_post_id v = i \<and> v_user_id v = u) (votes d)))"

definition toggle :: "'a \<Rightarrow> 'a option \<Rightarrow> 'a option" where
  "toggle choice old = (if old = Some choice then None else Some choice)"

lemma find_delete_where:
  "find Q (delete_where P xs) = find (\<lambda>x. Q x \<and> \<not> P x) xs"
  by (induction xs) auto

lemma find_append: "find Q (xs @ ys) = (case find Q xs of None \<Rightarrow> find Q ys | Some x \<Rightarrow> Some x)"
  by (induction xs) auto

lemma find_contradiction: "(\<And>x. \<not> Q x) \<Longrightarrow> find Q xs = None"
  by (simp add: find_None_iff)

lemma vote_map_insert:
  "insert_vote \<lparr>v_post_id = i, v_user_id = u, v_action = c\<rparr> d = Some d' \<Longrightarrow> vote_map d (i, u) = None \<Longrightarrow>
   vote_map d' = (vote_map d)((i, u) := Some c)"
  by (auto simp: insert_vote_def vote_map_def find_append fun_eq_iff split: if_splits option.split)

lemma vote_map_apply [simp]:
  "vote_map d (i, u) = map_option v_action (find (\<lambda>v. v_post_id v = i \<and> v_user_id v = u) (votes d))"
  by (simp add: vote_map_def)

lemma vote_map_eqI: "(\<And>j x. vote_map d (j, x) = m (j, x)) \<Longrightarrow> vote_map d = m"
  by (rule ext) (metis surj_pair)

lemma vote_map_delete:
  "vote_map (delete_votes (\<lambda>v. v_post_id v = i \<and> v_user_id v = u) d) = (vote_map d)((i, u) := None)"
proof (rule vote_map_eqI)
  fix j x
  have "find (\<lambda>v. (v_post_id v = j \<and> v_user_id v = x) \<and> \<not> (v_post_id v = i \<and> v_user_id v = u)) (votes d) =
      (if (j, x) = (i, u) then None else find (\<lambda>v. v_post_id v = j \<and> v_user_id v = x) (votes d))"
    by (induction "votes d") (auto intro!: find_cong find_contradiction)
  then show "vote_map (delete_votes (\<lambda>v. v_post_id v = i \<and> v_user_id v = u) d) (j, x) =
      ((vote_map d)((i, u) := None)) (j, x)"
    by (simp add: delete_votes_def find_delete_where)
qed

lemma vote_map_update:
  assumes "vote_map d (i, u) \<noteq> None"
  shows "vote_map (update_votes (\<lambda>v. v_post_id v = i \<and> v_user_id v = u) c d) = (vote_map d)((i, u) := Some c)"
proof (rule vote_map_eqI)
  fix j x
  show "vote_map (update_votes (\<lambda>v. v_post_id v = i \<and> v_user_id v = u) c d) (j, x) =
      ((vote_map d)((i, u) := Some c)) (j, x)"
  proof (cases "(j, x) = (i, u)")
    case True
    moreover obtain v where "find (\<lambda>v. v_post_id v = i \<and> v_user_id v = u) (votes d) = Some v"
      using assms by auto
    ultimately show ?thesis
      using find_SomeD [of "\<lambda>v. v_post_id v = i \<and> v_user_id v = u" "votes d" v]
      by (simp add: update_votes_def find_update_where)
  next
    case False
    then show ?thesis
      by (cases "find (\<lambda>v. v_post_id v = j \<and> v_user_id v = x) (votes d)")
        (auto simp: update_votes_def find_update_where dest!: find_SomeD)
  qed
qed

text \<open>What a vote leaves behind when the post exists: the statement each branch executes.\<close>

definition vote_statement :: "int \<Rightarrow> bool \<Rightarrow> principal \<Rightarrow> database \<Rightarrow> string \<Rightarrow> database \<Rightarrow> bool" where
  "vote_statement i choice cu d msg d' \<longleftrightarrow>
     (case vote_map d (i, pr_id cu) of
        None \<Rightarrow> msg = ''New vote added successfully'' \<and>
          insert_vote \<lparr>v_post_id = i, v_user_id = pr_id cu, v_action = choice\<rparr> d = Some d'
      | Some old \<Rightarrow>
          let mine = (\<lambda>v. v_post_id v = i \<and> v_user_id v = pr_id cu)
          in if old = choice then msg = ''Vote removed successfully'' \<and> d' = delete_votes mine d
             else msg = ''Vote switched successfully'' \<and> d' = update_votes mine choice d)"

lemma vote_statement_ok: "vote_statement i choice cu d msg d' \<Longrightarrow> db_ok d \<Longrightarrow> db_ok d'"
  by (auto simp: vote_statement_def Let_def delete_votes_ok update_votes_ok
      split: option.splits if_splits intro: insert_vote_ok)

lemma vote_statement_map:
  assumes "vote_statement i choice cu d msg d'"
  shows "vote_map d' = (vote_map d)((i, pr_id cu) := toggle choice (vote_map d (i, pr_id cu)))"
proof (cases "vote_map d (i, pr_id cu)")
  case None
  then show ?thesis
    using assms vote_map_insert [of i "pr_id cu" choice d d'] by (simp add: vote_statement_def toggle_def)
next
  case (Some old)
  then show ?thesis
    using assms vote_map_delete [of i "pr_id cu" d] vote_map_update [of d i "pr_id cu" choice]
    by (auto simp: vote_statement_def toggle_def Let_def split: if_splits)
qed

lemma vote_statement_posts: "vote_statement i choice cu d msg d' \<Longrightarrow> map p_id (posts d') = map p_id (posts d)"
  by (auto simp: vote_statement_def Let_def insert_vote_def delete_votes_def update_votes_def
      vote_likes.fire_deletes_keys vote_likes.fire_updates_keys split: option.splits if_splits)

lemma find_key_exists: "(\<exists>x. find (\<lambda>p. key p = i) ps = Some x) \<longleftrightarrow> i \<in> set (map key ps)"
  by (induction ps) auto

lemma post_exists_iff: "(\<exists>p. post_by_id i d = Some p) \<longleftrightarrow> i \<in> set (map p_id (posts d))"
  by (simp add: post_by_id_def find_key_exists)

lemma user_exists_iff: "(\<exists>u. user_by_id i d = Some u) \<longleftrightarrow> i \<in> set (map u_id (users d))"
  by (simp add: user_by_id_def find_key_exists)

lemma post_of_id: "post_by_id i d = Some p \<Longrightarrow> p \<in> set (posts d) \<and> p_id p = i"
  by (auto simp: post_by_id_def dest: find_SomeD)

lemma counters_of_post:
  assumes "db_ok d" "post_by_id i d = Some p"
  shows "p_likes p = cnt (\<lambda>v. v_post_id v = i \<and> v_action v) (votes d)"
    and "p_dis_likes p = cnt (\<lambda>v. v_post_id v = i \<and> \<not> v_action v) (votes d)"
    and "p_comments_cnt p = cnt (\<lambda>c. c_post_id c = i) (comments d)"
  using assms post_of_id [OF assms(2)]
  by (auto simp: db_ok_def counters_ok_def counts_match_def like_of_def dislike_of_def comment_on_def
      intro!: cnt_cong)

lemma voteOnPost_success:
  assumes "post_by_id i (w_db w) = Some p" "user_by_id (pr_id cu) (w_db w) = Some u"
  obtains msg d' where "vote_statement i choice cu (w_db w) msg d'"
    "fst (voteOnPost i i choice cu w) = fst (vote_done msg i (w\<lparr>w_db := d'\<rparr>))"
    "w_db (snd (voteOnPost i i choice cu w)) = d'"
    "w_redis (snd (voteOnPost i i choice cu w)) = w_redis (snd (vote_done msg i (w\<lparr>w_db := d'\<rparr>)))"
    "w_now (snd (voteOnPost i i choice cu w)) = w_now w"
proof (cases "find (\<lambda>v. v_post_id v = i \<and> v_user_id v = pr_id cu) (votes (w_db w))")
  case None
  let ?v = "\<lparr>v_post_id = i, v_user_id = pr_id cu, v_action = choice\<rparr>"
  have "i \<in> set (map p_id (posts (w_db w)))" "pr_id cu \<in> set (map u_id (users (w_db w)))"
    using assms post_exists_iff user_exists_iff by blast+
  moreover have "vote_key ?v \<notin> set (map vote_key (votes (w_db w)))"
    using None by (auto simp: find_None_iff vote_key_def)
  ultimately obtain d' where d': "insert_vote ?v (w_db w) = Some d'"
    by (simp add: insert_vote_def)
  show ?thesis
    by (rule that [of "''New vote added successfully''" d'])
      (use assms None d' in \<open>simp_all add: voteOnPost_def vote_statement_def split_beta
        if_distrib [of w_db] if_distrib [of w_redis] if_distrib [of w_now] vote_done_def split: option.split\<close>)
next
  case (Some old)
  let ?mine = "\<lambda>v. v_post_id v = i \<and> v_user_id v = pr_id cu"
  show ?thesis
  proof (cases "v_action old = choice")
    case True
    with Some show ?thesis
      by (intro that [of "''Vote removed successfully''" "delete_votes ?mine (w_db w)"])
        (use assms in \<open>simp_all add: voteOnPost_def vote_statement_def vote_done_def Let_def split: option.split\<close>)
  next
    case False
    with Some show ?thesis
      by (intro that [of "''Vote switched successfully''" "update_votes ?mine choice (w_db w)"])
        (use assms in \<open>simp_all add: voteOnPost_def vote_statement_def vote_done_def Let_def split: option.split\<close>)
  qed
qed

text \<open>C9: Voting on an existing post by an existing user refines the toggle on the abstract map from
  (post, user) to a choice: no vote becomes this vote, the same vote disappears, the other vote is
  switched, and no other user's vote moves. The answer carries exactly the numbers of like and dislike
  rows that are in the table afterwards, and the database invariant holds.\<close>

theorem vote_refines_toggle:
  assumes "db_ok (w_db w)" "post_by_id i (w_db w) = Some p" "user_by_id (pr_id cu) (w_db w) = Some u"
  shows "let (answer, w') = voteOnPost i i choice cu w in
      (\<exists>msg. answer = Return (vote_response msg
         (Some (cnt (\<lambda>v. v_post_id v = i \<and> v_action v) (votes (w_db w'))))
         (Some (cnt (\<lambda>v. v_post_id v = i \<and> \<not> v_action v) (votes (w_db w')))))) \<and>
      vote_map (w_db w') =
        (vote_map (w_db w))((i, pr_id cu) := toggle choice (vote_map (w_db w) (i, pr_id cu))) \<and>
      db_ok (w_db w')"
proof -
  obtain msg d' where d': "vote_statement i choice cu (w_db w) msg d'"
    and r: "fst (voteOnPost i i choice cu w) = fst (vote_done msg i (w\<lparr>w_db := d'\<rparr>))"
    and db: "w_db (snd (voteOnPost i i choice cu w)) = d'"
    using voteOnPost_success [OF assms(2,3)] by metis
  have ok: "db_ok d'"
    using vote_statement_ok [OF d' assms(1)] .
  obtain p' where p': "post_by_id i d' = Some p'"
    using vote_statement_posts [OF d'] post_exists_iff [of i d'] post_exists_iff [of i "w_db w"] assms(2)
    by auto
  then have "fst (voteOnPost i i choice cu w) =
      Return (vote_response msg (Some (p_likes p')) (Some (p_dis_likes p')))"
    using r by (simp add: vote_done_def)
  then show ?thesis
    using vote_statement_map [OF d'] ok db counters_of_post [OF ok p'] by (auto simp: split_beta)
qed

definition sample_principal :: "int \<Rightarrow> string \<Rightarrow> principal" where
  "sample_principal i name = principal_of_user (sample_user i name 0 0)"

theorem vote_refines_toggle_witness:
  "let w' = snd (voteOnPost 10 10 False (sample_principal 1 ''ann'') sample_world) in
   vote_map (w_db w') (10, 1) = Some False \<and> vote_map (w_db w') (10, 2) = None"
  using vote_refines_toggle [of sample_world 10 sample_post "sample_principal 1 ''ann''"
      "sample_user 1 ''ann'' 1 0" False] sample_db_ok
  by (simp add: sample_principal_def principal_of_user_def post_by_id_def user_by_id_def split_beta
      toggle_def sample_defs Let_def del: vote_map_apply) (simp add: vote_map_def)

section \<open>A write is visible to the next read\<close>

text \<open>What \<open>get_post\<close> answers when it reads the database.\<close>

definition post_db_view :: "string option \<Rightarrow> int \<Rightarrow> principal \<Rightarrow> database \<Rightarrow> json outcome" where
  "post_db_view account i viewer d = (case post_by_id i d of
      None \<Rightarrow> Http 404 (not_found ''Post'' i)
    | Some p \<Rightarrow> (case user_by_id (p_user_id p) d of
        None \<Rightarrow> Raise AttributeError
      | Some u \<Rightarrow> Return (post_detail account p (has_liked i (pr_id viewer) d) (owner_json u))))"

lemma get_post_miss:
  "get_cache (now_ms w) (post_key i (pr_id viewer)) (w_redis w) = None \<Longrightarrow>
   fst (get_post account i viewer w) = post_db_view account i viewer (w_db w)"
  by (simp add: get_post_def post_db_view_def Let_def split: option.split)

lemma post_key_not_version [simp]: "post_key i u \<noteq> ''feed:home:version''" "post_key i u \<noteq> ''feed:explore:version''"
  by (simp_all add: post_key_def)

lemma get_cache_bump_feeds [simp]:
  "get_cache now (post_key i u) (bump_feeds t r) = get_cache now (post_key i u) r"
  by (simp add: bump_feeds_def get_cache_increment_version)

lemma post_pattern_matches [simp]: "glob_match (post_pattern i) (post_key j u) \<longleftrightarrow> i = j"
  using id_pattern_exact [of "''post:''" i j "str_int u"] by (simp add: post_pattern_def post_key_def)

lemma get_cache_other_pattern:
  "get_cache now k r = None \<Longrightarrow> get_cache now k (delete_cache_pattern pat r) = None"
  by (simp add: get_cache_delete_pattern)

lemmas invalidation = get_cache_delete_pattern get_cache_other_pattern

lemma now_ms_tick [simp]: "now_ms (w\<lparr>w_now := t\<rparr>) = t div 1000"
  by (simp add: now_ms_def)

text \<open>The four writes that change what \<open>get_post\<close> shows.\<close>

datatype post_write = Vote bool | Edit "post_field list" | Comment string | Remove

fun run_post_write :: "string option \<Rightarrow> post_write \<Rightarrow> int \<Rightarrow> principal \<Rightarrow> world \<Rightarrow> json outcome \<times> world" where
  "run_post_write account (Vote choice) i cu w = voteOnPost i i choice cu w"
| "run_post_write account (Edit fs) i cu w = update_post account i fs cu w"
| "run_post_write account (Comment t) i cu w = create_comment i t cu w"
| "run_post_write account Remove i cu w = delete_post account i cu w"

lemma vote_done_invalidates:
  "vote_done msg i w = (Return body, w') \<Longrightarrow> get_cache now (post_key i u) (w_redis w') = None"
  by (auto simp: vote_done_def invalidation split: option.splits)

lemma write_invalidates:
  "run_post_write account op i cu w = (Return body, w') \<Longrightarrow> get_cache now (post_key i u) (w_redis w') = None"
proof (cases op)
  case (Vote choice)
  then show "run_post_write account op i cu w = (Return body, w') \<Longrightarrow> ?thesis"
    by (auto simp: voteOnPost_def Let_def split: option.splits if_splits prod.splits dest!: vote_done_invalidates)
next
  case (Edit fs)
  then show "run_post_write account op i cu w = (Return body, w') \<Longrightarrow> ?thesis"
    by (auto simp: update_post_def Let_def invalidation split: option.splits)
next
  case (Comment t)
  then show "run_post_write account op i cu w = (Return body, w') \<Longrightarrow> ?thesis"
    by (auto simp: create_comment_def Let_def invalidation split: option.splits if_splits)
next
  case Remove
  then show "run_post_write account op i cu w = (Return body, w') \<Longrightarrow> ?thesis"
    by (auto simp: delete_post_def Let_def invalidation split: option.splits if_splits)
qed

text \<open>C14: Whatever was cached before, after a successful vote, edit, comment or deletion on a post every
  viewer who opens the post, at any later time, is answered from the database: the cached copies of all
  viewers are invalidated by the write.\<close>

theorem post_read_after_write:
  assumes "run_post_write account op i cu w = (Return body, w')"
  shows "fst (get_post account i viewer (w'\<lparr>w_now := t\<rparr>)) = post_db_view account i viewer (w_db w')"
  using get_post_miss [of "w'\<lparr>w_now := t\<rparr>" i viewer account] write_invalidates [OF assms] by simp

theorem post_read_after_write_witness:
  "let w = snd (get_post None 10 (sample_principal 2 ''bob'') sample_world);
       w' = snd (create_comment 10 ''again'' (sample_principal 1 ''ann'') w)
   in case fst (get_post None 10 (sample_principal 2 ''bob'') (w'\<lparr>w_now := 9500000\<rparr>)) of
        Return (JObj shown) \<Rightarrow> dict_get ''comments_count'' shown = JInt 2
      | _ \<Rightarrow> False"
proof -
  let ?bob = "sample_principal 2 ''bob''" and ?ann = "sample_principal 1 ''ann''"
  let ?w = "snd (get_post None 10 ?bob sample_world)"
  let ?r = "create_comment 10 ''again'' ?ann ?w"
  have db: "w_db ?w = sample_db"
    by (simp add: sample_world_def)
  obtain body where "fst ?r = Return body"
    by (simp add: create_comment_def db sample_defs post_by_id_def insert_comment_def sample_principal_def
        principal_of_user_def Let_def)
  then have "run_post_write None (Comment ''again'') 10 ?ann ?w = (Return body, snd ?r)"
    by (simp add: prod_eq_iff)
  note fresh = post_read_after_write [OF this, of ?bob 9500000]
  have "case post_db_view None 10 ?bob (w_db (snd ?r)) of
      Return (JObj shown) \<Rightarrow> dict_get ''comments_count'' shown = JInt 2 | _ \<Rightarrow> False"
    by (simp add: post_db_view_def create_comment_def db sample_defs post_by_id_def insert_comment_def Let_def
        sample_principal_def principal_of_user_def post_detail_def dict_get_def user_by_id_def trigger_simps)
  then show ?thesis
    by (simp only: Let_def fresh)
qed

section \<open>Deleting a post\<close>

text \<open>Triggers of the cascading deletions find no row left to update: the other posts are untouched.\<close>

lemma trigger_no_parent:
  "v_post_id v \<notin> set (map p_id ps) \<Longrightarrow> trg_sync_post_vote_counts (Delete v) ps = ps"
  "c_post_id c \<notin> set (map p_id ps) \<Longrightarrow> trg_sync_post_comment_counts (Delete c) ps = ps"
  "pv_post_id x \<notin> set (map p_id ps) \<Longrightarrow> trg_sync_post_view_counts (Delete x) ps = ps"
  "cv_comment_id y \<notin> set (map c_id cs) \<Longrightarrow> trg_sync_comment_vote_counts (Delete y) cs = cs"
  by (auto simp: trigger_simps image_iff intro!: update_where_none)

lemma fire_deletes_none:
  "(\<And>c. c \<in> set cs \<Longrightarrow> P c \<Longrightarrow> trg (Delete c) ps = ps) \<Longrightarrow> fire_deletes trg P cs ps = ps"
proof -
  assume "\<And>c. c \<in> set cs \<Longrightarrow> P c \<Longrightarrow> trg (Delete c) ps = ps"
  then have "fold (\<lambda>c. trg (Delete c)) ds ps = ps" if "set ds \<subseteq> set (filter P cs)" for ds
    using that by (induction ds) auto
  then show ?thesis by (simp add: fire_deletes_def)
qed

lemma delete_comments_frame:
  assumes "\<And>c p. c \<in> set (comments d) \<Longrightarrow> P c \<Longrightarrow> p \<in> set (posts d) \<Longrightarrow> p_id p \<noteq> c_post_id c"
    and "distinct (map c_id (comments d))"
  shows "delete_comments P d = d\<lparr>comments := delete_where P (comments d),
     comment_votes := delete_where (\<lambda>v. cv_comment_id v \<in> set (map c_id (filter P (comments d)))) (comment_votes d)\<rparr>"
proof -
  have "fire_deletes trg_sync_post_comment_counts P (comments d) (posts d) = posts d"
    using assms(1) by (intro fire_deletes_none trigger_no_parent) fastforce
  moreover have gone: "i \<notin> set (map c_id (delete_where P (comments d)))"
    if "i \<in> set (map c_id (filter P (comments d)))" for i
    using that assms(2) by (auto simp: distinct_map inj_on_def)
  have "fire_deletes trg_sync_comment_vote_counts
      (\<lambda>v. cv_comment_id v \<in> set (map c_id (filter P (comments d)))) (comment_votes d)
      (delete_where P (comments d)) = delete_where P (comments d)"
    by (rule fire_deletes_none, rule trigger_no_parent(4), erule gone)
  ultimately show ?thesis
    by (simp add: delete_comments_def delete_comment_votes_def Let_def)
qed

lemma delete_posts_frame:
  assumes "db_ok d" "\<forall>s\<in>set (shared_posts d). s_post_id s \<noteq> i" "post_by_id i d = Some p"
  shows "delete_posts (\<lambda>q. p_id q = i) d = Some (d\<lparr>
     posts := delete_where (\<lambda>q. p_id q = i) (posts d),
     votes := delete_where (\<lambda>v. v_post_id v = i) (votes d),
     comments := delete_where (\<lambda>c. c_post_id c = i) (comments d),
     comment_votes := delete_where (\<lambda>v. cv_comment_id v \<in>
        set (map c_id (filter (\<lambda>c. c_post_id c = i) (comments d)))) (comment_votes d),
     saved_posts := delete_where (\<lambda>s. sv_post_id s = i) (saved_posts d),
     post_views := delete_where (\<lambda>x. pv_post_id x = i) (post_views d)\<rparr>)"
proof -
  let ?ps = "delete_where (\<lambda>q. p_id q = i) (posts d)"
  have gone: "set (map p_id (filter (\<lambda>q. p_id q = i) (posts d))) = {i}"
    using post_of_id [OF assms(3)] by auto
  have absent: "i \<notin> set (map p_id ?ps)" by auto
  have "fire_deletes trg_sync_post_vote_counts (\<lambda>v. v_post_id v = i) (votes d) ?ps = ?ps"
    "fire_deletes trg_sync_post_view_counts (\<lambda>x. pv_post_id x = i) (post_views d) ?ps = ?ps"
    using absent by (intro fire_deletes_none trigger_no_parent; simp)+
  moreover have "delete_comments (\<lambda>c. c_post_id c = i) e = e\<lparr>comments := delete_where (\<lambda>c. c_post_id c = i) (comments e),
     comment_votes := delete_where (\<lambda>v. cv_comment_id v \<in>
       set (map c_id (filter (\<lambda>c. c_post_id c = i) (comments e)))) (comment_votes e)\<rparr>"
    if "posts e = ?ps" "comments e = comments d" for e
    using assms(1) that by (intro delete_comments_frame) (auto simp: db_defs ids_ok_def)
  ultimately show ?thesis
    using assms(2) gone
    by (simp add: delete_posts_def Let_def delete_votes_def delete_saved_def delete_views_def)
qed

text \<open>C19: When the owner deletes a post that was never shared, exactly the post, its votes, its comments
  with their votes, its bookmarks and its views leave the database: every other row, counter and table is
  as before, the invariant holds, and from then on everybody who opens the post gets a 404 even if a
  copy was cached.\<close>

theorem delete_post_removes_exactly:
  assumes "db_ok (w_db w)" "post_by_id i (w_db w) = Some p" "p_user_id p = pr_id cu"
    and "list_all (\<lambda>s. s_post_id s \<noteq> i) (shared_posts (w_db w))"
  shows "let (answer, w') = delete_post account i cu w; d = w_db w in
      answer = Return (message_body (''Post '' @ str_int i @ '' deleted successfully'')) \<and>
      w_db w' = d\<lparr>
        posts := delete_where (\<lambda>q. p_id q = i) (posts d),
        votes := delete_where (\<lambda>v. v_post_id v = i) (votes d),
        comments := delete_where (\<lambda>c. c_post_id c = i) (comments d),
        comment_votes := delete_where (\<lambda>v. cv_comment_id v \<in>
           set (map c_id (filter (\<lambda>c. c_post_id c = i) (comments d)))) (comment_votes d),
        saved_posts := delete_where (\<lambda>s. sv_post_id s = i) (saved_posts d),
        post_views := delete_where (\<lambda>x. pv_post_id x = i) (post_views d)\<rparr> \<and>
      db_ok (w_db w') \<and>
      (\<forall>viewer t. fst (get_post account i viewer (w'\<lparr>w_now := t\<rparr>)) = Http 404 (not_found ''Post'' i))"
proof -
  have p: "p \<in> set (posts (w_db w))" "p_id p = i"
    using post_of_id [OF assms(2)] by auto
  have "find (\<lambda>q. p_id q = i \<and> p_user_id q = pr_id cu) (posts (w_db w)) \<noteq> None"
    using p assms(3) by (auto simp: find_None_iff)
  then obtain q where q: "find (\<lambda>q. p_id q = i \<and> p_user_id q = pr_id cu) (posts (w_db w)) = Some q"
    by auto
  obtain d' where d': "delete_posts (\<lambda>q. p_id q = i) (w_db w) = Some d'"
    using delete_posts_frame [OF assms(1) _ assms(2)] assms(4) by (simp add: list_all_iff)
  define w' where "w' = snd (delete_post account i cu w)"
  have db: "w_db w' = d'"
    using q d' by (simp add: w'_def delete_post_def Let_def split: option.split)
  have run: "delete_post account i cu w =
      (Return (message_body (''Post '' @ str_int i @ '' deleted successfully'')), w')"
    using q d' by (simp add: w'_def delete_post_def Let_def split: option.split)
  have frame: "delete_posts (\<lambda>q. p_id q = i) (w_db w) = Some (w_db w')"
    using db d' by simp
  have "post_db_view account i viewer (w_db w') = Http 404 (not_found ''Post'' i)" for viewer
    using frame delete_posts_frame [OF assms(1) _ assms(2)] assms(4)
    by (auto simp: post_db_view_def post_by_id_def list_all_iff find_delete_where find_contradiction)
  moreover have "fst (get_post account i viewer (w'\<lparr>w_now := t\<rparr>)) = post_db_view account i viewer (w_db w')" for viewer t
    using get_post_miss [of "w'\<lparr>w_now := t\<rparr>" i viewer account]
      write_invalidates [of account Remove i cu w _ w'] run by simp
  moreover have "db_ok (w_db w')"
    using delete_post_ok [OF assms(1)] by (simp add: w'_def)
  ultimately show ?thesis
    using frame delete_posts_frame [OF assms(1) _ assms(2)] assms(4) by (simp add: run list_all_iff)
qed

theorem delete_post_removes_exactly_witness:
  "let w' = snd (delete_post None 10 (sample_principal 1 ''ann'') sample_world) in
   posts (w_db w') = [] \<and> comments (w_db w') = [] \<and> users (w_db w') = users sample_db \<and>
   fst (get_post None 10 (sample_principal 2 ''bob'') (w'\<lparr>w_now := 5\<rparr>)) = Http 404 (not_found ''Post'' 10)"
  using delete_post_removes_exactly [of sample_world 10 sample_post "sample_principal 1 ''ann''" None] sample_db_ok
  by (simp add: sample_defs post_by_id_def sample_principal_def principal_of_user_def Let_def split_beta)

text \<open>A post that somebody shared cannot be deleted: the request fails with an integrity error that
  nothing handles, the database keeps the post with all its rows, but its media file is already gone from
  the blob store, so the surviving post points to nothing.\<close>

theorem delete_shared_post_loses_media:
  assumes "post_by_id i (w_db w) = Some p" "p_user_id p = pr_id cu" "p_media_path p = Some m" "m \<noteq> []"
    and "distinct (map p_id (posts (w_db w)))" "list_ex (\<lambda>s. s_post_id s = i) (shared_posts (w_db w))"
  shows "let (answer, w') = delete_post account i cu w in
      answer = Raise IntegrityError \<and> w_db w' = w_db w \<and> post_by_id i (w_db w') = Some p \<and>
      w_blobs w' = delete_blob account ''posts-media'' m (w_blobs w)"
proof -
  have p: "p \<in> set (posts (w_db w))" "p_id p = i"
    using post_of_id [OF assms(1)] by auto
  have "find (\<lambda>q. p_id q = i \<and> p_user_id q = pr_id cu) (posts (w_db w)) = Some p"
  proof (cases "find (\<lambda>q. p_id q = i \<and> p_user_id q = pr_id cu) (posts (w_db w))")
    case None
    with p assms(2) show ?thesis by (auto simp: find_None_iff)
  next
    case (Some q)
    then have "q \<in> set (posts (w_db w))" "p_id q = i" by (auto dest: find_SomeD)
    with p assms(5) Some show ?thesis by (auto simp: distinct_map inj_on_def)
  qed
  moreover have "i \<in> p_id ` {q \<in> set (posts (w_db w)). p_id q = i}"
    using p by auto
  ultimately show ?thesis
    using assms by (auto simp: delete_post_def Let_def delete_posts_def list_ex_iff)
qed

theorem delete_shared_post_loses_media_witness:
  "let w = sample_world\<lparr>w_db := sample_db\<lparr>shared_posts := [\<lparr>s_id = 1, s_post_id = 10, s_from_user_id = 1,
        s_to_user_id = 2, s_message = None, s_created_at = 0, s_is_read = False,
        s_is_deleted_for_everyone = False, s_reaction_cnt = 0\<rparr>]\<rparr>,
        w_blobs := [((''posts-media'', ''m.png''), ''bytes'')]\<rparr>;
       w' = snd (delete_post None 10 (sample_principal 1 ''ann'') w)
   in posts (w_db w') = [sample_post] \<and> w_blobs w' = delete_blob None ''posts-media'' ''m.png'' (w_blobs w)"
proof -
  let ?w = "sample_world\<lparr>w_db := sample_db\<lparr>shared_posts := [\<lparr>s_id = 1, s_post_id = 10, s_from_user_id = 1,
        s_to_user_id = 2, s_message = None, s_created_at = 0, s_is_read = False,
        s_is_deleted_for_everyone = False, s_reaction_cnt = 0\<rparr>]\<rparr>,
        w_blobs := [((''posts-media'', ''m.png''), ''bytes'')]\<rparr>"
  show ?thesis
    using delete_shared_post_loses_media [of 10 ?w sample_post "sample_principal 1 ''ann''" "''m.png''" None]
    by (simp add: sample_defs post_by_id_def sample_principal_def principal_of_user_def Let_def split_beta)
qed

text \<open>Any signed-in user may edit anybody's post: for a user who is not the owner, changing the title
  succeeds, the new title is stored, and every viewer is shown it.\<close>

theorem update_post_by_anyone:
  assumes "post_by_id i (w_db w) = Some p" "user_by_id (p_user_id p) (w_db w) = Some owner"
    and "pr_id cu \<noteq> p_user_id p"
  shows "let (answer, w') = update_post account i [Title (Some t)] cu w in
      answer = Return (post_detail account (p\<lparr>p_title := t\<rparr>) False (owner_json owner)) \<and>
      post_by_id i (w_db w') = Some (p\<lparr>p_title := t\<rparr>) \<and>
      (\<forall>viewer. fst (get_post account i viewer w') =
         Return (post_detail account (p\<lparr>p_title := t\<rparr>) (has_liked i (pr_id viewer) (w_db w)) (owner_json owner)))"
proof -
  have run: "run_post_write account (Edit [Title (Some t)]) i cu w =
      (Return (post_detail account (p\<lparr>p_title := t\<rparr>) False (owner_json owner)), snd (update_post account i [Title (Some t)] cu w))"
    using assms(1,2) by (simp add: update_post_def Let_def)
  have db: "w_db (snd (update_post account i [Title (Some t)] cu w)) =
      (w_db w)\<lparr>posts := update_where (\<lambda>q. p_id q = i) (\<lambda>_. p\<lparr>p_title := t\<rparr>) (posts (w_db w))\<rparr>"
    using assms(1,2) by (simp add: update_post_def Let_def)
  have "find (\<lambda>q. p_id q = i) (update_where (\<lambda>q. p_id q = i) (\<lambda>_. p\<lparr>p_title := t\<rparr>) ps) = Some (p\<lparr>p_title := t\<rparr>)"
    if "find (\<lambda>q. p_id q = i) ps = Some p" for ps
    using that post_of_id [OF assms(1)] by (induction ps) (auto split: if_splits)
  then have "post_by_id i (w_db (snd (update_post account i [Title (Some t)] cu w))) = Some (p\<lparr>p_title := t\<rparr>)"
    using assms(1) by (simp add: db post_by_id_def)
  moreover have "fst (update_post account i [Title (Some t)] cu w) =
      Return (post_detail account (p\<lparr>p_title := t\<rparr>) False (owner_json owner))"
    using assms(1,2) by (simp add: update_post_def Let_def)
  ultimately show ?thesis
    using get_post_miss [OF write_invalidates [OF run], where account = account] assms(2)
    by (simp add: post_db_view_def db split_beta user_by_id_def has_liked_def)
qed

theorem update_post_by_anyone_witness:
  "let w' = snd (update_post None 10 [Title (Some ''mine'')] (sample_principal 2 ''bob'') sample_world)
   in post_by_id 10 (w_db w') = Some (sample_post\<lparr>p_title := ''mine''\<rparr>)"
  using update_post_by_anyone [of 10 sample_world sample_post "sample_user 1 ''ann'' 1 0" "sample_principal 2 ''bob''"
      None "''mine''"]
  by (simp add: sample_defs post_by_id_def user_by_id_def sample_principal_def principal_of_user_def Let_def split_beta)

section \<open>Listings\<close>

lemma map_filter_joined:
  "(\<And>x. x \<in> set xs \<Longrightarrow> \<exists>y. f x = Some (x, y)) \<Longrightarrow> map fst (List.map_filter f xs) = xs"
proof (induction xs)
  case Nil
  then show ?case by simp
next
  case (Cons x xs)
  then obtain y where "f x = Some (x, y)" by force
  with Cons show ?case by simp
qed

lemma author_exists:
  assumes "db_ok d" "c \<in> set (comments d)"
  obtains u where "user_by_id (c_user_id c) d = Some u"
proof -
  have "c_user_id c \<in> set (map u_id (users d))"
    using assms by (auto simp: db_defs fk_def)
  with that show ?thesis using user_exists_iff by blast
qed

lemma comments_of_post_rows:
  assumes "db_ok d"
  shows "mset (map fst (comments_of_post tie i d)) = mset (filter (\<lambda>c. c_post_id c = i) (comments d))"
proof -
  let ?cs = "filter (\<lambda>c. c_post_id c = i) (comments d)"
  have "map fst (List.map_filter (\<lambda>c. map_option (Pair c) (user_by_id (c_user_id c) d)) ?cs) = ?cs"
  proof (rule map_filter_joined)
    fix c assume "c \<in> set ?cs"
    then obtain u where "user_by_id (c_user_id c) d = Some u"
      using author_exists [OF assms, of c] by auto
    then show "\<exists>u. map_option (Pair c) (user_by_id (c_user_id c) d) = Some (c, u)" by simp
  qed
  from arg_cong [OF this, of mset] show ?thesis
    by (simp add: comments_of_post_def)
qed

lemma pages_concat:
  "concat (map (\<lambda>k. page (k * limit) limit xs) [0..<n]) = take (n * limit) xs"
proof (induction n)
  case 0
  then show ?case by simp
next
  case (Suc n)
  then show ?case by (simp add: add.commute [of limit] take_add)
qed

text \<open>C36: The comment listing is complete: the rows it pages through are exactly the comments of the post,
  each once and newest first, and there are as many of them as the post's comment counter says. A page that is not
  in the cache shows its slice of them, and its \<open>has_more\<close> is true exactly when the counter says that comments
  are left. If no two comments of the post have the same creation time, page after page, each a query of its own,
  gives them all without gap or overlap.\<close>

theorem comment_pages_complete:
  assumes "db_ok (w_db w)" "post_by_id i (w_db w) = Some p"
    and "get_cache (now_ms w) (comments_key i offset limit) (w_redis w) = None"
  shows "let rows = comments_of_post tie i (w_db w) in
      mset (map fst rows) = mset (filter (\<lambda>c. c_post_id c = i) (comments (w_db w))) \<and>
      sorted (map (\<lambda>r. - c_created_at (fst r)) rows) \<and>
      int (length rows) = p_comments_cnt p \<and>
      (distinct (map (c_created_at \<circ> fst) rows) \<longrightarrow>
         concat (map (\<lambda>k. page (k * limit) limit (comments_of_post (ties k) i (w_db w))) [0..<n]) = take (n * limit) rows) \<and>
      fst (get_post_comments tie i limit offset cu w) = Return (JObj
        [(''comments'', JArr (map (\<lambda>(c, u). comment_detail c (owner_json u)) (page offset limit rows))),
         (''pagination'', pagination limit offset (int (offset + limit) < p_comments_cnt p))])"
proof -
  let ?rows = "comments_of_post tie i (w_db w)"
  let ?joined = "List.map_filter (\<lambda>c. map_option (Pair c) (user_by_id (c_user_id c) (w_db w)))
      (filter (\<lambda>c. c_post_id c = i) (comments (w_db w)))"
  note rows = comments_of_post_rows [OF assms(1), of tie i]
  have "length ?rows = length (filter (\<lambda>c. c_post_id c = i) (comments (w_db w)))"
    using rows by (metis length_map size_mset)
  then have len: "int (length ?rows) = p_comments_cnt p"
    using counters_of_post(3) [OF assms(1,2)] by (simp add: cnt_def)
  then have "page_more offset limit ?rows \<longleftrightarrow> int (offset + limit) < p_comments_cnt p"
    unfolding page_more_iff by linarith
  moreover have "sorted (map (\<lambda>r. - c_created_at (fst r)) ?rows)"
    by (simp add: comments_of_post_def)
  moreover have "concat (map (\<lambda>k. page (k * limit) limit (comments_of_post (ties k) i (w_db w))) [0..<n]) = take (n * limit) ?rows"
    if d: "distinct (map (c_created_at \<circ> fst) ?rows)"
  proof -
    have "mset ?rows = mset ?joined" by (simp only: comments_of_post_def order_by_simps(1))
    then have "mset (map (c_created_at \<circ> fst) ?rows) = mset (map (c_created_at \<circ> fst) ?joined)"
      by (simp only: mset_map)
    from iffD1 [OF mset_eq_imp_distinct_iff [OF this] d] have "distinct (map (c_created_at \<circ> fst) ?joined)" .
    then have "distinct (map (\<lambda>r. - c_created_at (fst r)) ?joined)" by (simp add: distinct_map inj_on_def)
    then have "comments_of_post t i (w_db w) = ?rows" for t
      unfolding comments_of_post_def by (rule order_by_unique)
    then have "(\<lambda>k. page (k * limit) limit (comments_of_post (ties k) i (w_db w))) = (\<lambda>k. page (k * limit) limit ?rows)"
      by (intro ext arg_cong [where f = "page _ limit"])
    then show ?thesis by (simp only: pages_concat)
  qed
  ultimately show ?thesis
    using rows len assms(3) by (simp add: get_post_comments_def Let_def del: page_simp)
qed

theorem comment_pages_complete_witness:
  "fst (get_post_comments (\<lambda>_. 0) 10 5 0 (sample_principal 1 ''ann'') sample_world) = Return (JObj
     [(''comments'', JArr [comment_detail sample_comment (owner_json (sample_user 2 ''bob'' 0 1))]),
      (''pagination'', pagination 5 0 False)])"
  using comment_pages_complete [of sample_world 10 sample_post 0 5 "\<lambda>_. 0" "\<lambda>_ _. 0" 0 "sample_principal 1 ''ann''"] sample_db_ok
  by (simp add: sample_defs post_by_id_def get_cache_def r_get_def Let_def comments_of_post_def user_by_id_def
      List.map_filter_simps)

section \<open>Bookmarks\<close>

definition bookmarks :: "database \<Rightarrow> (int \<times> int) set" where
  "bookmarks d = set (map saved_key (saved_posts d))"

lemma saved_by_key: "find (saved_by u i) xs = None \<longleftrightarrow> (u, i) \<notin> set (map saved_key xs)"
  by (auto simp: find_None_iff saved_by_def saved_key_def)

lemma bookmarks_delete:
  assumes "db_ok d" "find (saved_by u i) (saved_posts d) = Some s"
  shows "bookmarks (delete_saved (\<lambda>x. sv_id x = sv_id s) d) = bookmarks d - {(u, i)}"
proof -
  have s: "s \<in> set (saved_posts d)" "saved_key s = (u, i)"
    using assms(2) by (auto dest!: find_SomeD simp: saved_by_def saved_key_def)
  have "inj_on saved_key (set (saved_posts d))" "inj_on sv_id (set (saved_posts d))"
    using assms(1) by (auto simp: db_defs ids_ok_def distinct_map)
  with s have "sv_id x = sv_id s \<longleftrightarrow> saved_key x = (u, i)" if "x \<in> set (saved_posts d)" for x
    using that by (metis inj_onD)
  then show ?thesis
    by (auto simp: bookmarks_def delete_saved_def)
qed

text \<open>C27: Bookmarks are a set of (user, post) pairs: saving an existing post adds the pair, saving it again
  changes nothing and still succeeds, removing it takes exactly that pair away and is a 404 when the pair is
  not there; the invariant holds throughout.\<close>

theorem bookmarks_refine_set:
  assumes "db_ok (w_db w)" "post_by_id i (w_db w) = Some p" "user_by_id (pr_id cu) (w_db w) = Some u"
  shows "let (saved, w1) = save_post i cu w; (again, w2) = save_post i cu w1; (removed, w3) = unsave_post i cu w2 in
      bookmarks (w_db w1) = insert (pr_id cu, i) (bookmarks (w_db w)) \<and> is_Return saved \<and>
      again = Return (message_body ''Post already saved'') \<and> w2 = w1 \<and>
      removed = Return (message_body ''Saved post removed'') \<and>
      bookmarks (w_db w3) = bookmarks (w_db w) - {(pr_id cu, i)} \<and>
      unsave_post i cu w3 = (Http 404 ''Saved post not found'', w3) \<and>
      db_ok (w_db w1) \<and> db_ok (w_db w3)"
proof -
  obtain r w1 where save: "save_post i cu w = (r, w1)" by fastforce
  have exists: "i \<in> set (map p_id (posts (w_db w)))" "pr_id cu \<in> set (map u_id (users (w_db w)))"
    using assms(2,3) post_exists_iff user_exists_iff by blast+
  have w1: "bookmarks (w_db w1) = insert (pr_id cu, i) (bookmarks (w_db w))" "is_Return r"
    "posts (w_db w1) = posts (w_db w)"
    using assms(2) exists save
    by (auto simp: save_post_def bookmarks_def saved_by_key insert_saved_def saved_key_def split: if_splits)
  have ok1: "db_ok (w_db w1)"
    using save_post_ok [OF assms(1), of i cu] by (simp add: save)
  have found: "find (saved_by (pr_id cu) i) (saved_posts (w_db w1)) \<noteq> None"
    using w1(1) by (simp add: saved_by_key bookmarks_def)
  then have again: "save_post i cu w1 = (Return (message_body ''Post already saved''), w1)"
    using assms(2) w1(3) by (auto simp: save_post_def post_by_id_def)
  obtain s where s: "find (saved_by (pr_id cu) i) (saved_posts (w_db w1)) = Some s"
    using found by auto
  define w3 where "w3 = w1\<lparr>w_db := delete_saved (\<lambda>x. sv_id x = sv_id s) (w_db w1)\<rparr>"
  have removed: "unsave_post i cu w1 = (Return (message_body ''Saved post removed''), w3)"
    using s by (simp add: unsave_post_def w3_def)
  have w3: "bookmarks (w_db w3) = bookmarks (w_db w) - {(pr_id cu, i)}"
    using bookmarks_delete [OF ok1 s] w1(1) by (auto simp: w3_def)
  then have "find (saved_by (pr_id cu) i) (saved_posts (w_db w3)) = None"
    by (simp add: saved_by_key bookmarks_def)
  then have "unsave_post i cu w3 = (Http 404 ''Saved post not found'', w3)"
    by (simp add: unsave_post_def)
  moreover have "db_ok (w_db w3)"
    using ok1 by (simp add: w3_def delete_saved_ok)
  ultimately show ?thesis
    using w1 w3 again removed ok1 by (simp add: save)
qed

theorem bookmarks_refine_set_witness:
  "bookmarks (w_db (snd (save_post 10 (sample_principal 2 ''bob'') sample_world))) = {(2, 10)}"
  using bookmarks_refine_set [of sample_world 10 sample_post "sample_principal 2 ''bob''" "sample_user 2 ''bob'' 0 1"]
    sample_db_ok
  by (simp add: sample_defs post_by_id_def user_by_id_def sample_principal_def principal_of_user_def Let_def
      split_beta bookmarks_def)

end
