(* ===== verification/Connections_Properties.thy ===== *)
theory Connections_Properties
  imports Connections Posts_Properties
begin

text \<open>
  Correctness of \<open>Connections\<close>: the handlers keep the database invariant and refine a directed graph of
  follows, the home feed read from the database is exactly the posts of the followed users, and the
  cached home feed survives the writes that are meant to invalidate it.
\<close>

section \<open>The invariant\<close>

lemma follow_user_ok: "db_ok (w_db w) \<Longrightarrow> db_ok (w_db (snd (follow_user i cu token w)))"
  by (auto simp: follow_user_def split: option.split intro: insert_connection_ok)

lemma unfollow_user_ok: "db_ok (w_db w) \<Longrightarrow> db_ok (w_db (snd (unfollow_user i cu token w)))"
  by (auto simp: unfollow_user_def delete_connections_ok split: option.split)

lemma remove_follower_ok: "db_ok (w_db w) \<Longrightarrow> db_ok (w_db (snd (remove_follower_endpoint i j cu token w)))"
  by (auto simp: remove_follower_endpoint_def delete_connections_ok split: option.split)

lemma connection_reads_db [simp]:
  "w_db (snd (get_followers_list i cu w)) = w_db w" "w_db (snd (get_following_list i cu w)) = w_db w"
  "w_db (snd (getHomeFeed tie account l n cu w)) = w_db w" "w_db (snd (getExploreFeed tie account l n cu w)) = w_db w"
  by (simp_all add: get_followers_list_def get_following_list_def getHomeFeed_def getExploreFeed_def Let_def
      split: option.split)

section \<open>The graph of follows\<close>

text \<open>Edges (follower, followed).\<close>

definition edges :: "database \<Rightarrow> (int \<times> int) set" where
  "edges d = set (map (\<lambda>k. (k_follower_id k, k_followed_id k)) (connections d))"

lemma follows_edge: "follows a b d \<longleftrightarrow> (a, b) \<in> edges d"
  by (auto simp: follows_def edges_def list_ex_iff)

lemma edges_insert:
  "insert_connection \<lparr>k_followed_id = b, k_follower_id = a\<rparr> d = Some d' \<Longrightarrow> edges d' = insert (a, b) (edges d)"
  by (auto simp: insert_connection_def edges_def split: if_splits)

lemma edges_delete:
  "edges (delete_connections (\<lambda>k. k_followed_id k = b \<and> k_follower_id k = a) d) = edges d - {(a, b)}"
  by (auto simp: delete_connections_def edges_def)

lemma card_edges:
  assumes "db_ok d"
  shows "cnt (\<lambda>k. k_follower_id k = a) (connections d) = int (card {b. (a, b) \<in> edges d})"
    and "cnt (\<lambda>k. k_followed_id k = a) (connections d) = int (card {b. (b, a) \<in> edges d})"
proof -
  have key: "inj_on connection_key (set (connections d))" "distinct (connections d)"
    using assms by (auto simp: db_defs distinct_map)
  have "{b. (a, b) \<in> edges d} = k_followed_id ` {k \<in> set (connections d). k_follower_id k = a}"
    "{b. (b, a) \<in> edges d} = k_follower_id ` {k \<in> set (connections d). k_followed_id k = a}"
    by (auto simp: edges_def)
  moreover have "inj_on k_followed_id {k \<in> set (connections d). k_follower_id k = a}"
    "inj_on k_follower_id {k \<in> set (connections d). k_followed_id k = a}"
    using key(1) by (auto simp: inj_on_def connection_key_def)
  moreover have "length (filter P (connections d)) = card {k \<in> set (connections d). P k}" for P
    using key(2) by (metis distinct_card distinct_filter set_filter)
  ultimately show "cnt (\<lambda>k. k_follower_id k = a) (connections d) = int (card {b. (a, b) \<in> edges d})"
    "cnt (\<lambda>k. k_followed_id k = a) (connections d) = int (card {b. (b, a) \<in> edges d})"
    by (simp_all add: cnt_def card_image)
qed

text \<open>The profile counters of every user are the degrees of its node.\<close>

definition degrees_shown :: "database \<Rightarrow> bool" where
  "degrees_shown d \<longleftrightarrow> list_all (\<lambda>u. u_following_cnt u = int (card {b. (u_id u, b) \<in> edges d}) \<and>
     u_followers_cnt u = int (card {b. (b, u_id u) \<in> edges d})) (users d)"

lemma degrees_exact: "db_ok d \<Longrightarrow> degrees_shown d"
  by (auto simp: degrees_shown_def list_all_iff card_edges [symmetric] db_ok_def counters_ok_def counts_match_def
      following_of_def follower_of_def intro!: cnt_cong)

lemma follow_user_success:
  assumes "user_by_id i (w_db w) = Some u" "user_by_id (pr_id cu) (w_db w) = Some me"
    and "i \<noteq> pr_id cu" "\<not> follows (pr_id cu) i (w_db w)"
  obtains d' where "insert_connection \<lparr>k_followed_id = i, k_follower_id = pr_id cu\<rparr> (w_db w) = Some d'"
    "fst (follow_user i cu token w) =
       Return (follow_response (''Followed user '' @ u_username u) (Some (pr_following_cnt cu + 1)))"
    "w_db (snd (follow_user i cu token w)) = d'"
proof -
  have exists: "i \<in> set (map u_id (users (w_db w)))" "pr_id cu \<in> set (map u_id (users (w_db w)))"
    using assms(1,2) user_exists_iff by blast+
  have fresh: "connection_key \<lparr>k_followed_id = i, k_follower_id = pr_id cu\<rparr> \<notin>
      set (map connection_key (connections (w_db w)))"
    using assms(4) by (auto simp: follows_def connection_key_def list_ex_iff)
  have "u_id u = i"
    using assms(1) by (auto simp: user_by_id_def dest: find_SomeD)
  moreover obtain d' where "insert_connection \<lparr>k_followed_id = i, k_follower_id = pr_id cu\<rparr> (w_db w) = Some d'"
    using exists assms(3) fresh by (auto simp: insert_connection_def)
  ultimately show ?thesis
    using that assms by (simp add: follow_user_def)
qed

text \<open>C10: Following refines a directed graph without loops and multiple edges: following oneself is refused with a
  400 and changes nothing; following another existing user who is not yet followed adds exactly one edge,
  following again is refused with a 400 and changes nothing, unfollowing takes exactly that edge away, and after every step the counters shown on all profiles are the
  in- and out-degrees.\<close>

theorem follow_refines_graph:
  assumes "db_ok (w_db w)" "user_by_id i (w_db w) = Some u" "user_by_id (pr_id cu) (w_db w) = Some me"
    and "i \<noteq> pr_id cu" "(pr_id cu, i) \<notin> edges (w_db w)"
  shows "follow_user (pr_id cu) cu token w = (Http 400 ''Cannot follow yourself'', w) \<and>
    (let (followed, w1) = follow_user i cu token w; (unfollowed, w2) = unfollow_user i cu token w1 in
      is_Return followed \<and> edges (w_db w1) = insert (pr_id cu, i) (edges (w_db w)) \<and> degrees_shown (w_db w1) \<and>
      follow_user i cu token w1 = (Http 400 ''Your already following this user'', w1) \<and>
      is_Return unfollowed \<and> edges (w_db w2) = edges (w_db w) \<and> degrees_shown (w_db w2) \<and>
      unfollow_user i cu token w2 = (Http 400 ''You are not following this user'', w2))"
proof -
  have "u_id me = pr_id cu" using assms(3) by (auto simp: user_by_id_def dest: find_SomeD)
  then have oneself: "follow_user (pr_id cu) cu token w = (Http 400 ''Cannot follow yourself'', w)"
    using assms(3) by (simp add: follow_user_def)
  obtain r w1 where follow: "follow_user i cu token w = (r, w1)" by fastforce
  obtain d' where d': "insert_connection \<lparr>k_followed_id = i, k_follower_id = pr_id cu\<rparr> (w_db w) = Some d'"
    and r: "r = Return (follow_response (''Followed user '' @ u_username u) (Some (pr_following_cnt cu + 1)))"
    and w1: "w_db w1 = d'"
    using follow_user_success [OF assms(2-4)] assms(5) follow by (metis fst_conv snd_conv follows_edge)
  have e1: "edges (w_db w1) = insert (pr_id cu, i) (edges (w_db w))"
    using edges_insert [OF d'] w1 by simp
  have ok1: "db_ok (w_db w1)"
    using insert_connection_ok [OF assms(1) d'] w1 by simp
  have same: "map u_id (users d') = map u_id (users (w_db w))"
    using d' by (auto simp: insert_connection_def connection_following.keys split: if_splits)
  have "\<exists>x. user_by_id j (w_db w1) = Some x" if "j \<in> {i, pr_id cu}" for j
    using same w1 that assms(2,3) by (metis empty_iff insert_iff user_exists_iff)
  then obtain x y where x: "user_by_id i (w_db w1) = Some x" and y: "user_by_id (pr_id cu) (w_db w1) = Some y"
    by blast
  have "u_id x = i" using x by (auto simp: user_by_id_def dest: find_SomeD)
  then have again: "follow_user i cu token w1 = (Http 400 ''Your already following this user'', w1)"
    using x e1 assms(4) by (simp add: follow_user_def follows_edge)
  obtain r2 w2 where unfollow: "unfollow_user i cu token w1 = (r2, w2)" by fastforce
  have w2: "w_db w2 = delete_connections (\<lambda>k. k_followed_id k = i \<and> k_follower_id k = pr_id cu) (w_db w1)"
    "is_Return r2"
    using unfollow x e1 by (auto simp: unfollow_user_def follows_edge)
  have e2: "edges (w_db w2) = edges (w_db w)"
    using e1 assms(5) by (auto simp: w2(1) edges_delete)
  have ok2: "db_ok (w_db w2)"
    using ok1 by (simp add: w2(1) delete_connections_ok)
  have "map u_id (users (w_db w2)) = map u_id (users (w_db w1))"
    by (simp add: w2(1) delete_connections_def connection_following.fire_deletes_keys)
  then have "\<exists>z. user_by_id i (w_db w2) = Some z"
    using x user_exists_iff by metis
  then have "unfollow_user i cu token w2 = (Http 400 ''You are not following this user'', w2)"
    using e2 assms(5) by (auto simp: unfollow_user_def follows_edge)
  then show ?thesis
    using oneself follow unfollow r e1 e2 again w2(2) degrees_exact [OF ok1] degrees_exact [OF ok2] by simp
qed

theorem follow_refines_graph_witness:
  "follow_user 1 (sample_principal 1 ''ann'') ''tok'' sample_world = (Http 400 ''Cannot follow yourself'', sample_world) \<and>
   (let w1 = snd (follow_user 2 (sample_principal 1 ''ann'') ''tok'' sample_world) in
   edges (w_db w1) = {(2, 1), (1, 2)} \<and>
   follow_user 2 (sample_principal 1 ''ann'') ''tok'' w1 = (Http 400 ''Your already following this user'', w1))"
  using follow_refines_graph [of sample_world 2 "sample_user 2 ''bob'' 0 1" "sample_principal 1 ''ann''"
      "sample_user 1 ''ann'' 1 0" "''tok''"] sample_db_ok
  by (auto simp: sample_defs sample_principal_def principal_of_user_def user_by_id_def edges_def Let_def split_beta)

section \<open>Feeds\<close>

lemma home_rows_posts:
  assumes "db_ok d"
  shows "map fst (home_rows tie me d) = newest_first tie (filter (\<lambda>p. follows me (p_user_id p) d) (posts d))"
  unfolding home_rows_def
proof (rule map_filter_joined)
  fix p assume "p \<in> set (newest_first tie (filter (\<lambda>p. follows me (p_user_id p) d) (posts d)))"
  then have "p_user_id p \<in> set (map u_id (users d))"
    using assms by (auto simp: newest_first_def db_defs fk_def)
  then show "\<exists>u. map_option (Pair p) (user_by_id (p_user_id p) d) = Some (p, u)"
    using user_exists_iff [of "p_user_id p" d] by auto
qed

text \<open>C21: The home feed that is read from the database (nothing cached under the key of the page) shows exactly the
  posts of the users the reader follows, each with its author, each once, newest first. If no two of these posts
  have the same creation time, the order does not depend on the execution of the query, and consecutive pages,
  each a query of its own, cover the feed without gap or overlap.\<close>

theorem home_feed_exact:
  assumes "db_ok (w_db w)" "get_cache (now_ms w) (feed_key ''home'' (pr_id cu) offset limit) (w_redis w) = None"
  shows "let rows = home_rows tie (pr_id cu) (w_db w) in
      set (map fst rows) = {p \<in> set (posts (w_db w)). (pr_id cu, p_user_id p) \<in> edges (w_db w)} \<and>
      distinct (map (p_id \<circ> fst) rows) \<and> sorted (map (\<lambda>r. - p_created_at (fst r)) rows) \<and>
      list_all (\<lambda>(p, u). user_by_id (p_user_id p) (w_db w) = Some u) rows \<and>
      (distinct (map (p_created_at \<circ> fst) rows) \<longrightarrow>
         concat (map (\<lambda>k. page (k * limit) limit (home_rows (ties k) (pr_id cu) (w_db w))) [0..<n]) = take (n * limit) rows) \<and>
      fst (getHomeFeed tie account limit offset cu w) = Return (JObj
        [(''feed'', JArr (map (feed_item account (pr_id cu) (w_db w)) (page offset limit rows))), (''total'', JNull)])"
proof -
  let ?ps = "filter (\<lambda>p. follows (pr_id cu) (p_user_id p) (w_db w)) (posts (w_db w))"
  let ?rows = "home_rows tie (pr_id cu) (w_db w)"
  note posts = home_rows_posts [OF assms(1), of _ "pr_id cu"]
  have "set (map fst ?rows) = {p \<in> set (posts (w_db w)). (pr_id cu, p_user_id p) \<in> edges (w_db w)}"
    unfolding posts by (auto simp: newest_first_def follows_edge)
  moreover have "distinct (map p_id (map fst ?rows))"
    unfolding posts using assms(1)
    by (auto simp: newest_first_def db_defs ids_ok_def distinct_map inj_on_def)
  moreover have "sorted (map (\<lambda>p. - p_created_at p) (map fst ?rows))"
    unfolding posts by (simp add: newest_first_def)
  moreover have "list_all (\<lambda>(p, u). user_by_id (p_user_id p) (w_db w) = Some u) ?rows"
    by (auto simp: home_rows_def List.map_filter_def list_all_iff)
  moreover have "concat (map (\<lambda>k. page (k * limit) limit (home_rows (ties k) (pr_id cu) (w_db w))) [0..<n]) = take (n * limit) ?rows"
    if d: "distinct (map (p_created_at \<circ> fst) ?rows)"
  proof -
    have "distinct (map p_created_at (map fst ?rows))" using d by simp
    then have "distinct (map p_created_at (newest_first tie ?ps))" unfolding posts .
    moreover have "mset (map p_created_at (newest_first tie ?ps)) = mset (map p_created_at ?ps)"
      by (simp add: newest_first_def)
    ultimately have "distinct (map p_created_at ?ps)" by (metis mset_eq_imp_distinct_iff)
    then have "distinct (map (\<lambda>p. - p_created_at p) ?ps)" by (simp add: distinct_map inj_on_def)
    then have "newest_first t ?ps = newest_first tie ?ps" for t
      unfolding newest_first_def by (rule order_by_unique)
    from arg_cong [OF this] have "home_rows t (pr_id cu) (w_db w) = ?rows" for t unfolding home_rows_def .
    then have "(\<lambda>k. page (k * limit) limit (home_rows (ties k) (pr_id cu) (w_db w))) = (\<lambda>k. page (k * limit) limit ?rows)"
      by (intro ext arg_cong [where f = "page _ limit"])
    then show ?thesis by (simp only: pages_concat)
  qed
  ultimately show ?thesis
    using assms(2) by (simp add: getHomeFeed_def home_feed_body_def Let_def comp_def del: page_simp)
qed

text \<open>With equal creation times the pages of two queries can repeat one post and never show the other.\<close>

lemma equal_times_repeat:
  assumes "p_created_at p = p_created_at q" "p_id p \<noteq> p_id q"
  shows "page 0 1 (newest_first (\<lambda>x. if x = p then 0 else 1) [p, q]) = [p]"
    and "page 1 1 (newest_first (\<lambda>x. if x = q then 0 else 1) [p, q]) = [p]"
  using assms by (auto simp: newest_first_def order_by_def)

theorem home_feed_exact_witness:
  "map fst (home_rows (\<lambda>_. 0) 2 sample_db) = [sample_post] \<and>
   fst (getHomeFeed (\<lambda>_. 0) None 5 0 (sample_principal 2 ''bob'') sample_world) = Return (JObj
     [(''feed'', JArr [feed_item None 2 sample_db (sample_post, sample_user 1 ''ann'' 1 0)]), (''total'', JNull)])"
  using home_feed_exact [of sample_world "sample_principal 2 ''bob''" 0 5 "\<lambda>_. 0" "\<lambda>_ _. 0" 0 None] sample_db_ok
  by (simp add: sample_defs sample_principal_def principal_of_user_def get_cache_def r_get_def Let_def home_rows_def
      newest_first_def follows_def user_by_id_def)

text \<open>The writes that bump the version of the home feed, and nothing else of it.\<close>

datatype feed_write = Unfollow int string | Publish string string string | Unpublish int | Retitle int "post_field list"

fun run_feed_write :: "string option \<Rightarrow> feed_write \<Rightarrow> principal \<Rightarrow> world \<Rightarrow> json outcome \<times> world" where
  "run_feed_write account (Unfollow i token) cu w = unfollow_user i cu token w"
| "run_feed_write account (Publish uuid title content) cu w = create_post account 10 uuid title content None cu w"
| "run_feed_write account (Unpublish i) cu w = delete_post account i cu w"
| "run_feed_write account (Retitle i fs) cu w = update_post account i fs cu w"

lemma colon_not_version [simp]: "s @ CHR '':'' # t \<noteq> ''version''"
proof
  assume "s @ CHR '':'' # t = ''version''"
  then have "CHR '':'' \<in> set ''version''" by (metis in_set_conv_decomp)
  then show False by simp
qed

lemma feed_key_other:
  "feed_key ''home'' i n l \<noteq> ''feed:home:version''" "feed_key ''home'' i n l \<noteq> ''feed:explore:version''"
  "\<not> glob_match (post_pattern j) (feed_key ''home'' i n l)" "\<not> glob_match (comments_pattern j) (feed_key ''home'' i n l)"
  "\<not> glob_match (user_posts_pattern j) (feed_key ''home'' i n l)" "feed_key ''home'' i n l \<noteq> user_profile_key j"
  "feed_key ''home'' i n l \<noteq> auth_key token" "feed_key ''home'' i n l \<noteq> followers_key j"
  "feed_key ''home'' i n l \<noteq> following_key j"
  by (simp_all add: followers_key_def following_key_def feed_key_def post_pattern_def comments_pattern_def user_posts_pattern_def user_profile_key_def
      auth_key_def str_int_def)

lemma feed_write_keeps_cache:
  "get_cache now (feed_key ''home'' i n l) (w_redis (snd (run_feed_write account op cu w))) =
   get_cache now (feed_key ''home'' i n l) (w_redis w)"
proof -
  have store: "w_redis (snd (store_media account 10 uuid None w)) = w_redis w" for uuid
    by (simp add: store_media_def)
  show ?thesis
    by (cases op)
      (simp_all add: unfollow_user_def drop_connection_caches_def create_post_def store_media_def delete_post_def
        update_post_def bump_feeds_def get_cache_increment_version get_cache_delete_other get_cache_delete_pattern
        feed_key_other Let_def split: option.split)
qed

text \<open>The version that unfollowing, publishing, editing and deleting bump is part of no key that is ever read:
  a cached page of anybody's home feed is served unchanged after each of these writes until it expires, so the
  posts of an unfollowed (or deleted) author stay in the feed and new ones are missing.\<close>

theorem cached_home_feed_survives_writes:
  assumes "get_cache (t div 1000) (feed_key ''home'' (pr_id reader) offset limit) (w_redis w) = Some cached"
    and "truthy cached"
  shows "let w' = (snd (run_feed_write account op cu w))\<lparr>w_now := t\<rparr> in
      getHomeFeed tie account limit offset reader w' = (Return cached, w')"
  using assms feed_write_keeps_cache [of "t div 1000" "pr_id reader" offset limit account op cu w]
  by (simp add: getHomeFeed_def Let_def)

theorem cached_home_feed_survives_writes_witness:
  "let bob = sample_principal 2 ''bob'';
       (before, w1) = getHomeFeed (\<lambda>_. 0) None 5 0 bob sample_world;
       (gone, w2) = unfollow_user 1 bob ''tok'' w1
   in is_Return gone \<and> home_rows (\<lambda>_. 0) 2 (w_db w2) = [] \<and> fst (getHomeFeed (\<lambda>_. 0) None 5 0 bob (w2\<lparr>w_now := w_now w1\<rparr>)) = before"
proof -
  let ?bob = "sample_principal 2 ''bob''"
  define w1 where "w1 = snd (getHomeFeed (\<lambda>_. 0) None 5 0 ?bob sample_world)"
  let ?body = "home_feed_body (\<lambda>_. 0) None 5 0 2 sample_db"
  have id: "pr_id ?bob = 2" by (simp add: sample_principal_def principal_of_user_def sample_user_def)
  have first: "getHomeFeed (\<lambda>_. 0) None 5 0 ?bob sample_world = (Return ?body, w1)"
    by (simp add: w1_def getHomeFeed_def sample_world_def get_cache_def r_get_def Let_def id)
  have "get_cache (w_now w1 div 1000) (feed_key ''home'' 2 0 5) (w_redis w1) = Some ?body"
    by (simp add: w1_def getHomeFeed_def sample_world_def get_cache_def r_get_def Let_def id set_cache_def
        r_set_def live_def now_ms_def)
  then have "get_cache (w_now w1 div 1000) (feed_key ''home'' (pr_id ?bob) 0 5) (w_redis w1) = Some ?body"
    by (simp add: id)
  from cached_home_feed_survives_writes [OF this, of None "Unfollow 1 ''tok''" ?bob]
  have stale: "fst (getHomeFeed (\<lambda>_. 0) None 5 0 ?bob ((snd (unfollow_user 1 ?bob ''tok'' w1))\<lparr>w_now := w_now w1\<rparr>)) = Return ?body"
    by (simp add: home_feed_body_def Let_def)
  have db: "w_db w1 = sample_db"
    by (simp add: w1_def) (simp add: sample_world_def)
  have "is_Return (fst (unfollow_user 1 ?bob ''tok'' w1)) \<and> home_rows (\<lambda>_. 0) 2 (w_db (snd (unfollow_user 1 ?bob ''tok'' w1))) = []"
    by (simp add: unfollow_user_def db id user_by_id_def follows_def home_rows_def newest_first_def
        delete_connections_def fire_deletes_def trigger_simps sample_db_def sample_user_def sample_post_def empty_db_def)
  with first stale show ?thesis
    by (auto simp: Let_def split: prod.split)
qed

end
