(* ===== verification/Auth_Properties.thy ===== *)
theory Auth_Properties
  imports Auth
begin

text \<open>
  Correctness of the authentication component: the invariant kept by every operation (database
  invariant, one unrevoked token per family, cached principals bounded by their token), what it gives
  for all reachable worlds, and the round trips of the flows.
\<close>

section \<open>The invariant\<close>

definition auth_inv :: "int \<Rightarrow> (string \<Rightarrow> claims option) \<Rightarrow> world \<Rightarrow> bool" where
  "auth_inv D decode w \<longleftrightarrow> db_ok (w_db w) \<and> families_ok (w_db w) \<and>
     auth_cache_bounded D decode (w_redis w) \<and> 0 < w_now w"

lemma families_ok_frame: "refresh_tokens d = refresh_tokens d' \<Longrightarrow> families_ok d = families_ok d'"
  by (simp add: families_ok_def)

lemma orm_update_user_tokens [simp]: "refresh_tokens (orm_update_user i f d) = refresh_tokens d"
  by (simp add: orm_update_user_def)

lemma getCurrentUser_within_frame [simp]:
  "w_db (snd (getCurrentUser_within lag decode em token w)) = w_db w"
  "w_now (snd (getCurrentUser_within lag decode em token w)) \<in> {w_now w, w_now w + lag}"
  by (auto simp: getCurrentUser_within_def split: prod.split bool.split option.split outcome.split)

lemma getCurrentUser_frame [simp]:
  "w_db (snd (getCurrentUser decode em token w)) = w_db w"
  "w_now (snd (getCurrentUser decode em token w)) = w_now w"
  using getCurrentUser_within_frame(2) [of 0 decode em token w] by (simp_all add: getCurrentUser_def)

lemma getCurrentUser_inv:
  assumes "auth_inv D decode w" "0 \<le> lag" "lag \<le> D"
  shows "auth_inv D decode (snd (getCurrentUser_within lag decode em token w))"
  using assms getCurrentUser_within_frame(2) [of lag decode em token w]
  by (auto simp: auth_inv_def getCurrentUser_bounded)

lemma login_deadline:
  "((n + d) div 1000 + m * 60 * 1000) * 1000 < seconds ((n + minutes m) div 1000000 + 1) + (d :: int)"
proof -
  have "(n + d) div 1000 * 1000 \<le> n + d" by (rule ms_floor)
  moreover have "k < (k div 1000000 + 1) * 1000000" for k :: int by presburger
  then have "n + minutes m < seconds ((n + minutes m) div 1000000 + 1)" by (simp only: seconds_def)
  ultimately show ?thesis by (simp add: minutes_def algebra_simps)
qed

lemma insert_fresh_family:
  assumes "families_ok d" "insert_refresh_token t d = Some d'"
    and "t_family_id t \<notin> set (map t_family_id (refresh_tokens d))"
  shows "families_ok d'"
proof -
  have "active (t_family_id t) (refresh_tokens d) = 0"
    using assms(3) by (auto simp: active_def cnt_zero_iff image_iff)
  moreover have "refresh_tokens d' = refresh_tokens d @ [t]"
    using assms(2) by (auto simp: insert_refresh_token_def split: if_splits)
  ultimately show ?thesis
    using assms(1) by (auto simp: families_ok_all active_append)
qed

lemma login_inv:
  assumes "auth_inv D decode w"
    and law: "\<And>c c'. decode (encode c) = Some c' \<Longrightarrow> cl_expTime c' = cl_expTime c"
    and "family \<notin> set (map t_family_id (refresh_tokens (w_db w)))" "0 \<le> lag" "lag \<le> D"
  shows "auth_inv D decode (snd (loginUser lag sha hashpw encode em ed jti raw family un pw w))"
proof -
  have bounded: "auth_cache_bounded D decode (set_cache (now_ms (w\<lparr>w_now := w_now w + lag\<rparr>))
      (auth_key (createAccessToken encode em jti i n w)) v (em * 60) (w_redis w))" for i n v
    using assms(1,5) login_deadline [of "w_now w" lag em] unfolding set_cache_def auth_inv_def
    by (auto intro!: auth_cache_bounded_set simp: createAccessToken_def now_ms_def dest!: law)
  have "db_ok d \<and> families_ok d"
    if "insert_refresh_token (create_refresh_token sha ed raw family i None v) (w_db w) = Some d" for i d v
    using that assms(1,3) insert_refresh_token_ok insert_fresh_family
    unfolding auth_inv_def create_refresh_token_def by fastforce
  then show ?thesis
    using assms(1,4) bounded
    by (auto simp: auth_inv_def loginUser_def Let_def split: option.split)
qed

lemma grace_store_bounded:
  "auth_cache_bounded D decode (w_redis w) \<Longrightarrow> auth_cache_bounded D decode (grace_store h a r w)"
  unfolding grace_store_def by (auto intro!: auth_cache_bounded_set simp: grace_key_def auth_key_def)

lemma rotate_inv:
  assumes "auth_inv D decode w"
  shows "auth_inv D decode (snd (rotate_refresh_token sha encode em ed raw jti old w))"
proof -
  have "auth_cache_bounded D decode (w_redis (snd (rotate_refresh_token sha encode em ed raw jti old w)))"
    using assms by (auto simp: auth_inv_def rotate_refresh_token_def Let_def
        intro: grace_store_bounded split: option.split)
  moreover have "w_now (snd (rotate_refresh_token sha encode em ed raw jti old w)) = w_now w"
    by (auto simp: rotate_refresh_token_def Let_def split: option.split)
  ultimately show ?thesis
    using assms rotate_families rotate_db_ok by (simp add: auth_inv_def)
qed

lemma refresh_route_world:
  "snd (refresh_token_route sha encode em ed raw jti old w) =
   snd (rotate_refresh_token sha encode em ed raw jti old w)"
  by (auto simp: refresh_token_route_def split: prod.split outcome.split)

lemma logout_inv:
  assumes "auth_inv D decode w"
  shows "auth_inv D decode (snd (logout decode token w))"
  using assms
  by (auto simp: auth_inv_def logout_def Let_def revoke_all_user_tokens_def
      intro!: revoke_where_ok revoke_where_families auth_cache_bounded_delete auth_cache_bounded_blacklist
      split: option.split)

lemma saveOtp_inv:
  "auth_inv D decode w \<Longrightarrow> auth_inv D decode (saveOtp sha tz e otp m w)"
  using families_ok_frame [of "w_db (saveOtp sha tz e otp m w)" "w_db w"]
  by (simp add: auth_inv_def saveOtp_ok)

lemma checkOtp_inv:
  "auth_inv D decode w \<Longrightarrow> auth_inv D decode (snd (checkOtp sha tz e otp w))"
  using families_ok_frame [of "w_db (snd (checkOtp sha tz e otp w))" "w_db w"]
  by (simp add: auth_inv_def checkOtp_ok)

lemma enqueue_inv [simp]: "auth_inv D decode (enqueue t w) = auth_inv D decode w"
  by (simp add: auth_inv_def)

lemma commit_user_inv:
  assumes "auth_inv D decode w"
    and "\<And>u. u_id (f u) = u_id u" "\<And>u. u_username (f u) = u_username u"
    and "\<And>u. u_followers_cnt (f u) = u_followers_cnt u" "\<And>u. u_following_cnt (f u) = u_following_cnt u"
  shows "auth_inv D decode (snd (commit_user res conflict ok i f w))"
proof -
  have "families_ok (orm_update_user i f (w_db w)) = families_ok (w_db w)"
    by (rule families_ok_frame) simp
  then show ?thesis
    using assms by (auto simp: commit_user_def auth_inv_def intro!: orm_update_user_ok split: commit.split)
qed

lemma reset_password_inv:
  assumes "auth_inv D decode w"
  shows "auth_inv D decode (snd (reset_password sha hashpw tz salt commits email otp pw w))"
proof -
  obtain ok w' where check: "checkOtp sha tz email otp w = (ok, w')" by fastforce
  then have w': "auth_inv D decode w'" using checkOtp_inv [OF assms, of sha tz email otp] by simp
  show ?thesis
  proof (cases ok)
    case True
    have "auth_inv D decode (snd (run_with_transient_retry (\<lambda>attempt v.
        (case lock_user_row None (Some email) (w_db v) of
           Return u \<Rightarrow> commit_user (commits attempt) password_conflict
               (message_body ''Password has been reset successfully.'') (u_id u)
               (u_password_update (\<lambda>_. hashPassword hashpw salt pw)) v
         | Http c m \<Rightarrow> (Http c m, v)
         | Raise e \<Rightarrow> (Raise e, v))) 3 w'))"
    proof (rule retry_invariant, goal_cases)
      case (1 a v)
      then show ?case
        by (cases "lock_user_row None (Some email) (w_db v)") (simp_all add: commit_user_inv)
    qed (fact w')
    with True show ?thesis by (simp add: reset_password_def check)
  next
    case False
    then show ?thesis using w' by (simp add: reset_password_def check)
  qed
qed

lemma verify_email_inv:
  assumes "auth_inv D decode w"
  shows "auth_inv D decode (snd (verify_email sha tz commits email otp w))"
  unfolding verify_email_def
proof (rule retry_invariant, goal_cases)
  case (1 a v)
  then have "auth_inv D decode (snd (checkOtp sha tz email otp v))" by (rule checkOtp_inv)
  then show ?case
    using 1 by (auto split: outcome.split prod.split bool.split intro!: commit_user_inv)
qed (fact assms)

lemma verifyOtp_inv:
  "auth_inv D decode w \<Longrightarrow> auth_inv D decode (snd (verifyOtp sha tz otp email w))"
  using checkOtp_inv by (auto simp: verifyOtp_def split: option.split prod.split bool.split)
    (metis snd_conv)+

lemma reset_attempt_inv:
  assumes "auth_inv D decode v"
  shows "auth_inv D decode (snd (reset_attempt sha hashpw tz salt commits i old otp new a v))"
proof -
  have "auth_inv D decode (snd (verifyOtp sha tz otp e v))" for e by (rule verifyOtp_inv [OF assms])
  then have *: "auth_inv D decode v'" if "verifyOtp sha tz otp e v = (r, v')" for e r v'
    using that by (metis snd_conv)
  then show ?thesis
    using assms by (auto simp: reset_attempt_def split: option.split prod.split outcome.split
        intro: * intro!: commit_user_inv)
qed

lemma reset_authenticated_inv:
  assumes "auth_inv D decode w"
  shows "auth_inv D decode (snd (reset_password_authenticated sha hashpw tz salt commits p token old otp new w))"
proof -
  let ?run = "run_with_transient_retry (reset_attempt sha hashpw tz salt commits (pr_id p) old otp new) 3 w"
  have run: "auth_inv D decode (snd ?run)"
    by (rule retry_invariant [OF reset_attempt_inv assms])
  then show ?thesis
    by (cases ?run)
      (auto simp: reset_password_authenticated_def auth_inv_def revoke_all_user_tokens_def
        intro!: revoke_where_ok revoke_where_families auth_cache_bounded_delete split: outcome.split)
qed

section \<open>All reachable worlds\<close>

text \<open>
  One step: the clock advances, or a request is served; a login draws a family id not yet in use, and
  between the signing or checking of a token and the caching of its principal at most \<open>D\<close> microseconds pass.
\<close>

inductive auth_step :: "(string \<Rightarrow> string) \<Rightarrow> (string \<Rightarrow> string \<Rightarrow> string) \<Rightarrow> (claims \<Rightarrow> string) \<Rightarrow>
    (string \<Rightarrow> claims option) \<Rightarrow> int \<Rightarrow> int \<Rightarrow> int \<Rightarrow> int \<Rightarrow> world \<Rightarrow> world \<Rightarrow> bool"
  for sha hashpw encode decode em ed tz D where
  tick: "w_now w \<le> t \<Longrightarrow> auth_step sha hashpw encode decode em ed tz D w (w\<lparr>w_now := t\<rparr>)"
| login: "family \<notin> set (map t_family_id (refresh_tokens (w_db w))) \<Longrightarrow> 0 \<le> lag \<Longrightarrow> lag \<le> D \<Longrightarrow>
    auth_step sha hashpw encode decode em ed tz D w (snd (loginUser lag sha hashpw encode em ed jti raw family un pw w))"
| authenticate: "0 \<le> lag \<Longrightarrow> lag \<le> D \<Longrightarrow>
    auth_step sha hashpw encode decode em ed tz D w (snd (getCurrentUser_within lag decode em token w))"
| refresh: "auth_step sha hashpw encode decode em ed tz D w (snd (refresh_token_route sha encode em ed raw jti old w))"
| log_out: "auth_step sha hashpw encode decode em ed tz D w (snd (logout decode token w))"
| forgot: "auth_step sha hashpw encode decode em ed tz D w (snd (forgot_password sha tz drawn email w))"
| reset: "auth_step sha hashpw encode decode em ed tz D w (snd (reset_password sha hashpw tz salt commits email otp pw w))"
| verify: "auth_step sha hashpw encode decode em ed tz D w (snd (verify_email sha tz commits email otp w))"
| resend: "auth_step sha hashpw encode decode em ed tz D w (snd (resend_verification_otp sha tz drawn email w))"
| change: "auth_step sha hashpw encode decode em ed tz D w (snd (change_password sha tz drawn p w))"
| reset_auth: "auth_step sha hashpw encode decode em ed tz D w
    (snd (reset_password_authenticated sha hashpw tz salt commits p token old otp new w))"

lemma auth_step_inv:
  assumes "auth_step sha hashpw encode decode em ed tz D w w'" "auth_inv D decode w"
    and "\<And>c c'. decode (encode c) = Some c' \<Longrightarrow> cl_expTime c' = cl_expTime c"
  shows "auth_inv D decode w'"
  using assms(1)
proof cases
  case (tick t)
  then show ?thesis using assms(2) by (auto simp: auth_inv_def)
next
  case (login family lag jti raw un pw)
  then show ?thesis using login_inv [OF assms(2,3)] by simp
next
  case (authenticate lag token)
  then show ?thesis using getCurrentUser_inv [OF assms(2)] by simp
next
  case (refresh raw jti old)
  then show ?thesis using rotate_inv [OF assms(2)] by (simp add: refresh_route_world)
next
  case (log_out token)
  then show ?thesis using logout_inv [OF assms(2)] by simp
next
  case (forgot drawn email)
  then show ?thesis
    using assms(2) by (auto simp: forgot_password_def Let_def saveOtp_inv split: option.split)
next
  case (reset salt commits email otp pw)
  then show ?thesis using reset_password_inv [OF assms(2)] by simp
next
  case (verify commits email otp)
  then show ?thesis using verify_email_inv [OF assms(2)] by simp
next
  case (resend drawn email)
  then show ?thesis
    using assms(2) by (auto simp: resend_verification_otp_def Let_def saveOtp_inv split: option.split)
next
  case (change drawn p)
  then show ?thesis
    using assms(2) by (auto simp: change_password_def Let_def saveOtp_inv split: option.split)
next
  case (reset_auth salt commits p token old otp new)
  then show ?thesis using reset_authenticated_inv [OF assms(2)] by simp
qed

lemma auth_reachable_inv:
  assumes "(auth_step sha hashpw encode decode em ed tz D)\<^sup>*\<^sup>* w0 w" "auth_inv D decode w0"
    and "\<And>c c'. decode (encode c) = Some c' \<Longrightarrow> cl_expTime c' = cl_expTime c"
  shows "auth_inv D decode w"
  using assms(1,2) by (induction rule: rtranclp_induct) (auto intro: auth_step_inv [OF _ _ assms(3)])

section \<open>Properties\<close>

subsection \<open>Concrete parameters for the witnesses\<close>

definition demo_encode :: "claims \<Rightarrow> string" where
  "demo_encode c = (case cl_expTime c of None \<Rightarrow> [] | Some e \<Rightarrow> str_int e)"

definition demo_decode :: "string \<Rightarrow> claims option" where
  "demo_decode t = (if t = [] then None
     else Some \<lparr>cl_userId = Some 1, cl_userName = Some ''ann'',
       cl_expTime = Some (if hd t = CHR ''-'' then - int (val_digits (tl t)) else int (val_digits t)),
       cl_iat = 0, cl_jti = []\<rparr>)"

lemma str_int_parsed:
  "(if hd (str_int e) = CHR ''-'' then - int (val_digits (tl (str_int e))) else int (val_digits (str_int e))) = e"
proof -
  have "hd (str_nat n) \<noteq> CHR ''-''" for n
    using str_nat_no_char [of "CHR ''-''" n, simplified] hd_in_set [OF str_nat_not_Nil, of n] by metis
  then show ?thesis by (simp add: str_int_def val_digits_str_nat)
qed

lemma str_int_not_Nil [simp]: "str_int e \<noteq> []"
  by (simp add: str_int_def)

lemma demo_decode_encode: "demo_decode (demo_encode c) = Some c' \<Longrightarrow> cl_expTime c' = cl_expTime c"
  by (auto simp: demo_encode_def demo_decode_def str_int_parsed split: option.splits if_splits)

definition demo_hashpw :: "string \<Rightarrow> string \<Rightarrow> string" where
  "demo_hashpw p salt = ''h:'' @ p"

definition demo_user :: user where
  "demo_user = \<lparr>u_id = 1, u_username = ''ann'', u_password = ''h:pw'', u_nickname = None, u_bio = None,
     u_email = Some ''a@x'', u_email_verified = True, u_profile_picture = None, u_created_at = 0,
     u_last_seen_at = None, u_followers_cnt = 0, u_following_cnt = 0, u_version_id = 1\<rparr>"

definition demo_db :: database where
  "demo_db = empty_db\<lparr>users := [demo_user], users_seq := 2\<rparr>"

definition demo_world :: world where
  "demo_world = \<lparr>w_db = demo_db, w_redis = \<lparr>r_store = [], r_up = True, r_published = []\<rparr>,
     w_now = 1000000, w_tasks = [], w_mgr = new_manager, w_blobs = []\<rparr>"

lemma demo_db_ok: "db_ok demo_db"
  by (simp add: demo_db_def demo_user_def db_defs empty_db_def ids_ok_def counts_match_def cnt_def)

subsection \<open>Claims\<close>

text \<open>C4: In every world the authentication requests can reach from one without sessions, in any order and at any
  times, the database is consistent, a login session (token family) has at most one unrevoked refresh
  token, and an access token is refused once the second of its expiry claim is over and the time has
  passed too that a handler took, at most, from computing the lifetime of the cached principal to
  storing it: until then a cached principal may outlive its token.\<close>

theorem auth_reachable_safe:
  assumes "(auth_step sha hashpw encode decode em ed tz D)\<^sup>*\<^sup>* w0 w" "0 \<le> D"
    and "db_ok (w_db w0)" "refresh_tokens (w_db w0) = []" "r_store (w_redis w0) = []" "0 < w_now w0"
    and "\<And>c c'. decode (encode c) = Some c' \<Longrightarrow> cl_expTime c' = cl_expTime c"
  shows "db_ok (w_db w) \<and> (\<forall>f. active f (refresh_tokens (w_db w)) \<le> 1) \<and>
    (\<forall>token c e m lag. decode token = Some c \<and> cl_expTime c = Some e \<and> seconds (e + 1) + D \<le> w_now w \<longrightarrow>
       getCurrentUser_within lag decode m token w = (Http 401 credentials_message, w))"
proof -
  have "auth_inv D decode w0"
    using assms(3-6) by (simp add: auth_inv_def families_ok_def auth_cache_bounded_def)
  then have inv: "auth_inv D decode w"
    using auth_reachable_inv [OF assms(1) _ assms(7)] by blast
  then have "getCurrentUser_within lag decode m token w = (Http 401 credentials_message, w)"
    if "decode token = Some c" "cl_expTime c = Some e" "seconds (e + 1) + D \<le> w_now w" for token c e m lag
    using inv that assms(2) by (intro expired_token_refused) (auto simp: auth_inv_def)
  with inv show ?thesis by (auto simp: auth_inv_def families_ok_all)
qed

lemma auth_reachable_safe_witness:
  "\<exists>w. (auth_step id demo_hashpw demo_encode demo_decode 60 7 0 500000)\<^sup>*\<^sup>* demo_world w \<and>
     length (refresh_tokens (w_db w)) = 1 \<and> active ''f'' (refresh_tokens (w_db w)) \<le> 1"
proof -
  let ?w = "snd (loginUser 400000 id demo_hashpw demo_encode 60 7 ''j'' ''r'' ''f'' ''ann'' ''pw'' demo_world)"
  have step: "(auth_step id demo_hashpw demo_encode demo_decode 60 7 0 500000)\<^sup>*\<^sup>* demo_world ?w"
    by (intro r_into_rtranclp auth_step.login) (simp_all add: demo_world_def demo_db_def empty_db_def)
  have "length (refresh_tokens (w_db ?w)) = 1"
    by (simp add: loginUser_def user_by_username_def demo_world_def demo_db_def demo_user_def
        verifyPassword_def demo_hashpw_def insert_refresh_token_def create_refresh_token_def
        empty_db_def Let_def)
  moreover have "active ''f'' (refresh_tokens (w_db ?w)) \<le> 1"
    using auth_reachable_safe [OF step _ _ _ _ _ demo_decode_encode] demo_db_ok
    by (simp add: demo_world_def demo_db_def empty_db_def)
  ultimately show ?thesis using step by blast
qed

text \<open>C8: Reuse detection: presenting a revoked refresh token outside its grace window is answered 401, revokes
  every token of its family and no token of another one; from then on no token of that family can be
  exchanged for a new pair: it is answered 401 again, or, when it had itself been rotated less than sixty
  seconds ago and is still in its grace window, with the very pair of that rotation and no change.\<close>

theorem refresh_reuse_revokes_family:
  assumes "find (\<lambda>t. t_token t = sha old) (refresh_tokens (w_db w)) = Some row"
    and "t_revoked row" "grace_lookup (sha old) w = None"
  shows "let (res, w') = rotate_refresh_token sha encode em ed raw jti old w in
    res = Http 401 reuse_detected \<and> active (t_family_id row) (refresh_tokens (w_db w')) = 0 \<and>
    filter (\<lambda>t. t_family_id t \<noteq> t_family_id row) (refresh_tokens (w_db w')) =
      filter (\<lambda>t. t_family_id t \<noteq> t_family_id row) (refresh_tokens (w_db w)) \<and>
    (\<forall>other row' raw' jti'. find (\<lambda>t. t_token t = sha other) (refresh_tokens (w_db w')) = Some row' \<and>
       t_family_id row' = t_family_id row \<longrightarrow>
       (case grace_lookup (sha other) w' of
          None \<Rightarrow> fst (rotate_refresh_token sha encode em ed raw' jti' other w') = Http 401 reuse_detected
        | Some pair \<Rightarrow> rotate_refresh_token sha encode em ed raw' jti' other w' = (Return pair, w')))"
proof -
  let ?w' = "w\<lparr>w_db := revoke_family (t_family_id row) (w_db w)\<rparr>"
  let ?ts = "update_where (\<lambda>t. t_family_id t = t_family_id row) (t_revoked_update (\<lambda>_. True)) (refresh_tokens (w_db w))"
  have rot: "rotate_refresh_token sha encode em ed raw jti old w = (Http 401 reuse_detected, ?w')"
    using assms by (simp add: rotate_refresh_token_def)
  have ts: "refresh_tokens (w_db ?w') = ?ts" by (simp add: revoke_family_def)
  have none: "active (t_family_id row) ?ts = 0" by (rule active_revoked_family)
  have others: "filter (\<lambda>t. t_family_id t \<noteq> f) (update_where (\<lambda>t. t_family_id t = f) (t_revoked_update (\<lambda>_. True)) xs) =
      filter (\<lambda>t. t_family_id t \<noteq> f) xs" for f xs
    by (induction xs) auto
  have later: "case grace_lookup (sha other) ?w' of
      None \<Rightarrow> fst (rotate_refresh_token sha encode em ed raw' jti' other ?w') = Http 401 reuse_detected
    | Some pair \<Rightarrow> rotate_refresh_token sha encode em ed raw' jti' other ?w' = (Return pair, ?w')"
    if "find (\<lambda>t. t_token t = sha other) ?ts = Some row'" "t_family_id row' = t_family_id row"
    for other row' raw' jti'
  proof -
    have "row' \<in> set ?ts" using that(1) by (auto dest: find_SomeD)
    then have "t_revoked row'" using none that(2) by (auto simp: active_def cnt_zero_iff)
    then show ?thesis using that ts by (simp add: rotate_refresh_token_def split: option.split)
  qed
  show ?thesis
    unfolding rot Let_def prod.case ts
    by (intro conjI allI impI, rule refl, rule none, rule others, elim conjE, rule later)
qed

definition demo_token :: "string \<Rightarrow> bool \<Rightarrow> refresh_token" where
  "demo_token t r = \<lparr>t_token = t, t_user_id = 1, t_family_id = ''f'', t_revoked = r, t_expires_at = 9000000, t_created_at = 0\<rparr>"

definition demo_tokens_world :: world where
  "demo_tokens_world = demo_world\<lparr>w_db := set_refresh_tokens [demo_token ''a'' True, demo_token ''b'' False] demo_db\<rparr>"

lemma refresh_reuse_revokes_family_witness:
  "active ''f'' (refresh_tokens (w_db (snd
     (rotate_refresh_token id demo_encode 60 7 ''c'' ''j'' ''a'' demo_tokens_world)))) = 0"
  using refresh_reuse_revokes_family [of id "''a''" demo_tokens_world "demo_token ''a'' True" demo_encode 60 7 "''c''" "''j''"]
  by (simp add: demo_tokens_world_def demo_token_def demo_world_def grace_lookup_def r_get_def
      split_def Let_def)

text \<open>C38: A client that repeats a successful rotation because it lost the answer, with Redis reachable and nothing else
  changed meanwhile: for sixty seconds it gets the very pair of tokens of that rotation back and nothing changes; after
  that the same request counts as reuse, is answered 401 and revokes the family.\<close>

theorem refresh_retry_grace:
  assumes "rotate_refresh_token sha encode em ed raw jti old w = (Return (a, r), w')"
    and "find (\<lambda>t. t_token t = sha old) (refresh_tokens (w_db w)) = Some row" "\<not> t_revoked row"
    and "r_up (w_redis w)" "w_db v = w_db w'" "w_redis v = w_redis w'"
  shows "rotate_refresh_token sha encode em ed raw' jti' old v =
    (if now_ms v < now_ms w + 60000 then (Return (a, r), v)
     else (Http 401 reuse_detected, v\<lparr>w_db := revoke_family (t_family_id row) (w_db v)\<rparr>))"
proof -
  note succ = rotate_success [OF assms(1-3)]
  let ?f = "t_revoked_update (\<lambda>_. True)"
  have "find (\<lambda>t. t_token t = sha old) (xs @ ys) = Some x"
    if "find (\<lambda>t. t_token t = sha old) xs = Some x" for xs ys and x :: refresh_token
    using that by (induction xs) auto
  moreover have "find (\<lambda>t. t_token t = sha old) (update_where (\<lambda>t. t_token t = sha old) ?f (refresh_tokens (w_db w))) =
      Some (?f row)"
    using assms(2) find_SomeD [OF assms(2)] by (simp add: find_update_where)
  ultimately have found: "find (\<lambda>t. t_token t = sha old) (refresh_tokens (w_db v)) = Some (?f row)"
    by (simp add: assms(5) succ(1))
  have "grace_lookup (sha old) v = (if now_ms v < now_ms w + 60000 then Some (a, r) else None)"
    using assms(4,6) succ(2,3) by (simp add: grace_lookup_def grace_store_def live_def)
  then show ?thesis using found by (simp add: rotate_refresh_token_def)
qed

lemma refresh_retry_grace_witness:
  "let first = rotate_refresh_token id demo_encode 60 7 ''c'' ''j'' ''b'' demo_tokens_world
   in fst first = Return (''3601'', ''c'') \<and>
      rotate_refresh_token id demo_encode 60 7 ''d'' ''j2'' ''b'' (snd first) = first"
proof -
  let ?first = "rotate_refresh_token id demo_encode 60 7 ''c'' ''j'' ''b'' demo_tokens_world"
  have first: "fst ?first = Return (demo_encode \<lparr>cl_userId = Some 1, cl_userName = Some ''ann'',
      cl_expTime = Some 3601, cl_iat = 1, cl_jti = ''j''\<rparr>, ''c'')"
    by (simp add: rotate_refresh_token_def demo_tokens_world_def demo_token_def demo_world_def demo_db_def
        demo_user_def empty_db_def insert_refresh_token_def create_refresh_token_def user_by_id_def
        createAccessToken_def minutes_def now_s_def Let_def set_refresh_tokens_def revoke_where_def)
  have enc: "demo_encode \<lparr>cl_userId = Some 1, cl_userName = Some ''ann'',
      cl_expTime = Some 3601, cl_iat = 1, cl_jti = ''j''\<rparr> = ''3601''"
    by code_simp
  have now: "w_now (snd ?first) = w_now demo_tokens_world"
    using rotate_success(5) [of id demo_encode 60 7 "''c''" "''j''" "''b''" demo_tokens_world "''3601''" "''c''" "snd ?first"
        "demo_token ''b'' False"] first enc
    by (simp add: prod_eq_iff demo_tokens_world_def demo_token_def)
  have "rotate_refresh_token id demo_encode 60 7 ''d'' ''j2'' ''b'' (snd ?first) = (Return (''3601'', ''c''), snd ?first)"
    using refresh_retry_grace [of id demo_encode 60 7 "''c''" "''j''" "''b''" demo_tokens_world "''3601''" "''c''"
        "snd ?first" "demo_token ''b'' False" "snd ?first"] first enc now
    by (simp add: prod_eq_iff demo_tokens_world_def demo_token_def demo_world_def now_ms_def)
  then show ?thesis using first enc by (simp add: Let_def prod_eq_iff)
qed

subsection \<open>Flows\<close>

lemma find_id_updated:
  assumes "find (\<lambda>u. Q u) us = Some u" "\<And>x. Q (g x) = Q x" "P u"
  shows "find Q (update_where P g us) = Some (g u)"
  using assms by (simp add: find_update_where)

lemma login_success:
  assumes "user_by_username un (w_db w) = Some u" "verifyPassword hashpw pw (u_password u)"
    and "u_email_verified u" "sha raw \<notin> set (map t_token (refresh_tokens (w_db w)))"
  shows "fst (loginUser lag sha hashpw encode em ed jti raw family un pw w) =
    Return (token_model u (createAccessToken encode em jti (u_id u) (u_username u) w) raw)"
proof -
  have "u_id u \<in> set (map u_id (users (w_db w)))"
    using assms(1) by (auto simp: user_by_username_def dest: find_SomeD)
  then show ?thesis
    using assms by (simp add: loginUser_def insert_refresh_token_def create_refresh_token_def Let_def)
qed

text \<open>C18: The forgotten-password flow works end to end: after \<open>POST /password/forgot\<close> for the address of a verified
  account, the code that was mailed resets the password at any time in the next five minutes, and the
  account can then log in with the new password.\<close>

theorem password_reset_roundtrip:
  assumes "db_ok (w_db w)" "user_by_email e (w_db w) = Some u" "u_email_verified u"
    and "w_db v = w_db (snd (forgot_password sha tz drawn e w))"
    and "w_now w \<le> w_now v" "w_now v \<le> w_now w + minutes 5" "commits 1 = Committed"
    and law: "hashpw (take 72 new) (hashpw (take 72 new) salt) = hashpw (take 72 new) salt"
    and "sha raw \<notin> set (map t_token (refresh_tokens (w_db w)))"
  shows "send_otp_email e (generateOtp drawn) \<in> set (w_tasks (snd (forgot_password sha tz drawn e w))) \<and>
    (let (res, v') = reset_password sha hashpw tz salt commits e (generateOtp drawn) new v in
     res = Return (message_body ''Password has been reset successfully.'') \<and>
     is_Return (fst (loginUser lag sha hashpw encode em ed jti raw family (u_username u) new v')))"
proof -
  let ?otp = "generateOtp drawn" and ?set = "u_password_update (\<lambda>_. hashPassword hashpw salt new)"
  have sent: "snd (forgot_password sha tz drawn e w) = enqueue (send_otp_email e ?otp) (saveOtp sha tz e ?otp 5 w)"
    using assms(2) by (simp add: forgot_password_def Let_def)
  have saved: "w_db v = w_db (saveOtp sha tz e ?otp 5 w)" using assms(4) sent by simp
  obtain ok v1 where check: "checkOtp sha tz e ?otp v = (ok, v1)" by fastforce
  have ok: "ok" and v1: "users (w_db v1) = users (w_db w)" "refresh_tokens (w_db v1) = refresh_tokens (w_db w)"
    using check saved assms(6) otp_after_save [of e sha tz ?otp 5 w] otp_calls_frame(5-8)
    by (auto simp: checkOtp_def local_now_def split: if_splits)
  have u: "u \<in> set (users (w_db w))" "u_email u = Some e"
    using assms(2) by (auto simp: user_by_email_def dest: find_SomeD)
  have lock: "lock_user_row None (Some e) (w_db v1) = Return u"
    using assms(2) v1 by (simp add: lock_user_row_def user_by_email_def)
  let ?v' = "v1\<lparr>w_db := orm_update_user (u_id u) ?set (w_db v1)\<rparr>"
  have reset: "reset_password sha hashpw tz salt commits e ?otp new v =
      (Return (message_body ''Password has been reset successfully.''), ?v')"
    using check ok lock assms(7)
    by (simp add: reset_password_def run_with_transient_retry_def commit_user_def numeral_3_eq_3)
  have "distinct (map u_username (users (w_db w)))" using assms(1) by (simp add: db_defs)
  then have "find (\<lambda>x. u_username x = u_username u) (users (w_db v1)) = Some u"
    using u v1 by (simp add: find_key_unique)
  then have found: "user_by_username (u_username u) (w_db ?v') = Some (u_version_id_update (\<lambda>n. n + 1) (?set u))"
    unfolding user_by_username_def orm_update_user_def by (simp add: find_update_where)
  have "is_Return (fst (loginUser lag sha hashpw encode em ed jti raw family (u_username u) new ?v'))"
    by (subst login_success [OF found])
      (use assms(3,9) law v1 in \<open>simp_all add: verifyPassword_def hashPassword_def\<close>)
  then show ?thesis using reset sent by simp
qed

lemma password_reset_roundtrip_witness:
  "fst (reset_password id demo_hashpw 0 ''s'' (\<lambda>_. Committed) ''a@x'' (generateOtp 123456) ''new''
     (snd (forgot_password id 0 123456 ''a@x'' demo_world))) =
   Return (message_body ''Password has been reset successfully.'')"
proof -
  have "user_by_email ''a@x'' (w_db demo_world) = Some demo_user"
    by (simp add: user_by_email_def demo_world_def demo_db_def demo_user_def)
  moreover have "w_now (snd (forgot_password id 0 123456 ''a@x'' demo_world)) = w_now demo_world"
    by (simp add: forgot_password_def Let_def split: option.split)
  ultimately show ?thesis
    using password_reset_roundtrip [of demo_world "''a@x''" demo_user
        "snd (forgot_password id 0 123456 ''a@x'' demo_world)" id 0 123456 "\<lambda>_. Committed" demo_hashpw "''new''" "''s''"
        "''r''" 0 demo_encode 60 7 "''j''" "''f''"] demo_db_ok
    by (simp add: demo_world_def demo_user_def minutes_def demo_hashpw_def split_def Let_def demo_db_def empty_db_def)
qed

text \<open>C20: Logging out ends the session: with Redis up, the access token is refused from then on until the last whole
  second of its lifetime is reached, even if its principal had been cached, and every refresh token of
  the user is revoked.\<close>

theorem logout_ends_session:
  assumes "decodeToken decode token w = Some c" "cl_expTime c = Some e" "cl_userId c = Some i" "i \<noteq> 0" "e \<noteq> 0"
    and "r_up (w_redis w)" "w_redis v = w_redis (snd (logout decode token w))"
    and "now_ms v < now_ms w + (seconds e - w_now w) div 1000000 * 1000" "w_now w \<le> w_now v"
  shows "fst (logout decode token w) = Return (message_body ''Successfully logged out'') \<and>
    getCurrentUser decode m token v = (Http 401 credentials_message, v) \<and>
    list_all (\<lambda>t. t_user_id t = i \<longrightarrow> t_revoked t) (refresh_tokens (w_db (snd (logout decode token w))))"
proof -
  have "now_ms w \<le> now_ms v" using assms(9) by (simp add: now_ms_def zdiv_mono1)
  then have pos: "0 < (seconds e - w_now w) div 1000000" using assms(8) by simp
  then have rem: "0 < seconds e - w_now w" by (simp add: pos_imp_zdiv_pos_iff)
  have redis: "w_redis v = add_to_blacklist (now_ms w) token ((seconds e - w_now w) div 1000000)
      (delete_cache (auth_key token) (w_redis w))"
    using assms rem by (simp add: logout_def Let_def)
  have "get_auth_cache_and_blacklist (now_ms v) token (w_redis v) = (True, None)"
    using assms(6,8) pos
    by (simp add: redis add_to_blacklist_def get_auth_cache_and_blacklist_def live_def)
  moreover have "list_all (\<lambda>t. t_user_id t = i \<longrightarrow> t_revoked t)
      (update_where (\<lambda>t. t_user_id t = i) (t_revoked_update (\<lambda>_. True)) ts)" for ts
    by (induction ts) auto
  ultimately show ?thesis
    using assms(1-4)
    by (simp add: getCurrentUser_def getCurrentUser_within_def logout_def Let_def revoke_all_user_tokens_def)
qed

lemma logout_ends_session_witness:
  "getCurrentUser demo_decode 60 ''3600'' ((snd (logout demo_decode ''3600'' demo_world))\<lparr>w_now := 1000000000\<rparr>) =
   (Http 401 credentials_message, (snd (logout demo_decode ''3600'' demo_world))\<lparr>w_now := 1000000000\<rparr>)"
proof -
  let ?c = "\<lparr>cl_userId = Some 1, cl_userName = Some ''ann'', cl_expTime = Some 3600, cl_iat = 0, cl_jti = []\<rparr>"
  have "demo_decode ''3600'' = Some ?c"
    by (simp add: demo_decode_def val_digits_def undigit_def)
  then have "decodeToken demo_decode ''3600'' demo_world = Some ?c"
    by (simp add: decodeToken_def demo_world_def seconds_def)
  then show ?thesis
    using logout_ends_session [of demo_decode "''3600''" demo_world ?c 3600 1
        "(snd (logout demo_decode ''3600'' demo_world))\<lparr>w_now := 1000000000\<rparr>" 60]
    by (simp add: demo_world_def now_ms_def seconds_def)
qed

text \<open>A serialisation failure at the commit of an e-mail verification loses the code: the valid OTP was already
  deleted and committed by the failed attempt, so the automatic retry answers 400 and the address
  stays unverified.\<close>

theorem verify_email_retry_loses_otp:
  assumes "lock_user_row None (Some e) (w_db w) = Return u" "\<not> u_email_verified u"
    and "checkOtp sha tz e otp w = (True, w1)" "commits 1 = OpError (Some ''40001'')"
  shows "verify_email sha tz commits e otp w = (Http 400 ''Invalid or expired OTP'', w1) \<and>
    (\<forall>otp'. \<not> fst (checkOtp sha tz e otp' w1)) \<and> users (w_db w1) = users (w_db w)"
proof -
  have w1: "w1 = w\<lparr>w_db := delete_otps (\<lambda>r. o_email r = e) (w_db w)\<rparr>"
    using assms(3) by (auto simp: checkOtp_def split: option.splits if_splits)
  have gone: "checkOtp sha tz e otp' w1 = (False, w1)" for otp'
    by (simp add: checkOtp_def w1 find_none_deleted)
  have lock: "lock_user_row None (Some e) (w_db w1) = Return u"
    using assms(1) by (simp add: w1 lock_user_row_def)
  show ?thesis
    using assms gone lock w1
    by (simp add: verify_email_def run_with_transient_retry_def numeral_3_eq_3 commit_user_def
        is_transient_code_def TRANSIENT_PG_CODES_def)
qed

definition unverified_world :: world where
  "unverified_world = saveOtp id 0 ''a@x'' ''123456'' 5
     (demo_world\<lparr>w_db := demo_db\<lparr>users := [demo_user\<lparr>u_email_verified := False\<rparr>]\<rparr>\<rparr>)"

lemma verify_email_retry_loses_otp_witness:
  "fst (verify_email id 0 (\<lambda>a. if a = 1 then OpError (Some ''40001'') else Committed) ''a@x'' ''123456''
     unverified_world) = Http 400 ''Invalid or expired OTP''"
proof -
  have "lock_user_row None (Some ''a@x'') (w_db unverified_world) = Return (demo_user\<lparr>u_email_verified := False\<rparr>)"
    by (simp add: lock_user_row_def unverified_world_def saveOtp_def demo_world_def demo_db_def demo_user_def Let_def)
  moreover have "fst (checkOtp id 0 ''a@x'' ''123456'' unverified_world)"
    by (simp add: unverified_world_def checkOtp_def saveOtp_def demo_world_def demo_db_def demo_user_def Let_def
        local_now_def minutes_def empty_db_def)
  ultimately show ?thesis
    using verify_email_retry_loses_otp [of "''a@x''" unverified_world "demo_user\<lparr>u_email_verified := False\<rparr>" id 0
        "''123456''" "snd (checkOtp id 0 ''a@x'' ''123456'' unverified_world)"
        "\<lambda>a. if a = 1 then OpError (Some ''40001'') else Committed"]
    by (simp add: prod_eq_iff)
qed

subsection \<open>Authenticated password change\<close>

lemma verifyOtp_ok:
  assumes "verifyOtp sha tz otp e v = (Return (), v')"
  obtains x where "e = Some x" "checkOtp sha tz x otp v = (True, v')"
  using assms by (auto simp: verifyOtp_def split: option.splits prod.splits bool.splits)

lemma checkOtp_consumes:
  assumes "checkOtp sha tz x otp v = (True, v')"
  shows "checkOtp sha tz x otp' v' = (False, v')" "users (w_db v') = users (w_db v)"
proof -
  have "v' = v\<lparr>w_db := delete_otps (\<lambda>r. o_email r = x) (w_db v)\<rparr>"
    using assms by (auto simp: checkOtp_def split: option.splits if_splits)
  then show "checkOtp sha tz x otp' v' = (False, v')" "users (w_db v') = users (w_db v)"
    by (simp_all add: checkOtp_def find_none_deleted)
qed

lemma reset_attempt_cases:
  assumes "reset_attempt sha hashpw tz salt commits i old otp new a v = (res, v')"
    and "is_Return res \<or> (\<exists>c. res = Raise (OperationalError c))"
  obtains u x v1 where "user_by_id i (w_db v) = Some u" "verifyPassword hashpw old (u_password u)"
    "u_email u = Some x" "checkOtp sha tz x otp v = (True, v1)"
    "(res, v') = commit_user (commits a) password_conflict
       (message_body ''Password changed successfully! Now login with new one.'') (u_id u)
       (u_password_update (\<lambda>_. hashPassword hashpw salt new)) v1"
proof (cases "user_by_id i (w_db v)")
  case None
  then show thesis using assms by (auto simp: reset_attempt_def)
next
  case (Some u)
  show thesis
  proof (cases "verifyPassword hashpw old (u_password u)")
    case False
    with Some show thesis using assms by (auto simp: reset_attempt_def)
  next
    case True
    obtain r v1 where ver: "verifyOtp sha tz otp (u_email u) v = (r, v1)" by fastforce
    then have "r = Return () \<or> (\<exists>m. r = Http 400 m)"
      by (auto simp: verifyOtp_def split: option.splits prod.splits bool.splits)
    with Some True ver assms have r: "r = Return ()"
      and res: "(res, v') = commit_user (commits a) password_conflict
       (message_body ''Password changed successfully! Now login with new one.'') (u_id u)
       (u_password_update (\<lambda>_. hashPassword hashpw salt new)) v1"
      by (auto simp: reset_attempt_def)
    from ver r obtain x where "u_email u = Some x" "checkOtp sha tz x otp v = (True, v1)"
      by (auto elim: verifyOtp_ok)
    with Some True res show thesis using that by blast
  qed
qed

lemma reset_attempt_after_failure:
  assumes "reset_attempt sha hashpw tz salt commits i old otp new a v = (Raise (OperationalError c), v')"
  shows "fst (reset_attempt sha hashpw tz salt commits i old otp new a' v') = Http 400 ''Wrong or expired OTP''"
proof -
  have oper: "is_Return (Raise (OperationalError c) :: json outcome) \<or>
      (\<exists>d. (Raise (OperationalError c) :: json outcome) = Raise (OperationalError d))"
    by simp
  from reset_attempt_cases [OF assms oper] obtain u x v1 where
    *: "user_by_id i (w_db v) = Some u" "verifyPassword hashpw old (u_password u)"
    "u_email u = Some x" "checkOtp sha tz x otp v = (True, v1)"
    "(Raise (OperationalError c), v') = commit_user (commits a) password_conflict
       (message_body ''Password changed successfully! Now login with new one.'') (u_id u)
       (u_password_update (\<lambda>_. hashPassword hashpw salt new)) v1" by blast
  then have "v' = v1" by (simp add: commit_user_def split: commit.splits)
  then show ?thesis
    using * checkOtp_consumes [OF *(4)]
    by (simp add: reset_attempt_def verifyOtp_def user_by_id_def)
qed

lemma reset_run_returns:
  assumes "run_with_transient_retry (reset_attempt sha hashpw tz salt commits i old otp new) 3 w = (Return msg, w')"
  shows "reset_attempt sha hashpw tz salt commits i old otp new 1 w = (Return msg, w')"
proof -
  let ?op = "reset_attempt sha hashpw tz salt commits i old otp new"
  obtain r v where first: "?op 1 w = (r, v)" by fastforce
  show ?thesis
  proof (cases "transient r")
    case True
    then obtain c where "r = Raise (OperationalError c)" by (cases r rule: transient.cases) auto
    then have "fst (?op 2 v) = Http 400 ''Wrong or expired OTP''"
      using reset_attempt_after_failure first by blast
    then show ?thesis
      using assms first True
      by (cases "?op 2 v") (simp add: run_with_transient_retry_def numeral_3_eq_3 numeral_2_eq_2)
  next
    case False
    then show ?thesis
      using assms first by (simp add: run_with_transient_retry_def numeral_3_eq_3)
  qed
qed

text \<open>An authenticated password change succeeds only with the current password and a valid OTP for the
  account's own address; it then stores the hash of the new password on that account alone, revokes
  all its refresh tokens and drops the cached principal of the session.\<close>

theorem reset_authenticated_effect:
  assumes "reset_password_authenticated sha hashpw tz salt commits p token old otp new w = (Return msg, w')"
  shows "\<exists>u x. user_by_id (pr_id p) (w_db w) = Some u \<and> verifyPassword hashpw old (u_password u) \<and>
    u_email u = Some x \<and> fst (checkOtp sha tz x otp w) \<and>
    users (w_db w') = update_where (\<lambda>y. u_id y = u_id u)
      (\<lambda>y. y\<lparr>u_password := hashPassword hashpw salt new, u_version_id := u_version_id y + 1\<rparr>) (users (w_db w)) \<and>
    list_all (\<lambda>t. t_user_id t = pr_id p \<longrightarrow> t_revoked t) (refresh_tokens (w_db w')) \<and>
    get_cache (now_ms w') (auth_key token) (w_redis w') = None"
proof -
  obtain v where run: "run_with_transient_retry (reset_attempt sha hashpw tz salt commits (pr_id p) old otp new) 3 w =
      (Return msg, v)"
    and w': "w' = v\<lparr>w_redis := delete_cache (auth_key token) (w_redis v),
                   w_db := revoke_all_user_tokens (pr_id p) (w_db v)\<rparr>"
    using assms unfolding reset_password_authenticated_def by (auto split: prod.splits outcome.splits)
  note att = reset_run_returns [OF run]
  have "is_Return (Return msg) \<or> (\<exists>c. (Return msg :: json outcome) = Raise (OperationalError c))" by simp
  from reset_attempt_cases [OF att this] obtain u x v1 where
    *: "user_by_id (pr_id p) (w_db w) = Some u" "verifyPassword hashpw old (u_password u)"
    "u_email u = Some x" "checkOtp sha tz x otp w = (True, v1)"
    "(Return msg, v) = commit_user (commits 1) password_conflict
       (message_body ''Password changed successfully! Now login with new one.'') (u_id u)
       (u_password_update (\<lambda>_. hashPassword hashpw salt new)) v1" by blast
  have v: "v = v1\<lparr>w_db := orm_update_user (u_id u) (u_password_update (\<lambda>_. hashPassword hashpw salt new)) (w_db v1)\<rparr>"
    using *(5) by (simp add: commit_user_def split: commit.splits)
  have revoked: "list_all (\<lambda>t. t_user_id t = i \<longrightarrow> t_revoked t)
      (update_where (\<lambda>t. t_user_id t = i) (t_revoked_update (\<lambda>_. True)) ts)" for ts i
    by (induction ts) auto
  have bump: "u_version_id_update (\<lambda>n. n + 1) (y\<lparr>u_password := h\<rparr>) =
      y\<lparr>u_password := h, u_version_id := u_version_id y + 1\<rparr>" for y h
    by (cases y) simp
  show ?thesis
    using *(1-4) checkOtp_consumes(2) [OF *(4)]
    by (intro exI [of _ u] exI [of _ x])
      (simp add: w' v orm_update_user_def revoke_all_user_tokens_def get_cache_after_delete revoked bump)
qed

lemma reset_authenticated_effect_witness:
  "\<exists>w'. reset_password_authenticated id demo_hashpw 0 ''s'' (\<lambda>_. Committed) (principal_of_user demo_user)
      ''tok'' ''pw'' ''123456'' ''new'' (saveOtp id 0 ''a@x'' ''123456'' 2 demo_world) =
     (Return (message_body ''Password changed successfully! Now login with new one.''), w') \<and>
     map u_password (users (w_db w')) = [''h:new'']"
proof -
  let ?w = "saveOtp id 0 ''a@x'' ''123456'' 2 demo_world"
  let ?r = "reset_password_authenticated id demo_hashpw 0 ''s'' (\<lambda>_. Committed) (principal_of_user demo_user)
      ''tok'' ''pw'' ''123456'' ''new'' ?w"
  obtain w1 where otp: "checkOtp id 0 ''a@x'' ''123456'' ?w = (True, w1)"
    using otp_after_save [of "''a@x''" id 0 "''123456''" 2 demo_world]
    by (simp add: checkOtp_def local_now_def minutes_def)
  have "user_by_id 1 (w_db ?w) = Some demo_user"
    by (simp add: user_by_id_def demo_world_def demo_db_def demo_user_def)
  then have res: "fst ?r = Return (message_body ''Password changed successfully! Now login with new one.'')"
    using otp by (simp add: reset_password_authenticated_def run_with_transient_retry_def numeral_3_eq_3
        reset_attempt_def principal_of_user_def demo_user_def verifyPassword_def demo_hashpw_def
        verifyOtp_def commit_user_def)
  from reset_authenticated_effect [OF prod_eqI [of ?r "(_, snd ?r)", simplified fst_conv snd_conv, OF res refl]]
  show ?thesis
    by (intro exI [of _ "snd ?r"] conjI)
      (use res in \<open>auto simp: prod_eq_iff user_by_id_def demo_world_def demo_db_def demo_user_def
        principal_of_user_def hashPassword_def demo_hashpw_def split: if_splits\<close>)
qed

end
