(* ===== verification/Profiles_Properties.thy ===== *)
theory Profiles_Properties
  imports Profiles Connections_Properties Auth_Properties "HOL-Library.Sublist"
begin

text \<open>
  Correctness of \<open>Profiles\<close>: the invariant (usernames stay unique when they change), what a profile
  shows, the blobs of a profile update, registration followed by verification and login, and the
  meaning of a search.
\<close>

section \<open>The invariant\<close>

lemma distinct_rename:
  assumes "distinct (map key xs)" "distinct (map nm xs)"
    and "\<And>x. x \<in> set xs \<Longrightarrow> key x \<noteq> i \<Longrightarrow> nm x \<noteq> n" "\<And>x. nm (g x) = n \<or> nm (g x) = nm x"
  shows "distinct (map nm (update_where (\<lambda>x. key x = i) g xs))"
  using assms(1-3)
proof (induction xs)
  case Nil
  then show ?case by simp
next
  case (Cons x xs)
  then have IH: "distinct (map nm (update_where (\<lambda>x. key x = i) g xs))" by simp
  show ?case
  proof (cases "key x = i")
    case True
    then have i: "i \<notin> key ` set xs" using Cons.prems(1) by auto
    then have "update_where (\<lambda>x. key x = i) g xs = xs"
      by (intro update_where_none) blast
    moreover have "nm y \<noteq> nm (g x)" if "y \<in> set xs" for y
    proof -
      have "nm x \<notin> nm ` set xs" using Cons.prems(2) by simp
      then have "key y \<noteq> i" "nm y \<noteq> nm x" using i that by (metis image_eqI)+
      then show ?thesis using Cons.prems(3) [of y] that assms(4) [of x] by auto
    qed
    ultimately show ?thesis using True Cons.prems(2) by force
  next
    case False
    have "nm y \<noteq> nm x" if y: "y \<in> set (update_where (\<lambda>x. key x = i) g xs)" for y
    proof -
      obtain r where r: "r \<in> set xs" "y = (if key r = i then g r else r)"
        using y unfolding set_update_where by fast
      have "nm x \<notin> nm ` set xs" using Cons.prems(2) by simp
      then have "nm r \<noteq> nm x" using r(1) by (metis image_eqI)
      then show ?thesis using r assms(4) [of r] Cons.prems(3) [of x] False by auto
    qed
    then show ?thesis using False IH by force
  qed
qed

lemma edit_profile_frame [simp]:
  "u_id (edit_profile n b m u) = u_id u" "u_followers_cnt (edit_profile n b m u) = u_followers_cnt u"
  "u_following_cnt (edit_profile n b m u) = u_following_cnt u"
  "u_username (edit_profile n b m u) = (if given n then the n else u_username u)"
  by (simp_all add: edit_profile_def Let_def)

lemma edit_profile_ok:
  assumes "db_ok d" "given n \<Longrightarrow> \<not> list_ex (\<lambda>x. u_username x = the n \<and> u_id x \<noteq> i) (users d)"
  shows "db_ok (orm_update_user i (edit_profile n b m) d)"
proof -
  let ?g = "\<lambda>u. u_version_id_update (\<lambda>k. k + 1) (edit_profile n b m u)"
  have "distinct (map u_username (update_where (\<lambda>u. u_id u = i) ?g (users d)))"
  proof (cases "given n")
    case True
    with assms show ?thesis
      by (intro distinct_rename [where n = "the n"]) (auto simp: db_defs ids_ok_def list_ex_iff)
  next
    case False
    then show ?thesis using assms(1) by (simp add: map_update_where db_defs)
  qed
  then show ?thesis
    using assms(1) by (simp add: orm_update_user_def db_defs map_update_where counts_match_frame
        following_of_def follower_of_def)
qed

lemma store_picture_db [simp]: "w_db (snd (store_picture account mb uuid m w)) = w_db w"
  by (simp add: store_picture_def split: option.split outcome.split prod.split)

lemma drop_upload_frame [simp]:
  "w_db (drop_upload account n v) = w_db v" "w_redis (drop_upload account n v) = w_redis v"
  by (simp_all add: drop_upload_def split: option.split)

lemma commit_profile_ok:
  "db_ok (w_db v) \<Longrightarrow> (given n \<Longrightarrow> \<not> list_ex (\<lambda>x. u_username x = the n \<and> u_id x \<noteq> u_id u) (users (w_db v))) \<Longrightarrow>
   db_ok (w_db (snd (commit_profile account res n b m u v)))"
  by (auto simp: commit_profile_def Let_def edit_profile_ok split: profile_commit.split)

lemma profile_attempt_ok:
  assumes "db_ok (w_db v)"
  shows "db_ok (w_db (snd (profile_attempt account mb uuids commits i n b picture a v)))"
proof (cases "store_picture account mb (uuids a) picture v")
  case (Pair r v1)
  then have v1: "w_db v1 = w_db v"
    using store_picture_db [of account mb "uuids a" picture v] by simp
  show ?thesis
    using assms
    by (cases r) (auto simp: profile_attempt_def Pair v1 split: option.split intro!: commit_profile_ok)
qed

lemma update_profile_ok:
  assumes "db_ok (w_db w)"
  shows "db_ok (w_db (snd (update_current_user_profile account mb uuids commits n b picture cu token w)))"
proof -
  have "db_ok (w_db (snd (run_with_transient_retry
      (profile_attempt account mb uuids commits (pr_id cu) n b picture) 3 w)))"
    using retry_invariant [of "\<lambda>w. db_ok (w_db w)"] assms profile_attempt_ok by blast
  then show ?thesis
    using assms by (auto simp: update_current_user_profile_def split: prod.split outcome.split)
qed

lemma remove_picture_ok: "db_ok (w_db v) \<Longrightarrow> db_ok (w_db (snd (remove_picture commits i a v)))"
  by (auto simp: remove_picture_def orm_update_user_ok split: option.split commit.split)

lemma delete_profile_picture_ok:
  assumes "db_ok (w_db w)"
  shows "db_ok (w_db (snd (delete_profile_picture account commits cu w)))"
proof -
  have "db_ok (w_db (snd (run_with_transient_retry (remove_picture commits (pr_id cu)) 3 w)))"
    using retry_invariant [of "\<lambda>w. db_ok (w_db w)"] assms remove_picture_ok by blast
  then show ?thesis
    using assms by (auto simp: delete_profile_picture_def split: prod.split outcome.split)
qed

lemma register_user_ok:
  assumes "db_ok (w_db w)"
  shows "db_ok (w_db (snd (register_user sha hashpw tz salt drawn n pw nick e w)))"
proof -
  have "db_ok d" if "insert_user (new_user n p nick e t) (w_db w) = Some d" for p t d
    using insert_user_ok [OF assms that] by (simp add: new_user_def)
  then show ?thesis
    using assms by (auto simp: register_user_def Let_def saveOtp_ok split: option.split)
qed

lemma profile_reads_db [simp]:
  "w_db (snd (get_user_profile i cu w)) = w_db w" "w_db (snd (get_user_avatar account i cu w)) = w_db w"
  "w_db (snd (list_users w)) = w_db w" "w_db (snd (cached_user_list key rows i w)) = w_db w"
  "w_db (snd (get_user_posts tie account i l k cu w)) = w_db w"
  by (auto simp: get_user_profile_def get_user_avatar_def list_users_def cached_user_list_def get_user_posts_def
      Let_def split: option.split json.split)

section \<open>What a profile shows\<close>

definition profile_db_view :: "int \<Rightarrow> principal \<Rightarrow> database \<Rightarrow> json outcome" where
  "profile_db_view i viewer d = (case user_by_id i d of
      None \<Rightarrow> Http 404 ''User not found''
    | Some u \<Rightarrow> Return (profile_json (u_id u) (u_username u) (u_nickname u) (bio_or_empty (u_bio u)) (u_profile_picture u)
        (posts_count i d) (u_followers_cnt u) (u_following_cnt u) (follows (pr_id viewer) i d) (u_created_at u)))"

lemma get_user_profile_miss:
  "get_cache (now_ms w) (user_profile_key i) (w_redis w) = None \<Longrightarrow>
   fst (get_user_profile i viewer w) = profile_db_view i viewer (w_db w)"
  by (simp add: get_user_profile_def profile_db_view_def Let_def split: option.split)

text \<open>The three writes on the graph of follows.\<close>

datatype graph_write = Follow int | Unfollow_user int | Remove_follower int

fun run_graph_write :: "graph_write \<Rightarrow> principal \<Rightarrow> string \<Rightarrow> world \<Rightarrow> json outcome \<times> world" where
  "run_graph_write (Follow i) cu token w = follow_user i cu token w"
| "run_graph_write (Unfollow_user i) cu token w = unfollow_user i cu token w"
| "run_graph_write (Remove_follower i) cu token w = remove_follower_endpoint (pr_id cu) i cu token w"

fun other_end :: "graph_write \<Rightarrow> int" where
  "other_end (Follow i) = i"
| "other_end (Unfollow_user i) = i"
| "other_end (Remove_follower i) = i"

lemma get_cache_delete: "get_cache now k (delete_cache k' r) = (if k = k' then None else get_cache now k r)"
  by (simp add: get_cache_delete_other get_cache_after_delete)

lemma profile_key_other [simp]:
  "user_profile_key i = user_profile_key j \<longleftrightarrow> i = j" "user_profile_key i \<noteq> ''feed:home:version''"
  by (simp_all add: user_profile_key_def)

lemma graph_write_invalidates:
  assumes "run_graph_write op cu token w = (Return body, w')" "i = pr_id cu \<or> i = other_end op"
  shows "get_cache now (user_profile_key i) (w_redis w') = None"
proof -
  have "u_id u = j" if "user_by_id j (w_db w) = Some u" for j u
    using that by (auto simp: user_by_id_def dest: find_SomeD)
  with assms show ?thesis
    by (cases op)
      (auto simp: follow_user_def unfollow_user_def remove_follower_endpoint_def drop_connection_caches_def
        get_cache_delete get_cache_delete_pattern get_cache_increment_version split: option.splits if_splits)
qed

text \<open>C35: After a successful follow, unfollow or follower removal, the profiles of both users are read from the
  database by every viewer at any later time, whatever was cached: they show the exact in- and out-degree in the
  graph of follows, and \<open>is_following\<close> as it is for that viewer.\<close>

theorem profile_fresh_after_follow:
  assumes "db_ok (w_db w)" "run_graph_write op cu token w = (Return body, w')"
    and "i = pr_id cu \<or> i = other_end op" "user_by_id i (w_db w') = Some u"
  shows "fst (get_user_profile i viewer (w'\<lparr>w_now := t\<rparr>)) =
      Return (profile_json i (u_username u) (u_nickname u) (bio_or_empty (u_bio u)) (u_profile_picture u)
        (posts_count i (w_db w')) (int (card {b. (b, i) \<in> edges (w_db w')})) (int (card {b. (i, b) \<in> edges (w_db w')}))
        ((pr_id viewer, i) \<in> edges (w_db w')) (u_created_at u))"
proof -
  have ok: "db_ok (w_db w')"
    using assms(1,2) follow_user_ok [OF assms(1)] unfollow_user_ok [OF assms(1)] remove_follower_ok [OF assms(1)]
    by (cases op) (auto dest: arg_cong [of _ _ snd] simp: prod_eq_iff)
  have u: "u \<in> set (users (w_db w'))" "u_id u = i"
    using assms(4) by (auto simp: user_by_id_def dest: find_SomeD)
  have "u_followers_cnt u = int (card {b. (b, i) \<in> edges (w_db w')})"
    "u_following_cnt u = int (card {b. (i, b) \<in> edges (w_db w')})"
    using degrees_exact [OF ok] u by (auto simp: degrees_shown_def list_all_iff)
  then show ?thesis
    using get_user_profile_miss [of "w'\<lparr>w_now := t\<rparr>" i viewer] graph_write_invalidates [OF assms(2,3)] assms(4) u
    by (simp add: profile_db_view_def follows_edge)
qed

theorem profile_fresh_after_follow_witness:
  "let (r, w') = follow_user 2 (sample_principal 1 ''ann'') ''tok'' sample_world in
   fst (get_user_profile 2 (sample_principal 1 ''ann'') (w'\<lparr>w_now := 9100000\<rparr>)) =
   Return (profile_json 2 ''bob'' None (Some []) None 0 1 1 True 1)"
proof -
  let ?ann = "sample_principal 1 ''ann''"
  obtain r w' where run: "follow_user 2 ?ann ''tok'' sample_world = (r, w')" by fastforce
  have r: "r = Return (follow_response (''Followed user bob'') (Some 1))" and
    db: "w_db w' = (w_db sample_world)\<lparr>connections := [\<lparr>k_followed_id = 1, k_follower_id = 2\<rparr>, \<lparr>k_followed_id = 2, k_follower_id = 1\<rparr>],
      users := [sample_user 1 ''ann'' 1 1, sample_user 2 ''bob'' 1 1]\<rparr>"
    using run by (auto simp: follow_user_def sample_defs sample_principal_def principal_of_user_def user_by_id_def
        follows_def insert_connection_def connection_key_def trigger_simps split: prod.splits)
  have e: "edges (w_db w') = {(2, 1), (1, 2)}"
    by (auto simp: db edges_def)
  have "db_ok (w_db sample_world)" using sample_db_ok by (simp add: sample_world_def)
  then have "fst (get_user_profile 2 ?ann (w'\<lparr>w_now := 9100000\<rparr>)) =
      Return (profile_json 2 ''bob'' None (bio_or_empty None) None (posts_count 2 (w_db w'))
        (int (card {b. (b, 2) \<in> edges (w_db w')})) (int (card {b. (2, b) \<in> edges (w_db w')}))
        ((pr_id ?ann, 2) \<in> edges (w_db w')) 1)"
    using profile_fresh_after_follow [of sample_world "Follow 2" ?ann "''tok''" _ w' 2 "sample_user 2 ''bob'' 1 1" ?ann 9100000]
      run r by (simp add: db user_by_id_def sample_user_def)
  then show ?thesis
    by (simp add: run e) (simp add: db sample_defs posts_count_def bio_or_empty_def sample_principal_def principal_of_user_def)
qed

section \<open>Pictures\<close>

lemma picture_name_safe:
  assumes "plain_name uuid"
  shows "slashed (picture_name uuid f) = picture_name uuid f" "\<not> traversal (picture_name uuid f)"
proof -
  have chars: "c \<noteq> CHR ''/'' \<and> c \<noteq> CHR 0x5C" if "c \<in> set (picture_name uuid f)" for c
    using that assms safe_extension_alnum [of c f] alnum_plain
    by (fastforce simp: picture_name_def Let_def plain_name_def list_all_iff split: if_splits)
  then show "slashed (picture_name uuid f) = picture_name uuid f"
    by (intro slashed_id) blast
  have "split_slash (picture_name uuid f) = [picture_name uuid f]"
    using chars by (intro split_slash_none) blast
  then show "\<not> traversal (picture_name uuid f)"
    by (simp add: traversal_def) (simp add: picture_name_def Let_def)
qed

lemma picture_blobs:
  assumes "plain_name uuid"
  shows "upload_blob account ''profilepics'' (picture_name uuid f) data b =
      (Return (get_blob_url account ''profilepics'' (picture_name uuid f)),
       AList.update (''profilepics'', picture_name uuid f) data b)"
    and "delete_blob account ''profilepics'' (picture_name uuid f) b = AList.delete (''profilepics'', picture_name uuid f) b"
  using picture_name_safe [OF assms, of f]
  by (simp_all add: upload_blob_def delete_blob_def container_to_local_path_def split: option.split)

lemma profile_attempt_stored:
  assumes "user_by_id i (w_db v) = Some u" "up_content_type m \<in> set picture_types"
    and "validate_and_read_file mb (up_data m) = Return bytes" "plain_name (uuids a)"
    and "given n \<Longrightarrow> \<not> list_ex (\<lambda>x. u_username x = the n \<and> u_id x \<noteq> u_id u) (users (w_db v))"
  shows "profile_attempt account mb uuids commits i n b (Some m) a v =
      commit_profile account (commits a) n b (Some (picture_name (uuids a) (up_filename m))) u
        (v\<lparr>w_blobs := AList.update (''profilepics'', picture_name (uuids a) (up_filename m)) bytes (w_blobs v)\<rparr>)"
  using assms by (auto simp: profile_attempt_def store_picture_def picture_blobs)

lemma retry_first:
  "\<not> transient (fst (operation 1 s)) \<Longrightarrow> run_with_transient_retry operation 3 s = operation 1 s"
  by (auto simp: run_with_transient_retry_def numeral_3_eq_3 split: prod.split)

lemma user_by_id_orm:
  assumes "user_by_id i d = Some u" "\<And>x. u_id (f x) = u_id x"
  shows "user_by_id i (orm_update_user i f d) = Some (u_version_id_update (\<lambda>k. k + 1) (f u))"
  using assms by (auto simp: user_by_id_def orm_update_user_def find_update_where dest: find_SomeD)

text \<open>A profile update is all or nothing, blobs included. When its commit succeeds the user has the new
  picture, the blob with the uploaded bytes is stored under the new name and the blob of the replaced picture
  is gone; when the commit reports a taken username or a concurrent update the request fails, the database is as
  before and the upload is deleted again, so every other blob is as before too.\<close>

theorem profile_update_blobs:
  assumes "user_by_id (pr_id cu) (w_db w) = Some u" "u_profile_picture u = Some (picture_name old f)" "plain_name old"
    and "up_content_type m \<in> set picture_types" "validate_and_read_file mb (up_data m) = Return bytes"
    and "plain_name (uuids 1)" "picture_name (uuids 1) (up_filename m) \<noteq> picture_name old f"
    and "given n \<Longrightarrow> \<not> list_ex (\<lambda>x. u_username x = the n \<and> u_id x \<noteq> u_id u) (users (w_db w))"
  shows "let name = picture_name (uuids 1) (up_filename m);
      (answer, w') = update_current_user_profile account mb uuids commits n b (Some m) cu token w in
      case commits 1 of
        Saved \<Rightarrow> is_Return answer \<and>
          map_option u_profile_picture (user_by_id (pr_id cu) (w_db w')) = Some (Some name) \<and>
          map_of (w_blobs w') (''profilepics'', name) = Some bytes \<and>
          map_of (w_blobs w') (''profilepics'', picture_name old f) = None
      | Op_failed c \<Rightarrow> True
      | _ \<Rightarrow> \<not> is_Return answer \<and> w_db w' = w_db w \<and> map_of (w_blobs w') (''profilepics'', name) = None \<and>
          (\<forall>k. k \<noteq> (''profilepics'', name) \<longrightarrow> map_of (w_blobs w') k = map_of (w_blobs w) k)"
proof -
  let ?name = "picture_name (uuids 1) (up_filename m)"
  have u: "u_id u = pr_id cu"
    using assms(1) by (auto simp: user_by_id_def dest: find_SomeD)
  note attempt = profile_attempt_stored [of "pr_id cu" w u m mb bytes uuids 1 n account commits b,
      OF assms(1,4,5,6,8)]
  have picture: "u_profile_picture (edit_profile n b (Some ?name) x) = Some ?name" for x
    by (simp add: edit_profile_def Let_def)
  have given: "given (u_profile_picture u)"
    by (simp add: assms(2) given_def picture_name_def Let_def)
  let ?v = "w\<lparr>w_blobs := AList.update (''profilepics'', ?name) bytes (w_blobs w)\<rparr>"
  have run: "run_with_transient_retry (profile_attempt account mb uuids commits (pr_id cu) n b (Some m)) 3 w =
      commit_profile account (commits 1) n b (Some ?name) u ?v" if "\<forall>c. commits 1 \<noteq> Op_failed c"
    using that by (subst retry_first) (use that in \<open>simp_all add: attempt commit_profile_def Let_def del: One_nat_def split: profile_commit.split\<close>)
  show ?thesis
  proof (cases "commits 1")
    case Saved
    then show ?thesis
      using assms(1,2,7) u given picture
      by (simp add: update_current_user_profile_def run commit_profile_def Let_def drop_upload_def
          picture_blobs [OF assms(3)] update_conv delete_conv user_by_id_orm del: One_nat_def)
  next
    case Taken
    then show ?thesis
      by (simp add: update_current_user_profile_def run commit_profile_def Let_def drop_upload_def
          picture_blobs [OF assms(6)] update_conv delete_conv del: One_nat_def)
  next
    case Stale_profile
    then show ?thesis
      by (simp add: update_current_user_profile_def run commit_profile_def Let_def drop_upload_def
          picture_blobs [OF assms(6)] update_conv delete_conv del: One_nat_def)
  next
    case (Op_failed c)
    then show ?thesis by simp
  qed
qed

definition avatar_world :: world where
  "avatar_world = sample_world\<lparr>
     w_db := sample_db\<lparr>users := [(sample_user 1 ''ann'' 1 0)\<lparr>u_profile_picture := Some ''profile_0''\<rparr>, sample_user 2 ''bob'' 0 1]\<rparr>,
     w_blobs := [((''profilepics'', ''profile_0''), ''old'')]\<rparr>"

lemma avatar_names: "picture_name ''0'' None = ''profile_0''" "picture_name ''a'' (Some ''me'') = ''profile_a''"
    "picture_name ''b'' (Some ''me'') = ''profile_b''"
    "plain_name ''0''" "plain_name ''a''" "plain_name ''b''"
  by (simp_all add: picture_name_def safe_extension_def plain_name_def is_alnum_def)

theorem profile_update_blobs_witness:
  "let w' = snd (update_current_user_profile None 5 (\<lambda>_. ''a'') (\<lambda>_. Saved) None None
        (Some \<lparr>up_filename = Some ''me'', up_content_type = ''image/png'', up_data = ''new''\<rparr>)
        (sample_principal 1 ''ann'') ''tok'' avatar_world)
   in map_of (w_blobs w') (''profilepics'', ''profile_a'') = Some ''new'' \<and>
      map_of (w_blobs w') (''profilepics'', ''profile_0'') = None"
  using profile_update_blobs [of "sample_principal 1 ''ann''" avatar_world
      "(sample_user 1 ''ann'' 1 0)\<lparr>u_profile_picture := Some ''profile_0''\<rparr>" "''0''" None
      "\<lparr>up_filename = Some ''me'', up_content_type = ''image/png'', up_data = ''new''\<rparr>" 5 "''new''" "\<lambda>_. ''a''" None None
      "\<lambda>_. Saved" None "''tok''"]
  by (simp add: avatar_world_def sample_principal_def principal_of_user_def sample_user_def user_by_id_def
      sample_world_def avatar_names picture_types_def validate_and_read_file_def given_def Let_def split_beta)

text \<open>After a transient database error the retry uploads the picture again under another name: the request
  succeeds, and the blob of the failed attempt stays in the store although no user refers to it.\<close>

theorem profile_retry_leaks_blob:
  assumes "user_by_id (pr_id cu) (w_db w) = Some u" "up_content_type m \<in> set picture_types"
    and "validate_and_read_file mb (up_data m) = Return bytes" "plain_name (uuids 1)" "plain_name (uuids 2)"
    and "picture_name (uuids 1) (up_filename m) \<noteq> picture_name (uuids 2) (up_filename m)"
    and "commits 1 = Op_failed (Some ''40001'')" "commits 2 = Saved" "u_profile_picture u = None"
  shows "let (answer, w') = update_current_user_profile account mb uuids commits None None (Some m) cu token w in
      is_Return answer \<and>
      map_option u_profile_picture (user_by_id (pr_id cu) (w_db w')) = Some (Some (picture_name (uuids 2) (up_filename m))) \<and>
      map_of (w_blobs w') (''profilepics'', picture_name (uuids 1) (up_filename m)) = Some bytes"
proof -
  let ?n = "\<lambda>a. picture_name (uuids a) (up_filename m)"
  let ?attempt = "profile_attempt account mb uuids commits (pr_id cu) None None (Some m)"
  let ?v = "w\<lparr>w_blobs := AList.update (''profilepics'', ?n 1) bytes (w_blobs w)\<rparr>"
  have u: "u_id u = pr_id cu"
    using assms(1) by (auto simp: user_by_id_def dest: find_SomeD)
  have given: "\<not> given None" by (simp add: given_def)
  have first: "?attempt 1 w = (Raise (OperationalError (Some ''40001'')), ?v)"
    using assms(7) profile_attempt_stored [of "pr_id cu" w u m mb bytes uuids 1 None account commits None,
        OF assms(1-4)] given by (simp add: commit_profile_def)
  have second: "?attempt 2 ?v = commit_profile account Saved None None (Some (?n 2)) u
      (?v\<lparr>w_blobs := AList.update (''profilepics'', ?n 2) bytes (w_blobs ?v)\<rparr>)"
    using profile_attempt_stored [of "pr_id cu" ?v u m mb bytes uuids 2 None account commits None]
      assms(1-3,5,8) given by simp
  have "run_with_transient_retry ?attempt 3 w = ?attempt 2 ?v"
    using first second
    by (simp add: run_with_transient_retry_def numeral_3_eq_3 is_transient_code_def TRANSIENT_PG_CODES_def
        commit_profile_def Let_def numeral_2_eq_2 split: prod.split)
  then show ?thesis
    unfolding update_current_user_profile_def
    using second assms(1,6,9) u given
    by (simp add: commit_profile_def Let_def user_by_id_orm edit_profile_def update_conv)
qed

theorem profile_retry_leaks_blob_witness:
  "let w' = snd (update_current_user_profile None 5 (\<lambda>a. if a = 1 then ''a'' else ''b'')
        (\<lambda>a. if a = 1 then Op_failed (Some ''40001'') else Saved) None None
        (Some \<lparr>up_filename = Some ''me'', up_content_type = ''image/png'', up_data = ''new''\<rparr>)
        (sample_principal 1 ''ann'') ''tok'' sample_world)
   in map_of (w_blobs w') (''profilepics'', ''profile_a'') = Some ''new''"
  using profile_retry_leaks_blob [of "sample_principal 1 ''ann''" sample_world "sample_user 1 ''ann'' 1 0"
      "\<lparr>up_filename = Some ''me'', up_content_type = ''image/png'', up_data = ''new''\<rparr>" 5 "''new''"
      "\<lambda>a. if a = 1 then ''a'' else ''b''" "\<lambda>a. if a = 1 then Op_failed (Some ''40001'') else Saved" None "''tok''"]
  by (simp add: sample_principal_def principal_of_user_def sample_defs user_by_id_def
      avatar_names picture_types_def validate_and_read_file_def Let_def split_beta)

section \<open>Registration\<close>

text \<open>C22: Registration works end to end, for a request with a nickname: with a fresh username and address the account
  is created and the code mailed; until the address is verified, logging in with the right password is refused with a 403; the mailed
  code verifies the address at any time in the next five minutes and the login then succeeds. The same request
  without a nickname, which the request model allows, violates NOT NULL and leaves everything as it was.\<close>

theorem registration_roundtrip:
  assumes "db_ok (w_db w)" "user_by_email e (w_db w) = None"
    and "insert_user (new_user n (hashPassword hashpw salt pw) (Some nick) e (w_now w)) (w_db w) = Some d"
    and law: "hashpw (take 72 pw) (hashpw (take 72 pw) salt) = hashpw (take 72 pw) salt"
    and "sha raw \<notin> set (map t_token (refresh_tokens (w_db w)))" "commits 1 = Committed"
    and "w_now w \<le> t" "t \<le> w_now w + minutes 5"
  shows "register_user sha hashpw tz salt drawn n pw None e w = (Raise IntegrityError, w) \<and>
    (let (registered, w1) = register_user sha hashpw tz salt drawn n pw (Some nick) e w;
      v = w1\<lparr>w_now := t\<rparr>;
      (verified, v1) = verify_email sha tz commits e (generateOtp drawn) v in
      is_Return registered \<and> send_verification_email e (generateOtp drawn) \<in> set (w_tasks w1) \<and>
      fst (loginUser lag sha hashpw encode em ed jti raw family n pw v) = Http 403 ''Email not verified'' \<and>
      is_Return verified \<and> is_Return (fst (loginUser lag sha hashpw encode em ed jti raw family n pw v1)))"
proof -
  let ?row = "new_user n (hashPassword hashpw salt pw) (Some nick) e (w_now w)" and ?otp = "generateOtp drawn"
  let ?u = "?row\<lparr>u_id := users_seq (w_db w)\<rparr>"
  have d: "users d = users (w_db w) @ [?u]" "refresh_tokens d = refresh_tokens (w_db w)"
    and fresh: "n \<notin> set (map u_username (users (w_db w)))"
    using assms(3) by (auto simp: insert_user_def new_user_def split: if_splits)
  have nameless: "register_user sha hashpw tz salt drawn n pw None e w = (Raise IntegrityError, w)"
    using assms(2) by (simp add: register_user_def Let_def insert_user_def) (simp add: new_user_def)
  define w1 where "w1 = snd (register_user sha hashpw tz salt drawn n pw (Some nick) e w)"
  have reg: "register_user sha hashpw tz salt drawn n pw (Some nick) e w =
      (Return (user_response (users_seq (w_db w)) n (w_now w)), w1)"
    and w1: "w_db w1 = w_db (saveOtp sha tz e ?otp 5 (w\<lparr>w_db := d\<rparr>))"
      "send_verification_email e ?otp \<in> set (w_tasks w1)"
    using assms(2,3) by (simp_all add: w1_def register_user_def Let_def)
  define v where "v = w1\<lparr>w_now := t\<rparr>"
  have us: "users (w_db v) = users (w_db w) @ [?u]" "refresh_tokens (w_db v) = refresh_tokens (w_db w)"
    using d by (simp_all add: v_def w1)
  have email: "find (\<lambda>u. u_email u = Some e) (users (w_db w)) = None"
    using assms(2) by (simp add: user_by_email_def)
  then have lock: "lock_user_row None (Some e) (w_db v) = Return ?u"
    using us by (auto simp: lock_user_row_def find_append new_user_def)
  have name: "user_by_username n (w_db v) = Some ?u"
  proof -
    have "find (\<lambda>u. u_username u = n) (users (w_db w)) = None"
      using fresh by (auto simp: find_None_iff)
    then show ?thesis using us by (simp add: user_by_username_def find_append new_user_def)
  qed
  have pw: "verifyPassword hashpw pw (u_password ?u)"
    using law by (simp add: verifyPassword_def hashPassword_def new_user_def)
  have before: "fst (loginUser lag sha hashpw encode em ed jti raw family n pw v) = Http 403 ''Email not verified''"
    using name pw by (simp add: loginUser_def) (simp add: new_user_def)
  obtain ok v2 where check: "checkOtp sha tz e ?otp v = (ok, v2)" by fastforce
  have ok: "ok" and v2: "users (w_db v2) = users (w_db v)" "refresh_tokens (w_db v2) = refresh_tokens (w_db v)"
    using check assms(8) otp_after_save [of e sha tz ?otp 5 "w\<lparr>w_db := d\<rparr>"] otp_calls_frame(7,8) [of sha tz e ?otp v]
    by (auto simp: checkOtp_def local_now_def v_def w1 split: if_splits)
  define v1 where "v1 = v2\<lparr>w_db := orm_update_user (u_id ?u) (u_email_verified_update (\<lambda>_. True)) (w_db v2)\<rparr>"
  have verify: "verify_email sha tz commits e ?otp v = (Return (message_body ''Email verified successfully''), v1)"
    using lock check ok assms(6)
    by (simp add: verify_email_def run_with_transient_retry_def numeral_3_eq_3 commit_user_def v1_def)
      (simp add: new_user_def)
  have "user_by_username n (w_db v1) = Some (u_version_id_update (\<lambda>k. k + 1) (?u\<lparr>u_email_verified := True\<rparr>))"
    using name v2 by (simp add: v1_def user_by_username_def orm_update_user_def find_update_where)
  note found = this
  have "is_Return (fst (loginUser lag sha hashpw encode em ed jti raw family n pw v1))"
    by (subst login_success [OF found]) (use pw assms(5) us v2 in \<open>simp_all add: v1_def\<close>)
  then show ?thesis
    using nameless before verify by (simp add: reg w1(2) v_def [symmetric])
qed

theorem registration_roundtrip_witness:
  "let (registered, w1) = register_user id demo_hashpw 0 ''s'' 123456 ''cat'' ''pw'' (Some ''Cat'') ''cat@x.io'' sample_world;
       (verified, v1) = verify_email id 0 (\<lambda>_. Committed) ''cat@x.io'' (generateOtp 123456) (w1\<lparr>w_now := 10000000\<rparr>)
   in is_Return verified \<and> is_Return (fst (loginUser 0 id demo_hashpw demo_encode 60 7 ''j'' ''r'' ''f'' ''cat'' ''pw'' v1))"
proof -
  have "insert_user (new_user ''cat'' (hashPassword demo_hashpw ''s'' ''pw'') (Some ''Cat'') ''cat@x.io'' (w_now sample_world)) (w_db sample_world) =
      Some (sample_db\<lparr>users := users sample_db @ [(new_user ''cat'' (hashPassword demo_hashpw ''s'' ''pw'') (Some ''Cat'') ''cat@x.io'' 9000000)\<lparr>u_id := 3\<rparr>],
        users_seq := 4\<rparr>)"
    by (simp add: insert_user_def sample_defs new_user_def email_clash_def lower_def)
  from registration_roundtrip [where sha = id and raw = "''r''" and commits = "\<lambda>_. Committed" and t = 10000000 and tz = 0
      and drawn = 123456 and encode = demo_encode and em = 60 and ed = 7 and jti = "''j''" and family = "''f''", OF _ _ this]
  show ?thesis
    using sample_db_ok
    by (simp add: user_by_email_def sample_defs minutes_def demo_hashpw_def Let_def split_beta)
qed

section \<open>Search\<close>

definition plain_pattern :: "string \<Rightarrow> bool" where
  "plain_pattern q \<longleftrightarrow> list_all (\<lambda>c. c \<noteq> CHR ''%'' \<and> c \<noteq> CHR ''_'' \<and> c \<noteq> CHR 0x5C) q"

lemma like_percent: "like_match (CHR ''%'' # p) s \<longleftrightarrow> (\<exists>t. suffix t s \<and> like_match p t)"
proof (induction s)
  case Nil
  then show ?case by simp
next
  case (Cons d s)
  then show ?case by (auto simp: suffix_Cons)
qed

lemma like_prefix:
  "plain_pattern q \<Longrightarrow> like_match (q @ ''%'') s \<longleftrightarrow> prefix q s"
proof (induction q arbitrary: s)
  case Nil
  have "suffix [] s" by simp
  then show ?case by (auto simp: like_percent)
next
  case (Cons c q)
  then show ?case by (cases s) (auto simp: plain_pattern_def)
qed

lemma like_contains: "plain_pattern q \<Longrightarrow> like_match (contains_pattern q) s \<longleftrightarrow> sublist q s"
proof -
  assume "plain_pattern q"
  then have "like_match (contains_pattern q) s \<longleftrightarrow> (\<exists>t. suffix t s \<and> prefix q t)"
    by (simp add: contains_pattern_def like_percent like_prefix)
  also have "\<dots> \<longleftrightarrow> sublist q s"
    by (metis sublist_altdef')
  finally show ?thesis .
qed

lemma plain_lower:
  assumes "plain_pattern q"
  shows "plain_pattern (lower q)"
proof -
  have "char_of ((of_char c :: nat) + 32) \<notin> {CHR ''%'', CHR ''_'', CHR 0x5C}"
    if "65 \<le> (of_char c :: nat)" "(of_char c :: nat) \<le> 90" for c
  proof
    assume "char_of ((of_char c :: nat) + 32) \<in> {CHR ''%'', CHR ''_'', CHR 0x5C}"
    then have "((of_char c :: nat) + 32) mod 256 \<in> {37, 95, 92}"
      by (auto dest!: arg_cong [of "char_of _" _ "of_char :: char \<Rightarrow> nat"])
    with that show False by simp
  qed
  with assms show ?thesis
    by (auto simp: plain_pattern_def lower_def list_all_iff split: if_splits)
qed

lemma lower_percent: "lower (contains_pattern q) = contains_pattern (lower q)"
  by (simp add: contains_pattern_def lower_def)

text \<open>C25: Searching for a username finds exactly the users whose name contains the query as a contiguous
  part, ignoring case, when the query has no wildcard character; the rows are the requested window of the
  matches in the order of their names; and the total is their number, except that it is 0 on a page past the end.\<close>

theorem search_users_exact:
  assumes "plain_pattern q" "q \<noteq> []" "hd q \<noteq> CHR ''#''"
  shows "let matches = filter (\<lambda>u. sublist (lower q) (lower (u_username u))) (users (w_db w));
      rows = take limit (drop offset (sort_key u_username matches)) in
      search tie account \<lparr>sq_q = q, sq_limit = limit, sq_offset = offset, sq_order_by = order\<rparr> cu w =
      (Return (JObj [(''result_type'', JStr ''users''), (''users'', JArr (map owner_json rows)), (''posts'', JNull),
         (''total'', JInt (if offset < length matches \<and> 0 < limit then int (length matches) else 0))]), w)"
proof -
  have "username_matches q d = filter (\<lambda>u. sublist (lower q) (lower (u_username u))) (users d)" for d
    using like_contains [OF plain_lower [OF assms(1)]]
    by (simp add: username_matches_def ilike_def lower_percent)
  then show ?thesis
    using assms(2,3) by (simp add: search_def Let_def window_total_def)
qed

theorem search_users_exact_witness:
  "fst (search (\<lambda>_. 0) None \<lparr>sq_q = ''OB'', sq_limit = 5, sq_offset = 0, sq_order_by = None\<rparr> (sample_principal 1 ''ann'') sample_world) =
   Return (JObj [(''result_type'', JStr ''users''), (''users'', JArr [owner_json (sample_user 2 ''bob'' 0 1)]),
     (''posts'', JNull), (''total'', JInt 1)])"
proof -
  have "lower ''OB'' = ''ob''" "lower ''ann'' = ''ann''" "lower ''bob'' = ''bob''"
    by code_simp+
  then show ?thesis
    using search_users_exact [of "''OB''" sample_world 5 0 "\<lambda>_. 0" None None "sample_principal 1 ''ann''"]
    by (simp add: plain_pattern_def sample_world_def sample_db_def sample_user_def empty_db_def Let_def sublist_code)
qed

end
