(* ===== verification/Messaging_Properties.thy ===== *)
theory Messaging_Properties
  imports Messaging_Lemmas Profiles_Properties
begin

text \<open>Properties of the messaging components.\<close>

section \<open>Handlers over HTTP keep the invariant\<close>

lemma send_media_ok: "db_ok (w_db w) \<Longrightarrow> db_ok (w_db (snd (send_media a mb u f r cu w)))"
proof -
  assume d: "db_ok (w_db w)"
  have "db_ok (w_db w')" if "store_message False False i p (w\<lparr>w_blobs := b\<rparr>) = (res, w')" for i p b res w'
    using store_message_ok [of "w\<lparr>w_blobs := b\<rparr>" False False i p] d that by simp
  then show ?thesis
    using d by (simp add: send_media_def Let_def split: outcome.split prod.split) blast
qed

lemma deleteForMe_ok: "db_ok (w_db w) \<Longrightarrow> db_ok (w_db (snd (deleteForMe i cu w)))"
  by (auto simp: deleteForMe_def Let_def split: option.split dest: insert_deleted_message_ok)

lemma deleteShareForMe_ok: "db_ok (w_db w) \<Longrightarrow> db_ok (w_db (snd (deleteShareForMe i cu w)))"
  by (auto simp: deleteShareForMe_def split: option.split dest: insert_deleted_share_ok)

lemma share_post_ok: "db_ok (w_db w) \<Longrightarrow> db_ok (w_db (snd (share_post r cu w)))"
  by (auto simp: share_post_def Let_def split: option.split dest: insert_shared_post_ok intro: mark_share_read_ok)

lemma hidden_pairs: "hidden_from i d m \<longleftrightarrow> (i, m_id m) \<in> set (map deleted_message_key (deleted_messages d))"
  by (auto simp: hidden_from_def list_ex_iff deleted_message_key_def)

lemma append_deleted_messages_ok:
  assumes "db_ok d" "distinct (map deleted_message_key xs)"
    "set (map deleted_message_key (deleted_messages d)) \<inter> set (map deleted_message_key xs) = {}"
    "fk (map dm_user_id xs) (map u_id (users d))" "fk (map dm_message_id xs) (map m_id (messages d))"
  shows "db_ok (d\<lparr>deleted_messages := deleted_messages d @ xs\<rparr>)"
  using assms by (simp add: db_defs fk_def)

lemma clear_chat_ok:
  assumes d: "db_ok (w_db w)"
  shows "db_ok (w_db (snd (clear_chat i cu w)))"
proof -
  let ?v = "filter (visible_in_chat (pr_id cu) i (w_db w)) (messages (w_db w))"
  let ?row = "\<lambda>m. \<lparr>dm_user_id = pr_id cu, dm_message_id = m_id m, dm_deleted_at = w_now w\<rparr>"
  have dist: "distinct (map m_id ?v)"
    using d by (simp add: db_defs ids_ok_def distinct_map_filter)
  have key: "deleted_message_key \<circ> ?row = Pair (pr_id cu) \<circ> m_id" by (auto simp: deleted_message_key_def)
  have "distinct (map deleted_message_key (map ?row ?v))"
    using dist by (simp add: key distinct_map comp_inj_on inj_on_def)
  moreover have "set (map deleted_message_key (deleted_messages (w_db w))) \<inter> set (map deleted_message_key (map ?row ?v)) = {}"
  proof -
    have "(pr_id cu, m_id m) \<notin> set (map deleted_message_key (deleted_messages (w_db w)))" if "m \<in> set ?v" for m
      using that by (simp add: visible_in_chat_def hidden_pairs)
    moreover have "set (map deleted_message_key (map ?row ?v)) = (\<lambda>m. (pr_id cu, m_id m)) ` set ?v"
      by (simp only: set_map image_image) (simp add: deleted_message_key_def)
    ultimately show ?thesis by (simp only: disjoint_iff) blast
  qed
  moreover have "fk (map dm_user_id (map ?row ?v)) (map u_id (users (w_db w)))" if "user_by_id (pr_id cu) (w_db w) \<noteq> None"
    using that by (auto simp: user_by_id_def fk_def dest!: find_SomeD intro: rev_image_eqI)
  moreover have "fk (map dm_message_id (map ?row ?v)) (map m_id (messages (w_db w)))"
    by (auto simp: fk_def)
  ultimately show ?thesis
    using append_deleted_messages_ok [OF d, of "map ?row ?v"] d
    by (cases "?v = []"; cases "user_by_id (pr_id cu) (w_db w)") (simp_all add: clear_chat_def Let_def)
qed

section \<open>A WebSocket session\<close>

lemma mark_last_seen_safe: "safe_step me (w_db w) (w_db (snd (mark_last_seen saved i w)))"
  using mark_last_seen_ok [of w saved i]
  by (simp add: safe_step_def) (simp add: mark_last_seen_def keeps_foreign_def foreign_messages_def foreign_shares_def)

lemma leave_safe: "safe_step me (w_db w) (w_db (leave saved i res w))"
  using mark_last_seen_safe [of me w saved i] by (simp add: leave_def Let_def split_beta)

lemma load_missed_world: "snd (load_missed_content base known i w) = claim_missed i w"
  by (simp add: load_missed_content_def Let_def)

lemma chat_safe: "safe_step me (w_db w) (w_db (snd (chat decode m cs saved ws me token frames w)))"
proof (cases token)
  case (Some t)
  obtain r w1 where g: "getCurrentUser decode m t w = (r, w1)" by fastforce
  have db1: "w_db w1 = w_db w" using getCurrentUser_frame(1) [of decode m t w] g by simp
  let ?w2 = "broadcast_presence_update me True None (on_mgr (connect me ws) w1)"
  obtain items w3 where l: "load_missed_content (cs_base_url cs) (cs_in_session cs) me ?w2 = (items, w3)" by fastforce
  have s3: "safe_step me (w_db w) (w_db w3)"
    using load_missed_world [of "cs_base_url cs" "cs_in_session cs" me ?w2] l claim_missed_safe [of me ?w2 me] db1 by simp
  have s4: "safe_step me (w_db w) (w_db (snd (chat_loop cs me frames (on_mgr f w3))))" for f
    using safe_trans [OF s3] chat_loop_safe [of me "on_mgr f w3" cs frames] by simp
  show ?thesis
    using g l db1 s3 safe_trans [OF s4 leave_safe] Some
    by (simp add: chat_def Let_def split_beta split: outcome.split)
qed (simp add: chat_def)

text \<open>C2: Whatever frames a client sends over its WebSocket, in any order and however malformed, the session keeps the
  database invariant (keys, references, exact reaction counts) and leaves the messages and shares of other users
  alone: none is added, edited, deleted or attributed to someone else.\<close>

theorem chat_session_confined:
  assumes "db_ok (w_db w)"
  shows "let (result, w') = chat decode m cs saved ws me token frames w in
    db_ok (w_db w') \<and> foreign_messages me (w_db w') = foreign_messages me (w_db w) \<and>
    foreign_shares me (w_db w') = foreign_shares me (w_db w)"
  using chat_safe [of me w decode m cs saved ws token frames] assms
  by (simp add: safe_step_def keeps_foreign_def split_beta)

text \<open>Two messages between the sample users: one from each, the first read.\<close>

definition sample_message :: "int \<Rightarrow> int \<Rightarrow> int \<Rightarrow> bool \<Rightarrow> message" where
  "sample_message i a b seen = \<lparr>m_id = i, m_media_url = Some ''false'', m_media_type = Some ''false'', m_content = ''hey'',
     m_sender_id = a, m_receiver_id = b, m_created_at = 8000000, m_is_read = seen, m_is_deleted_for_everyone = False,
     m_is_edited = False, m_edited_at = None, m_read_at = None, m_reaction_cnt = 0, m_is_reply_msg = False,
     m_is_reply_to_share = False\<rparr>"

definition chat_world :: world where
  "chat_world = sample_world\<lparr>w_db := sample_db\<lparr>messages := [sample_message 30 1 2 True, sample_message 31 2 1 False],
     messages_seq := 32\<rparr>\<rparr>"

lemmas chat_world_defs = chat_world_def sample_message_def sample_defs

lemma chat_world_ok: "db_ok (w_db chat_world)"
  by (simp add: db_defs chat_world_defs ids_ok_def counts_match_def owner_defs fk_def key_defs)

definition sample_settings :: chat_settings where
  "sample_settings = \<lparr>cs_max_edit_time = 15, cs_base_url = ''b'', cs_in_session = [1]\<rparr>"

definition sample_claims :: claims where
  "sample_claims = \<lparr>cl_userId = Some 1, cl_userName = Some ''ann'', cl_expTime = Some 99, cl_iat = 0, cl_jti = ''j''\<rparr>"

lemma chat_session_confined_witness:
  "db_ok (w_db (snd (chat (\<lambda>_. Some sample_claims) 30 sample_settings True demo_socket 1 (Some ''t'')
     [None, Some (JObj [(''type'', JStr ''delete_for_everyone''), (''message_id'', JInt 31), (''receiver_id'', JInt 2)])] chat_world)))"
  using chat_session_confined [OF chat_world_ok, of "\<lambda>_. Some sample_claims" 30 sample_settings True
      demo_socket 1 "Some ''t''" "[None, Some (JObj [(''type'', JStr ''delete_for_everyone''), (''message_id'', JInt 31), (''receiver_id'', JInt 2)])]"]
  by (simp add: split_beta Let_def)

section \<open>Sending\<close>

text \<open>\<open>chat_messages\<close> and \<open>missed_messages\<close> as sets of rows, and the end of the list for a newest row.\<close>

lemma sort_key_last:
  fixes f :: "'a \<Rightarrow> int"
  assumes "\<And>y. y \<in> set ys \<Longrightarrow> f y \<le> f n"
  shows "sort_key f (ys @ [n]) = sort_key f ys @ [n]"
proof -
  have "insort_key f y (zs @ [n]) = insort_key f y zs @ [n]" if "f y \<le> f n" for y zs
    using that by (induction zs) auto
  then show ?thesis using assms by (induction ys) simp_all
qed

end
