(* ===== verification/Dm_Properties.thy ===== *)
theory Dm_Properties
  imports Messaging_Properties
begin

text \<open>Properties of direct messages: sending, editing, deleting, reacting.\<close>

section \<open>Sending\<close>

text \<open>What the invariant says of messages, deletions and reactions.\<close>

lemma message_facts:
  assumes "db_ok d"
  shows "messages_seq d \<notin> m_id ` set (messages d)" "distinct (map m_id (messages d))"
    "x \<in> set (deleted_messages d) \<Longrightarrow> dm_message_id x \<in> m_id ` set (messages d)"
    "r \<in> set (message_reactions d) \<Longrightarrow> r_message_id r \<in> m_id ` set (messages d)"
    "l \<in> set (message_replies d) \<Longrightarrow> mr_reply_id l \<in> m_id ` set (messages d)"
    "distinct (map reaction_key (message_reactions d))"
    "m \<in> set (messages d) \<Longrightarrow> m_sender_id m \<in> u_id ` set (users d)"
    "m \<in> set (messages d) \<Longrightarrow> m_receiver_id m \<in> u_id ` set (users d)"
    "counts_match m_reaction_cnt reaction_on (messages d) (message_reactions d)"
proof -
  have m: "wf_messages d" "wf_reactions d" "wf_deleted d" "wf_replies d" "counters_ok d"
    using assms by (simp_all add: db_ok_def db_wf_def)
  then show "messages_seq d \<notin> m_id ` set (messages d)" "distinct (map m_id (messages d))"
    using ids_ok_fresh [of "messages_seq d" "map m_id (messages d)"] by (auto simp: wf_messages_def ids_ok_def)
  show "x \<in> set (deleted_messages d) \<Longrightarrow> dm_message_id x \<in> m_id ` set (messages d)"
    "r \<in> set (message_reactions d) \<Longrightarrow> r_message_id r \<in> m_id ` set (messages d)"
    "l \<in> set (message_replies d) \<Longrightarrow> mr_reply_id l \<in> m_id ` set (messages d)"
    "distinct (map reaction_key (message_reactions d))"
    "m \<in> set (messages d) \<Longrightarrow> m_sender_id m \<in> u_id ` set (users d)"
    "m \<in> set (messages d) \<Longrightarrow> m_receiver_id m \<in> u_id ` set (users d)"
    "counts_match m_reaction_cnt reaction_on (messages d) (message_reactions d)"
    using m by (auto simp: wf_messages_def wf_reactions_def wf_deleted_def wf_replies_def fk_def counters_ok_def)
qed

lemma hidden_fresh: "db_ok d \<Longrightarrow> m_id m = messages_seq d \<Longrightarrow> \<not> hidden_from i d m"
  unfolding hidden_from_def list_ex_iff by (metis message_facts(1,3))

lemma unreacted_fresh: "db_ok d \<Longrightarrow> \<not> list_ex (\<lambda>r. r_message_id r = messages_seq d) (message_reactions d)"
  unfolding list_ex_iff by (metis message_facts(1,4))

text \<open>A send that returns with Redis up: the row is inserted and both copies are published.\<close>

lemma messageUser_sent:
  assumes "messageUser p me w = (Return (), w')" "r_up (w_redis w)"
  obtains c t u where "ms_content p = Some c"
    "w_db w' = (w_db w)\<lparr>messages := messages (w_db w) @ [message_row False False c me (ms_to p) t u w],
       messages_seq := messages_seq (w_db w) + 1\<rparr>"
    "r_published (w_redis w') = r_published (w_redis w) @ map (Pair ''chat:messages'')
       (let payload = direct_payload (messages_seq (w_db w)) c (fresh_attr (ms_media_url p)) (fresh_attr (ms_media_type p))
              me (ms_to p) (format_timestamp (w_now w) (Some (w_now w)))
        in [with_receiver me payload, JObj payload])"
    "w_now w' = w_now w"
proof -
  obtain m w1 where st: "store_message False False me p w = (Return m, w1)"
    using assms(1) by (auto simp: messageUser_def split: prod.splits outcome.splits)
  then obtain c t u where c: "ms_content p = Some c" "m = message_row False False c me (ms_to p) t u w"
    "insert_message m (w_db w) = Some (w_db w1)" "w1 = w\<lparr>w_db := w_db w1\<rparr>"
    by (rule store_message_Return)
  have up: "r_up (w_redis w1)" "w_redis w1 = w_redis w" "w_now w1 = w_now w" using assms(2) c(4) by (metis world.select_convs world.surjective world.update_convs(1))+
  have "w' = publish_or_mark (direct_payload (m_id m) (m_content m) (fresh_attr (ms_media_url p)) (fresh_attr (ms_media_type p))
      me (ms_to p) (format_timestamp (w_now w1) (Some (m_created_at m)))) (m_id m) me (ms_to p) w1"
    using assms(1) st by (simp add: messageUser_def Let_def)
  then show ?thesis
    using that [OF c(1), of t u] insert_message_Some [OF c(3)] up c(2)
    by (simp add: publish_or_mark_def r_publish_def Let_def)
qed

lemma missed_after_send:
  assumes "\<forall>x\<in>set (messages d). m_created_at x \<le> m_created_at m"
    and "\<not> m_is_deleted_for_everyone m" "\<not> m_is_read m"
  shows "missed_messages (m_receiver_id m) (d\<lparr>messages := messages d @ [m], messages_seq := n\<rparr>) =
    missed_messages (m_receiver_id m) d @ [m]"
  using assms by (simp add: missed_messages_def) (intro sort_key_last, simp)

lemma missed_messages_iff: "m \<in> set (missed_messages i d) \<longleftrightarrow>
    m \<in> set (messages d) \<and> \<not> m_is_deleted_for_everyone m \<and> m_receiver_id m = i \<and> \<not> m_is_read m"
  by (auto simp: missed_messages_def)

lemma missed_after_claim: "missed_messages i (w_db (claim_missed i w)) = []"
proof -
  have msgs: "messages (w_db (claim_missed i w)) =
      update_where (\<lambda>m. m_id m \<in> m_id ` set (missed_messages i (w_db w)) \<and> \<not> m_is_read m)
        (\<lambda>m. m\<lparr>m_is_read := True, m_read_at := Some (w_now w)\<rparr>) (messages (w_db w))"
    by (simp add: claim_missed_def Let_def update_messages_def update_shared_posts_def)
  have "x \<notin> set (missed_messages i (w_db (claim_missed i w)))" for x
    unfolding missed_messages_iff msgs set_update_where by (auto simp: missed_messages_iff)
  then show ?thesis by (meson last_in_set)
qed

text \<open>Every missed message gives an item.\<close>

lemma load_missed_member:
  assumes "load_missed_content base known i w = (Return items, w')" "m \<in> set (missed_messages i (w_db w))"
    and "map_outcome (\<lambda>extra. (format_timestamp (w_now w) (Some (m_created_at m)),
      missed_entry (list_ex (\<lambda>r. r_message_id r = m_id m) (message_reactions (w_db w)))
        (JObj (message_item base (w_now w) (JArr []) True m @ extra)))) (reply_fields base (w_db w) m) = Return (t, item)"
  shows "item \<in> set items"
proof -
  let ?f = "\<lambda>m. map_outcome (\<lambda>extra. (format_timestamp (w_now w) (Some (m_created_at m)),
      missed_entry (list_ex (\<lambda>r. r_message_id r = m_id m) (message_reactions (w_db w)))
        (JObj (message_item base (w_now w) (JArr []) True m @ extra)))) (reply_fields base (w_db w) m)"
  obtain rest xs where seq: "sequence (map ?f (missed_messages i (w_db w)) @ rest) = Return xs"
    and items: "items = map snd (sort_key fst xs)"
    using assms(1) by (auto simp: load_missed_content_def Let_def map_outcome_Return_iff)
  have "?f m \<in> set (map Return xs)"
    using sequence_Return [OF seq] assms(2) by (metis (no_types, lifting) UnCI image_eqI set_append set_map)
  then have "(t, item) \<in> set xs" using assms(3) by auto
  then show ?thesis by (simp add: items) force
qed

text \<open>C7: With Redis reachable, and the clock not behind the messages stored so far: a frame without media type or
  media URL, which is every plain text message, is rejected by the driver and nothing is stored or sent. A send that
  returns adds one row with the sender, receiver and text of the frame, shown in the history of both users and last
  among what the receiver has missed, even if the receiver is connected and is pushed the frame, since nothing marks
  the row as read. Whenever the receiver connects later and the row is still as it was sent and has no reaction, a
  load that succeeds has the item of that message among those to send and leaves nothing unread.\<close>

theorem message_reaches_recipient:
  assumes "db_ok (w_db w)" "r_up (w_redis w)" "messageUser p me w = (res, w')"
    and "\<forall>x\<in>set (messages (w_db w)). m_created_at x \<le> w_now w"
  shows "(ms_media_type p = None \<or> ms_media_url p = None \<longrightarrow> res = Raise DataError \<and> w' = w) \<and>
    (res = Return () \<longrightarrow> (\<exists>m. messages (w_db w') = messages (w_db w) @ [m] \<and>
       m_sender_id m = me \<and> m_receiver_id m = ms_to p \<and> ms_content p = Some (m_content m) \<and>
       m \<in> set (chat_messages me (ms_to p) (w_db w')) \<and> m \<in> set (chat_messages (ms_to p) me (w_db w')) \<and>
       missed_messages (ms_to p) (w_db w') = missed_messages (ms_to p) (w_db w) @ [m] \<and>
       (\<forall>v base known items v'. m \<in> set (messages (w_db v)) \<and>
          \<not> list_ex (\<lambda>r. r_message_id r = m_id m) (message_reactions (w_db v)) \<and>
          load_missed_content base known (ms_to p) v = (Return items, v') \<longrightarrow>
          Sendable (JObj (message_item base (w_now v) (JArr []) True m @ [(''is_reply'', JBool False)])) \<in> set items \<and>
          missed_messages (ms_to p) (w_db v') = [])))"
proof (intro conjI impI)
  assume "ms_media_type p = None \<or> ms_media_url p = None"
  then have "store_message False False me p w = (Raise DataError, w)"
    by (auto simp: store_message_def split: option.split)
  then show "res = Raise DataError" "w' = w" using assms(3) by (simp_all add: messageUser_def)
next
  assume "res = Return ()"
  then have sent: "messageUser p me w = (Return (), w')" using assms(3) by simp
  obtain c t u where s: "ms_content p = Some c"
    "w_db w' = (w_db w)\<lparr>messages := messages (w_db w) @ [message_row False False c me (ms_to p) t u w],
       messages_seq := messages_seq (w_db w) + 1\<rparr>" "w_now w' = w_now w"
    using messageUser_sent [OF sent assms(2)] by metis
  let ?m = "message_row False False c me (ms_to p) t u w"
  have hidden: "\<not> hidden_from i (w_db w') ?m" for i
    using hidden_fresh [OF assms(1), of ?m] s(2) by (simp add: hidden_from_def)
  have missed: "missed_messages (ms_to p) (w_db w') = missed_messages (ms_to p) (w_db w) @ [?m]"
    using missed_after_send [of "w_db w" ?m] assms(4) by (simp add: s(2))
  have loaded: "Sendable (JObj (message_item base (w_now v) (JArr []) True ?m @ [(''is_reply'', JBool False)])) \<in> set items \<and>
      missed_messages (ms_to p) (w_db v') = []"
    if "?m \<in> set (messages (w_db v))" "\<not> list_ex (\<lambda>r. r_message_id r = m_id ?m) (message_reactions (w_db v))"
      "load_missed_content base known (ms_to p) v = (Return items, v')" for v base known items v'
  proof
    show "Sendable (JObj (message_item base (w_now v) (JArr []) True ?m @ [(''is_reply'', JBool False)])) \<in> set items"
      by (rule load_missed_member [OF that(3), of ?m "format_timestamp (w_now v) (Some (m_created_at ?m))"])
        (use that(1,2) in \<open>simp_all add: missed_messages_iff reply_fields_def missed_entry_def\<close>)
    show "missed_messages (ms_to p) (w_db v') = []"
      using missed_after_claim [of "ms_to p" v] load_missed_world [of base known "ms_to p" v] that(3) by simp
  qed
  have "messages (w_db w') = messages (w_db w) @ [?m]" "m_sender_id ?m = me" "m_receiver_id ?m = ms_to p"
    "ms_content p = Some (m_content ?m)" "?m \<in> set (chat_messages me (ms_to p) (w_db w'))"
    "?m \<in> set (chat_messages (ms_to p) me (w_db w'))"
    using s hidden by (simp_all add: chat_messages_def between_def)
  moreover have "\<forall>v base known items v'. ?m \<in> set (messages (w_db v)) \<and>
      \<not> list_ex (\<lambda>r. r_message_id r = m_id ?m) (message_reactions (w_db v)) \<and>
      load_missed_content base known (ms_to p) v = (Return items, v') \<longrightarrow>
      Sendable (JObj (message_item base (w_now v) (JArr []) True ?m @ [(''is_reply'', JBool False)])) \<in> set items \<and>
      missed_messages (ms_to p) (w_db v') = []"
    by (intro allI impI, elim conjE) (rule loaded)
  ultimately show "\<exists>m. messages (w_db w') = messages (w_db w) @ [m] \<and>
       m_sender_id m = me \<and> m_receiver_id m = ms_to p \<and> ms_content p = Some (m_content m) \<and>
       m \<in> set (chat_messages me (ms_to p) (w_db w')) \<and> m \<in> set (chat_messages (ms_to p) me (w_db w')) \<and>
       missed_messages (ms_to p) (w_db w') = missed_messages (ms_to p) (w_db w) @ [m] \<and>
       (\<forall>v base known items v'. m \<in> set (messages (w_db v)) \<and>
          \<not> list_ex (\<lambda>r. r_message_id r = m_id m) (message_reactions (w_db v)) \<and>
          load_missed_content base known (ms_to p) v = (Return items, v') \<longrightarrow>
          Sendable (JObj (message_item base (w_now v) (JArr []) True m @ [(''is_reply'', JBool False)])) \<in> set items \<and>
          missed_messages (ms_to p) (w_db v') = [])"
    using missed by (intro exI [of _ ?m] conjI) assumption+
qed

definition sample_frame :: message_schema where
  "sample_frame = \<lparr>ms_to = 2, ms_content = Some ''yo'', ms_media_url = Some ''false'', ms_media_type = Some ''false''\<rparr>"

lemma sample_send: "is_Return (fst (messageUser sample_frame 1 chat_world))"
  by code_simp

lemma sample_load: "is_Return (fst (load_missed_content ''b'' [] 2 (snd (messageUser sample_frame 1 chat_world))))"
  by code_simp

lemma message_reaches_recipient_witness:
  "messageUser (sample_frame\<lparr>ms_media_url := None, ms_media_type := None\<rparr>) 1 chat_world = (Raise DataError, chat_world) \<and>
   missed_messages 2 (w_db (snd (load_missed_content ''b'' [] 2 (snd (messageUser sample_frame 1 chat_world))))) = []"
proof -
  let ?sent = "messageUser sample_frame 1 chat_world" and ?plain = "sample_frame\<lparr>ms_media_url := None, ms_media_type := None\<rparr>"
  let ?load = "load_missed_content ''b'' [] 2 (snd ?sent)"
  have ok: "db_ok (w_db chat_world)" "r_up (w_redis chat_world)"
    "\<forall>x\<in>set (messages (w_db chat_world)). m_created_at x \<le> w_now chat_world"
    using chat_world_ok by (simp_all add: chat_world_defs)
  note reaches = message_reaches_recipient [OF ok(1,2) _ ok(3)]
  have "messageUser ?plain 1 chat_world = (fst (messageUser ?plain 1 chat_world), snd (messageUser ?plain 1 chat_world))"
    by simp
  from reaches [OF this] have refused: "messageUser ?plain 1 chat_world = (Raise DataError, chat_world)"
    by (auto simp: prod_eq_iff)
  obtain items where load: "?load = (Return items, snd ?load)"
    using sample_load by (auto simp: is_Return_iff prod_eq_iff)
  have "fst ?sent = Return ()" using sample_send by (auto simp: is_Return_iff)
  then obtain m where m: "messages (w_db (snd ?sent)) = messages (w_db chat_world) @ [m]"
    and loads: "\<forall>v base known items v'. m \<in> set (messages (w_db v)) \<and>
          \<not> list_ex (\<lambda>r. r_message_id r = m_id m) (message_reactions (w_db v)) \<and>
          load_missed_content base known (ms_to sample_frame) v = (Return items, v') \<longrightarrow>
          Sendable (JObj (message_item base (w_now v) (JArr []) True m @ [(''is_reply'', JBool False)])) \<in> set items \<and>
          missed_messages (ms_to sample_frame) (w_db v') = []"
    using conjunct2 [OF reaches [OF prod.collapse [symmetric]], THEN mp] by blast
  have "message_reactions (w_db (snd ?sent)) = []" by code_simp
  then have "missed_messages (ms_to sample_frame) (w_db (snd ?load)) = []"
    using m load loads [rule_format, of "snd ?sent" "''b''" "[]" items "snd ?load"] by (simp add: sample_frame_def)
  then have "missed_messages 2 (w_db (snd ?load)) = []" by (simp add: sample_frame_def)
  with refused show ?thesis by simp
qed

lemma publish_or_mark_up: "r_up (w_redis w) \<Longrightarrow> publish_or_mark p i s r w =
    on_redis (r_publish ''chat:messages'' (JObj p) \<circ> r_publish ''chat:messages'' (with_receiver s p)) w"
  by (simp add: publish_or_mark_def)

section \<open>Editing\<close>

definition editable :: "int \<Rightarrow> int \<Rightarrow> int \<Rightarrow> int \<Rightarrow> message \<Rightarrow> bool" where
  "editable n now me i x \<longleftrightarrow> m_id x = i \<and> m_sender_id x = me \<and> \<not> m_is_deleted_for_everyone x \<and>
     now - m_created_at x \<le> minutes n"

definition edited :: "string \<Rightarrow> int \<Rightarrow> message \<Rightarrow> message" where
  "edited c now x = x\<lparr>m_content := c, m_is_edited := True, m_is_read := False, m_read_at := None, m_edited_at := Some now\<rparr>"

lemma same_message:
  "db_ok d \<Longrightarrow> m \<in> set (messages d) \<Longrightarrow> x \<in> set (messages d) \<Longrightarrow> m_id x = m_id m \<Longrightarrow> x = m"
  using message_facts(2) [of d] by (auto simp: distinct_map dest: inj_onD)

lemma own_message_Some:
  "own_message i me d = Some m \<Longrightarrow> m \<in> set (messages d) \<and> m_id m = i \<and> m_sender_id m = me"
  by (auto simp: own_message_def dest: find_SomeD)

lemma own_message_None:
  "own_message i me d = None \<Longrightarrow> x \<in> set (messages d) \<Longrightarrow> m_id x = i \<Longrightarrow> m_sender_id x \<noteq> me"
  by (auto simp: own_message_def find_None_iff)

text \<open>C16: Editing does exactly what it promises, with Redis up: the text of a message changes if and only if the editor sent it,
  it was not deleted for everyone, the edit window is open and the text differs (edges trimmed); then it is flagged as edited,
  becomes unread again and one copy per user is published. Every other row is untouched and nothing else is published; past
  the window the only effect is the denial sent to the editor.\<close>

theorem edit_message_exact:
  assumes "db_ok (w_db w)" "r_up (w_redis w)"
  shows "let w' = edit_message n i c me r w;
      hit = (\<lambda>x. editable n (w_now w) me i x \<and> py_strip (m_content x) \<noteq> c);
      payload = edit_payload c i True @ [(''receiver_id'', JInt r)]
    in messages (w_db w') = update_where hit (edited c (w_now w)) (messages (w_db w)) \<and>
      r_published (w_redis w') = r_published (w_redis w) @
        (if list_ex hit (messages (w_db w)) then map (Pair ''chat:messages'') [with_receiver me payload, JObj payload] else []) \<and>
      (\<forall>x\<in>set (messages (w_db w)). m_id x = i \<and> m_sender_id x = me \<and> minutes n < w_now w - m_created_at x \<longrightarrow>
         w' = on_mgr (send_personal_message (edit_denied i) me) w)"
proof (cases "own_message i me (w_db w)")
  case None
  then have no: "m_id x = i \<longrightarrow> m_sender_id x \<noteq> me" if "x \<in> set (messages (w_db w))" for x
    using own_message_None that by blast
  then have "\<not> list_ex (\<lambda>x. editable n (w_now w) me i x \<and> py_strip (m_content x) \<noteq> c) (messages (w_db w))"
    by (auto simp: list_ex_iff editable_def)
  moreover have "update_where (\<lambda>x. editable n (w_now w) me i x \<and> py_strip (m_content x) \<noteq> c) f (messages (w_db w)) =
      messages (w_db w)" for f
    using no by (intro update_where_none) (auto simp: editable_def)
  ultimately show ?thesis using None no by (simp add: edit_message_def Let_def) blast
next
  case (Some m)
  then have m: "m \<in> set (messages (w_db w))" "m_id m = i" "m_sender_id m = me"
    using own_message_Some by blast+
  have only: "x = m" if "x \<in> set (messages (w_db w))" "m_id x = i" for x
    using same_message [OF assms(1) m(1) that(1)] that(2) m(2) by simp
  let ?hit = "\<lambda>x. editable n (w_now w) me i x \<and> py_strip (m_content x) \<noteq> c"
  let ?target = "\<lambda>x. m_id x = i \<and> m_sender_id x = me \<and> w_now w - minutes n \<le> m_created_at x \<and> \<not> m_is_deleted_for_everyone x"
  have hit_iff: "?hit x \<longleftrightarrow> x = m \<and> ?hit m" if "x \<in> set (messages (w_db w))" for x
    using only [OF that] by (auto simp: editable_def)
  have ex_iff: "list_ex P (messages (w_db w)) \<longleftrightarrow> P m" if "\<And>x. P x \<Longrightarrow> m_id x = i" for P
    unfolding list_ex_iff using m(1) only that by blast
  have ex: "list_ex ?hit (messages (w_db w)) \<longleftrightarrow> ?hit m" "list_ex ?target (messages (w_db w)) \<longleftrightarrow> ?target m"
    using ex_iff [of ?hit] ex_iff [of ?target] by (simp_all add: editable_def)
  show ?thesis
  proof (cases "?hit m")
    case True
    then have "\<forall>x\<in>set (messages (w_db w)). ?hit x = ?target x"
      using only m(2,3) by (auto simp: editable_def)
    then have u: "update_where ?target (edited c (w_now w)) (messages (w_db w)) = update_where ?hit (edited c (w_now w)) (messages (w_db w))"
      by (simp add: update_where_def)
    have t: "?target m" "\<not> minutes n < w_now w - m_created_at m" using True by (auto simp: editable_def)
    then have e: "edit_message n i c me r w = publish_or_mark (edit_payload c i True @ [(''receiver_id'', JInt r)]) i me r
        (w\<lparr>w_db := update_messages ?target (edited c (w_now w)) (w_db w)\<rparr>)"
      using Some True ex(2) by (simp add: edit_message_def edited_def [abs_def] Let_def)
    have "messages (w_db (edit_message n i c me r w)) = update_where ?hit (edited c (w_now w)) (messages (w_db w))"
      using assms(2) by (simp add: e publish_or_mark_up update_messages_def u)
    moreover have "r_published (w_redis (edit_message n i c me r w)) = r_published (w_redis w) @
        map (Pair ''chat:messages'') [with_receiver me (edit_payload c i True @ [(''receiver_id'', JInt r)]),
          JObj (edit_payload c i True @ [(''receiver_id'', JInt r)])]"
      using assms(2) by (simp add: e publish_or_mark_up r_publish_def)
    moreover have "\<not> (m_id x = i \<and> m_sender_id x = me \<and> minutes n < w_now w - m_created_at x)" if "x \<in> set (messages (w_db w))" for x
      using only [OF that] t(2) by auto
    ultimately show ?thesis using ex(1) True by (simp add: Let_def) blast
  next
    case False
    then have "update_where ?hit (edited c (w_now w)) (messages (w_db w)) = messages (w_db w)"
      using hit_iff by (intro update_where_none) blast
    moreover have "w_db (edit_message n i c me r w) = w_db w \<and> w_redis (edit_message n i c me r w) = w_redis w"
      using Some False ex(2) m by (auto simp: edit_message_def Let_def editable_def)
    moreover have "edit_message n i c me r w = on_mgr (send_personal_message (edit_denied i) me) w" if "minutes n < w_now w - m_created_at m"
      using Some that by (simp add: edit_message_def)
    ultimately show ?thesis using False ex(1) only by (auto simp: Let_def)
  qed
qed


lemma edit_message_exact_witness:
  "map m_content (messages (w_db (edit_message 15 30 ''hello'' 1 2 chat_world))) = [''hello'', ''hey'']"
  using edit_message_exact [OF chat_world_ok, of 15 30 "''hello''" 1 2]
  by (simp add: chat_world_defs Let_def editable_def edited_def update_where_def minutes_def seconds_def py_strip_def is_space_def)


section \<open>Deleting\<close>

text \<open>The history of \<open>a\<close> with \<open>b\<close> after rows were hidden, or flagged as deleted.\<close>

lemma chat_messages_hidden:
  assumes "messages d' = messages d"
    and "\<And>m. m \<in> set (messages d) \<Longrightarrow> \<not> m_is_deleted_for_everyone m \<Longrightarrow> hidden_from a d' m \<longleftrightarrow> hidden_from a d m \<or> gone m"
  shows "chat_messages a b d' = filter (\<lambda>m. \<not> gone m) (chat_messages a b d)"
proof -
  have "filter (\<lambda>m. \<not> m_is_deleted_for_everyone m \<and> between a b (m_sender_id m) (m_receiver_id m) \<and> \<not> hidden_from a d' m) (messages d) =
      filter (\<lambda>m. \<not> gone m) (filter (\<lambda>m. \<not> m_is_deleted_for_everyone m \<and> between a b (m_sender_id m) (m_receiver_id m) \<and>
        \<not> hidden_from a d m) (messages d))"
    unfolding filter_filter by (rule filter_cong [OF refl]) (use assms(2) in blast)
  then show ?thesis unfolding chat_messages_def assms(1) by (simp only: filter_sort)
qed

lemma filter_update_where_out:
  assumes "\<And>x. T x \<Longrightarrow> \<not> Q (f x)"
  shows "filter Q (update_where T f xs) = filter (\<lambda>x. \<not> T x \<and> Q x) xs"
  using assms by (induction xs) auto

lemma hidden_frame [simp]: "hidden_from a (d\<lparr>messages := ms\<rparr>) m = hidden_from a d m"
  by (simp add: hidden_from_def)

lemma hidden_append: "hidden_from a (d\<lparr>deleted_messages := deleted_messages d @ rows\<rparr>) m \<longleftrightarrow>
    hidden_from a d m \<or> list_ex (\<lambda>x. dm_user_id x = a \<and> dm_message_id x = m_id m) rows"
  by (simp add: hidden_from_def)

lemma delete_for_everyone_db:
  "w_db (delete_for_everyone i me r w) = update_messages (\<lambda>x. m_id x = i \<and> m_sender_id x = me \<and> \<not> m_is_deleted_for_everyone x)
     (m_is_deleted_for_everyone_update (\<lambda>_. True)) (w_db w)"
proof (cases "list_ex (\<lambda>x. m_id x = i \<and> m_sender_id x = me \<and> \<not> m_is_deleted_for_everyone x) (messages (w_db w))")
  case False
  then have "update_where (\<lambda>x. m_id x = i \<and> m_sender_id x = me \<and> \<not> m_is_deleted_for_everyone x)
      (m_is_deleted_for_everyone_update (\<lambda>_. True)) (messages (w_db w)) = messages (w_db w)"
    by (intro update_where_none) (auto simp: list_ex_iff)
  then show ?thesis using False by (simp add: delete_for_everyone_def update_messages_def)
qed (simp add: delete_for_everyone_def Let_def publish_copies_def)

lemma deleteForMe_history:
  assumes "deleteForMe i cu w = (Return res, w')"
  shows "chat_messages a b (w_db w') = filter (\<lambda>m. \<not> (a = pr_id cu \<and> m_id m = i)) (chat_messages a b (w_db w))"
proof (rule chat_messages_hidden)
  show "messages (w_db w') = messages (w_db w)"
    using assms by (auto simp: deleteForMe_def Let_def insert_deleted_message_def split: option.splits if_splits)
  show "hidden_from a (w_db w') m \<longleftrightarrow> hidden_from a (w_db w) m \<or> a = pr_id cu \<and> m_id m = i" if "m \<in> set (messages (w_db w))" for m
  proof (cases "message_by_id i (w_db w)")
    case None
    then have "w' = w" using assms by (simp add: deleteForMe_def)
    moreover have "m_id m \<noteq> i" using None that by (auto simp: message_by_id_def find_None_iff)
    ultimately show ?thesis by simp
  next
    case (Some m')
    then have "m_id m' = i" by (auto simp: message_by_id_def dest: find_SomeD)
    then show ?thesis
      using assms Some by (auto simp: deleteForMe_def Let_def insert_deleted_message_def hidden_append hidden_from_def
          split: if_splits)
  qed
qed

lemma clear_chat_history:
  assumes "db_ok (w_db w)" "clear_chat friend cu w = (Return res, w')"
  shows "chat_messages a b (w_db w') = filter (\<lambda>m. \<not> (a = pr_id cu \<and> between a friend (m_sender_id m) (m_receiver_id m) \<and>
      (m_sender_id m = a \<or> m_is_read m))) (chat_messages a b (w_db w))"
proof -
  let ?rows = "map (\<lambda>m. \<lparr>dm_user_id = pr_id cu, dm_message_id = m_id m, dm_deleted_at = w_now w\<rparr>)
      (filter (visible_in_chat (pr_id cu) friend (w_db w)) (messages (w_db w)))"
  have d: "w_db w' = (w_db w)\<lparr>deleted_messages := deleted_messages (w_db w) @ ?rows\<rparr>"
    using assms by (auto simp: clear_chat_def Let_def split: if_splits)
  show ?thesis
  proof (rule chat_messages_hidden)
    fix m assume m: "m \<in> set (messages (w_db w))" "\<not> m_is_deleted_for_everyone m"
    have "list_ex (\<lambda>x. dm_user_id x = a \<and> dm_message_id x = m_id m) ?rows \<longleftrightarrow>
        a = pr_id cu \<and> (\<exists>x\<in>set (messages (w_db w)). visible_in_chat (pr_id cu) friend (w_db w) x \<and> m_id x = m_id m)"
      by (auto simp: list_ex_iff)
    also have "\<dots> \<longleftrightarrow> a = pr_id cu \<and> visible_in_chat (pr_id cu) friend (w_db w) m"
      using same_message [OF assms(1) m(1)] m(1) by blast
    finally show "hidden_from a (w_db w') m \<longleftrightarrow> hidden_from a (w_db w) m \<or> a = pr_id cu \<and>
        between a friend (m_sender_id m) (m_receiver_id m) \<and> (m_sender_id m = a \<or> m_is_read m)"
      using m(2) by (auto simp: d hidden_append visible_in_chat_def between_def)
  qed (simp add: d)
qed

text \<open>C15: Deletions have exactly their scope, in the history of every user \<open>a\<close> with every other \<open>b\<close>: "delete for everyone" removes
  the message everywhere if the caller sent it and nothing otherwise; "delete for me" removes it only from the caller's history;
  clearing a chat removes from the caller's history of that chat the messages they sent or have read, keeps the unread ones
  (which the docstring and the guides do not say), and touches no other history.\<close>

theorem message_deletion_scope:
  assumes "db_ok (w_db w)" "deleteForMe i cu w = (Return res, w1)" "clear_chat friend cu w = (Return res', w2)"
  shows "chat_messages a b (w_db (delete_for_everyone i me r w)) =
      filter (\<lambda>m. \<not> (m_id m = i \<and> m_sender_id m = me)) (chat_messages a b (w_db w)) \<and>
    chat_messages a b (w_db w1) = filter (\<lambda>m. \<not> (a = pr_id cu \<and> m_id m = i)) (chat_messages a b (w_db w)) \<and>
    chat_messages a b (w_db w2) = filter (\<lambda>m. \<not> (a = pr_id cu \<and> between a friend (m_sender_id m) (m_receiver_id m) \<and>
      (m_sender_id m = a \<or> m_is_read m))) (chat_messages a b (w_db w))"
proof -
  let ?d = "w_db w"
  let ?t = "\<lambda>x. m_id x = i \<and> m_sender_id x = me \<and> \<not> m_is_deleted_for_everyone x"
  have "filter (\<lambda>m. \<not> m_is_deleted_for_everyone m \<and> between a b (m_sender_id m) (m_receiver_id m) \<and> \<not> hidden_from a ?d m)
        (update_where ?t (m_is_deleted_for_everyone_update (\<lambda>_. True)) (messages ?d)) =
      filter (\<lambda>m. \<not> (m_id m = i \<and> m_sender_id m = me)) (filter (\<lambda>m. \<not> m_is_deleted_for_everyone m \<and>
        between a b (m_sender_id m) (m_receiver_id m) \<and> \<not> hidden_from a ?d m) (messages ?d))"
    by (subst filter_update_where_out) (auto simp: filter_filter intro: filter_cong)
  then have "chat_messages a b (w_db (delete_for_everyone i me r w)) =
      filter (\<lambda>m. \<not> (m_id m = i \<and> m_sender_id m = me)) (chat_messages a b ?d)"
    by (simp add: delete_for_everyone_db chat_messages_def update_messages_def filter_sort)
  then show ?thesis using deleteForMe_history [OF assms(2)] clear_chat_history [OF assms(1,3)] by blast
qed

lemma message_deletion_scope_witness:
  "map m_id (chat_messages 1 2 (w_db (delete_for_everyone 30 1 2 chat_world))) = [31]"
proof -
  have me: "pr_id (sample_principal 1 ''ann'') = 1" by (simp add: sample_principal_def principal_of_user_def sample_user_def)
  obtain res w1 where "deleteForMe 30 (sample_principal 1 ''ann'') chat_world = (Return res, w1)"
    by (auto simp: deleteForMe_def Let_def message_by_id_def hidden_from_def insert_deleted_message_def me chat_world_defs)
  moreover obtain res' w2 where "clear_chat 2 (sample_principal 1 ''ann'') chat_world = (Return res', w2)"
    by (simp add: clear_chat_def Let_def user_by_id_def me chat_world_defs)
  ultimately have "chat_messages 1 2 (w_db (delete_for_everyone 30 1 2 chat_world)) =
      filter (\<lambda>m. \<not> (m_id m = 30 \<and> m_sender_id m = 1)) (chat_messages 1 2 (w_db chat_world))"
    using message_deletion_scope [OF chat_world_ok] by blast
  then show ?thesis by (simp add: chat_messages_def between_def hidden_from_def chat_world_defs)
qed

end
