(* ===== verification/Reaction_Properties.thy ===== *)
theory Reaction_Properties
  imports Dm_Properties
begin

text \<open>Reactions to messages and shares: the toggle they implement, and the frames they publish.\<close>

section \<open>Rows found by key\<close>

lemma find_key_delete:
  "find (\<lambda>r. key r = k) (delete_where (\<lambda>r. key r = k') xs) = (if k = k' then None else find (\<lambda>r. key r = k) xs)"
  by (induction xs) auto

lemma find_key_update:
  "(\<And>r. key (f r) = key r) \<Longrightarrow> find (\<lambda>r. key r = k) (update_where (\<lambda>r. key r = k') f xs) =
   (if k = k' then map_option f (find (\<lambda>r. key r = k) xs) else find (\<lambda>r. key r = k) xs)"
  by (induction xs) auto

text \<open>With distinct keys, the rows of one group are as many as its keys.\<close>

lemma cnt_card_keys:
  assumes "distinct (map key xs)" and "\<And>x y. P x \<Longrightarrow> P y \<Longrightarrow> sub x = sub y \<Longrightarrow> key x = key y"
  shows "cnt P xs = int (card (sub ` {x \<in> set xs. P x}))"
proof -
  have "distinct (filter P xs)" "inj_on sub {x \<in> set xs. P x}"
    using assms by (auto simp: distinct_map inj_on_def)
  then show ?thesis by (simp add: cnt_def card_image distinct_card [symmetric])
qed

section \<open>Messages\<close>

definition reaction_map :: "database \<Rightarrow> int \<times> int \<Rightarrow> string option" where
  "reaction_map d k = map_option r_reaction (find (\<lambda>r. reaction_key r = k) (message_reactions d))"

lemma reaction_key_update: "reaction_key (r_reaction_update f r) = reaction_key r"
  by (simp add: reaction_key_def)

lemma reaction_of_key: "reaction_of i u d = find (\<lambda>r. reaction_key r = (i, u)) (message_reactions d)"
  by (simp add: reaction_of_def reaction_key_def)

lemma toggle_reaction_map:
  assumes "toggle_reaction i e u d = (shown, Some d')"
  shows "reaction_map d' = (reaction_map d)((i, u) := toggle e (reaction_map d (i, u)))"
    and "shown = toggle e (reaction_map d (i, u))"
proof -
  have mine: "(\<lambda>r. r_message_id r = i \<and> r_user_id r = u) = (\<lambda>r. reaction_key r = (i, u))"
    by (simp add: fun_eq_iff reaction_key_def)
  have del: "reaction_map (delete_reactions (\<lambda>r. reaction_key r = (i, u)) d) = (reaction_map d)((i, u) := None)"
    by (auto simp: fun_eq_iff reaction_map_def delete_reactions_def find_key_delete)
  have upd: "reaction_map (update_reactions (\<lambda>r. reaction_key r = (i, u)) e d) = (reaction_map d)((i, u) := Some e)"
    if "reaction_map d (i, u) \<noteq> None"
    using that by (auto simp: fun_eq_iff reaction_map_def update_reactions_def find_key_update [where key = reaction_key] reaction_key_update
        option.map_comp)
  have ins: "reaction_map d' = (reaction_map d)((i, u) := Some e)"
    if "reaction_map d (i, u) = None" "insert_reaction \<lparr>r_message_id = i, r_user_id = u, r_reaction = e\<rparr> d = Some d'"
    using that by (auto simp: insert_reaction_def reaction_map_def find_append fun_eq_iff reaction_key_def split: if_splits option.split)
  show "reaction_map d' = (reaction_map d)((i, u) := toggle e (reaction_map d (i, u)))"
    and "shown = toggle e (reaction_map d (i, u))"
    using assms del upd ins
    by (auto simp: toggle_reaction_def Let_def mine reaction_of_key reaction_map_def toggle_def split: option.splits if_splits)
qed

lemma reaction_count:
  assumes "db_ok d" "m \<in> set (messages d)"
  shows "m_reaction_cnt m = int (card {u. reaction_map d (m_id m, u) \<noteq> None})"
proof -
  have "m_reaction_cnt m = cnt (reaction_on m) (message_reactions d)"
    using message_facts(9) [OF assms(1)] assms(2) by (simp add: counts_match_def)
  also have "\<dots> = int (card (r_user_id ` {r \<in> set (message_reactions d). reaction_on m r}))"
    by (rule cnt_card_keys [OF message_facts(6) [OF assms(1)]]) (simp add: reaction_on_def reaction_key_def)
  also have "r_user_id ` {r \<in> set (message_reactions d). reaction_on m r} = {u. reaction_map d (m_id m, u) \<noteq> None}"
    by (auto simp: reaction_map_def find_None_iff reaction_on_def reaction_key_def)
  finally show ?thesis .
qed


lemma toggle_reaction_ids: "toggle_reaction i e u d = (shown, Some d') \<Longrightarrow> map m_id (messages d') = map m_id (messages d)"
  by (auto simp: toggle_reaction_def Let_def insert_reaction_def delete_reactions_def update_reactions_def split: option.splits if_splits)

lemma toggle_reaction_total:
  assumes "db_ok d" "m \<in> set (messages d)" "u = m_sender_id m \<or> u = m_receiver_id m"
  obtains d' where "toggle_reaction (m_id m) e u d = (toggle e (reaction_map d (m_id m, u)), Some d')"
proof -
  have "u \<in> u_id ` set (users d)" using message_facts(7,8) [OF assms(1,2)] assms(3) by auto
  moreover have "(m_id m, u) \<notin> reaction_key ` set (message_reactions d)" if "reaction_of (m_id m) u d = None"
    using that by (auto simp: reaction_of_key find_None_iff)
  ultimately have "snd (toggle_reaction (m_id m) e u d) \<noteq> None"
    using assms(2) by (auto simp: toggle_reaction_def Let_def insert_reaction_def reaction_key_def split: option.split)
  then obtain shown d' where t: "toggle_reaction (m_id m) e u d = (shown, Some d')" by (metis eq_snd_iff not_None_eq)
  then show ?thesis using that toggle_reaction_map(2) [OF t] by simp
qed

text \<open>C17: Reacting to a message refines a toggle: for a participant, with Redis up, the map from (message, user) to the
  reaction shown changes at exactly that place - no reaction becomes the emoji, the same emoji disappears, another one
  is replaced - and both users are sent a frame with the reaction now shown and the exact number of users reacting.\<close>

theorem reaction_refines_toggle:
  assumes "db_ok (w_db w)" "r_up (w_redis w)" "m \<in> set (messages (w_db w))" "u = m_sender_id m \<or> u = m_receiver_id m"
  shows "let (answer, w') = react (m_id m) e u w;
      old = reaction_map (w_db w); new = reaction_map (w_db w');
      payload = reaction_payload m (new (m_id m, u)) (int (card {v. new (m_id m, v) \<noteq> None})) u
    in answer = Return JNull \<and> new = old((m_id m, u) := toggle e (old (m_id m, u))) \<and> db_ok (w_db w') \<and>
      r_published (w_redis w') = r_published (w_redis w) @
        map (Pair ''chat:messages'') [with_receiver (m_sender_id m) payload, JObj payload]"
proof -
  obtain d' where t: "toggle_reaction (m_id m) e u (w_db w) = (toggle e (reaction_map (w_db w) (m_id m, u)), Some d')"
    using toggle_reaction_total [OF assms(1,3,4)] .
  have ok: "db_ok d'" using toggle_reaction_safe [OF t] assms(1) by (simp add: safe_step_def)
  have found: "message_by_id (m_id m) (w_db w) = Some m"
    unfolding message_by_id_def by (rule find_key_unique [OF message_facts(2) [OF assms(1)] assms(3)])
  have "m_id m \<in> set (map m_id (messages d'))" using toggle_reaction_ids [OF t] assms(3) by simp
  then obtain m' where m': "m' \<in> set (messages d')" "m_id m' = m_id m" by auto
  have found': "message_by_id (m_id m) d' = Some m'"
    using find_key_unique [OF message_facts(2) [OF ok] m'(1)] m'(2) by (simp add: message_by_id_def)
  have count: "m_reaction_cnt m' = int (card {v. reaction_map d' (m_id m, v) \<noteq> None})"
    using reaction_count [OF ok m'(1)] m'(2) by simp
  show ?thesis
    using assms(2,4) ok toggle_reaction_map(1) [OF t]
    by (simp add: react_def found t found' count Let_def r_publish_def)
qed

lemma reaction_refines_toggle_witness:
  "reaction_map (w_db (snd (react 30 ''+'' 2 chat_world))) (30, 2) = Some ''+''"
  using reaction_refines_toggle [OF chat_world_ok, of "sample_message 30 1 2 True" 2 "''+''"]
  by (simp add: chat_world_defs Let_def split_beta toggle_def reaction_map_def)


section \<open>Shares\<close>

definition share_reaction_map :: "database \<Rightarrow> int \<times> int \<Rightarrow> string option" where
  "share_reaction_map d k = map_option sr_reaction (find (\<lambda>r. share_reaction_key r = k) (shared_post_reactions d))"

lemma share_facts:
  assumes "db_ok d"
  shows "distinct (map s_id (shared_posts d))" "distinct (map share_reaction_key (shared_post_reactions d))"
    "s \<in> set (shared_posts d) \<Longrightarrow> s_from_user_id s \<in> u_id ` set (users d)"
    "s \<in> set (shared_posts d) \<Longrightarrow> s_to_user_id s \<in> u_id ` set (users d)"
    "counts_match s_reaction_cnt share_reaction_on (shared_posts d) (shared_post_reactions d)"
  using assms by (auto simp: db_ok_def db_wf_def counters_ok_def wf_shares_def wf_share_reactions_def fk_def ids_ok_def)

lemma share_reaction_of_key: "share_reaction_of i u d = find (\<lambda>r. share_reaction_key r = (i, u)) (shared_post_reactions d)"
  by (simp add: share_reaction_of_def share_reaction_key_def)

lemma share_reaction_key_update: "share_reaction_key (sr_reaction_update f r) = share_reaction_key r"
  by (simp add: share_reaction_key_def)

lemma toggle_share_reaction_map:
  assumes "toggle_share_reaction i e u d = (shown, Some d')"
  shows "share_reaction_map d' = (share_reaction_map d)((i, u) := toggle e (share_reaction_map d (i, u)))"
    and "shown = toggle e (share_reaction_map d (i, u))"
proof -
  have mine: "(\<lambda>r. sr_shared_post_id r = i \<and> sr_user_id r = u) = (\<lambda>r. share_reaction_key r = (i, u))"
    by (simp add: fun_eq_iff share_reaction_key_def)
  have del: "share_reaction_map (delete_share_reactions (\<lambda>r. share_reaction_key r = (i, u)) d) = (share_reaction_map d)((i, u) := None)"
    by (auto simp: fun_eq_iff share_reaction_map_def delete_share_reactions_def find_key_delete)
  have upd: "share_reaction_map (update_share_reactions (\<lambda>r. share_reaction_key r = (i, u)) e d) = (share_reaction_map d)((i, u) := Some e)"
    if "share_reaction_map d (i, u) \<noteq> None"
    using that by (auto simp: fun_eq_iff share_reaction_map_def update_share_reactions_def
        find_key_update [where key = share_reaction_key] share_reaction_key_update option.map_comp)
  have ins: "share_reaction_map d' = (share_reaction_map d)((i, u) := Some e)"
    if "share_reaction_map d (i, u) = None" "insert_share_reaction \<lparr>sr_shared_post_id = i, sr_user_id = u, sr_reaction = e\<rparr> d = Some d'"
    using that by (auto simp: insert_share_reaction_def share_reaction_map_def find_append fun_eq_iff share_reaction_key_def
        split: if_splits option.split)
  show "share_reaction_map d' = (share_reaction_map d)((i, u) := toggle e (share_reaction_map d (i, u)))"
    and "shown = toggle e (share_reaction_map d (i, u))"
    using assms del upd ins
    by (auto simp: toggle_share_reaction_def Let_def mine share_reaction_of_key share_reaction_map_def toggle_def
        split: option.splits if_splits)
qed

lemma toggle_share_reaction_total:
  assumes "db_ok d" "s \<in> set (shared_posts d)" "u = s_from_user_id s \<or> u = s_to_user_id s"
  obtains d' where "toggle_share_reaction (s_id s) e u d = (toggle e (share_reaction_map d (s_id s, u)), Some d')"
proof -
  have "u \<in> u_id ` set (users d)" using share_facts(3,4) [OF assms(1,2)] assms(3) by auto
  moreover have "(s_id s, u) \<notin> share_reaction_key ` set (shared_post_reactions d)" if "share_reaction_of (s_id s) u d = None"
    using that by (auto simp: share_reaction_of_key find_None_iff)
  ultimately have "snd (toggle_share_reaction (s_id s) e u d) \<noteq> None"
    using assms(2) by (auto simp: toggle_share_reaction_def Let_def insert_share_reaction_def share_reaction_key_def split: option.split)
  then obtain shown d' where t: "toggle_share_reaction (s_id s) e u d = (shown, Some d')" by (metis eq_snd_iff not_None_eq)
  then show ?thesis using that toggle_share_reaction_map(2) [OF t] by simp
qed

lemma share_reaction_count:
  assumes "db_ok d" "s \<in> set (shared_posts d)"
  shows "s_reaction_cnt s = int (card {u. share_reaction_map d (s_id s, u) \<noteq> None})"
proof -
  have "s_reaction_cnt s = cnt (share_reaction_on s) (shared_post_reactions d)"
    using share_facts(5) [OF assms(1)] assms(2) by (simp add: counts_match_def)
  also have "\<dots> = int (card (sr_user_id ` {r \<in> set (shared_post_reactions d). share_reaction_on s r}))"
    by (rule cnt_card_keys [OF share_facts(2) [OF assms(1)]]) (simp add: share_reaction_on_def share_reaction_key_def)
  also have "sr_user_id ` {r \<in> set (shared_post_reactions d). share_reaction_on s r} = {u. share_reaction_map d (s_id s, u) \<noteq> None}"
    by (auto simp: share_reaction_map_def find_None_iff share_reaction_on_def share_reaction_key_def)
  finally show ?thesis .
qed

text \<open>Reacting to a share implements the same toggle, but announces a stale number: the frame carries the number of users
  who reacted before the change, so when a reaction is added it says one less, and when one is removed one more,
  than the table then holds.\<close>

theorem share_reaction_count_stale:
  assumes "db_ok (w_db w)" "r_up (w_redis w)" "s \<in> set (shared_posts (w_db w))" "u = s_from_user_id s \<or> u = s_to_user_id s"
  shows "let (answer, w') = react_to_shared_post (s_id s) e u w;
      old = share_reaction_map (w_db w); new = share_reaction_map (w_db w');
      number = (\<lambda>f. int (card {v. f (s_id s, v) \<noteq> None}));
      frame = JObj [(''type'', JStr ''reaction_update''),
        (''data'', JObj [(''message_id'', JInt (s_id s)), (''reaction'', jstr_opt (new (s_id s, u))),
           (''reaction_count'', JInt (number old)), (''reacted_by'', JInt u)]), (''receiver_id'', JInt (s_to_user_id s))]
    in answer = Return JNull \<and> new = old((s_id s, u) := toggle e (old (s_id s, u))) \<and>
      last (r_published (w_redis w')) = (''chat:messages'', frame) \<and>
      number new = number old + (if old (s_id s, u) = None then 1 else if old (s_id s, u) = Some e then -1 else 0)"
proof -
  obtain d' where t: "toggle_share_reaction (s_id s) e u (w_db w) = (toggle e (share_reaction_map (w_db w) (s_id s, u)), Some d')"
    using toggle_share_reaction_total [OF assms(1,3,4)] .
  have found: "shared_post_by_id (s_id s) (w_db w) = Some s"
    unfolding shared_post_by_id_def by (rule find_key_unique [OF share_facts(1) [OF assms(1)] assms(3)])
  let ?old = "share_reaction_map (w_db w)"
  have fin: "finite {v. ?old (s_id s, v) \<noteq> None}"
  proof (rule finite_subset)
    show "{v. ?old (s_id s, v) \<noteq> None} \<subseteq> sr_user_id ` set (shared_post_reactions (w_db w))"
      by (auto simp: share_reaction_map_def share_reaction_key_def dest!: find_SomeD)
  qed simp
  have "{v. (?old((s_id s, u) := toggle e (?old (s_id s, u)))) (s_id s, v) \<noteq> None} =
      (if ?old (s_id s, u) = Some e then {v. ?old (s_id s, v) \<noteq> None} - {u} else insert u {v. ?old (s_id s, v) \<noteq> None})"
    by (auto simp: toggle_def)
  then have number: "int (card {v. (?old((s_id s, u) := toggle e (?old (s_id s, u)))) (s_id s, v) \<noteq> None}) =
      int (card {v. ?old (s_id s, v) \<noteq> None}) + (if ?old (s_id s, u) = None then 1 else if ?old (s_id s, u) = Some e then -1 else 0)"
    using fin card_Suc_Diff1 [OF fin, of u] by (auto simp: card_insert_if)
  show ?thesis
    using assms(2,4) toggle_share_reaction_map(1) [OF t] number
    by (simp add: react_to_shared_post_def found t Let_def r_publish_def share_reaction_payload_def
        share_reaction_count [OF assms(1,3)])
qed


definition sample_share :: shared_post where
  "sample_share = \<lparr>s_id = 40, s_post_id = 10, s_from_user_id = 1, s_to_user_id = 2, s_message = None, s_created_at = 8000000,
     s_is_read = False, s_is_deleted_for_everyone = False, s_reaction_cnt = 0\<rparr>"

definition share_world :: world where
  "share_world = sample_world\<lparr>w_db := sample_db\<lparr>shared_posts := [sample_share], shared_posts_seq := 41\<rparr>\<rparr>"

lemmas share_world_defs = share_world_def sample_share_def sample_defs

lemma share_world_ok: "db_ok (w_db share_world)"
  by (simp add: db_defs share_world_defs ids_ok_def counts_match_def owner_defs fk_def key_defs)

lemma share_reaction_count_stale_witness:
  "share_reaction_map (w_db (snd (react_to_shared_post 40 ''+'' 2 share_world))) (40, 2) = Some ''+''"
  using share_reaction_count_stale [OF share_world_ok, of sample_share 2 "''+''"]
  by (simp add: share_world_defs Let_def split_beta toggle_def share_reaction_map_def)

end
