(* ===== verification/Session_Properties.thy ===== *)
theory Session_Properties
  imports Dm_Properties
begin

text \<open>Properties of WebSocket sessions: presence, live delivery, missed content, the history and the inbox.\<close>

section \<open>The heartbeat watchdog\<close>

text \<open>C30: The watchdog closes a connection exactly \<open>timeout\<close> after its last heartbeat in time, never before: with heartbeats at
  non-decreasing times after the connection, it lets pass the longest run in which each comes less than the timeout
  after the one before, and closes \<open>timeout\<close> after the last of that run.\<close>

theorem watchdog_closes_silent_client:
  assumes "0 < timeout" "sorted (now # beats)"
  shows "\<exists>k\<le>length beats. run_presence_watchdog timeout now beats = last (now # take k beats) + timeout \<and>
    (\<forall>j<k. beats ! j < (now # beats) ! j + timeout) \<and> (k < length beats \<longrightarrow> (now # beats) ! k + timeout \<le> beats ! k)"
  using assms(2)
proof (induction beats arbitrary: now)
  case (Cons b beats)
  show ?case
  proof (cases "b < now + timeout")
    case True
    obtain k where k: "k \<le> length beats" "run_presence_watchdog timeout b beats = last (b # take k beats) + timeout"
      "\<forall>j<k. beats ! j < (b # beats) ! j + timeout" "k < length beats \<longrightarrow> (b # beats) ! k + timeout \<le> beats ! k"
      using Cons.IH [of b] Cons.prems by auto
    have "max now b = b" using Cons.prems by simp
    moreover have "\<forall>j<Suc k. (b # beats) ! j < (now # b # beats) ! j + timeout"
      using k(3) True by (auto simp: less_Suc_eq_0_disj)
    ultimately show ?thesis using k True by (intro exI [of _ "Suc k"]) simp
  qed (intro exI [of _ 0], simp)
qed simp

lemma watchdog_closes_silent_client_witness:
  "run_presence_watchdog 45 0 [10, 30, 90] = 75"
  using watchdog_closes_silent_client [of 45 0 "[10, 30, 90]"] by simp

section \<open>Live delivery of a direct message\<close>

text \<open>A direct message is never shown live, and costs both users their connection: the two published copies name sender and
  receiver, so attaching the peer's presence raises in the listener of the worker that holds the sockets, which
  drops and closes both and delivers neither copy.\<close>

theorem direct_message_disconnects_both:
  assumes "messageUser p me w = (Return (), w')" "r_up (w_redis w)"
    and "socket_of me m = Some a" "socket_of (ms_to p) m = Some b" "ws_connected a" "ws_connected b"
  shows "\<exists>frames. r_published (w_redis w') = r_published (w_redis w) @ frames \<and>
    (let m' = chat_messages_listener frames m in
     socket_of me m' = None \<and> socket_of (ms_to p) m' = None \<and> delivered m' = delivered m \<and>
     {ws_id a, ws_id b} \<subseteq> set (closing m'))"
proof -
  obtain c where pub: "r_published (w_redis w') = r_published (w_redis w) @ map (Pair ''chat:messages'')
       (let payload = direct_payload (messages_seq (w_db w)) c (fresh_attr (ms_media_url p)) (fresh_attr (ms_media_type p))
              me (ms_to p) (format_timestamp (w_now w) (Some (w_now w)))
        in [with_receiver me payload, JObj payload])"
    using messageUser_sent [OF assms(1,2)] by metis
  let ?p = "direct_payload (messages_seq (w_db w)) c (fresh_attr (ms_media_url p)) (fresh_attr (ms_media_type p))
    me (ms_to p) (format_timestamp (w_now w) (Some (w_now w)))"
  have peers: "peer_of (dict_set ''receiver_id'' (JInt me) ?p) me \<noteq> None" "peer_of ?p (ms_to p) \<noteq> None"
    "dict_get ''receiver_id'' ?p = JInt (ms_to p)" "dict_get ''receiver_id'' (dict_set ''receiver_id'' (JInt me) ?p) = JInt me"
    by (simp_all add: peer_of_def direct_payload_def dict_get_def dict_set_def Let_def)
  have "chat_messages_listener (map (Pair ''chat:messages'') [with_receiver me ?p, JObj ?p]) m =
      (if me = ms_to p then disconnect me False None m else disconnect (ms_to p) False None (disconnect me False None m))"
    using assms(3,4) peers
    by (simp add: chat_messages_listener_def redis_message_listener_def deliver_def with_receiver_def send_with_peer)
  moreover have "{ws_id a, ws_id b} \<subseteq> set (closing (if me = ms_to p then disconnect me False None m
      else disconnect (ms_to p) False None (disconnect me False None m)))"
    using assms(3-6) by (auto simp: disconnect_def socket_of_def Let_def)
  ultimately have "let m' = chat_messages_listener (map (Pair ''chat:messages'') [with_receiver me ?p, JObj ?p]) m in
     socket_of me m' = None \<and> socket_of (ms_to p) m' = None \<and> delivered m' = delivered m \<and> {ws_id a, ws_id b} \<subseteq> set (closing m')"
    by (simp add: Let_def)
  moreover have "r_published (w_redis w') = r_published (w_redis w) @ map (Pair ''chat:messages'') [with_receiver me ?p, JObj ?p]"
    using pub by (simp only: Let_def)
  ultimately show ?thesis by blast
qed


lemma direct_message_disconnects_both_witness:
  "socket_of 2 (chat_messages_listener (r_published (w_redis (snd (messageUser sample_frame 1 chat_world))))
     (connect 1 demo_socket (connect 2 (demo_socket\<lparr>ws_id := 8\<rparr>) new_manager))) = None"
proof -
  obtain w' where w': "messageUser sample_frame 1 chat_world = (Return (), w')"
    using sample_send by (cases "messageUser sample_frame 1 chat_world"; cases "fst (messageUser sample_frame 1 chat_world)") auto
  show ?thesis
    using direct_message_disconnects_both [OF w', of "connect 1 demo_socket (connect 2 (demo_socket\<lparr>ws_id := 8\<rparr>) new_manager)"
        demo_socket "demo_socket\<lparr>ws_id := 8\<rparr>"] w'
    by (auto simp: chat_world_defs sample_frame_def demo_socket_def Let_def)
qed

section \<open>Missed content\<close>

lemma sequence_failed: "r \<in> set rs \<Longrightarrow> \<not> is_Return r \<Longrightarrow> \<not> is_Return (sequence rs)"
  by (cases "sequence rs") (auto dest!: sequence_Return)

text \<open>A broadcast to others leaves a user's own socket, and what was delivered on it, alone.\<close>

definition own_socket :: "int \<Rightarrow> socket \<Rightarrow> manager \<Rightarrow> bool" where
  "own_socket i ws m \<longleftrightarrow> socket_of i m = Some ws \<and> (\<forall>j s. j \<noteq> i \<longrightarrow> socket_of j m = Some s \<longrightarrow> ws_id s \<noteq> ws_id ws)"

definition received :: "int \<Rightarrow> manager \<Rightarrow> json list" where
  "received k m = map snd (filter (\<lambda>(j, _). j = k) (delivered m))"

lemma send_to_other:
  assumes "own_socket i ws m" "j \<noteq> i"
  shows "own_socket i ws (send_personal_message f j m) \<and> received (ws_id ws) (send_personal_message f j m) = received (ws_id ws) m"
proof (cases "socket_of j m")
  case (Some s)
  have d: "own_socket i ws (disconnect j False None m)" "received (ws_id ws) (disconnect j False None m) = received (ws_id ws) m"
    using assms by (auto simp: own_socket_def received_def)
  have p: "own_socket i ws (push_frame j s x m) \<and> received (ws_id ws) (push_frame j s x m) = received (ws_id ws) m" for x
    using assms d Some by (auto simp: push_frame_def own_socket_def received_def socket_of_def)
  show ?thesis using Some d p by (simp add: send_personal_message_def split: outcome.split)
qed (use assms in simp)

lemma broadcast_to_others:
  assumes "own_socket i ws (w_mgr w)"
  shows "own_socket i ws (w_mgr (broadcast_presence_update i b t w))"
    and "received (ws_id ws) (w_mgr (broadcast_presence_update i b t w)) = received (ws_id ws) (w_mgr w)"
proof -
  have "own_socket i ws (fold (send_personal_message f) js m) \<and> received (ws_id ws) (fold (send_personal_message f) js m) = received (ws_id ws) m"
    if "own_socket i ws m" "i \<notin> set js" for f js m
    using that
  proof (induction js arbitrary: m)
    case (Cons j js)
    then show ?case using send_to_other [of i ws m j f] by simp
  qed simp
  moreover have "i \<notin> set (peer_ids i (w_db w))" by (simp add: peer_ids_iff)
  ultimately show "own_socket i ws (w_mgr (broadcast_presence_update i b t w))"
    and "received (ws_id ws) (w_mgr (broadcast_presence_update i b t w)) = received (ws_id ws) (w_mgr w)"
    using assms by (simp_all add: broadcast_presence_update_def)
qed


lemma missed_shares_iff: "s \<in> set (missed_shares i d) \<longleftrightarrow>
    s \<in> set (shared_posts d) \<and> s_to_user_id s = i \<and> \<not> s_is_read s \<and> \<not> s_is_deleted_for_everyone s"
  by (auto simp: missed_shares_def)

lemma missed_shares_after_claim: "missed_shares i (w_db (claim_missed i w)) = []"
proof -
  have shares: "shared_posts (w_db (claim_missed i w)) =
      update_where (\<lambda>s. s_id s \<in> s_id ` set (missed_shares i (w_db w)) \<and> \<not> s_is_read s) (s_is_read_update (\<lambda>_. True)) (shared_posts (w_db w))"
    by (simp add: claim_missed_def Let_def update_messages_def update_shared_posts_def)
  have "s \<notin> set (missed_shares i (w_db (claim_missed i w)))" for s
    unfolding missed_shares_iff shares set_update_where by (auto simp: missed_shares_iff)
  then show ?thesis by (meson last_in_set)
qed

lemma load_missed_fails:
  assumes "n \<in> set (missed_notifications i (w_db w))" "n_actor_id n \<notin> set (known @ eagerly_loaded i (w_db w))"
  shows "\<not> is_Return (fst (load_missed_content base known i w))"
proof -
  have "missed_notification (known @ eagerly_loaded i (w_db w)) (w_now w) (w_db w) n = Raise MissingGreenlet"
    using assms(2) by (simp add: missed_notification_def)
  then have fails: "\<not> is_Return (sequence (xs @ ys @ map (missed_notification (known @ eagerly_loaded i (w_db w)) (w_now w) (w_db w))
      (missed_notifications i (w_db w))))" for xs ys
    using assms(1) by (intro sequence_failed [of "Raise MissingGreenlet"]) (auto simp: image_iff intro!: bexI [of _ n])
  have map_is: "is_Return (map_outcome f r) = is_Return r" for f :: "(string \<times> missed_item) list \<Rightarrow> missed_item list" and r
    by (cases r) simp_all
  show ?thesis using fails by (simp add: load_missed_content_def Let_def map_is)
qed

text \<open>Content missed while offline is lost when a reconnecting user has an unread notification whose actor is not yet loaded:
  reading the actor raises after everything was marked as read. The handler ends before its loop, so no frame is ever
  handled and nothing was sent on the socket; no message or share is left to deliver on the next connection, and the
  dead socket stays registered.\<close>

theorem missed_content_lost:
  assumes "t \<noteq> []" "getCurrentUser decode minutes_valid t w = (Return cu, w1)"
    and "n \<in> set (notifications (w_db w))" "n_owner_id n = pr_id cu" "\<not> n_is_read n"
    and "n_actor_id n \<notin> set (cs_in_session cs @ eagerly_loaded (pr_id cu) (w_db w))"
    and "\<And>j s. j \<noteq> pr_id cu \<Longrightarrow> socket_of j (w_mgr w1) = Some s \<Longrightarrow> ws_id s \<noteq> ws_id ws"
  shows "\<exists>e. let (result, w') = chat decode minutes_valid cs saved ws (pr_id cu) (Some t) frames w in
    result = Crashed e \<and> received (ws_id ws) (w_mgr w') = received (ws_id ws) (w_mgr w1) \<and>
    missed_messages (pr_id cu) (w_db w') = [] \<and> missed_shares (pr_id cu) (w_db w') = [] \<and>
    socket_of (pr_id cu) (w_mgr w') = Some ws"
proof -
  let ?i = "pr_id cu"
  let ?w2 = "broadcast_presence_update ?i True None (on_mgr (connect ?i ws) w1)"
  have db: "w_db ?w2 = w_db w" using getCurrentUser_frame(1) [of decode minutes_valid t w] assms(2) by simp
  have own: "own_socket ?i ws (w_mgr (on_mgr (connect ?i ws) w1))"
    using assms(7) by (auto simp: own_socket_def)
  have "received (ws_id ws) (connect ?i ws (w_mgr w1)) = received (ws_id ws) (w_mgr w1)"
    by (simp add: received_def connect_def Let_def)
  then have rec: "received (ws_id ws) (w_mgr ?w2) = received (ws_id ws) (w_mgr w1)" and reg: "socket_of ?i (w_mgr ?w2) = Some ws"
    using broadcast_to_others [OF own] by (simp_all add: own_socket_def)
  have "n \<in> set (missed_notifications ?i (w_db ?w2))" using assms(3-5) db by (simp add: missed_notifications_def)
  then have "\<not> is_Return (fst (load_missed_content (cs_base_url cs) (cs_in_session cs) ?i ?w2))"
    using load_missed_fails assms(6) db by metis
  moreover have "snd (load_missed_content (cs_base_url cs) (cs_in_session cs) ?i ?w2) = claim_missed ?i ?w2"
    by (rule load_missed_world)
  ultimately obtain e where "chat decode minutes_valid cs saved ws ?i (Some t) frames w = (Crashed e, claim_missed ?i ?w2)"
    using assms(1,2)
    by (cases "load_missed_content (cs_base_url cs) (cs_in_session cs) ?i ?w2"; cases "fst (load_missed_content (cs_base_url cs) (cs_in_session cs) ?i ?w2)")
      (simp_all add: chat_def Let_def)
  then show ?thesis
    using missed_after_claim [of ?i ?w2] missed_shares_after_claim [of ?i ?w2] rec reg
    by (simp add: claim_missed_def Let_def)
qed


definition missed_world :: world where
  "missed_world = chat_world\<lparr>w_db := (w_db chat_world)\<lparr>notifications := [\<lparr>n_id = 50, n_owner_id = 1, n_actor_id = 2, n_type = like_notif,
     n_entity_id = None, n_entity_type = None, n_text = ''t'', n_is_read = False, n_created_at = 7000000\<rparr>]\<rparr>\<rparr>"

lemma missed_content_lost_witness:
  "map m_id (missed_messages 1 (w_db missed_world)) = [31] \<and> (\<exists>e w'.
     chat (\<lambda>_. Some sample_claims) 30 sample_settings True demo_socket 1 (Some ''t'') [] missed_world = (Crashed e, w') \<and>
     missed_messages 1 (w_db w') = [] \<and> received 7 (w_mgr w') = [])"
proof -
  let ?g = "getCurrentUser (\<lambda>_. Some sample_claims) 30 ''t'' missed_world"
  have "map_outcome pr_id (fst ?g) = Return 1 \<and> active_connections (w_mgr (snd ?g)) = [] \<and> delivered (w_mgr (snd ?g)) = []"
    by code_simp
  then obtain cu w1 where g: "?g = (Return cu, w1)" "pr_id cu = 1" "active_connections (w_mgr w1) = []" "delivered (w_mgr w1) = []"
    by (cases ?g; cases "fst ?g") auto
  define n where "n = hd (notifications (w_db missed_world))"
  have n: "n \<in> set (notifications (w_db missed_world))" "n_owner_id n = pr_id cu" "\<not> n_is_read n"
    by (simp_all add: n_def missed_world_def g(2))
  have a: "n_actor_id n \<notin> set (cs_in_session sample_settings @ eagerly_loaded (pr_id cu) (w_db missed_world))"
    unfolding n_def g(2) by code_simp
  have "\<exists>e. let (result, w') = chat (\<lambda>_. Some sample_claims) 30 sample_settings True demo_socket (pr_id cu) (Some ''t'') [] missed_world in
    result = Crashed e \<and> received (ws_id demo_socket) (w_mgr w') = received (ws_id demo_socket) (w_mgr w1) \<and>
    missed_messages (pr_id cu) (w_db w') = [] \<and> missed_shares (pr_id cu) (w_db w') = [] \<and> socket_of (pr_id cu) (w_mgr w') = Some demo_socket"
    by (rule missed_content_lost [OF _ g(1) n a]) (simp_all add: socket_of_def g(3))
  moreover have "map m_id (missed_messages 1 (w_db missed_world)) = [31]" by code_simp
  ultimately show ?thesis
    using g(2,4) by (cases "chat (\<lambda>_. Some sample_claims) 30 sample_settings True demo_socket 1 (Some ''t'') [] missed_world")
      (simp add: Let_def received_def demo_socket_def)
qed

section \<open>The inbox\<close>

text \<open>The inbox cannot be shown to anyone who has exchanged a message: as soon as one undeleted message from or to
  the user exists, the handler raises \<open>NameError\<close> while asking whether the other side is online.\<close>

theorem inbox_unavailable:
  assumes "db_ok (w_db w)" "m \<in> set (messages (w_db w))" "\<not> m_is_deleted_for_everyone m"
    and "m_sender_id m = pr_id cu \<or> m_receiver_id m = pr_id cu"
  shows "get_recent_chats cu w = (Raise NameError, w)"
proof -
  let ?d = "w_db w" and ?me = "pr_id cu"
  define mine where "mine = sort_key (\<lambda>m. - m_created_at m)
    (filter (\<lambda>m. (m_sender_id m = ?me \<or> m_receiver_id m = ?me) \<and> \<not> m_is_deleted_for_everyone m) (messages ?d))"
  define latest where "latest = List.map_filter (\<lambda>i. find (\<lambda>m. other_user ?me m = i) mine) (remdups (map (other_user ?me) mine))"
  have m: "m \<in> set mine" using assms(2-4) by (auto simp: mine_def)
  then obtain x where x: "find (\<lambda>x. other_user ?me x = other_user ?me m) mine = Some x"
    by (cases "find (\<lambda>x. other_user ?me x = other_user ?me m) mine") (auto simp: find_None_iff)
  then have "x \<in> set latest" using m by (force simp: latest_def map_filter_def)
  moreover have "x \<in> set (messages ?d)" using find_SomeD [OF x] by (auto simp: mine_def)
  then have "other_user ?me x \<in> u_id ` set (users ?d)"
    using message_facts(7,8) [OF assms(1)] by (simp add: other_user_def)
  then have "user_by_id (other_user ?me x) ?d \<noteq> None" by (auto simp: user_by_id_def find_None_iff)
  moreover have "recent_rows ?me ?d = List.map_filter (\<lambda>m. map_option (Pair m) (user_by_id (other_user ?me m) ?d))
      (sort_key (\<lambda>m. - m_created_at m) latest)"
    by (simp only: recent_rows_def Let_def mine_def latest_def)
  ultimately have "recent_rows ?me ?d \<noteq> []"
    by (auto simp: map_filter_def filter_empty_conv)
  then obtain r rs where "recent_rows ?me ?d = r # rs" by (cases "recent_rows ?me ?d") auto
  moreover have "recent_item t i mgr p = Raise NameError" for t i mgr p
    by (cases p) (simp add: recent_item_def is_online_def)
  ultimately show ?thesis by (simp add: get_recent_chats_def)
qed

lemma inbox_unavailable_witness:
  "fst (get_recent_chats (sample_principal 1 ''ann'') chat_world) = Raise NameError"
  using inbox_unavailable [OF chat_world_ok, of "sample_message 30 1 2 True" "sample_principal 1 ''ann''"]
  by (simp add: sample_principal_def principal_of_user_def chat_world_defs)


section \<open>Quoting\<close>

lemma deliver_reply_up: "r_up (w_redis w) \<Longrightarrow>
    w_db (snd (deliver_reply k f i s r w)) = w_db w \<and> w_now (snd (deliver_reply k f i s r w)) = w_now w"
  by (simp add: deliver_reply_def)

text \<open>Any user can read any message that was not deleted for everyone, by guessing its id: a reply to it is stored with the
  reply - the message need not be in a conversation of the user, who may address the reply to themself - and the reply's
  item in the user's own history quotes the text of the original.\<close>

theorem reply_discloses_foreign_message:
  assumes "db_ok (w_db w)" "q \<in> set (messages (w_db w))" "\<not> m_is_deleted_for_everyone q" "\<not> hidden_from me (w_db w) q"
    and "me \<notin> {m_sender_id q, m_receiver_id q}" "rs_reply_msg_id p = m_id q"
    and "reply_msg known p me w = (res, w')" "w_db w' \<noteq> w_db w" "r_up (w_redis w)"
  shows "\<exists>m t item quoted. m \<in> set (chat_messages me (ms_to p) (w_db w')) \<and>
    history_message base reaction_json (w_now w') (w_db w') m = Return (t, JObj item) \<and>
    dict_get ''reply_to'' item = JObj quoted \<and> dict_get ''content'' quoted = JStr (m_content q)"
proof -
  let ?P = "\<lambda>m. m_id m = rs_reply_msg_id p \<and> \<not> m_is_deleted_for_everyone m \<and> \<not> hidden_from me (w_db w) m"
  obtain q' where q': "find ?P (messages (w_db w)) = Some q'" using assms(2-4,6) by (cases "find ?P (messages (w_db w))") (auto simp: find_None_iff)
  then have "q' = q" using same_message [OF assms(1,2)] assms(6) by (auto dest: find_SomeD)
  obtain r w1 where st: "store_message True False me p w = (r, w1)" by fastforce
  obtain m where m: "r = Return m"
    using assms(7,8) q' st store_message_failed [OF st] by (cases r) (auto simp: reply_msg_def)
  obtain c t u where c: "m = message_row True False c me (ms_to p) t u w" "insert_message m (w_db w) = Some (w_db w1)"
    "w1 = w\<lparr>w_db := w_db w1\<rparr>"
    using store_message_Return [OF st [unfolded m]] by metis
  let ?link = "\<lparr>mr_reply_id = m_id m, mr_original_id = rs_reply_msg_id p\<rparr>"
  obtain d where d: "insert_message_reply ?link (w_db w1) = Some d"
    using assms(7,8) q' st m by (cases "insert_message_reply ?link (w_db w1)") (auto simp: reply_msg_def)
  have up: "r_up (w_redis (w1\<lparr>w_db := d\<rparr>))" using assms(9) c(3) by (metis world.select_convs(2) world.surjective world.update_convs(1))
  then have w': "w_db w' = d" "w_now w' = w_now w1"
    using assms(7) q' st m d deliver_reply_up [OF up] by (auto simp: reply_msg_def Let_def split_beta split: if_splits)
  have new: "messages d = messages (w_db w) @ [m]" "message_replies d = message_replies (w_db w) @ [?link]" "deleted_messages d = deleted_messages (w_db w)"
    using d insert_message_Some [OF c(2)] c(1) by (auto simp: insert_message_reply_def split: if_splits)
  have "find (\<lambda>l. mr_reply_id l = m_id m) (message_replies (w_db w)) = None"
    unfolding find_None_iff using message_facts(1,5) [OF assms(1)] c(1) by (metis message_row_fields(1))
  then have "replied_message m d = Return (message_by_id (m_id q) d)"
    using assms(6) by (simp add: replied_message_def new(2) find_append)
  moreover have "message_by_id (m_id q) d = Some q"
    using find_key_unique [OF message_facts(2) [OF assms(1)] assms(2)] by (simp add: message_by_id_def new(1) find_append)
  ultimately have h: "\<exists>ty url. reply_fields base d m = Return [(''is_reply'', JBool True), (''reply_to'', JObj [(''msg_id'', JInt (m_id q)),
      (''content'', JStr (m_content q)), (''media_type'', ty), (''media_url'', url),
      (''sender_name'', JStr (username_or ''Unknown'' (m_sender_id q) d))])]"
    using c(1) by (simp add: reply_fields_def)
  moreover have "m \<in> set (chat_messages me (ms_to p) d)"
    using hidden_fresh [OF assms(1), of m me] c(1) new(3) by (simp add: chat_messages_def new(1) between_def hidden_from_def)
  ultimately show ?thesis
    unfolding w' by (intro exI [of _ m]) (auto simp: history_message_def dict_get_def message_item_def)
qed


text \<open>A third user, who takes part in no conversation.\<close>

definition eve_world :: world where
  "eve_world = chat_world\<lparr>w_db := (w_db chat_world)\<lparr>users := users (w_db chat_world) @ [sample_user 3 ''eve'' 0 0], users_seq := 4\<rparr>\<rparr>"

lemma eve_world_ok: "db_ok (w_db eve_world)"
  by (simp add: db_defs eve_world_def chat_world_defs ids_ok_def counts_match_def owner_defs fk_def key_defs)

definition eve_reply :: reply_message_schema where
  "eve_reply = \<lparr>ms_to = 3, ms_content = Some ''x'', ms_media_url = Some ''false'', ms_media_type = Some ''false'', rs_reply_msg_id = 30\<rparr>"

lemma reply_discloses_foreign_message_witness:
  "\<exists>m t item quoted. history_message ''b'' (\<lambda>_. JNull) (w_now (snd (reply_msg [] eve_reply 3 eve_world)))
      (w_db (snd (reply_msg [] eve_reply 3 eve_world))) m = Return (t, JObj item) \<and>
    dict_get ''reply_to'' item = JObj quoted \<and> dict_get ''content'' quoted = JStr ''hey''"
proof -
  obtain res w' where r: "reply_msg [] eve_reply 3 eve_world = (res, w')" by fastforce
  have "length (messages (w_db (snd (reply_msg [] eve_reply 3 eve_world)))) = 3" by code_simp
  then have "length (messages (w_db w')) = 3" using r by simp
  moreover have "length (messages (w_db eve_world)) = 2" by (simp add: eve_world_def chat_world_defs)
  ultimately have ne: "w_db w' \<noteq> w_db eve_world" by auto
  have q: "sample_message 30 1 2 True \<in> set (messages (w_db eve_world))" "\<not> hidden_from 3 (w_db eve_world) (sample_message 30 1 2 True)"
    "r_up (w_redis eve_world)"
    by (simp_all add: eve_world_def chat_world_defs hidden_from_def)
  show ?thesis
    using reply_discloses_foreign_message [OF eve_world_ok q(1) _ q(2) _ _ r ne q(3), of "''b''" "\<lambda>_. JNull"] r
    by (simp add: sample_message_def eve_reply_def) blast
qed

section \<open>The order of the history\<close>

lemma minutes_label:
  assumes "(now - t) div 60000000 = k" "0 < k" "k < 60"
  shows "format_timestamp now (Some t) = str_int k @ ''m ago''"
proof -
  have "now - t = 60000000 * k + (now - t) mod 60000000" using assms(1) mult_div_mod_eq [of 60000000 "now - t"] by simp
  moreover have "0 \<le> (now - t) mod 60000000" "(now - t) mod 60000000 < 60000000" by simp_all
  ultimately have "60000000 \<le> now - t" "now - t < 3600000000" using assms(2,3) by linarith+
  then show ?thesis using assms(1) by (simp add: format_minutes)
qed

text \<open>The history is not in time order, in either direction: items are sorted by their rendered times as strings, so with
  messages sent three, twenty and thirty minutes ago the one of twenty minutes comes first, then the one of thirty, and
  the newest last.\<close>

theorem history_not_chronological:
  assumes "chat_messages (pr_id cu) friend (w_db w) = [a, b, c]" "chat_shares (pr_id cu) friend (w_db w) = []"
    and "\<not> m_is_reply_msg a" "\<not> m_is_reply_msg b" "\<not> m_is_reply_msg c"
    and "(w_now w - m_created_at a) div 60000000 = 3" "(w_now w - m_created_at b) div 60000000 = 20"
      "(w_now w - m_created_at c) div 60000000 = 30"
  shows "\<exists>item. get_chat_history base rj srj friend cu w = (Return (JArr (map item [b, c, a])), w) \<and>
    (\<forall>m. \<exists>fields. item m = JObj fields \<and> dict_get ''id'' fields = JInt (m_id m))"
proof -
  let ?d = "w_db w"
  let ?reactions = "\<lambda>m. JArr (map rj (filter (\<lambda>r. r_message_id r = m_id m) (message_reactions ?d)))"
  let ?item = "\<lambda>m. JObj (message_item base (w_now w) (?reactions m) (m_is_read m) m @ [(''is_reply'', JBool False)])"
  have digits: "str_int 3 = ''3''" "str_int 20 = ''20''" "str_int 30 = ''30''" by code_simp+
  have labels: "format_timestamp (w_now w) (Some (m_created_at a)) = ''3m ago''"
    "format_timestamp (w_now w) (Some (m_created_at b)) = ''20m ago''" "format_timestamp (w_now w) (Some (m_created_at c)) = ''30m ago''"
    using minutes_label [OF assms(6)] minutes_label [OF assms(7)] minutes_label [OF assms(8)] digits by simp_all
  have item: "history_message base rj (w_now w) ?d m = Return (format_timestamp (w_now w) (Some (m_created_at m)), ?item m)"
    if "\<not> m_is_reply_msg m" for m using that by (simp add: history_message_def reply_fields_def)
  have le: "''20m ago'' \<le> (''30m ago''::string)" "\<not> ''3m ago'' \<le> (''20m ago''::string)" "\<not> ''3m ago'' \<le> (''30m ago''::string)"
    by code_simp+
  have "get_chat_history base rj srj friend cu w = (Return (JArr (map ?item [b, c, a])), w)"
    using assms(1-5) by (simp add: get_chat_history_def Let_def item labels le)
  moreover have "\<forall>m. \<exists>fields. ?item m = JObj fields \<and> dict_get ''id'' fields = JInt (m_id m)"
    by (simp add: message_item_def dict_get_def)
  ultimately show ?thesis by blast
qed


definition aged_world :: world where
  "aged_world = chat_world\<lparr>w_now := 3600000000, w_db := (w_db chat_world)\<lparr>messages :=
     [(sample_message 30 1 2 True)\<lparr>m_created_at := 1800000000\<rparr>, (sample_message 31 2 1 True)\<lparr>m_created_at := 2400000000\<rparr>,
      (sample_message 32 1 2 True)\<lparr>m_created_at := 3420000000\<rparr>]\<rparr>\<rparr>"

lemma history_not_chronological_witness:
  "\<exists>item. fst (get_chat_history ''b'' (\<lambda>_. JNull) (\<lambda>_. JNull) 2 (sample_principal 1 ''ann'') aged_world) =
    Return (JArr (map item (map (\<lambda>k. messages (w_db aged_world) ! k) [1, 0, 2])))"
proof -
  have p: "pr_id (sample_principal 1 ''ann'') = 1" by (simp add: sample_principal_def principal_of_user_def sample_user_def)
  have "chat_messages 1 2 (w_db aged_world) = [messages (w_db aged_world) ! 2, messages (w_db aged_world) ! 1, messages (w_db aged_world) ! 0]"
    "chat_shares 1 2 (w_db aged_world) = []"
    by (simp_all add: aged_world_def chat_world_defs chat_messages_def chat_shares_def between_def hidden_from_def)
  then show ?thesis
    using history_not_chronological [of "sample_principal 1 ''ann''" 2 aged_world "messages (w_db aged_world) ! 2"
        "messages (w_db aged_world) ! 1" "messages (w_db aged_world) ! 0" "''b''" "\<lambda>_. JNull" "\<lambda>_. JNull"]
    by (simp add: p) (auto simp: aged_world_def sample_message_def)
qed

end
