(* ===== verification/Notifications_Properties.thy ===== *)
theory Notifications_Properties
  imports Notifications Posts_Properties
begin

text \<open>Properties of the notification service, its task and its routes.\<close>

lemma sort_key_newest:
  fixes f :: "'a \<Rightarrow> int"
  assumes "\<And>y. y \<in> set ys \<Longrightarrow> f n < f y"
  shows "sort_key f (ys @ [n]) = n # sort_key f ys"
proof -
  have "insort_key f n zs = n # zs" if "\<And>y. y \<in> set zs \<Longrightarrow> f n < f y" for zs
    using that by (cases zs) (auto simp: less_imp_le)
  moreover have "sort_key f (ys @ [n]) = insort_key f n (sort_key f ys)"
    using assms
  proof (induction ys)
    case (Cons y ys)
    then show ?case by (simp add: insort_key_left_comm order_less_imp_not_eq)
  qed simp
  ultimately show ?thesis using assms by (metis set_sort)
qed

lemma published_drop: "r_published (drop_notification_caches i r) = r_published r"
  by (simp add: drop_notification_caches_def delete_cache_pattern_def r_del_matching_def)

text \<open>C26: The notification badge is exact: once a like, comment or follow has been notified, the owner's table holds
  the new unread row and the badge shows one more than the unread rows before, whatever was cached; after
  marking all as read it shows zero.\<close>

theorem notification_badge_exact:
  assumes "create_notification a i t name e et w = (Return (), w')" "a \<noteq> i" "pr_id me = i"
  shows "(\<exists>n. notifications (w_db w') = notifications (w_db w) @ [n] \<and> n_owner_id n = i \<and> n_actor_id n = a \<and>
       n_type n = t \<and> n_text n = notification_text t name \<and> \<not> n_is_read n \<and> n_created_at n = w_now w) \<and>
    fst (get_unread_notification_count me (w'\<lparr>w_now := now\<rparr>)) =
      Return (unread_count_body (get_unread_count i (w_db w) + 1)) \<and>
    fst (get_unread_notification_count me ((snd (mark_all_notifications_read me v))\<lparr>w_now := now\<rparr>)) =
      Return (unread_count_body 0)"
proof -
  note c = create_notification_returns [OF assms(1,2)]
  have "get_cache s (unread_key i) (w_redis w') = None" for s
    using c(3,4) by (cases "r_up (w_redis w)") (simp_all add: dropped_unread)
  then have "fst (get_unread_notification_count me (w'\<lparr>w_now := now\<rparr>)) =
      Return (unread_count_body (get_unread_count i (w_db w) + 1))"
    using assms(3) get_unread_count_insert [OF c(1), of i] by (simp add: unread_after_drop)
  moreover have "fst (get_unread_notification_count me ((snd (mark_all_notifications_read me v))\<lparr>w_now := now\<rparr>)) =
      Return (unread_count_body 0)"
    using assms(3) by (simp add: unread_after_drop mark_all_notifications_read_def dropped_unread)
  ultimately show ?thesis using c(2) by simp
qed

text \<open>A like of the sample post by its reader.\<close>

lemma sample_notification:
  obtains w' where "create_notification 2 1 like_notif ''bob'' (Some 10) (Some ''post'') sample_world = (Return (), w')"
    "w_db w' = (w_db sample_world)\<lparr>notifications := [\<lparr>n_id = 1, n_owner_id = 1, n_actor_id = 2, n_type = like_notif,
       n_entity_id = Some 10, n_entity_type = Some ''post'', n_text = ''bob liked your post'', n_is_read = False,
       n_created_at = 9000000\<rparr>], notifications_seq := 2\<rparr>" "r_up (w_redis w')"
  by (simp add: create_notification_def insert_notification_def sample_defs Let_def notification_text_def
      drop_notification_caches_def new_notification_def)

lemma notification_badge_exact_witness:
  "fst (get_unread_notification_count (sample_principal 1 ''ann'')
     (snd (create_notification 2 1 like_notif ''bob'' (Some 10) (Some ''post'') sample_world))) = Return (unread_count_body 1)"
proof -
  obtain w' where w: "create_notification 2 1 like_notif ''bob'' (Some 10) (Some ''post'') sample_world = (Return (), w')"
    using sample_notification by metis
  have "get_unread_count 1 (w_db sample_world) = 0"
    by (simp add: get_unread_count_def sample_defs)
  then show ?thesis
    using notification_badge_exact [OF w, of "sample_principal 1 ''ann''" "w_now w'"] w
    by (simp add: sample_principal_def principal_of_user_def sample_user_def)
qed

text \<open>A user who has been notified cannot open the notification list: the response model reads the notification's
  actor through a relationship that is never loaded, so the first page fails until the actor happens to be in the
  request's session.\<close>

theorem notification_list_unreadable:
  assumes "create_notification a i t name e et w = (Return (), w')" "a \<noteq> i" "pr_id me = i" "a \<notin> set in_session"
    and "list_all (\<lambda>n. n_created_at n < w_now w) (notifications (w_db w))" "0 < limit" "r_up (w_redis w)"
  shows "get_my_notifications in_session limit 0 me (w'\<lparr>w_now := now\<rparr>) = (Raise ValidationError, w'\<lparr>w_now := now\<rparr>)"
proof -
  let ?n = "new_notification a i t name e et w"
  note c = create_notification_returns [OF assms(1,2)]
  have miss: "get_cache s (notifications_key i 0 limit) (w_redis w') = None" for s
    using c(3) assms(7) id_pattern_exact [of "''notifications:''" i i]
    by (simp add: drop_notification_caches_def get_cache_delete_pattern notifications_pattern_def notifications_key_def)
  have "notifications_of i (w_db w') = ?n # notifications_of i (w_db w)"
    using assms(5) c(2) by (simp add: notifications_of_def) (intro sort_key_newest, auto simp: list_all_iff)
  then have "get_notifications i limit 0 (w_db w') = ?n # take (limit - 1) (notifications_of i (w_db w))"
    using assms(6) by (cases limit) (simp_all add: get_notifications_def)
  then have "sequence (map (validated_notification in_session (w_db w')) (get_notifications i limit 0 (w_db w'))) =
      Raise ValidationError"
    using assms(4) by (simp add: validated_notification_def)
  then show ?thesis using miss assms(3) by (simp add: get_my_notifications_def Let_def)
qed

lemma notification_list_unreadable_witness:
  "fst (get_my_notifications [1] 20 0 (sample_principal 1 ''ann'')
     (snd (create_notification 2 1 like_notif ''bob'' (Some 10) (Some ''post'') sample_world))) = Raise ValidationError"
proof -
  obtain w' where w: "create_notification 2 1 like_notif ''bob'' (Some 10) (Some ''post'') sample_world = (Return (), w')"
    using sample_notification by metis
  show ?thesis
    using notification_list_unreadable [OF w, of "sample_principal 1 ''ann''" "[1]" 20 "w_now w'"] w
    by (simp add: sample_principal_def principal_of_user_def sample_defs)
qed

text \<open>Live notifications are never delivered and cost the recipient the connection: the published frame names the
  actor, so the listener's attempt to attach the actor's presence raises, and the recipient's open socket is closed
  and dropped without the frame.\<close>

theorem notification_push_drops_recipient:
  assumes "create_notification a i t name e et w = (Return (), w')" "a \<noteq> i" "r_up (w_redis w)"
    and "socket_of i m = Some ws" "ws_connected ws"
  shows "\<exists>frame. r_published (w_redis w') = r_published (w_redis w) @ [(''notifications:messages'', frame)] \<and>
    (let m' = notification_messages_listener [(''notifications:messages'', frame)] m in
     socket_of i m' = None \<and> delivered m' = delivered m \<and> ws_id ws \<in> set (closing m'))"
proof -
  let ?f = "notification_payload (new_notification a i t name e et w) name"
  note c = create_notification_returns(3) [OF assms(1-3)]
  have "peer_of ?f i \<noteq> None" "dict_get ''receiver_id'' ?f = JInt i"
    by (simp_all add: peer_of_def notification_payload_def dict_get_def Let_def)
  then have dropped: "notification_messages_listener [(''notifications:messages'', JObj ?f)] m = disconnect i False None m"
    using assms(4) by (simp add: notification_messages_listener_def listener_one deliver_def send_with_peer)
  have "ws_id ws \<in> set (closing (disconnect i False None m))"
    using assms(4,5) by (simp add: disconnect_def Let_def)
  then show ?thesis
    using c published_drop [of i "w_redis w"] dropped
    by (intro exI [of _ "JObj ?f"]) (simp add: r_publish_def)
qed

lemma notification_push_drops_recipient_witness:
  "r_published (w_redis (snd (create_notification 2 1 like_notif ''bob'' (Some 10) (Some ''post'') sample_world))) \<noteq> [] \<and>
   socket_of 1 (notification_messages_listener
     (r_published (w_redis (snd (create_notification 2 1 like_notif ''bob'' (Some 10) (Some ''post'') sample_world))))
     (connect 1 demo_socket new_manager)) = None"
proof -
  obtain w' where w: "create_notification 2 1 like_notif ''bob'' (Some 10) (Some ''post'') sample_world = (Return (), w')"
    using sample_notification by metis
  show ?thesis
    using notification_push_drops_recipient [OF w, of "connect 1 demo_socket new_manager" demo_socket] w
    by (auto simp: sample_defs demo_socket_def Let_def)
qed

end
