(* ===== verification/Reconcile.thy ===== *)
theory Reconcile
  imports Table_Invariants
begin

text \<open>
  \<open>app/services/reconciliation_service.py\<close>: nine \<open>UPDATE .. WHERE counter != (SELECT count(..))\<close>
  statements, in the order of the code, each with its \<open>rowcount\<close>. The lemmas show that afterwards
  every counter is exact, that the report counts the drifted rows, and that exact counters are
  left alone.
\<close>

section \<open>The passes\<close>

definition repair_user_following_cnt :: "database \<Rightarrow> int \<times> database" where
  "repair_user_following_cnt d =
     (drifted u_following_cnt following_of (connections d) (users d),
      d\<lparr>users := repair u_following_cnt u_following_cnt_update following_of (connections d) (users d)\<rparr>)"

definition repair_user_followers_cnt :: "database \<Rightarrow> int \<times> database" where
  "repair_user_followers_cnt d =
     (drifted u_followers_cnt follower_of (connections d) (users d),
      d\<lparr>users := repair u_followers_cnt u_followers_cnt_update follower_of (connections d) (users d)\<rparr>)"

definition repair_message_reaction_cnt :: "database \<Rightarrow> int \<times> database" where
  "repair_message_reaction_cnt d =
     (drifted m_reaction_cnt reaction_on (message_reactions d) (messages d),
      d\<lparr>messages :=
          repair m_reaction_cnt m_reaction_cnt_update reaction_on (message_reactions d) (messages d)\<rparr>)"

definition repair_shared_post_reaction_cnt :: "database \<Rightarrow> int \<times> database" where
  "repair_shared_post_reaction_cnt d =
     (drifted s_reaction_cnt share_reaction_on (shared_post_reactions d) (shared_posts d),
      d\<lparr>shared_posts :=
          repair s_reaction_cnt s_reaction_cnt_update share_reaction_on (shared_post_reactions d)
            (shared_posts d)\<rparr>)"

definition repair_comment_likes :: "database \<Rightarrow> int \<times> database" where
  "repair_comment_likes d =
     (drifted c_likes comment_like_of (comment_votes d) (comments d),
      d\<lparr>comments := repair c_likes c_likes_update comment_like_of (comment_votes d) (comments d)\<rparr>)"

definition repair_post_comments_cnt :: "database \<Rightarrow> int \<times> database" where
  "repair_post_comments_cnt d =
     (drifted p_comments_cnt comment_on (comments d) (posts d),
      d\<lparr>posts := repair p_comments_cnt p_comments_cnt_update comment_on (comments d) (posts d)\<rparr>)"

definition repair_post_views :: "database \<Rightarrow> int \<times> database" where
  "repair_post_views d =
     (drifted p_views view_of (post_views d) (posts d),
      d\<lparr>posts := repair p_views p_views_update view_of (post_views d) (posts d)\<rparr>)"

definition repair_post_likes :: "database \<Rightarrow> int \<times> database" where
  "repair_post_likes d =
     (drifted p_likes like_of (votes d) (posts d),
      d\<lparr>posts := repair p_likes p_likes_update like_of (votes d) (posts d)\<rparr>)"

definition repair_post_dislikes :: "database \<Rightarrow> int \<times> database" where
  "repair_post_dislikes d =
     (drifted p_dis_likes dislike_of (votes d) (posts d),
      d\<lparr>posts := repair p_dis_likes p_dis_likes_update dislike_of (votes d) (posts d)\<rparr>)"

text \<open>The passes run one after the other on the same session; \<open>repaired[name] = rowcount\<close>.\<close>

fun run_passes :: "(string \<times> (database \<Rightarrow> int \<times> database)) list \<Rightarrow> database \<Rightarrow>
    (string \<times> int) list \<times> database" where
  "run_passes [] d = ([], d)"
| "run_passes ((name, pass) # ps) d =
     (let (n, d') = pass d; (repaired, d'') = run_passes ps d' in ((name, n) # repaired, d''))"

definition reconcile_passes :: "(string \<times> (database \<Rightarrow> int \<times> database)) list" where
  "reconcile_passes =
     [(''user_following_cnt'', repair_user_following_cnt),
      (''user_followers_cnt'', repair_user_followers_cnt),
      (''message_reaction_cnt'', repair_message_reaction_cnt),
      (''shared_post_reaction_cnt'', repair_shared_post_reaction_cnt),
      (''comment_likes'', repair_comment_likes),
      (''post_comments_cnt'', repair_post_comments_cnt),
      (''post_views'', repair_post_views),
      (''post_likes'', repair_post_likes),
      (''post_dislikes'', repair_post_dislikes)]"

definition reconcile_denormalized_counters :: "database \<Rightarrow> (string \<times> int) list \<times> database" where
  "reconcile_denormalized_counters d = run_passes reconcile_passes d"

lemmas repair_defs = repair_user_following_cnt_def repair_user_followers_cnt_def
  repair_message_reaction_cnt_def repair_shared_post_reaction_cnt_def repair_comment_likes_def
  repair_post_comments_cnt_def repair_post_views_def repair_post_likes_def repair_post_dislikes_def

lemmas reconcile_defs = reconcile_denormalized_counters_def reconcile_passes_def

section \<open>Lemmas\<close>

text \<open>A pass on one counter leaves the other counters of the same table, and its keys, alone.\<close>

lemma repair_columns:
  "(\<And>f p. key (upd f p) = key p) \<Longrightarrow> map key (repair get upd owns cs ps) = map key ps"
  by (simp add: repair_def map_update_where)

lemma counts_match_pointwise:
  assumes "\<And>p. get (g p) = get p" "\<And>p c. owns (g p) c = owns p c"
  shows "counts_match get owns (map g ps) cs = counts_match get owns ps cs"
proof -
  have "owns (g p) = owns p" for p using assms(2) by blast
  then show ?thesis using assms(1) by (simp add: counts_match_def)
qed

lemma repair_frame:
  assumes "\<And>f p. get' (upd f p) = get' p" "\<And>f p c. owns' (upd f p) c = owns' p c"
  shows "counts_match get' owns' (repair get upd owns cs ps) xs = counts_match get' owns' ps xs"
  unfolding repair_def update_where_def using assms by (intro counts_match_pointwise) auto

text \<open>The comments keep their posts, so the number of comments of a post does not change.\<close>

lemma cnt_repaired_children:
  assumes "\<And>f c. owns p (upd f c) = owns p c"
  shows "cnt (owns p) (repair get upd owns' cs xs) = cnt (owns p) xs"
  using assms by (simp add: repair_def cnt_update_where_same)

lemma repair_child_frame:
  assumes "\<And>p f c. owns p (upd f c) = owns p c"
  shows "counts_match get owns ps (repair get' upd owns' cs xs) = counts_match get owns ps xs"
  using assms by (simp add: counts_match_def cnt_repaired_children)

lemma repair_of_child:
  assumes "\<And>p f c. owns p (upd f c) = owns p c"
  shows "repair get upd' owns (repair get' upd owns' cs xs) ps = repair get upd' owns xs ps"
  using assms by (simp add: repair_def [of get] cnt_repaired_children)

definition views_ok :: "database \<Rightarrow> bool" where
  "views_ok d \<longleftrightarrow> counts_match p_views view_of (posts d) (post_views d)"

lemma reconcile_step:
  "snd (run_passes ((n, pass) # ps) d) = snd (run_passes ps (snd (pass d)))"
  "fst (run_passes ((n, pass) # ps) d) = (n, fst (pass d)) # fst (run_passes ps (snd (pass d)))"
  by (simp_all add: split_def Let_def)

lemma reconcile_counters: "counters_ok (snd (reconcile_denormalized_counters d))"
  and reconcile_views: "views_ok (snd (reconcile_denormalized_counters d))"
  unfolding reconcile_defs reconcile_step counters_ok_def views_ok_def
  by (simp_all add: repair_defs repair_frame repair_child_frame repair_of_child owner_defs [abs_def]
      likes.repair_matches [unfolded like_of_def [abs_def]]
      dis_likes.repair_matches [unfolded dislike_of_def [abs_def]]
      comments_cnt.repair_matches [unfolded comment_on_def [abs_def]]
      views.repair_matches [unfolded view_of_def [abs_def]]
      comment_likes.repair_matches [unfolded comment_like_of_def [abs_def]]
      following_cnt.repair_matches [unfolded following_of_def [abs_def]]
      followers_cnt.repair_matches [unfolded follower_of_def [abs_def]]
      reaction_cnt.repair_matches [unfolded reaction_on_def [abs_def]]
      share_reaction_cnt.repair_matches [unfolded share_reaction_on_def [abs_def]])

lemma reconcile_wf: "db_wf (snd (reconcile_denormalized_counters d)) = db_wf d"
  unfolding reconcile_defs reconcile_step
  by (simp add: repair_defs db_wf_def wf_defs repair_columns)

lemma reconcile_ok:
  assumes "db_wf d"
  shows "db_ok (snd (reconcile_denormalized_counters d))"
  using assms reconcile_counters reconcile_wf by (simp add: db_ok_def)

lemma reconcile_exact:
  assumes "counters_ok d" "views_ok d"
  shows "snd (reconcile_denormalized_counters d) = d"
    and "\<forall>e\<in>set (fst (reconcile_denormalized_counters d)). snd e = 0"
  using assms unfolding reconcile_defs reconcile_step counters_ok_def views_ok_def
  by (simp_all add: repair_defs likes.repair_matching dis_likes.repair_matching
      comments_cnt.repair_matching views.repair_matching comment_likes.repair_matching
      following_cnt.repair_matching followers_cnt.repair_matching reaction_cnt.repair_matching
      share_reaction_cnt.repair_matching likes.drifted_zero dis_likes.drifted_zero
      comments_cnt.drifted_zero views.drifted_zero comment_likes.drifted_zero
      following_cnt.drifted_zero followers_cnt.drifted_zero reaction_cnt.drifted_zero
      share_reaction_cnt.drifted_zero)

section \<open>Properties\<close>

text \<open>C11: Reconciliation repairs every denormalised counter, whatever state the counters were in: afterwards all
  nine equal the number of rows they cache, and keys and references are as before.\<close>

theorem reconcile_repairs_all:
  "counters_ok (snd (reconcile_denormalized_counters d)) \<and>
   views_ok (snd (reconcile_denormalized_counters d)) \<and>
   db_wf (snd (reconcile_denormalized_counters d)) = db_wf d"
  using reconcile_counters reconcile_views reconcile_wf by blast

text \<open>Reconciliation is idempotent: a second run reports no repair for any counter and changes nothing.\<close>

theorem reconcile_idempotent:
  "snd (reconcile_denormalized_counters (snd (reconcile_denormalized_counters d))) =
     snd (reconcile_denormalized_counters d) \<and>
   list_all (\<lambda>e. snd e = 0) (fst (reconcile_denormalized_counters (snd (reconcile_denormalized_counters d))))"
  using reconcile_exact [OF reconcile_counters reconcile_views] by (simp add: list_all_iff)

end
