(* ===== verification/Views.thy ===== *)
theory Views
  imports Reconcile Python Samples
begin

text \<open>
  \<open>app/tasks/post_view_flush_task.py\<close>: the Celery beat task that adds the views queued in Redis
  (\<open>queue_post_view\<close>) to \<open>posts.views\<close>.
\<close>

section \<open>The task\<close>

definition queued_views :: "int \<Rightarrow> redis \<Rightarrow> string list" where
  "queued_views now r = (case r_get now view_queue_key r of Some (RSet xs) \<Rightarrow> xs | _ \<Rightarrow> [])"

text \<open>\<open>m.split(":", 1)\<close> and \<open>int(..)\<close> of the first part; \<open>None\<close> is the exception that skips a malformed member.\<close>

definition view_member_post :: "string \<Rightarrow> int option" where
  "view_member_post m =
     (if CHR '':'' \<in> set m then py_int (takeWhile (\<lambda>c. c \<noteq> CHR '':'') m) else None)"

definition view_counts :: "string list \<Rightarrow> (int \<times> int) list" where
  "view_counts members = fold (\<lambda>m counts. case view_member_post m of
       None \<Rightarrow> counts
     | Some pid \<Rightarrow> AList.update pid ((case map_of counts pid of None \<Rightarrow> 0 | Some n \<Rightarrow> n) + 1) counts) members []"

definition count_views :: "(int \<times> int) list \<Rightarrow> post \<Rightarrow> post" where
  "count_views counts p = (case map_of counts (p_id p) of None \<Rightarrow> p | Some n \<Rightarrow> p\<lparr>p_views := p_views p + n\<rparr>)"

definition add_views :: "(int \<times> int) list \<Rightarrow> database \<Rightarrow> database" where
  "add_views counts d = d\<lparr>posts := map (count_views counts) (posts d)\<rparr>"

definition srem_views :: "string list \<Rightarrow> int \<Rightarrow> redis \<Rightarrow> redis" where
  "srem_views gone now r = (let left = filter (\<lambda>m. m \<notin> set gone) (queued_views now r)
     in if left = [] then r_del view_queue_key r else r_set view_queue_key (RSet left) None r)"

text \<open>\<open>saved\<close>: whether the UPDATE commits; \<open>removed\<close>: whether SREM succeeds.\<close>

definition flush_post_views :: "bool \<Rightarrow> bool \<Rightarrow> world \<Rightarrow> unit outcome \<times> world" where
  "flush_post_views saved removed w =
     (if \<not> r_up (w_redis w) then (Raise ConnectionError, w)
      else
        let members = queued_views (now_ms w) (w_redis w);
            to_remove = filter (\<lambda>m. view_member_post m \<noteq> None) members;
            counts = view_counts members
        in if counts = [] then (Return (), w)
           else if \<not> saved then (Return (), w)
           else let w1 = w\<lparr>w_db := add_views counts (w_db w)\<rparr>
             in (Return (), if removed then on_redis (srem_views to_remove (now_ms w)) w1 else w1))"

section \<open>Lemmas\<close>

definition view_member :: "int \<times> int \<Rightarrow> string" where
  "view_member = (\<lambda>(i, j). str_int i @ '':'' @ str_int j)"

lemma view_member_post [simp]: "view_member_post (view_member (i, j)) = Some i"
proof -
  have "takeWhile (\<lambda>c. c \<noteq> CHR '':'') (str_int i @ CHR '':'' # str_int j) = str_int i"
    using str_int_no_colon [of i] by (subst takeWhile_append2) auto
  then show ?thesis by (simp add: view_member_post_def view_member_def)
qed

lemma view_member_inj: "inj view_member"
  using colon_field_inj [OF str_int_no_colon str_int_no_colon]
  by (intro injI) (force simp: view_member_def)

lemma view_counts_snoc: "view_counts (ms @ [m]) = (case view_member_post m of
     None \<Rightarrow> view_counts ms
   | Some i \<Rightarrow> AList.update i ((case map_of (view_counts ms) i of None \<Rightarrow> 0 | Some n \<Rightarrow> n) + 1) (view_counts ms))"
  unfolding view_counts_def fold_append by (simp split: option.split)

lemma map_of_view_counts:
  "map_of (view_counts ms) i =
     (if cnt (\<lambda>m. view_member_post m = Some i) ms = 0 then None else Some (cnt (\<lambda>m. view_member_post m = Some i) ms))"
proof (induction ms arbitrary: i rule: rev_induct)
  case (snoc m ms)
  have pos: "cnt P ms + 1 \<noteq> 0" for P using cnt_nonneg [of P ms] by linarith
  show ?case
    by (cases "view_member_post m") (simp_all add: view_counts_snoc update_conv snoc.IH pos)
qed (simp add: view_counts_def)

lemma queue_post_view_members:
  assumes "r_up r" "queued_views now r = map view_member ps" "distinct ps"
  shows "\<exists>ps'. queued_views now (queue_post_view now i j r) = map view_member ps' \<and> distinct ps' \<and>
    set ps' = insert (i, j) (set ps)"
proof -
  have eq: "str_int i @ '':'' @ str_int j = view_member (i, j)" by (simp add: view_member_def)
  have "queued_views now (queue_post_view now i j r) = List.insert (view_member (i, j)) (map view_member ps)"
    using assms(1,2) eq by (simp add: queue_post_view_def queued_views_def Let_def live_def)
  also have "\<dots> = map view_member (List.insert (i, j) ps)"
    by (simp add: List.insert_def inj_image_mem_iff [OF view_member_inj])
  finally show ?thesis using assms(3) by (intro exI [of _ "List.insert (i, j) ps"]) simp
qed

lemma queue_all_members:
  assumes "r_up r" "queued_views now r = map view_member ps" "distinct ps"
  shows "\<exists>ps'. queued_views now (fold (\<lambda>(i, j). queue_post_view now i j) qs r) = map view_member ps' \<and>
    distinct ps' \<and> set ps' = set ps \<union> set qs"
  using assms
proof (induction qs arbitrary: r ps)
  case (Cons q qs)
  obtain i j where q: "q = (i, j)" by fastforce
  obtain ps1 where p: "queued_views now (queue_post_view now i j r) = map view_member ps1" "distinct ps1"
      "set ps1 = insert (i, j) (set ps)"
    using queue_post_view_members [OF Cons.prems, of i j] by (elim exE conjE)
  have "r_up (queue_post_view now i j r)" using Cons.prems(1) by simp
  from Cons.IH [OF this p(1,2)] obtain ps2
    where "queued_views now (fold (\<lambda>(i, j). queue_post_view now i j) qs (queue_post_view now i j r)) = map view_member ps2"
      "distinct ps2" "set ps2 = set ps1 \<union> set qs" by (elim exE conjE)
  then have "queued_views now (fold (\<lambda>(i, j). queue_post_view now i j) (q # qs) r) = map view_member ps2 \<and>
      distinct ps2 \<and> set ps2 = set ps \<union> set (q # qs)"
    using p(3) q by simp
  then show ?case by (rule exI)
next
  case Nil
  then show ?case by (intro exI [of _ ps]) simp
qed

lemma r_up_queue_all [simp]: "r_up (fold (\<lambda>(i, j). queue_post_view now i j) qs r) = r_up r"
proof (induction qs arbitrary: r)
  case (Cons q qs)
  then show ?case by (cases q) simp
qed simp

lemma cnt_viewers: "distinct ps \<Longrightarrow>
  cnt (\<lambda>m. view_member_post m = Some i) (map view_member ps) = int (card {j. (i, j) \<in> set ps})"
proof (induction ps)
  case (Cons p ps)
  obtain a b where p: "p = (a, b)" by fastforce
  have "finite {j. (i, j) \<in> set ps}"
    by (rule finite_subset [of _ "snd ` set ps"]) force+
  moreover have "{j. (i, j) \<in> set (p # ps)} = (if a = i then insert b {j. (i, j) \<in> set ps} else {j. (i, j) \<in> set ps})"
    using p by auto
  ultimately show ?case using Cons p by auto
qed simp

section \<open>Properties\<close>

text \<open>Queued views are counted once per viewer: however often users open posts between two runs of the flush task,
  the run adds to every post the number of distinct users who viewed it, empties the queue, and a further run
  adds nothing.\<close>

theorem post_views_counted_once:
  assumes "r_up (w_redis w)" "r_get (now_ms w) view_queue_key (w_redis w) = None"
  shows "let w1 = on_redis (fold (\<lambda>(i, j). queue_post_view (now_ms w) i j) qs) w;
      (res, w2) = flush_post_views True True w1 in
      res = Return () \<and>
      posts (w_db w2) = map (\<lambda>p. p\<lparr>p_views := p_views p + int (card {j. (p_id p, j) \<in> set qs})\<rparr>) (posts (w_db w)) \<and>
      w_db (snd (flush_post_views True True w2)) = w_db w2"
proof -
  let ?r = "fold (\<lambda>(i, j). queue_post_view (now_ms w) i j) qs (w_redis w)"
  obtain ps where ps: "queued_views (now_ms w) ?r = map view_member ps" "distinct ps" "set ps = set qs"
    using queue_all_members [of "w_redis w" "now_ms w" "[]" qs] assms by (auto simp: queued_views_def)
  let ?c = "view_counts (map view_member ps)"
  have row: "count_views ?c = (\<lambda>p. p\<lparr>p_views := p_views p + int (card {j. (p_id p, j) \<in> set qs})\<rparr>)"
    using ps(2,3) by (simp add: fun_eq_iff count_views_def map_of_view_counts cnt_viewers)
  have added: "posts (add_views ?c (w_db w)) =
      map (\<lambda>p. p\<lparr>p_views := p_views p + int (card {j. (p_id p, j) \<in> set qs})\<rparr>) (posts (w_db w))"
    by (simp only: add_views_def row) simp
  have all: "filter (\<lambda>m. \<exists>y. view_member_post m = Some y) (map view_member ps) = map view_member ps"
    by (simp add: filter_id_conv) auto
  have none: "add_views [] d = d" for d by (simp add: add_views_def count_views_def [abs_def])
  have "queued_views t (srem_views (map view_member ps) t r) = []" if "queued_views t r = map view_member ps" for t r
    using that by (simp add: srem_views_def Let_def) (simp add: queued_views_def)
  then show ?thesis
    using assms(1) ps(1) added all none
    by (auto simp: flush_post_views_def Let_def on_redis_def now_ms_def view_counts_def [of "[]"] split: if_splits)
qed

lemma post_views_counted_once_witness:
  "map p_views (posts (w_db (snd (flush_post_views True True
     (on_redis (fold (\<lambda>(i, j). queue_post_view (now_ms sample_world) i j) [(10, 1), (10, 2), (10, 1)]) sample_world))))) = [2]"
proof -
  have "{j. (10 :: int, j) \<in> set [(10, 1 :: int), (10, 2), (10, 1)]} = {1, 2}" by auto
  then show ?thesis
    using post_views_counted_once [of sample_world "[(10, 1), (10, 2), (10, 1)]"]
    by (simp add: sample_defs r_get_def Let_def split_beta)
qed

lemma flush_keeps_view_rows [simp]: "post_views (w_db (snd (flush_post_views saved removed w))) = post_views (w_db w)"
  by (simp add: flush_post_views_def Let_def add_views_def)

lemma reconcile_keeps_view_rows [simp]: "post_views (snd (reconcile_denormalized_counters d)) = post_views d"
  unfolding reconcile_defs reconcile_step by (simp add: repair_defs)

lemma count_views_columns [simp]:
  "p_id \<circ> count_views c = p_id" "p_user_id \<circ> count_views c = p_user_id"
  by (simp_all add: fun_eq_iff count_views_def split: option.split)

lemma count_views_fields [simp]:
  "p_id (count_views c p) = p_id p" "p_likes (count_views c p) = p_likes p"
  "p_dis_likes (count_views c p) = p_dis_likes p" "p_comments_cnt (count_views c p) = p_comments_cnt p"
  by (simp_all add: count_views_def split: option.split)

lemma add_views_ok: "db_ok d \<Longrightarrow> db_ok (add_views c d)"
  by (simp add: db_defs add_views_def counts_match_pointwise like_of_def dislike_of_def comment_on_def)

lemma flush_ok: "db_ok (w_db w) \<Longrightarrow> db_ok (w_db (snd (flush_post_views saved removed w)))"
  by (simp add: flush_post_views_def Let_def add_views_ok)

text \<open>The periodic reconciliation throws the view counts away: nothing ever writes rows of \<open>post_views\<close>, so after a
  flush of queued views the next reconciliation resets every post's views to zero.\<close>

theorem reconciliation_resets_views:
  assumes "post_views (w_db w) = []"
  shows "list_all (\<lambda>p. p_views p = 0)
    (posts (snd (reconcile_denormalized_counters (w_db (snd (flush_post_views saved removed w))))))"
  using reconcile_views [of "w_db (snd (flush_post_views saved removed w))"] assms
  by (simp add: views_ok_def counts_match_def list_all_iff)

lemma reconciliation_resets_views_witness:
  "list_all (\<lambda>p. p_views p = 0) (posts (snd (reconcile_denormalized_counters (w_db (snd (flush_post_views True True
     (on_redis (queue_post_view (now_ms sample_world) 10 2) sample_world)))))))"
  using reconciliation_resets_views [of "on_redis (queue_post_view (now_ms sample_world) 10 2) sample_world" True True]
  by (simp add: sample_defs)

end
