(* ===== verification/App.thy ===== *)
theory App
  imports Reaction_Properties Session_Properties Notifications_Properties Views
begin

text \<open>
  The whole application over its database: one step per request handler, WebSocket frame and background task, in any
  order, for any users and arguments. The environment may change everything outside the database between steps
  (time, Redis, sockets, files), which also covers the handlers that only read.
\<close>

section \<open>The authentication handlers and the database invariant\<close>

lemma commit_user_ok:
  assumes "db_ok (w_db v)" "\<And>u. u_id (f u) = u_id u" "\<And>u. u_username (f u) = u_username u"
    "\<And>u. u_followers_cnt (f u) = u_followers_cnt u" "\<And>u. u_following_cnt (f u) = u_following_cnt u"
  shows "db_ok (w_db (snd (commit_user res c ok i f v)))"
  using orm_update_user_ok [OF assms] assms(1) by (simp add: commit_user_def split: commit.split)

lemma loginUser_ok: "db_ok (w_db w) \<Longrightarrow> db_ok (w_db (snd (loginUser lag sha hashpw encode em ed jti raw fam un pw w)))"
  by (auto simp: loginUser_def Let_def split: option.split dest: insert_refresh_token_ok)

lemma logout_ok: "db_ok (w_db w) \<Longrightarrow> db_ok (w_db (snd (logout decode token w)))"
  by (auto simp: logout_def Let_def revoke_all_user_tokens_def revoke_where_ok split: option.split)

lemma otp_routes_ok:
  assumes "db_ok (w_db w)"
  shows "db_ok (w_db (snd (forgot_password sha tz drawn email w)))"
    and "db_ok (w_db (snd (resend_verification_otp sha tz drawn email w)))"
    and "db_ok (w_db (snd (change_password sha tz drawn p w)))"
  using assms by (auto simp: forgot_password_def resend_verification_otp_def change_password_def Let_def saveOtp_ok
      split: option.split)

lemma reset_password_ok:
  assumes "db_ok (w_db w)"
  shows "db_ok (w_db (snd (reset_password sha hashpw tz salt commits email otp pw w)))"
proof -
  obtain b w1 where c: "checkOtp sha tz email otp w = (b, w1)" by fastforce
  then have w1: "db_ok (w_db w1)" using checkOtp_ok [OF assms, of sha tz email otp] by simp
  have "db_ok (w_db (snd (run_with_transient_retry (\<lambda>attempt v.
            (case lock_user_row None (Some email) (w_db v) of
               Return u \<Rightarrow> commit_user (commits attempt) password_conflict
                   (message_body ''Password has been reset successfully.'') (u_id u)
                   (u_password_update (\<lambda>_. hashPassword hashpw salt pw)) v
             | Http c m \<Rightarrow> (Http c m, v)
             | Raise e \<Rightarrow> (Raise e, v))) 3 w1)))"
    by (rule retry_invariant [where I = "\<lambda>w. db_ok (w_db w)", OF _ w1]) (simp add: commit_user_ok split: outcome.split)
  then show ?thesis using w1 by (cases b) (simp_all add: reset_password_def c)
qed

lemma verify_email_ok:
  assumes "db_ok (w_db w)"
  shows "db_ok (w_db (snd (verify_email sha tz commits email otp w)))"
  unfolding verify_email_def
proof (rule retry_invariant [where I = "\<lambda>w. db_ok (w_db w)", OF _ assms], goal_cases)
  case (1 a s)
  obtain b s1 where c: "checkOtp sha tz email otp s = (b, s1)" by fastforce
  then have "db_ok (w_db s1)" using checkOtp_ok [OF 1, of sha tz email otp] by simp
  then show ?case using 1 c by (simp add: commit_user_ok split: outcome.split bool.split)
qed

lemma reset_attempt_ok:
  assumes "db_ok (w_db v)"
  shows "db_ok (w_db (snd (reset_attempt sha hashpw tz salt commits i old otp new a v)))"
proof -
  have "db_ok (w_db (snd (verifyOtp sha tz otp e v)))" for e
    using assms checkOtp_ok [OF assms, of sha tz _ otp]
    by (auto simp: verifyOtp_def split: option.split prod.split bool.split) (metis snd_conv)+
  then have o: "verifyOtp sha tz otp e v = (r, v') \<Longrightarrow> db_ok (w_db v')" for e r v' by (metis snd_conv)
  show ?thesis
    using assms by (auto simp: reset_attempt_def split: outcome.split prod.split dest: o intro!: commit_user_ok)
qed

lemma reset_authenticated_ok:
  assumes "db_ok (w_db w)"
  shows "db_ok (w_db (snd (reset_password_authenticated sha hashpw tz salt commits p token old otp new w)))"
proof -
  have "db_ok (w_db (snd (run_with_transient_retry (reset_attempt sha hashpw tz salt commits (pr_id p) old otp new) 3 w)))"
    using retry_invariant [of "\<lambda>w. db_ok (w_db w)"] assms reset_attempt_ok by blast
  then show ?thesis
    by (auto simp: reset_password_authenticated_def revoke_all_user_tokens_def revoke_where_ok split: prod.split outcome.split)
qed

lemma auth_step_ok: "auth_step sha hashpw encode decode em ed tz D w w' \<Longrightarrow> db_ok (w_db w) \<Longrightarrow> db_ok (w_db w')"
  by (induction rule: auth_step.induct)
    (auto simp: loginUser_ok logout_ok otp_routes_ok reset_password_ok verify_email_ok reset_authenticated_ok refresh_route_world rotate_db_ok)


section \<open>Steps\<close>

inductive app_step :: "world \<Rightarrow> world \<Rightarrow> bool" where
  environment: "w_db w' = w_db w \<Longrightarrow> app_step w w'"
| authentication: "auth_step sha hashpw encode decode em ed tz D w w' \<Longrightarrow> app_step w w'"
| registers: "app_step w (snd (register_user sha hashpw tz salt drawn name pw nick email w))"
| edits_profile: "app_step w (snd (update_current_user_profile account mb uuids commits name bio picture cu token w))"
| removes_picture: "app_step w (snd (delete_profile_picture account commits cu w))"
| creates_post: "app_step w (snd (create_post account mb uuid title content media cu w))"
| updates_post: "app_step w (snd (update_post account i fs cu w))"
| deletes_post: "app_step w (snd (delete_post account i cu w))"
| votes: "app_step w (snd (voteOnPost i j choice cu w))"
| likes_comment: "app_step w (snd (likeAComment i j choice cu w))"
| comments: "app_step w (snd (create_comment i text cu w))"
| updates_comment: "app_step w (snd (update_comment i text cu w))"
| deletes_comment: "app_step w (snd (delete_comment i cu w))"
| saves: "app_step w (snd (save_post i cu w))"
| unsaves: "app_step w (snd (unsave_post i cu w))"
| follows: "app_step w (snd (follow_user i cu token w))"
| unfollows: "app_step w (snd (unfollow_user i cu token w))"
| removes_follower: "app_step w (snd (remove_follower_endpoint i j cu token w))"
| reads_notifications: "app_step w (snd (mark_all_notifications_read cu w))"
| notifies: "app_step w (snd (notification_task retries a i kind name e et w))"
| sends_media: "app_step w (snd (send_media account mb uuid file i cu w))"
| deletes_for_me: "app_step w (snd (deleteForMe i cu w))"
| clears_chat: "app_step w (snd (clear_chat i cu w))"
| shares: "app_step w (snd (share_post r cu w))"
| deletes_share_for_me: "app_step w (snd (deleteShareForMe i cu w))"
| handles_frame: "app_step w (snd (chat_frame cs me frame w))"
| loads_missed: "app_step w (snd (load_missed_content base known me w))"
| leaves: "app_step w (leave saved me result w)"
| flushes_views: "app_step w (snd (flush_post_views saved removed w))"
| cleans_otps: "app_step w (cleanup_expired_otps w)"
| reconciles: "app_step w (w\<lparr>w_db := snd (reconcile_denormalized_counters (w_db w))\<rparr>)"

inductive_cases app_stepE: "app_step w w'"

lemma safe_step_ok: "safe_step me d d' \<Longrightarrow> db_ok d \<Longrightarrow> db_ok d'"
  by (simp add: safe_step_def)

lemmas handlers_ok = register_user_ok update_profile_ok delete_profile_picture_ok create_post_ok update_post_ok
  delete_post_ok voteOnPost_ok likeAComment_ok create_comment_ok update_comment_ok delete_comment_ok save_post_ok
  unsave_post_ok follow_user_ok unfollow_user_ok remove_follower_ok notification_task_ok send_media_ok deleteForMe_ok
  clear_chat_ok share_post_ok deleteShareForMe_ok flush_ok

lemma app_step_ok: "app_step w w' \<Longrightarrow> db_ok (w_db w) \<Longrightarrow> db_ok (w_db w')"
proof (induction rule: app_step.induct)
  case (handles_frame w cs me frame)
  then show ?case using safe_step_ok [OF chat_frame_safe] by blast
next
  case (loads_missed w base known me)
  then show ?case using safe_step_ok [OF claim_missed_safe [of me w me]] by (simp add: load_missed_world)
next
  case (leaves w saved me result)
  then show ?case using safe_step_ok [OF leave_safe] by blast
next
  case (reconciles w)
  then show ?case using reconcile_ok by (simp add: db_ok_def)
qed (simp_all add: handlers_ok auth_step_ok mark_all_notifications_read_def mark_all_read_ok cleanup_expired_otps_def delete_otps_ok)

text \<open>In a consistent database the reconciliation finds at most the views to have drifted.\<close>

lemma reconcile_finds_nothing:
  assumes "db_ok d" "(name, k) \<in> set (fst (reconcile_denormalized_counters d))" "name \<noteq> ''post_views''"
  shows "k = 0"
proof -
  have c: "counters_ok d" using assms(1) by (simp add: db_ok_def)
  have frame: "counts_match p_likes like_of (repair p_views p_views_update view_of cs ps) xs = counts_match p_likes like_of ps xs"
    "counts_match p_dis_likes dislike_of (repair p_views p_views_update view_of cs ps) xs = counts_match p_dis_likes dislike_of ps xs"
    for cs ps xs by (rule repair_frame; simp add: like_of_def dislike_of_def)+
  show ?thesis
    using assms(2,3) c unfolding reconcile_defs reconcile_step counters_ok_def
    by (auto simp: repair_defs likes.repair_matching dis_likes.repair_matching comments_cnt.repair_matching
        comment_likes.repair_matching following_cnt.repair_matching followers_cnt.repair_matching reaction_cnt.repair_matching
        share_reaction_cnt.repair_matching likes.drifted_zero dis_likes.drifted_zero comments_cnt.drifted_zero
        comment_likes.drifted_zero following_cnt.drifted_zero followers_cnt.drifted_zero reaction_cnt.drifted_zero
        share_reaction_cnt.drifted_zero frame)
qed

text \<open>C1: Every state of the database that the application can reach from the empty one is consistent: whatever requests, WebSocket
  frames and background tasks run, in any order and for any users, keys are unique, references point to existing rows and
  every denormalised counter equals the number of rows it counts - so the reconciliation task never repairs anything
  but view counts.\<close>

theorem app_reachable_consistent:
  assumes "app_step\<^sup>*\<^sup>* w0 w" "w_db w0 = empty_db"
  shows "db_ok (w_db w) \<and>
    (\<forall>(name, k)\<in>set (fst (reconcile_denormalized_counters (w_db w))). k = 0 \<or> name = ''post_views'')"
proof -
  have "db_ok (w_db w)"
    using assms by (induction rule: rtranclp_induct) (simp_all add: db_ok_empty app_step_ok)
  then show ?thesis using reconcile_finds_nothing by blast
qed

definition fresh_world :: world where
  "fresh_world = sample_world\<lparr>w_db := empty_db\<rparr>"

lemma app_reachable_consistent_witness:
  "db_ok (w_db (snd (create_post None 10 ''u'' ''t'' ''c'' None (sample_principal 1 ''ann'')
     (snd (register_user id (\<lambda>s p. s @ p) 0 ''s'' 123456 ''ann'' ''pw'' None ''a@x.io'' fresh_world)))))"
proof -
  have "app_step\<^sup>*\<^sup>* fresh_world (snd (create_post None 10 ''u'' ''t'' ''c'' None (sample_principal 1 ''ann'')
     (snd (register_user id (\<lambda>s p. s @ p) 0 ''s'' 123456 ''ann'' ''pw'' None ''a@x.io'' fresh_world))))"
    by (rule rtranclp.rtrancl_into_rtrancl, rule r_into_rtranclp, rule registers, rule creates_post)
  then show ?thesis using app_reachable_consistent [of fresh_world] by (simp add: fresh_world_def)
qed

end
