(* ===== verification/Response_Types.thy ===== *)
theory Response_Types
  imports Shares Profiles Notifications
begin

text \<open>
  The response models of \<open>app/schemas.py\<close> and what they check. A response model is a list of typed fields; FastAPI
  validates the body of every route against the \<open>response_model\<close> of its decorator and answers 500 when it does not
  fit. Many routes answer from the cache, so the type of a body depends on what earlier requests stored there.
\<close>

section \<open>Types\<close>

datatype ty = TInt | TStr | TBool | TTime | TOpt ty | TList ty | TModel "(string \<times> ty) list"

text \<open>A serialised model has the declared fields in the declared order.\<close>

fun has_type :: "ty \<Rightarrow> json \<Rightarrow> bool"
  and has_fields :: "(string \<times> ty) list \<Rightarrow> (string \<times> json) list \<Rightarrow> bool" where
  "has_type TInt (JInt _) = True"
| "has_type TStr (JStr _) = True"
| "has_type TBool (JBool _) = True"
| "has_type TTime (JTime _) = True"
| "has_type (TOpt t) v = (v = JNull \<or> has_type t v)"
| "has_type (TList t) (JArr vs) = list_all (has_type t) vs"
| "has_type (TModel fs) (JObj d) = has_fields fs d"
| "has_type _ _ = False"
| "has_fields [] d = (d = [])"
| "has_fields ((k, t) # fs) d =
     (case d of [] \<Rightarrow> False | (k', v) # d' \<Rightarrow> k' = k \<and> has_type t v \<and> has_fields fs d')"

section \<open>The models\<close>

definition PaginationMetadata :: ty where
  "PaginationMetadata = TModel [(''total'', TOpt TInt), (''limit'', TInt), (''offset'', TInt), (''has_more'', TBool)]"

definition SuccessResponse :: ty where
  "SuccessResponse = TModel [(''message'', TStr)]"

definition MediaInfo :: ty where
  "MediaInfo = TModel [(''url'', TStr), (''type'', TOpt TStr)]"

definition UserBasicResponse :: ty where
  "UserBasicResponse = TModel [(''id'', TInt), (''username'', TStr), (''nickname'', TOpt TStr),
     (''profile_pic'', TOpt TStr), (''is_following'', TBool)]"

definition UserProfileResponse :: ty where
  "UserProfileResponse = TModel [(''id'', TInt), (''username'', TStr), (''nickname'', TOpt TStr), (''bio'', TOpt TStr),
     (''profile_picture'', TOpt TStr), (''posts_count'', TInt), (''followers_count'', TInt), (''following_count'', TInt),
     (''is_following'', TBool), (''created_at'', TTime)]"

definition UserResponse :: ty where
  "UserResponse = TModel [(''id'', TInt), (''username'', TStr), (''created_at'', TTime)]"

definition PostDetailResponse :: ty where
  "PostDetailResponse = TModel [(''id'', TInt), (''title'', TStr), (''content'', TStr), (''media_url'', TOpt TStr),
     (''media_type'', TOpt TStr), (''likes'', TInt), (''dislikes'', TInt), (''views'', TInt), (''comments_count'', TInt),
     (''enable_comments'', TBool), (''hashtags'', TOpt TStr), (''created_at'', TTime), (''is_liked'', TBool),
     (''owner'', UserBasicResponse)]"

definition PostListItemResponse :: ty where
  "PostListItemResponse = TModel [(''id'', TInt), (''title'', TStr), (''media_url'', TOpt TStr), (''media_type'', TOpt TStr),
     (''likes'', TInt), (''comments_count'', TInt), (''created_at'', TTime), (''is_liked'', TBool)]"

definition PostListResponse :: ty where
  "PostListResponse = TModel [(''posts'', TList PostListItemResponse), (''pagination'', PaginationMetadata)]"

definition SavedPostItemResponse :: ty where
  "SavedPostItemResponse = TModel [(''id'', TInt), (''post_id'', TInt), (''saved_at'', TTime), (''post'', PostDetailResponse)]"

definition SavedPostsResponse :: ty where
  "SavedPostsResponse = TModel [(''saved'', TList SavedPostItemResponse)]"

definition CommentDetailResponse :: ty where
  "CommentDetailResponse = TModel [(''id'', TInt), (''post_id'', TInt), (''content'', TStr), (''likes'', TInt),
     (''created_at'', TTime), (''user'', UserBasicResponse)]"

definition CommentListResponse :: ty where
  "CommentListResponse = TModel [(''comments'', TList CommentDetailResponse), (''pagination'', PaginationMetadata)]"

definition VoteResponse :: ty where
  "VoteResponse = TModel [(''message'', TStr), (''likes'', TOpt TInt), (''dislikes'', TOpt TInt)]"

definition FollowResponse :: ty where
  "FollowResponse = TModel [(''message'', TStr), (''following_count'', TOpt TInt)]"

definition SearchResultResponse :: ty where
  "SearchResultResponse = TModel [(''result_type'', TStr), (''users'', TOpt (TList UserBasicResponse)),
     (''posts'', TOpt (TList PostListItemResponse)), (''total'', TInt)]"

definition FeedItemResponse :: ty where
  "FeedItemResponse = TModel [(''post_id'', TInt), (''post'', PostListItemResponse), (''owner'', UserBasicResponse)]"

definition FeedResponse :: ty where
  "FeedResponse = TModel [(''feed'', TList FeedItemResponse), (''total'', TOpt TInt)]"

definition ReactedUsers :: ty where
  "ReactedUsers = TModel [(''user_id'', TInt), (''username'', TStr), (''profile_pic'', TOpt TStr), (''reaction'', TStr)]"

definition CanEditResponse :: ty where
  "CanEditResponse = TModel [(''can_edit'', TBool), (''message'', TOpt TStr)]"

definition SharedPostDetailResponse :: ty where
  "SharedPostDetailResponse = TModel [(''id'', TInt), (''post_id'', TInt), (''from_user_id'', TInt), (''to_user_id'', TInt),
     (''message'', TOpt TStr), (''created_at'', TTime), (''is_read'', TBool)]"

definition VoteStatsResponse :: ty where
  "VoteStatsResponse = TModel [(''liked_posts_count'', TInt), (''disliked_posts_count'', TInt)]"

definition CommentStatsResponse :: ty where
  "CommentStatsResponse = TModel [(''total_comments'', TInt), (''unique_posts_commented'', TInt)]"

definition ActorBasic :: ty where
  "ActorBasic = TModel [(''id'', TInt), (''username'', TStr), (''profile_pic'', TOpt TStr)]"

definition NotificationResponse :: ty where
  "NotificationResponse = TModel [(''id'', TInt), (''type'', TStr), (''actor'', ActorBasic), (''text'', TStr),
     (''entity_id'', TOpt TInt), (''entity_type'', TOpt TStr), (''is_read'', TBool), (''created_at'', TTime)]"

definition NotificationListResponse :: ty where
  "NotificationListResponse = TModel [(''notifications'', TList NotificationResponse), (''unread_count'', TInt),
     (''total'', TInt), (''limit'', TInt), (''offset'', TInt), (''has_more'', TBool)]"

definition UnreadCountResponse :: ty where
  "UnreadCountResponse = TModel [(''count'', TInt)]"

section \<open>The bodies the handlers build\<close>

lemma has_type_list [simp]: "has_type (TList t) (JArr (map f xs)) \<longleftrightarrow> (\<forall>x\<in>set xs. has_type t (f x))"
  by (simp add: list_all_iff)

lemma has_type_optional [simp]:
  "has_type (TOpt TStr) (jstr_opt s)" "has_type (TOpt TInt) (jint_opt i)"
  by (simp_all add: jstr_opt_def jint_opt_def split: option.split)

declare has_type.simps(5,6) [simp del]

lemma has_type_null [simp]: "has_type (TOpt t) JNull"
  by (simp add: has_type.simps)

lemma has_type_some: "has_type t v \<Longrightarrow> has_type (TOpt t) v"
  by (simp add: has_type.simps)

lemma message_typed [simp]: "has_type SuccessResponse (message_body s)"
  by (simp add: SuccessResponse_def message_body_def)

lemma user_basic_typed [simp]: "has_type UserBasicResponse (user_basic i u n p b)"
  by (simp add: UserBasicResponse_def user_basic_def)

lemma people_typed [simp]:
  "has_type UserBasicResponse (owner_json u)" "has_type UserBasicResponse (principal_json cu)"
  "has_type UserBasicResponse (listed_user me d u)"
  by (simp_all add: owner_json_def principal_json_def listed_user_def)

lemma profile_typed [simp]: "has_type UserProfileResponse (profile_json i u n b p np f g x t)"
  by (simp add: UserProfileResponse_def profile_json_def)

lemma picture_typed [simp]: "has_type MediaInfo (picture_info account path)"
  by (simp add: MediaInfo_def picture_info_def has_type_some)

lemma user_response_typed [simp]: "has_type UserResponse (user_response i u t)"
  by (simp add: UserResponse_def user_response_def)

lemma post_detail_typed [simp]:
  "has_type UserBasicResponse owner \<Longrightarrow> has_type PostDetailResponse (post_detail account p b owner)"
  by (simp add: PostDetailResponse_def post_detail_def)

lemma list_item_typed [simp]: "has_type PostListItemResponse (list_item account p b)"
  by (simp add: PostListItemResponse_def list_item_def)

lemma pagination_typed [simp]: "has_type PaginationMetadata (pagination limit offset has_more)"
  by (simp add: PaginationMetadata_def pagination_def)

lemma post_list_typed [simp]: "has_type PostListResponse (post_list_body account limit offset me d rows)"
  by (simp add: PostListResponse_def post_list_body_def)

lemma comment_detail_typed [simp]:
  "has_type UserBasicResponse author \<Longrightarrow> has_type CommentDetailResponse (comment_detail c author)"
  by (simp add: CommentDetailResponse_def comment_detail_def)

lemma comment_list_typed [simp]:
  "has_type CommentListResponse (JObj [(''comments'', JArr (map (\<lambda>(c, u). comment_detail c (owner_json u)) rows)),
     (''pagination'', pagination limit offset has_more)])"
  by (simp add: CommentListResponse_def split: prod.split)

lemma vote_response_typed [simp]: "has_type VoteResponse (vote_response msg likes dislikes)"
  by (simp add: VoteResponse_def vote_response_def)

lemma follow_response_typed [simp]: "has_type FollowResponse (follow_response msg n)"
  by (simp add: FollowResponse_def follow_response_def)

lemma feed_typed [simp]: "has_type FeedResponse (home_feed_body tie account limit offset me d)"
  by (simp add: FeedResponse_def FeedItemResponse_def home_feed_body_def feed_item_def split: prod.split)

lemma reacted_users_typed [simp]: "has_type (TList ReactedUsers) (reacted_users rows)"
  by (simp add: ReactedUsers_def reacted_users_def split: prod.split)

lemma can_edit_typed [simp]: "has_type CanEditResponse (can_edit_response b m)"
  by (simp add: CanEditResponse_def can_edit_response_def)

lemma shared_post_typed [simp]: "has_type SharedPostDetailResponse (shared_post_detail s)"
  by (simp add: SharedPostDetailResponse_def shared_post_detail_def)

lemma unread_typed [simp]: "has_type UnreadCountResponse (unread_count_body n)"
  by (simp add: UnreadCountResponse_def unread_count_body_def)

lemma notification_typed [simp]: "has_type NotificationResponse (notification_response n (actor_basic u))"
  by (simp add: NotificationResponse_def ActorBasic_def notification_response_def actor_basic_def)

text \<open>Replacing a field of a typed object by a value of the field's type.\<close>

lemma has_fields_set:
  "has_fields fs d \<Longrightarrow> map_of fs k = Some t \<Longrightarrow> has_type t v \<Longrightarrow> has_fields fs (dict_set k v d)"
proof (induction fs arbitrary: d)
  case (Cons f fs)
  then show ?case by (cases f; cases d) (auto simp: dict_set_def split: if_splits)
qed simp

lemma profile_shown_typed:
  assumes "has_type UserProfileResponse (JObj shown)"
  shows "has_type UserProfileResponse (JObj (dict_set ''is_following'' (JBool b) shown))"
proof -
  have e: "map_of [(''id'', TInt), (''username'', TStr), (''nickname'', TOpt TStr), (''bio'', TOpt TStr),
     (''profile_picture'', TOpt TStr), (''posts_count'', TInt), (''followers_count'', TInt), (''following_count'', TInt),
     (''is_following'', TBool), (''created_at'', TTime)] ''is_following'' = Some TBool" by code_simp
  show ?thesis
    using assms has_fields_set [OF _ e, of shown "JBool b"] unfolding UserProfileResponse_def has_type.simps by blast
qed

end
