(* ===== verification/Responses.thy ===== *)
theory Responses
  imports Response_Types Posts_Properties "HOL-Library.Sublist"
begin

text \<open>
  Every route that declares a \<open>response_model\<close>, with the model it declares, and the cached responses: which model the
  payloads under a key have. Responses put in the cache are served to later requests, so the property of a single
  body needs an invariant of the whole keyspace.
\<close>

section \<open>Cached responses\<close>

definition cached_models :: "(string \<times> ty) list" where
  "cached_models = [(''post:'', PostDetailResponse), (''comments:post:'', CommentListResponse),
     (''user_profile:'', UserProfileResponse), (''all_users'', TList UserResponse),
     (''followers:'', TList UserBasicResponse), (''following:'', TList UserBasicResponse),
     (''user:posts:'', PostListResponse), (''feed:home:'', FeedResponse), (''feed:explore:'', PostListResponse),
     (''notifications:'', NotificationListResponse), (''notif:unread:'', UnreadCountResponse)]"

definition cached_model :: "string \<Rightarrow> ty option" where
  "cached_model k = map_option snd (find (\<lambda>e. prefix (fst e) k) cached_models)"

text \<open>A cached response has the model of its key.\<close>

fun typed_entry :: "string \<times> rval \<times> int option \<Rightarrow> bool" where
  "typed_entry (k, RJson v, dl) = (case cached_model k of None \<Rightarrow> True | Some t \<Rightarrow> has_type t v)"
| "typed_entry _ = True"

definition typed_cache :: "redis \<Rightarrow> bool" where
  "typed_cache r \<longleftrightarrow> list_all typed_entry (r_store r)"

lemma cached_model_keys [simp]:
  "cached_model (post_key i j) = Some PostDetailResponse"
  "cached_model (comments_key i a b) = Some CommentListResponse"
  "cached_model (user_profile_key i) = Some UserProfileResponse"
  "cached_model ''all_users'' = Some (TList UserResponse)"
  "cached_model (followers_key i) = Some (TList UserBasicResponse)"
  "cached_model (following_key i) = Some (TList UserBasicResponse)"
  "cached_model (user_posts_key i a b) = Some PostListResponse"
  "cached_model (feed_key ''home'' i a b) = Some FeedResponse"
  "cached_model (feed_key ''explore'' i a b) = Some PostListResponse"
  "cached_model (notifications_key i a b) = Some NotificationListResponse"
  "cached_model (unread_key i) = Some UnreadCountResponse"
  by (simp_all add: cached_model_def cached_models_def post_key_def comments_key_def user_profile_key_def followers_key_def
      following_key_def user_posts_key_def feed_key_def notifications_key_def unread_key_def)

section \<open>Operations keep the cache typed\<close>

lemma set_update_subset: "set (AList.update k v xs) \<subseteq> insert (k, v) (set xs)"
  by (induction xs) auto

lemma typed_set: "typed_cache r \<Longrightarrow> typed_entry (k, v, dl) \<Longrightarrow> typed_cache (r_set k v dl r)"
  using set_update_subset [of k "(v, dl)" "r_store r"] by (auto simp: typed_cache_def r_set_def list_all_iff)

lemma typed_delete:
  assumes "typed_cache r"
  shows "typed_cache (delete_cache k r)" and "typed_cache (delete_cache_pattern pat r)"
proof -
  have "set (AList.delete k xs) \<subseteq> set xs" for xs :: "(string \<times> rval \<times> int option) list"
    by (induction xs) auto
  then show "typed_cache (delete_cache k r)"
    using assms by (auto simp: typed_cache_def delete_cache_def r_del_def list_all_iff)
  show "typed_cache (delete_cache_pattern pat r)"
    using assms by (auto simp: typed_cache_def delete_cache_pattern_def r_del_matching_def list_all_iff)
qed

lemma typed_store:
  "typed_cache r \<Longrightarrow> cached_model k = Some t \<Longrightarrow> has_type t v \<Longrightarrow> typed_cache (set_cache now k v ttl r)"
  by (simp add: set_cache_def typed_set)

lemma typed_counters:
  assumes "typed_cache r"
  shows "typed_cache (snd (increment_cache_version now domain r))" and "typed_cache (queue_post_view now i j r)"
    and "typed_cache (bump_feeds now r)" and "typed_cache (r_publish ch p r)"
proof -
  have v: "typed_cache (snd (increment_cache_version now domain r))" if "typed_cache r" for domain r
    using that by (simp add: increment_cache_version_def Let_def typed_set)
  then show "typed_cache (snd (increment_cache_version now domain r))" using assms by blast
  show "typed_cache (queue_post_view now i j r)"
    using assms by (simp add: queue_post_view_def Let_def typed_set)
  show "typed_cache (bump_feeds now r)"
    using assms unfolding bump_feeds_def by (intro v assms)
  show "typed_cache (r_publish ch p r)"
    using assms by (simp add: typed_cache_def r_publish_def)
qed

lemmas typed_ops = typed_delete typed_store typed_counters

text \<open>What a route reads from a typed cache has the model of the key.\<close>

lemma typed_read:
  assumes "typed_cache r" "cached_model k = Some t" "get_cache now k r = Some v"
  shows "has_type t v"
proof -
  obtain dl where "map_of (r_store r) k = Some (RJson v, dl)"
    using assms(3) by (auto simp: get_cache_def r_get_def split: if_splits option.splits rval.splits)
  then have "(k, RJson v, dl) \<in> set (r_store r)" by (rule map_of_SomeD)
  then show ?thesis using assms by (fastforce simp: typed_cache_def list_all_iff)
qed

section \<open>The routes\<close>

text \<open>The answer has the declared model and the cache is still typed.\<close>

fun answers :: "ty \<Rightarrow> json outcome \<times> world \<Rightarrow> bool" where
  "answers t (Return v, w) \<longleftrightarrow> has_type t v \<and> typed_cache (w_redis w)"
| "answers t (_, w) \<longleftrightarrow> typed_cache (w_redis w)"

text \<open>The same, unless the body is withheld: then it is \<open>None\<close>.\<close>

fun replies :: "ty \<Rightarrow> bool \<Rightarrow> json outcome \<times> world \<Rightarrow> bool" where
  "replies t withheld (Return v, w) \<longleftrightarrow> (if withheld then v = JNull else has_type t v) \<and> typed_cache (w_redis w)"
| "replies t withheld (_, w) \<longleftrightarrow> typed_cache (w_redis w)"

lemma replies_shown [simp]: "replies t False a = answers t a"
  by (cases "(t, a)" rule: answers.cases) simp_all

lemma answers_iff: "answers t (r, w) \<longleftrightarrow> (\<forall>v. r = Return v \<longrightarrow> has_type t v) \<and> typed_cache (w_redis w)"
  by (cases r) auto

lemma cached_route:
  assumes "typed_cache (w_redis w)" "cached_model k = Some t" "answers t from_db"
  shows "answers t (case get_cache (now_ms w) k (w_redis w) of
      Some cached \<Rightarrow> if truthy cached then (Return cached, w) else from_db | None \<Rightarrow> from_db)"
  using assms typed_read by (auto split: option.split)

text \<open>
  The two reaction lists end with a bare \<open>return\<close> for some readers: their body is \<open>None\<close>, which is no list.
\<close>

definition message_reactions_withheld :: "int \<Rightarrow> principal \<Rightarrow> world \<Rightarrow> bool" where
  "message_reactions_withheld i cu w = (case message_by_id i (w_db w) of
      None \<Rightarrow> False
    | Some m \<Rightarrow> m_sender_id m \<noteq> pr_id cu \<and> m_receiver_id m \<noteq> pr_id cu)"

definition share_reactions_withheld :: "int \<Rightarrow> principal \<Rightarrow> world \<Rightarrow> bool" where
  "share_reactions_withheld i cu w = (case shared_post_by_id i (w_db w) of
      None \<Rightarrow> True
    | Some s \<Rightarrow> s_from_user_id s \<noteq> pr_id cu \<and> s_to_user_id s \<noteq> pr_id cu)"

text \<open>
  One rule per route with a response model: the model, whether the body is withheld from this reader, and the
  answer with the world it leaves.
\<close>

inductive route :: "ty \<Rightarrow> bool \<Rightarrow> world \<Rightarrow> json outcome \<times> world \<Rightarrow> bool" where
  reads_post: "route PostDetailResponse False w (get_post account i cu w)"
| creates: "route PostDetailResponse False w (create_post account mb uuid title content media cu w)"
| deletes: "route SuccessResponse False w (delete_post account i cu w)"
| updates: "route PostDetailResponse False w (update_post account i fs cu w)"
| votes: "route VoteResponse False w (voteOnPost i j choice cu w)"
| likes: "route VoteResponse False w (likeAComment i j choice cu w)"
| comments: "route CommentDetailResponse False w (create_comment i text cu w)"
| deletes_comment: "route SuccessResponse False w (delete_comment i cu w)"
| updates_comment: "route CommentDetailResponse False w (update_comment i text cu w)"
| reads_comments: "route CommentListResponse False w (get_post_comments tie i limit offset cu w)"
| saves: "route SuccessResponse False w (save_post i cu w)"
| unsaves: "route SuccessResponse False w (unsave_post i cu w)"
| reads_saved: "route SavedPostsResponse False w (get_saved_posts account cu w)"
| follows: "route FollowResponse False w (follow_user i cu token w)"
| unfollows: "route FollowResponse False w (unfollow_user i cu token w)"
| removes_follower: "route FollowResponse False w (remove_follower_endpoint i j cu token w)"
| lists_followers: "route (TList UserBasicResponse) False w (get_followers_list i cu w)"
| lists_following: "route (TList UserBasicResponse) False w (get_following_list i cu w)"
| reads_feed: "route FeedResponse False w (getHomeFeed tie account limit offset cu w)"
| explores: "route PostListResponse False w (getExploreFeed tie account limit offset cu w)"
| reads_profile: "route UserProfileResponse False w (get_user_profile i cu w)"
| reads_avatar: "route MediaInfo False w (get_user_avatar account i cu w)"
| registers: "route UserResponse False w (register_user sha hashpw tz salt drawn name pw nick email w)"
| lists_users: "route (TList UserResponse) False w (list_users w)"
| reads_followers: "route (TList UserBasicResponse) False w (get_followers i cu w)"
| reads_following: "route (TList UserBasicResponse) False w (get_following i cu w)"
| reads_user_posts: "route PostListResponse False w (get_user_posts tie account i limit offset cu w)"
| reads_own_profile: "route UserProfileResponse False w (myProfile cu w)"
| reads_own_avatar: "route MediaInfo False w (get_current_user_avatar account cu w)"
| removes_picture: "route SuccessResponse False w (delete_profile_picture account commits cu w)"
| reads_own_posts: "route PostListResponse False w (get_current_user_posts tie account limit offset cu w)"
| edits_profile: "route UserProfileResponse False w (update_current_user_profile account mb uuids pcommits name bio picture cu token w)"
| reads_vote_stats: "route VoteStatsResponse False w (get_vote_stats cu w)"
| reads_comment_stats: "route CommentStatsResponse False w (get_comment_stats cu w)"
| searches: "route SearchResultResponse False w (search tie account params cu w)"
| reads_notifications: "route NotificationListResponse False w (get_my_notifications in_session limit offset cu w)"
| reads_badge: "route UnreadCountResponse False w (get_unread_notification_count cu w)"
| marks_read: "route SuccessResponse False w (mark_all_notifications_read cu w)"
| asks_edit: "route CanEditResponse False w (can_edit minutes_left i cu w)"
| reads_reactions: "route (TList ReactedUsers) (message_reactions_withheld i cu w) w (msg_reactions i cu w)"
| reads_share_reactions: "route (TList ReactedUsers) (share_reactions_withheld i cu w) w (get_shared_post_reactions i cu w)"
| shares: "route SharedPostDetailResponse False w (share_post req cu w)"
| starts_password_change: "route SuccessResponse False w (change_password sha tz drawn cu w)"
| resets_password: "route SuccessResponse False w (reset_password_authenticated sha hashpw tz salt commits cu token old otp new w)"

text \<open>Posts, comments, votes and bookmarks.\<close>

lemma post_routes_typed:
  assumes "typed_cache (w_redis w)"
  shows "answers PostDetailResponse (get_post account i cu w)"
    and "answers PostDetailResponse (create_post account mb uuid title content media cu w)"
    and "answers SuccessResponse (delete_post account i cu w)"
    and "answers PostDetailResponse (update_post account i fs cu w)"
proof -
  show "answers PostDetailResponse (get_post account i cu w)"
    unfolding get_post_def Let_def using assms
    by (intro cached_route) (simp_all add: typed_ops split: option.split)
  show "answers PostDetailResponse (create_post account mb uuid title content media cu w)"
  proof (cases "store_media account mb uuid media w")
    case (Pair r w1)
    then have "w_redis w1 = w_redis w"
      by (auto simp: store_media_def Let_def split: option.splits if_splits outcome.splits prod.splits)
    then show ?thesis using assms Pair
      by (simp add: create_post_def Let_def typed_ops split: outcome.split prod.split option.split)
  qed
  show "answers SuccessResponse (delete_post account i cu w)"
    using assms by (simp add: delete_post_def Let_def typed_ops split: option.split)
  show "answers PostDetailResponse (update_post account i fs cu w)"
    using assms by (simp add: update_post_def Let_def typed_ops split: option.split)
qed

lemma vote_routes_typed:
  assumes "typed_cache (w_redis w)"
  shows "answers VoteResponse (voteOnPost i j choice cu w)" and "answers VoteResponse (likeAComment i j choice cu w)"
proof -
  have counted: "answers VoteResponse (vote_done msg k v)" if "typed_cache (w_redis v)" for msg k v
    using that by (simp add: vote_done_def typed_ops split: option.split)
  have queued: "answers VoteResponse (r, if b then enqueue x v' else v')"
    if "vote_done msg k v = (r, v')" "typed_cache (w_redis v)" for msg k v r v' b x
    using counted [OF that(2), of msg k] that(1) by (cases r) simp_all
  show "answers VoteResponse (voteOnPost i j choice cu w)"
    using assms by (simp add: voteOnPost_def Let_def counted queued split: option.split prod.split)
  show "answers VoteResponse (likeAComment i j choice cu w)"
    using assms by (simp add: likeAComment_def comment_vote_done_def Let_def split: option.split)
qed

lemma comment_routes_typed:
  assumes "typed_cache (w_redis w)"
  shows "answers CommentDetailResponse (create_comment i text cu w)" and "answers SuccessResponse (delete_comment i cu w)"
    and "answers CommentDetailResponse (update_comment i text cu w)"
    and "answers CommentListResponse (get_post_comments tie i limit offset cu w)"
    and "answers SuccessResponse (save_post i cu w)" and "answers SuccessResponse (unsave_post i cu w)"
    and "answers SavedPostsResponse (get_saved_posts account cu w)"
proof -
  show "answers CommentListResponse (get_post_comments tie i limit offset cu w)"
    unfolding get_post_comments_def Let_def using assms by (intro cached_route) (simp_all add: typed_ops)
  show "answers SavedPostsResponse (get_saved_posts account cu w)"
    using assms by (simp add: get_saved_posts_def SavedPostsResponse_def SavedPostItemResponse_def split: prod.split)
qed (use assms in \<open>simp_all add: create_comment_def delete_comment_def update_comment_def save_post_def unsave_post_def
      Let_def typed_ops split: option.split\<close>)

text \<open>Connections, feeds, profiles and search.\<close>

lemma connection_routes_typed:
  assumes "typed_cache (w_redis w)"
  shows "answers FollowResponse (follow_user i cu token w)" and "answers FollowResponse (unfollow_user i cu token w)"
    and "answers FollowResponse (remove_follower_endpoint i j cu token w)"
    and "answers (TList UserBasicResponse) (get_followers_list i cu w)"
    and "answers (TList UserBasicResponse) (get_following_list i cu w)"
    and "answers FeedResponse (getHomeFeed tie account limit offset cu w)"
    and "answers PostListResponse (getExploreFeed tie account limit offset cu w)"
proof -
  show "answers FeedResponse (getHomeFeed tie account limit offset cu w)"
    unfolding getHomeFeed_def Let_def using assms by (intro cached_route) (simp_all add: typed_ops)
  show "answers PostListResponse (getExploreFeed tie account limit offset cu w)"
    unfolding getExploreFeed_def Let_def using assms by (intro cached_route) (simp_all add: typed_ops)
qed (use assms in \<open>simp_all add: follow_user_def unfollow_user_def remove_follower_endpoint_def drop_connection_caches_def
      get_followers_list_def get_following_list_def typed_ops split: option.split\<close>)

lemma cached_list_typed:
  assumes "typed_cache (w_redis w)" "cached_model key = Some (TList UserBasicResponse)"
  shows "answers (TList UserBasicResponse) (cached_user_list key rows i w)"
  unfolding cached_user_list_def Let_def using assms by (intro cached_route) (simp_all add: typed_ops)

lemma avatar_typed: "typed_cache (w_redis w) \<Longrightarrow> answers MediaInfo (avatar_answer account path, w)"
  by (simp add: avatar_answer_def split: option.split)

lemma own_profile_typed: "typed_cache (w_redis w) \<Longrightarrow> answers UserProfileResponse (own_profile cu bio d, w)"
  by (simp add: own_profile_def Let_def split: option.split)

lemma profile_routes_typed:
  assumes "typed_cache (w_redis w)"
  shows "answers UserProfileResponse (get_user_profile i cu w)" and "answers MediaInfo (get_user_avatar account i cu w)"
    and "answers UserResponse (register_user sha hashpw tz salt drawn name pw nick email w)"
    and "answers (TList UserResponse) (list_users w)"
    and "answers (TList UserBasicResponse) (get_followers i cu w)"
    and "answers (TList UserBasicResponse) (get_following i cu w)"
    and "answers PostListResponse (get_user_posts tie account i limit offset cu w)"
    and "answers UserProfileResponse (myProfile cu w)" and "answers MediaInfo (get_current_user_avatar account cu w)"
    and "answers PostListResponse (get_current_user_posts tie account limit offset cu w)"
    and "answers VoteStatsResponse (get_vote_stats cu w)" and "answers CommentStatsResponse (get_comment_stats cu w)"
    and "answers SearchResultResponse (search tie account params cu w)"
proof -
  have shown: "has_type UserProfileResponse cached"
    if "get_cache (now_ms w) (user_profile_key i) (w_redis w) = Some cached" for cached
    using typed_read [OF assms _ that] by simp
  show "answers UserProfileResponse (get_user_profile i cu w)"
    using assms by (auto simp: get_user_profile_def Let_def typed_ops profile_shown_typed
        split: option.split json.split dest!: shown)
  show "answers (TList UserResponse) (list_users w)"
    unfolding list_users_def Let_def using assms by (intro cached_route) (simp_all add: typed_ops)
  show "answers PostListResponse (get_user_posts tie account i limit offset cu w)"
    unfolding get_user_posts_def Let_def using assms by (intro cached_route) (simp_all add: typed_ops)
qed (use assms in \<open>simp_all add: get_user_avatar_def avatar_typed register_user_def saveOtp_def get_followers_def get_following_def
      cached_list_typed myProfile_def own_profile_typed get_current_user_avatar_def get_current_user_posts_def get_vote_stats_def
      get_comment_stats_def search_def VoteStatsResponse_def CommentStatsResponse_def SearchResultResponse_def has_type_some
      Let_def typed_ops split: option.split\<close>)

text \<open>The two profile writers run under the retry helper.\<close>

lemma picture_removal_typed:
  assumes "typed_cache (w_redis w)"
  shows "answers SuccessResponse (delete_profile_picture account commits cu w)"
proof -
  have "typed_cache (w_redis (snd (run_with_transient_retry (remove_picture commits (pr_id cu)) 3 w)))"
    by (rule retry_invariant [where I = "\<lambda>w. typed_cache (w_redis w)", OF _ assms])
      (simp add: remove_picture_def split: outcome.split commit.split)
  then show ?thesis
    by (auto simp: delete_profile_picture_def typed_ops split: prod.split outcome.split)
qed

lemma profile_update_typed:
  assumes "typed_cache (w_redis w)"
  shows "answers UserProfileResponse (update_current_user_profile account mb uuids pcommits name bio picture cu token w)"
proof -
  have stored: "w_redis (snd (store_picture account mb u picture v)) = w_redis v" for u v
    by (simp add: store_picture_def split: option.split outcome.split prod.split)
  have kept: "typed_cache (w_redis (snd (commit_profile account res name bio b u v)))"
    if "typed_cache (w_redis v)" for res b u v
    using that by (simp add: commit_profile_def drop_upload_def Let_def typed_ops split: profile_commit.split option.split)
  have "typed_cache (w_redis (snd (profile_attempt account mb uuids pcommits j name bio picture a v)))"
    if "typed_cache (w_redis v)" for j a v
  proof (cases "store_picture account mb (uuids a) picture v")
    case (Pair r v1)
    then have "typed_cache (w_redis v1)" using stored [of "uuids a" v] that by simp
    then show ?thesis using that kept Pair by (simp add: profile_attempt_def split: outcome.split)
  qed
  then have "typed_cache (w_redis (snd (run_with_transient_retry
      (profile_attempt account mb uuids pcommits (pr_id cu) name bio picture) 3 w)))"
    by (rule retry_invariant [where I = "\<lambda>w. typed_cache (w_redis w)", OF _ assms])
  then show ?thesis
    using assms by (auto simp: update_current_user_profile_def own_profile_typed typed_ops split: prod.split outcome.split)
qed

text \<open>Notifications.\<close>

lemma notification_routes_typed:
  assumes "typed_cache (w_redis w)"
  shows "answers NotificationListResponse (get_my_notifications in_session limit offset cu w)"
    and "answers UnreadCountResponse (get_unread_notification_count cu w)"
    and "answers SuccessResponse (mark_all_notifications_read cu w)"
proof -
  have item: "has_type NotificationResponse x" if "validated_notification in_session (w_db w) n = Return x" for n x
    using that by (auto simp: validated_notification_def split: if_splits option.splits)
  have "has_type (TList NotificationResponse) (JArr items)"
    if "sequence (map (validated_notification in_session (w_db w)) ns) = Return items" for ns items
  proof -
    have "has_type NotificationResponse x" if x: "x \<in> set items" for x
    proof -
      have "Return x \<in> set (map (validated_notification in_session (w_db w)) ns)"
        unfolding sequence_Return [OF \<open>sequence _ = _\<close>] using x by simp
      then show ?thesis using item by fastforce
    qed
    then show ?thesis by (simp add: has_type.simps list_all_iff)
  qed
  then show "answers NotificationListResponse (get_my_notifications in_session limit offset cu w)"
    unfolding get_my_notifications_def Let_def using assms
    by (intro cached_route) (auto simp: NotificationListResponse_def typed_ops split: outcome.split)
  show "answers UnreadCountResponse (get_unread_notification_count cu w)"
    unfolding get_unread_notification_count_def Let_def using assms by (intro cached_route) (simp_all add: typed_ops)
  show "answers SuccessResponse (mark_all_notifications_read cu w)"
    using assms by (simp add: mark_all_notifications_read_def drop_notification_caches_def typed_ops)
qed

text \<open>Messages, shares and the password routes.\<close>

lemma publish_copies_typed: "publish_copies payload i v = Some v' \<Longrightarrow> typed_cache (w_redis v) \<Longrightarrow> typed_cache (w_redis v')"
  by (auto simp: publish_copies_def typed_ops split: if_splits)

lemma message_routes_typed:
  assumes "typed_cache (w_redis w)"
  shows "answers CanEditResponse (can_edit minutes_left i cu w)"
    and "replies (TList ReactedUsers) (message_reactions_withheld i cu w) (msg_reactions i cu w)"
    and "replies (TList ReactedUsers) (share_reactions_withheld i cu w) (get_shared_post_reactions i cu w)"
    and "answers SharedPostDetailResponse (share_post req cu w)"
proof -
  have sent: "typed_cache (w_redis (case publish_copies payload i v of Some v' \<Rightarrow> v' | None \<Rightarrow> on_mgr f v))"
    if "typed_cache (w_redis v)" for payload i v f
    using that by (auto dest: publish_copies_typed split: option.split)
  show "answers SharedPostDetailResponse (share_post req cu w)"
    using assms by (simp add: share_post_def Let_def sent split: option.split)
qed (use assms in \<open>simp_all add: can_edit_def msg_reactions_def get_shared_post_reactions_def
      message_reactions_withheld_def share_reactions_withheld_def split: option.split\<close>)

lemma otp_redis [simp]:
  "w_redis (saveOtp sha tz email otp m w) = w_redis w" "w_redis (snd (checkOtp sha tz email otp w)) = w_redis w"
  by (simp_all add: saveOtp_def checkOtp_def Let_def split: option.split)

lemma commit_user_redis [simp]: "w_redis (snd (commit_user res c ok i f w)) = w_redis w"
  by (simp add: commit_user_def split: commit.split)

lemma reset_attempt_typed:
  assumes "typed_cache (w_redis w)"
  shows "answers SuccessResponse (reset_attempt sha hashpw tz salt commits i old otp new a w)"
proof -
  have v: "w_redis (snd (verifyOtp sha tz otp e w)) = w_redis w" for e
    by (simp add: verifyOtp_def split: option.split prod.split bool.split) (metis otp_redis(2) snd_conv)
  have c: "answers SuccessResponse (commit_user res c (message_body m) j f v)" if "typed_cache (w_redis v)" for res c m j f v
    using that by (simp add: commit_user_def split: commit.split)
  show ?thesis
  proof (cases "lock_user_row (Some i) None (w_db w)")
    case (Return u)
    obtain r w1 where o: "verifyOtp sha tz otp (u_email u) w = (r, w1)" by fastforce
    then have "typed_cache (w_redis w1)" using v [of "u_email u"] assms by simp
    then show ?thesis using assms Return o c by (simp add: reset_attempt_def split: outcome.split)
  qed (use assms in \<open>simp_all add: reset_attempt_def\<close>)
qed

lemma retry_answers:
  assumes "\<And>a s. typed_cache (w_redis s) \<Longrightarrow> answers t (operation a s)" "typed_cache (w_redis s)" "0 < attempts"
  shows "answers t (run_with_transient_retry operation attempts s)"
proof -
  have "answers t (retry_loop operation a k s)" if "typed_cache (w_redis s)" "0 < k" for a k s
    using that
  proof (induction k arbitrary: a s)
    case (Suc k)
    obtain r s' where e: "operation a s = (r, s')" by fastforce
    then have "answers t (r, s')" using assms(1) [OF Suc.prems(1), of a] by simp
    then show ?case using e Suc.IH [of s' "a + 1"] by (cases k) (auto simp: answers_iff)
  qed simp
  then show ?thesis using assms(2,3) by (simp add: run_with_transient_retry_def)
qed

lemma password_routes_typed:
  assumes "typed_cache (w_redis w)"
  shows "answers SuccessResponse (change_password sha tz drawn cu w)"
    and "answers SuccessResponse (reset_password_authenticated sha hashpw tz salt commits cu token old otp new w)"
proof -
  show "answers SuccessResponse (change_password sha tz drawn cu w)"
    using assms by (simp add: change_password_def Let_def split: option.split)
  have "answers SuccessResponse (run_with_transient_retry (reset_attempt sha hashpw tz salt commits (pr_id cu) old otp new) 3 w)"
    by (rule retry_answers) (simp_all add: reset_attempt_typed assms)
  then show "answers SuccessResponse (reset_password_authenticated sha hashpw tz salt commits cu token old otp new w)"
    by (auto simp: reset_password_authenticated_def answers_iff typed_ops split: prod.split outcome.split)
qed

section \<open>Sequences of requests\<close>

lemmas routes_typed = post_routes_typed vote_routes_typed comment_routes_typed connection_routes_typed
  profile_routes_typed picture_removal_typed profile_update_typed notification_routes_typed message_routes_typed
  password_routes_typed

lemma route_replies: "route t withheld w a \<Longrightarrow> typed_cache (w_redis w) \<Longrightarrow> replies t withheld a"
  by (induction rule: route.induct) ((subst replies_shown)?, rule routes_typed, assumption)+

text \<open>
  A history: requests to these routes, and any other change that adds no entry under the keys of cached responses
  (time, expiry, frames, tasks, and the handlers that cache principals, rate buckets, idempotency records).
\<close>

inductive history_step :: "world \<Rightarrow> world \<Rightarrow> bool" where
  request: "route t withheld w (r, w') \<Longrightarrow> history_step w w'"
| other: "(\<And>e. e \<in> set (r_store (w_redis w')) \<Longrightarrow> e \<in> set (r_store (w_redis w)) \<or> cached_model (fst e) = None) \<Longrightarrow>
    history_step w w'"

lemma other_keys [simp]:
  "cached_model (auth_key token) = None" "cached_model (''blacklist:'' @ token) = None" "cached_model (grace_key h) = None"
  "cached_model (''rl:'' @ s) = None" "cached_model (''idempotency:'' @ s) = None"
  by (simp_all add: cached_model_def cached_models_def auth_key_def grace_key_def)

lemma history_typed: "history_step w w' \<Longrightarrow> typed_cache (w_redis w) \<Longrightarrow> typed_cache (w_redis w')"
proof (induction rule: history_step.induct)
  case (request t withheld w r w')
  then have "replies t withheld (r, w')" using route_replies by blast
  then show ?case by (cases r) simp_all
next
  case (other w' w)
  have "typed_entry e" if "e \<in> set (r_store (w_redis w'))" for e
  proof (cases "cached_model (fst e)")
    case None
    then show ?thesis by (cases e rule: typed_entry.cases) simp_all
  next
    case (Some t)
    then have "e \<in> set (r_store (w_redis w))" using other(1) that by fastforce
    then show ?thesis using other(2) by (simp add: typed_cache_def list_all_iff)
  qed
  then show ?case by (simp add: typed_cache_def list_all_iff)
qed

section \<open>Properties\<close>

text \<open>C5: Every body that a route with a \<open>response_model\<close> returns has that model's type, whether it is built from the
  database or read back from the cache, after any sequence of requests and other activity that starts from an empty
  Redis, so no route answers 500 because its own or another route's cached payload fails response validation. The
  only exceptions, exactly: the reactions of a message for a reader who is not one of its two users, and those of a
  share that is missing or is between other users, where the handler returns \<open>None\<close>, which is no list.\<close>

theorem responses_fit_models:
  assumes "history_step\<^sup>*\<^sup>* w0 w" "r_store (w_redis w0) = []" "route t withheld w (Return body, w')"
  shows "if withheld then body = JNull \<and> t = TList ReactedUsers \<and> \<not> has_type t body else has_type t body"
proof -
  have "typed_cache (w_redis w)"
    using assms(1,2) by (induction rule: rtranclp_induct) (simp_all add: typed_cache_def [of "w_redis w0"] history_typed)
  moreover have "t = TList ReactedUsers" if withheld
    using assms(3) that by (cases rule: route.cases) simp_all
  ultimately show ?thesis using route_replies [OF assms(3)] by simp
qed

text \<open>The second reader of a post, served from the cache the first one filled.\<close>

definition post_reader :: "world \<Rightarrow> json outcome \<times> world" where
  "post_reader w = get_post None 10 (sample_principal 2 ''bob'') w"

lemma responses_fit_models_witness:
  "is_Return (fst (post_reader (snd (post_reader sample_world)))) \<and>
   (case fst (post_reader (snd (post_reader sample_world))) of Return body \<Rightarrow> has_type PostDetailResponse body | _ \<Rightarrow> False)"
proof -
  have read: "is_Return (fst (post_reader (snd (post_reader sample_world))))" by code_simp
  have "history_step\<^sup>*\<^sup>* sample_world (snd (post_reader sample_world))"
    unfolding post_reader_def
    by (rule r_into_rtranclp, rule history_step.request [where t = PostDetailResponse and withheld = False and r = "fst (post_reader sample_world)"])
      (simp add: post_reader_def route.reads_post)
  moreover have "r_store (w_redis sample_world) = []" by (simp add: sample_world_def)
  ultimately have "fst (post_reader (snd (post_reader sample_world))) = Return body \<Longrightarrow> has_type PostDetailResponse body" for body
    using responses_fit_models [of sample_world "snd (post_reader sample_world)" PostDetailResponse False body
        "snd (post_reader (snd (post_reader sample_world)))"]
    by (metis post_reader_def prod.collapse route.reads_post)
  then show ?thesis using read by (cases "fst (post_reader (snd (post_reader sample_world)))") simp_all
qed

end
