(* ===== verification/Errors.thy ===== *)
theory Errors
  imports Json Tables "HOL-Library.Sublist"
begin

text \<open>
  \<open>app/utils/exceptions.py\<close> and \<open>app/utils/exception_handlers.py\<close>: the application's exceptions and the response to
  an exception that leaves a route. Starlette looks the class of the exception and then its base classes up among the
  registered handlers; the base classes of library exceptions are the parameter \<open>mro\<close> (\<open>type(exc).__mro__\<close>).
\<close>

section \<open>Application exceptions\<close>

record app_exception =
  ae_message :: string
  ae_status_code :: nat
  ae_error_code :: string
  ae_details :: "(string \<times> json) list"

text \<open>\<open>details or {}\<close>\<close>

definition AppException :: "string \<Rightarrow> nat \<Rightarrow> string \<Rightarrow> (string \<times> json) list option \<Rightarrow> app_exception" where
  "AppException message status_code error_code details = \<lparr>ae_message = message, ae_status_code = status_code,
     ae_error_code = error_code, ae_details = (case details of None \<Rightarrow> [] | Some d \<Rightarrow> d)\<rparr>"

definition ResourceNotFoundException :: "string \<Rightarrow> string \<Rightarrow> (string \<times> json) list option \<Rightarrow> app_exception" where
  "ResourceNotFoundException resource identifier details =
     AppException (resource @ '' with identifier '' @ identifier @ '' not found'') 404 ''RESOURCE_NOT_FOUND'' details"

definition ValidationException :: "string \<Rightarrow> (string \<times> json) list option \<Rightarrow> app_exception" where
  "ValidationException message details = AppException message 400 ''VALIDATION_ERROR'' details"

definition AuthenticationException :: "string \<Rightarrow> app_exception" where
  "AuthenticationException message =
     AppException message 401 ''UNAUTHORIZED'' (Some [(''WWW-Authenticate'', JStr ''Bearer'')])"

definition AuthorizationException :: "string \<Rightarrow> app_exception" where
  "AuthorizationException message = AppException message 403 ''FORBIDDEN'' None"

definition DatabaseException :: "string \<Rightarrow> (string \<times> json) list option \<Rightarrow> app_exception" where
  "DatabaseException message details = AppException message 500 ''DATABASE_ERROR'' details"

definition ConflictException :: "string \<Rightarrow> (string \<times> json) list option \<Rightarrow> app_exception" where
  "ConflictException message details = AppException message 409 ''CONFLICT'' details"

definition RateLimitException :: "string \<Rightarrow> app_exception" where
  "RateLimitException message = AppException message 429 ''RATE_LIMIT_EXCEEDED'' None"

definition BusinessLogicException :: "string \<Rightarrow> string \<Rightarrow> (string \<times> json) list option \<Rightarrow> app_exception" where
  "BusinessLogicException message error_code details = AppException message 400 error_code details"

definition WebSocketException :: "string \<Rightarrow> (string \<times> json) list option \<Rightarrow> app_exception" where
  "WebSocketException message details = AppException message 101 ''WEBSOCKET_ERROR'' details"

section \<open>Handlers\<close>

text \<open>The status and the body; \<open>request_id\<close> is the one the logging middleware bound, if any.\<close>

type_synonym response = "nat \<times> json"

definition error_body :: "string \<Rightarrow> string \<Rightarrow> (string \<times> json) list \<Rightarrow> string option \<Rightarrow> json" where
  "error_body error_code message details request_id = JObj
     ([(''error_code'', JStr error_code), (''message'', JStr message)] @ details @ [(''request_id'', jstr_opt request_id)])"

definition app_exception_handler :: "string option \<Rightarrow> app_exception \<Rightarrow> response" where
  "app_exception_handler request_id exc = (ae_status_code exc,
     error_body (ae_error_code exc) (ae_message exc) [(''details'', JObj (ae_details exc))] request_id)"

definition integrity_exception_handler :: "string option \<Rightarrow> response" where
  "integrity_exception_handler request_id =
     (400, error_body ''INTEGRITY_ERROR'' ''A database integrity error occurred.'' [] request_id)"

text \<open>
  \<open>exc.errors()\<close> goes into the response as it is: \<open>None\<close> stands for a list with a value that JSON has no form for
  (such as the bytes of a body that was not sent as JSON), for which \<open>JSONResponse\<close> raises \<open>TypeError\<close>.
\<close>

definition validation_exception_handler :: "string option \<Rightarrow> json list option \<Rightarrow> response option" where
  "validation_exception_handler request_id errors = map_option (\<lambda>details.
     (422, error_body ''VALIDATION_ERROR'' ''Input validation failed.'' [(''details'', JArr details)] request_id)) errors"

definition universal_exception_handler :: "string option \<Rightarrow> response" where
  "universal_exception_handler request_id =
     (500, error_body ''INTERNAL_SERVER_ERROR'' ''An unexpected error occurred. Please try again later.'' [] request_id)"

text \<open>\<open>text\<close> is \<open>str(exc)\<close>.\<close>

definition sqlalchemy_exception_handler :: "string option \<Rightarrow> string \<Rightarrow> response" where
  "sqlalchemy_exception_handler request_id text =
     (if sublist ''unique'' (lower text) then 400 else 500,
      error_body ''DATABASE_ERROR'' ''Database operation failed.'' [] request_id)"

definition operational_error_handler :: "string option \<Rightarrow> response" where
  "operational_error_handler request_id =
     (503, error_body ''DATABASE_TEMPORARY_ERROR'' ''Temporary database issue. Please retry.'' [] request_id)"

section \<open>Dispatch\<close>

text \<open>
  What leaves a route: an \<open>HTTPException\<close> (status, detail, headers), one of the application's exceptions (with its class),
  a rejected request, any other exception. The first has FastAPI's own handler.
\<close>

datatype raised =
    Http_exception nat json "(string \<times> string) list"
  | Application string app_exception
  | Invalid_request "json list option"
  | Escaped exn string

fun class_chain :: "(exn \<Rightarrow> string list) \<Rightarrow> raised \<Rightarrow> string list" where
  "class_chain mro (Http_exception st d hs) = [''HTTPException'', ''Exception'']"
| "class_chain mro (Application c x) = [c, ''AppException'', ''Exception'']"
| "class_chain mro (Invalid_request errors) = [''RequestValidationError'', ''Exception'']"
| "class_chain mro (Escaped x text) = mro x"

text \<open>
  The handler registered for a class, applied to the exception. A handler that raises itself leaves the request to the
  handler of \<open>Exception\<close>.
\<close>

fun register_exception_handlers :: "string option \<Rightarrow> raised \<Rightarrow> string \<Rightarrow> response option" where
  "register_exception_handlers rid (Http_exception _ _ _) c =
     (if c = ''Exception'' then Some (universal_exception_handler rid) else None)"
| "register_exception_handlers rid (Application _ x) c =
     (if c = ''AppException'' then Some (app_exception_handler rid x)
      else if c = ''Exception'' then Some (universal_exception_handler rid) else None)"
| "register_exception_handlers rid (Invalid_request errors) c =
     (if c = ''RequestValidationError'' \<and> errors \<noteq> None then validation_exception_handler rid errors
      else if c = ''Exception'' then Some (universal_exception_handler rid) else None)"
| "register_exception_handlers rid (Escaped x text) c =
     (if c = ''IntegrityError'' then Some (integrity_exception_handler rid)
      else if c = ''OperationalError'' then Some (operational_error_handler rid)
      else if c = ''SQLAlchemyError'' then Some (sqlalchemy_exception_handler rid text)
      else if c = ''Exception'' then Some (universal_exception_handler rid) else None)"

fun first_handler :: "(string \<Rightarrow> response option) \<Rightarrow> string list \<Rightarrow> response option" where
  "first_handler h [] = None"
| "first_handler h (c # cs) = (case h c of Some r \<Rightarrow> Some r | None \<Rightarrow> first_handler h cs)"

definition error_response :: "(exn \<Rightarrow> string list) \<Rightarrow> string option \<Rightarrow> raised \<Rightarrow> response option" where
  "error_response mro rid e = first_handler (register_exception_handlers rid e) (class_chain mro e)"

section \<open>Lemmas\<close>

text \<open>The five answers to an exception the application did not raise itself.\<close>

definition internal_answers :: "string option \<Rightarrow> response list" where
  "internal_answers rid = [integrity_exception_handler rid, operational_error_handler rid,
     universal_exception_handler rid, (400, error_body ''DATABASE_ERROR'' ''Database operation failed.'' [] rid),
     (500, error_body ''DATABASE_ERROR'' ''Database operation failed.'' [] rid)]"

lemma escaped_answers:
  assumes "''Exception'' \<in> set cs"
  shows "\<exists>r. first_handler (register_exception_handlers rid (Escaped x text)) cs = Some r \<and> r \<in> set (internal_answers rid)"
  using assms
proof (induction cs)
  case (Cons c cs)
  have known: "r \<in> set (internal_answers rid)" if "register_exception_handlers rid (Escaped x text) c = Some r" for r
    using that by (simp add: internal_answers_def sqlalchemy_exception_handler_def split: if_splits)
  show ?case
  proof (cases "register_exception_handlers rid (Escaped x text) c")
    case None
    then have "c \<noteq> ''Exception''" by fastforce
    then show ?thesis using Cons None by simp
  next
    case (Some r)
    then show ?thesis using known by simp
  qed
qed simp

lemma escaped_body_constant:
  "map_option snd (first_handler (register_exception_handlers rid (Escaped x t)) cs) =
   map_option snd (first_handler (register_exception_handlers rid (Escaped y t')) cs)"
  by (induction cs) (auto simp: sqlalchemy_exception_handler_def)

section \<open>Properties\<close>

text \<open>C34: Nothing of an unexpected exception reaches the client: whatever its class and whatever its text (SQL, parameters,
  stack), the answer is one of five fixed responses, and two failures of the same class have the same body.\<close>

theorem errors_disclose_nothing:
  assumes "\<And>x. ''Exception'' \<in> set (mro x)"
  shows "\<exists>r. error_response mro rid (Escaped x text) = Some r \<and> r \<in> set (internal_answers rid) \<and>
    map_option snd (error_response mro rid (Escaped x text')) = Some (snd r)"
proof -
  obtain r where "error_response mro rid (Escaped x text) = Some r" "r \<in> set (internal_answers rid)"
    using escaped_answers [OF assms] unfolding error_response_def class_chain.simps by blast
  then show ?thesis
    using escaped_body_constant [of rid x "text'" "mro x" x "text"] by (simp add: error_response_def)
qed

text \<open>The class hierarchy of SQLAlchemy 2.\<close>

fun sqlalchemy_mro :: "exn \<Rightarrow> string list" where
  "sqlalchemy_mro IntegrityError = [''IntegrityError'', ''DatabaseError'', ''DBAPIError'', ''StatementError'', ''SQLAlchemyError'', ''Exception'']"
| "sqlalchemy_mro (OperationalError c) = [''OperationalError'', ''DatabaseError'', ''DBAPIError'', ''StatementError'', ''SQLAlchemyError'', ''Exception'']"
| "sqlalchemy_mro DataError = [''DataError'', ''DatabaseError'', ''DBAPIError'', ''StatementError'', ''SQLAlchemyError'', ''Exception'']"
| "sqlalchemy_mro StaleDataError = [''StaleDataError'', ''SQLAlchemyError'', ''Exception'']"
| "sqlalchemy_mro MissingGreenlet = [''MissingGreenlet'', ''InvalidRequestError'', ''SQLAlchemyError'', ''Exception'']"
| "sqlalchemy_mro x = [''Exception'']"

lemma errors_disclose_nothing_witness:
  "\<exists>r. error_response sqlalchemy_mro None (Escaped IntegrityError ''INSERT INTO users ...'') = Some r \<and>
    r \<in> set (internal_answers None) \<and>
    map_option snd (error_response sqlalchemy_mro None (Escaped IntegrityError ''other'')) = Some (snd r)"
proof -
  have "''Exception'' \<in> set (sqlalchemy_mro x)" for x by (cases x) simp_all
  then show ?thesis by (rule errors_disclose_nothing)
qed

end
