(* ===== verification/Operations.thy ===== *)
theory Operations
  imports Notifications
begin

text \<open>
  What operators and the deployment use: the health check of \<open>app/main.py\<close>, the task administration of
  \<open>app/routes/celery_tasks.py\<close> and the e-mail tasks of \<open>app/tasks/email_tasks.py\<close>. The answers of the database, Redis,
  the broker and the Celery workers are arguments.
\<close>

section \<open>Health check\<close>

text \<open>What a probe finds: it is up, it answers something false, or the call raises an exception with this text.\<close>

datatype probe = Up | Refuses | Fails string

definition health_body :: "string \<Rightarrow> string \<Rightarrow> string \<Rightarrow> string \<Rightarrow> json" where
  "health_body status database redis rabbitmq = JObj [(''status'', JStr status), (''version'', JStr ''1.0.0''),
     (''dependencies'', JObj [(''database'', JStr database), (''redis'', JStr redis), (''rabbitmq'', JStr rabbitmq)])]"

definition error_text :: "string \<Rightarrow> string" where
  "error_text e = ''error: '' @ e"

text \<open>\<open>SELECT 1\<close> and the broker connection either succeed or raise; only the ping of Redis can answer false.\<close>

definition health_check :: "string option \<Rightarrow> probe \<Rightarrow> string option \<Rightarrow> nat \<times> json" where
  "health_check database redis broker =
     (let (s1, d) = (case database of None \<Rightarrow> (''healthy'', ''connected'') | Some e \<Rightarrow> (''unhealthy'', error_text e));
          (s2, r) = (case redis of Up \<Rightarrow> (s1, ''connected'') | Refuses \<Rightarrow> (''unhealthy'', ''failed ping'')
                                 | Fails e \<Rightarrow> (''unhealthy'', error_text e));
          b = (case broker of None \<Rightarrow> ''connected'' | Some e \<Rightarrow> error_text e)
      in (if s2 \<noteq> ''healthy'' then 503 else 200, health_body s2 d r b))"

section \<open>Task administration\<close>

text \<open>\<open>task.info\<close>: a dict, an exception (its text), or some other value (its text).\<close>

datatype task_info = Info_dict "(string \<times> json) list" | Info_exception string | Info_other string

record async_result =
  ar_state :: string
  ar_result :: json
  ar_info :: task_info
  ar_info_text :: string
  ar_traceback :: "string option"

definition task_status :: "string \<Rightarrow> string \<Rightarrow> json \<Rightarrow> (string \<times> json) list \<Rightarrow> int \<Rightarrow> json" where
  "task_status task_id state result extra progress = JObj
     ([(''task_id'', JStr task_id), (''status'', JStr state), (''result'', result)] @ extra @ [(''progress'', JInt progress)])"

text \<open>\<open>text_of\<close> is the rendering of a value inside an f-string.\<close>

definition get_task_status :: "(json \<Rightarrow> string) \<Rightarrow> string \<Rightarrow> async_result \<Rightarrow> json outcome" where
  "get_task_status text_of task_id task =
     (let s = ar_state task
      in if s = ''PENDING'' then Return (task_status task_id s (JStr ''Task is waiting to be executed'') [] 0)
         else if s = ''STARTED'' then Return (task_status task_id s (JStr ''Task is currently executing'') [] 50)
         else if s = ''RETRY'' then
           (case ar_info task of
              Info_dict d \<Rightarrow> Return (task_status task_id s (JStr (''Task retrying: '' @
                (case map_of d ''exc_message'' of None \<Rightarrow> ''Unknown error'' | Some v \<Rightarrow> text_of v))) [] 25)
            | _ \<Rightarrow> Raise AttributeError)
         else if s = ''FAILURE'' then
           Return (task_status task_id s (JStr (ar_info_text task)) [(''traceback'', jstr_opt (ar_traceback task))] 0)
         else if s = ''SUCCESS'' then Return (task_status task_id s (ar_result task) [] 100)
         else Return (task_status task_id s (JStr (ar_info_text task)) [] 0))"

text \<open>A task as a worker reports it; \<open>inspect\<close> answers \<open>None\<close> when no worker replies.\<close>

record inspected_task =
  it_id :: string
  it_name :: string
  it_args :: "json option"
  it_time_start :: "json option"

definition task_entry :: "string \<Rightarrow> inspected_task \<Rightarrow> (string \<times> json) list" where
  "task_entry worker t = [(''worker'', JStr worker), (''task_id'', JStr (it_id t)), (''task_name'', JStr (it_name t)),
     (''args'', (case it_args t of None \<Rightarrow> JArr [] | Some a \<Rightarrow> a))]"

fun list_tasks :: "(string \<Rightarrow> inspected_task \<Rightarrow> json) \<Rightarrow> (string \<times> inspected_task list) list \<Rightarrow> json list" where
  "list_tasks entry [] = []"
| "list_tasks entry ((worker, ts) # rest) = map (entry worker) ts @ list_tasks entry rest"

definition task_report :: "string \<Rightarrow> json list \<Rightarrow> json" where
  "task_report key tasks_list = JObj [(key, JArr tasks_list), (''count'', JInt (int (length tasks_list)))]"

definition get_active_tasks :: "(string \<times> inspected_task list) list option \<Rightarrow> json" where
  "get_active_tasks active = (case active of
      None \<Rightarrow> task_report ''active_tasks'' []
    | Some a \<Rightarrow> task_report ''active_tasks'' (list_tasks (\<lambda>worker t. JObj (task_entry worker t @
        [(''time_start'', (case it_time_start t of None \<Rightarrow> JNull | Some v \<Rightarrow> v))])) a))"

definition get_reserved_tasks :: "(string \<times> inspected_task list) list option \<Rightarrow> json" where
  "get_reserved_tasks reserved = (case reserved of
      None \<Rightarrow> task_report ''reserved_tasks'' []
    | Some a \<Rightarrow> task_report ''reserved_tasks'' (list_tasks (\<lambda>worker t. JObj (task_entry worker t)) a))"

text \<open>\<open>d.get(outer, {}).get(inner)\<close>\<close>

definition get_nested :: "string \<Rightarrow> string \<Rightarrow> (string \<times> json) list \<Rightarrow> json outcome" where
  "get_nested outer inner d = (case map_of d outer of
      None \<Rightarrow> Return JNull
    | Some (JObj e) \<Rightarrow> Return (dict_get inner e)
    | Some _ \<Rightarrow> Raise AttributeError)"

definition worker_entry :: "(string \<times> json) list \<Rightarrow> json outcome" where
  "worker_entry s = (case get_nested ''pool'' ''max-concurrency'' s of
      Return pool_size \<Rightarrow> map_outcome (\<lambda>transport. JObj [(''pool_size'', pool_size),
        (''processed_tasks'', dict_get ''total'' s), (''broker_transport'', transport)]) (get_nested ''broker'' ''transport'' s)
    | Http c m \<Rightarrow> Http c m
    | Raise e \<Rightarrow> Raise e)"

definition get_worker_stats :: "(string \<times> (string \<times> json) list) list option \<Rightarrow> json outcome" where
  "get_worker_stats stats = (case stats of
      None \<Rightarrow> Return (JObj [(''workers'', JObj []), (''message'', JStr ''No workers available'')])
    | Some [] \<Rightarrow> Return (JObj [(''workers'', JObj []), (''message'', JStr ''No workers available'')])
    | Some ws \<Rightarrow> map_outcome (\<lambda>es. JObj [(''workers'', JObj es)])
        (sequence (map (\<lambda>(w, s). map_outcome (Pair w) (worker_entry s)) ws)))"

text \<open>The tasks waiting in the queues of the broker; \<open>control_purge\<close> and \<open>control_revoke\<close> are Celery's commands.\<close>

type_synonym broker = "(string \<times> task list) list"

definition revoke_task :: "(string \<Rightarrow> bool \<Rightarrow> broker \<Rightarrow> broker) \<Rightarrow> string \<Rightarrow> bool \<Rightarrow> broker \<Rightarrow> json \<times> broker" where
  "revoke_task control_revoke task_id terminate b =
     (JObj [(''message'', JStr (''Task '' @ task_id @ '' revoked successfully'')), (''terminated'', JBool terminate)],
      control_revoke task_id terminate b)"

definition purge_queue :: "(broker \<Rightarrow> broker) \<Rightarrow> string \<Rightarrow> broker \<Rightarrow> json \<times> broker" where
  "purge_queue control_purge queue_name b =
     (JObj [(''message'', JStr (''Queue '' @ CHR 0x27 # queue_name @ CHR 0x27 # '' purged successfully''))], control_purge b)"

section \<open>E-mail tasks\<close>

text \<open>
  \<open>accepts n\<close> says whether the mail service accepts the message when it was tried \<open>n\<close> times before; a failure
  schedules the task again after \<open>60 * 2 ** retries\<close> seconds, at most three times.
\<close>

definition send_otp_email_task :: "(nat \<Rightarrow> bool) \<Rightarrow> nat \<Rightarrow> task_result" where
  "send_otp_email_task accepts retries =
     (if accepts retries then Done else if retries < 3 then Retry_in (60 * 2 ^ retries) else Gave_up)"

definition send_verification_email_task :: "(nat \<Rightarrow> bool) \<Rightarrow> nat \<Rightarrow> task_result" where
  "send_verification_email_task accepts retries =
     (if accepts retries then Done else if retries < 3 then Retry_in (60 * 2 ^ retries) else Gave_up)"

text \<open>The worker: the times (seconds) at which a task body with such retries runs, and how it ends.\<close>

function task_runs :: "(nat \<Rightarrow> task_result) \<Rightarrow> nat \<Rightarrow> int \<Rightarrow> int list \<times> task_result" where
  "task_runs body retries t = (case body retries of
      Retry_in s \<Rightarrow> if retries < 3 then (case task_runs body (retries + 1) (t + s) of (ts, r) \<Rightarrow> (t # ts, r)) else ([t], Gave_up)
    | r \<Rightarrow> ([t], r))"
  by pat_completeness auto

termination by (relation "measure (\<lambda>(body, retries, t). 3 - retries)") auto

declare task_runs.simps [simp del]

text \<open>
  The contract of a task that retries like these: it is done when its work succeeds, and otherwise asks to be run again
  \<open>60 * 2 ** retries\<close> seconds later, three times.
\<close>

locale retried_task =
  fixes body :: "'a \<Rightarrow> nat \<Rightarrow> task_result" and succeeds :: "'a \<Rightarrow> nat \<Rightarrow> bool"
  assumes success: "succeeds x n \<Longrightarrow> body x n = Done"
    and failure: "\<not> succeeds x n \<Longrightarrow> body x n = (if n < 3 then Retry_in (60 * 2 ^ n) else Gave_up)"
begin

lemma runs:
  "task_runs (body x) 0 t =
     (if succeeds x 0 then ([t], Done)
      else if succeeds x 1 then ([t, t + 60], Done)
      else if succeeds x 2 then ([t, t + 60, t + 180], Done)
      else ([t, t + 60, t + 180, t + 420], if succeeds x 3 then Done else Gave_up))"
  by (simp add: task_runs.simps success failure numeral_2_eq_2 numeral_3_eq_3)

lemma ends: "snd (task_runs (body x) 0 t) \<in> {Done, Gave_up}"
  by (simp add: runs)

end

interpretation otp_mail: retried_task send_otp_email_task "\<lambda>accepts. accepts"
  by unfold_locales (simp_all add: send_otp_email_task_def)

interpretation verification_mail: retried_task send_verification_email_task "\<lambda>accepts. accepts"
  by unfold_locales (simp_all add: send_verification_email_task_def)

text \<open>The notification task, against the worlds its attempts find.\<close>

definition notification_attempt :: "int \<times> int \<times> string \<times> string \<times> int option \<times> string option \<times> (nat \<Rightarrow> world) \<Rightarrow>
    nat \<Rightarrow> task_result" where
  "notification_attempt = (\<lambda>(actor, owner, kind, name, entity, entity_type, ws) n.
     fst (notification_task n actor owner kind name entity entity_type (ws n)))"

definition notification_succeeds :: "int \<times> int \<times> string \<times> string \<times> int option \<times> string option \<times> (nat \<Rightarrow> world) \<Rightarrow>
    nat \<Rightarrow> bool" where
  "notification_succeeds = (\<lambda>(actor, owner, kind, name, entity, entity_type, ws) n.
     (case notification_of_value kind of None \<Rightarrow> False
      | Some k \<Rightarrow> is_Return (fst (create_notification actor owner k name entity entity_type (ws n)))))"

interpretation notified: retried_task notification_attempt notification_succeeds
proof unfold_locales
  fix x :: "int \<times> int \<times> string \<times> string \<times> int option \<times> string option \<times> (nat \<Rightarrow> world)" and n
  obtain a b k m e et ws where x: "x = (a, b, k, m, e, et, ws)" by (metis surj_pair)
  show "notification_succeeds x n \<Longrightarrow> notification_attempt x n = Done"
    by (auto simp: x notification_succeeds_def notification_attempt_def notification_task_def Let_def is_Return_iff
        split: option.splits prod.splits outcome.splits)
  show "\<not> notification_succeeds x n \<Longrightarrow> notification_attempt x n = (if n < 3 then Retry_in (60 * 2 ^ n) else Gave_up)"
    by (auto simp: x notification_succeeds_def notification_attempt_def notification_task_def Let_def is_Return_iff
        split: option.splits prod.splits outcome.splits)
qed

section \<open>Properties\<close>

text \<open>The health check answers 200 exactly when the database answers and Redis answers its ping, 503 otherwise; the
  broker never decides, and the body reports each dependency as found.\<close>

theorem health_status_exact:
  "fst (health_check database redis broker) = (if database = None \<and> redis = Up then 200 else 503) \<and>
   snd (health_check database redis broker) = health_body (if database = None \<and> redis = Up then ''healthy'' else ''unhealthy'')
     (case database of None \<Rightarrow> ''connected'' | Some e \<Rightarrow> error_text e)
     (case redis of Up \<Rightarrow> ''connected'' | Refuses \<Rightarrow> ''failed ping'' | Fails e \<Rightarrow> error_text e)
     (case broker of None \<Rightarrow> ''connected'' | Some e \<Rightarrow> error_text e)"
  by (simp add: health_check_def Let_def split: option.split probe.split)

text \<open>C40: A background task whose work keeps failing (an e-mail the service refuses, a notification that can not be stored) runs
  exactly four times, 0, 60, 180 and 420 seconds after it starts, and is then given up; otherwise it runs until the first
  success and never again.\<close>

theorem email_retries_bounded:
  "let runs = (\<lambda>ok. if ok 0 then ([t], Done)
      else if ok 1 then ([t, t + 60], Done)
      else if ok 2 then ([t, t + 60, t + 180], Done)
      else ([t, t + 60, t + 180, t + 420], if ok 3 then Done else Gave_up))
   in task_runs (send_otp_email_task accepts) 0 t = runs accepts \<and>
      task_runs (send_verification_email_task accepts) 0 t = runs accepts \<and>
      task_runs (\<lambda>n. fst (notification_task n actor owner kind name entity entity_type (ws n))) 0 t =
        runs (notification_succeeds (actor, owner, kind, name, entity, entity_type, ws))"
  using notified.runs [of "(actor, owner, kind, name, entity, entity_type, ws)" t]
  unfolding Let_def otp_mail.runs verification_mail.runs by (simp add: notification_attempt_def)

text \<open>Purging one queue empties every queue: the queue named in the request is not passed on, so with Celery's
  \<open>purge\<close>, which discards the waiting tasks of all configured queues, the waiting tasks of every other queue are lost
  while the answer reports the named queue only.\<close>

theorem purge_queue_empties_all:
  assumes "\<And>b. control_purge b = map (\<lambda>(q, ts). (q, [])) b" "(other, ts) \<in> set b" "other \<noteq> queue_name"
  shows "(other, []) \<in> set (snd (purge_queue control_purge queue_name b))"
  using assms(2) by (force simp: purge_queue_def assms(1))

lemma purge_queue_empties_all_witness:
  "(''celery'', []) \<in> set (snd (purge_queue (map (\<lambda>(q, ts). (q, []))) ''dead_letter_queue''
     [(''dead_letter_queue'', []), (''celery'', [send_otp_email ''a@x.io'' ''123456''])]))"
  by (rule purge_queue_empties_all [where ts = "[send_otp_email ''a@x.io'' ''123456'']"]) simp_all

end
