(* ===== verification/Routing.thy ===== *)
theory Routing
  imports Blob
begin

text \<open>
  The routing table of the API: \<open>app/api/v1/api_router.py\<close> includes the routers in order, every router adds its routes
  in the order of its file. A request goes to the first route whose method and path pattern match; a path parameter
  matches one non-empty segment, whatever its declared type (a segment that does not convert is then rejected with 422,
  the later routes are not tried). Paths are below \<open>/v1\<close>.
\<close>

section \<open>Routes\<close>

datatype http_method = GET | POST | PUT | PATCH | DELETE | WEBSOCKET

record route =
  rt_method :: http_method
  rt_path :: string
  rt_handler :: string

text \<open>\<open>APIRouter(prefix=..)\<close> with its decorated functions.\<close>

definition APIRouter :: "string \<Rightarrow> (http_method \<times> string \<times> string) list \<Rightarrow> route list" where
  "APIRouter pre routes = map (\<lambda>(m, p, h). \<lparr>rt_method = m, rt_path = pre @ p, rt_handler = h\<rparr>) routes"

definition posts_router :: "route list" where
  "posts_router = APIRouter ''/posts''
     [(GET, ''/{postId}'', ''get_post''), (POST, '''', ''create_post''),
      (DELETE, ''/{postId}'', ''delete_post''), (PUT, ''/{postId}'', ''update_post'')]"

definition me_router :: "route list" where
  "me_router = APIRouter ''/users/me''
     [(GET, ''/profile'', ''myProfile''), (GET, ''/avatar'', ''get_current_user_avatar''),
      (DELETE, ''/avatar'', ''delete_profile_picture''), (GET, ''/posts'', ''get_current_user_posts''),
      (PATCH, '''', ''update_current_user_profile''), (GET, ''/engagements/votes'', ''get_voted_posts''),
      (GET, ''/stats/votes'', ''get_vote_stats''), (GET, ''/posts/liked'', ''get_liked_posts_list''),
      (GET, ''/posts/disliked'', ''get_disliked_posts_list''), (GET, ''/posts/commented'', ''get_commented_posts''),
      (GET, ''/stats/comments'', ''get_comment_stats'')]"

definition users_router :: "route list" where
  "users_router = APIRouter ''/users''
     [(GET, ''/{user_id}'', ''get_user_profile''), (GET, ''/{user_id}/avatar'', ''get_user_avatar''),
      (POST, ''/register'', ''register_user''), (GET, '''', ''list_users''),
      (GET, ''/{user_id}/followers'', ''get_followers''), (GET, ''/{user_id}/following'', ''get_following''),
      (GET, ''/{user_id}/posts'', ''get_user_posts'')]"

definition auth_router :: "route list" where
  "auth_router = APIRouter ''/auth''
     [(POST, ''/login'', ''loginUser''), (POST, ''/refresh-token'', ''refresh_token''), (POST, ''/logout'', ''logout''),
      (POST, ''/password/forgot'', ''forgot_password''), (POST, ''/password/reset'', ''reset_password''),
      (POST, ''/email/verify'', ''verify_email''), (POST, ''/email/resend-otp'', ''resend_verification_otp'')]"

definition like_router :: "route list" where
  "like_router = APIRouter ''''
     [(POST, ''/posts/{postId}/votes'', ''voteOnPost''), (POST, ''/comments/{commentId}/votes'', ''likeAComment'')]"

definition connect_router :: "route list" where
  "connect_router = APIRouter ''/users''
     [(POST, ''/{user_id}/follow'', ''follow_user''), (DELETE, ''/{user_id}/unfollow'', ''unfollow_user''),
      (DELETE, ''/{user_id}/followers/{follower_id}'', ''remove_follower_endpoint''),
      (GET, ''/{user_id}/followers'', ''get_followers_list''), (GET, ''/{user_id}/following'', ''get_following_list'')]"

definition comment_router :: "route list" where
  "comment_router = APIRouter ''''
     [(POST, ''/posts/{post_id}/comments'', ''create_comment''), (DELETE, ''/comments/{commentId}'', ''delete_comment''),
      (PATCH, ''/comments/{commentId}'', ''update_comment''), (GET, ''/posts/{post_id}/comments'', ''get_post_comments'')]"

definition search_router :: "route list" where
  "search_router = APIRouter '''' [(GET, ''/search'', ''search'')]"

definition changepassword_router :: "route list" where
  "changepassword_router = APIRouter ''/auth''
     [(POST, ''/password/change'', ''change_password''),
      (POST, ''/password/reset-authenticated'', ''reset_password_authenticated'')]"

definition feed_router :: "route list" where
  "feed_router = APIRouter ''/feed'' [(GET, '''', ''getHomeFeed''), (GET, ''/explore'', ''getExploreFeed'')]"

definition saved_router :: "route list" where
  "saved_router = APIRouter ''''
     [(POST, ''/posts/{post_id}/save'', ''save_post''), (DELETE, ''/posts/{post_id}/unsave'', ''unsave_post''),
      (GET, ''/users/me/saved-posts'', ''get_saved_posts'')]"

definition notifications_router :: "route list" where
  "notifications_router = APIRouter ''/users/me/notifications''
     [(GET, '''', ''get_my_notifications''), (GET, ''/unread-count'', ''get_unread_notification_count''),
      (PATCH, ''/read'', ''mark_all_notifications_read'')]"

definition chat_router :: "route list" where
  "chat_router = APIRouter ''/messaging'' [(WEBSOCKET, ''/ws/{user_id}'', ''chat'')]"

definition chat_history_router :: "route list" where
  "chat_history_router = APIRouter ''/messaging''
     [(GET, ''/conversations/{friend_id}/messages'', ''get_chat_history''), (GET, ''/conversations'', ''get_recent_chats'')]"

definition share_router :: "route list" where
  "share_router = APIRouter ''/messaging'' [(POST, ''/share'', ''share_post'')]"

definition delete_msg_router :: "route list" where
  "delete_msg_router = APIRouter ''/messaging'' [(POST, ''/messages/{msg_id}'', ''deleteForMe'')]"

definition delete_shares_router :: "route list" where
  "delete_shares_router = APIRouter ''/messaging'' [(POST, ''/shares/{share_id}/delete'', ''deleteShareForMe'')]"

definition edit_msg_router :: "route list" where
  "edit_msg_router = APIRouter ''/messaging'' [(GET, ''/messages/{msg_id}/can-edit'', ''can_edit'')]"

definition msg_info_router :: "route list" where
  "msg_info_router = APIRouter ''/messaging'' [(GET, ''/messages/{msg_id}'', ''get_message_info'')]"

definition msg_reaction_router :: "route list" where
  "msg_reaction_router = APIRouter ''/messaging'' [(GET, ''/messages/{msg_id}/reactions'', ''msg_reactions'')]"

definition share_reaction_router :: "route list" where
  "share_reaction_router = APIRouter ''/messaging'' [(GET, ''/shares/{shared_id}/reactions'', ''get_shared_post_reactions'')]"

definition media_msg_router :: "route list" where
  "media_msg_router = APIRouter ''/messaging'' [(POST, ''/messages/media'', ''send_media'')]"

definition clear_chat_router :: "route list" where
  "clear_chat_router = APIRouter ''/messaging'' [(DELETE, ''/conversations/{friend_id}'', ''clear_chat'')]"

definition celery_tasks_router :: "route list" where
  "celery_tasks_router = APIRouter ''/admin/tasks''
     [(GET, ''/{task_id}/status'', ''get_task_status''), (GET, ''/active'', ''get_active_tasks''),
      (GET, ''/reserved'', ''get_reserved_tasks''), (GET, ''/stats'', ''get_worker_stats''),
      (POST, ''/{task_id}/revoke'', ''revoke_task''), (GET, ''/queues/{queue_name}/purge'', ''purge_queue'')]"

definition api_v1_router :: "route list" where
  "api_v1_router = posts_router @ me_router @ users_router @ auth_router @ like_router @ connect_router @ comment_router @
     search_router @ changepassword_router @ feed_router @ saved_router @ notifications_router @
     chat_router @ chat_history_router @ share_router @ delete_msg_router @ delete_shares_router @ edit_msg_router @
     msg_info_router @ msg_reaction_router @ share_reaction_router @ media_msg_router @ clear_chat_router @
     celery_tasks_router"

lemmas router_defs = posts_router_def me_router_def users_router_def auth_router_def like_router_def connect_router_def
  comment_router_def search_router_def changepassword_router_def feed_router_def saved_router_def notifications_router_def
  chat_router_def chat_history_router_def share_router_def delete_msg_router_def delete_shares_router_def edit_msg_router_def
  msg_info_router_def msg_reaction_router_def share_reaction_router_def media_msg_router_def clear_chat_router_def
  celery_tasks_router_def

section \<open>Matching\<close>

datatype segment = Literal string | Parameter

definition segment_of :: "string \<Rightarrow> segment" where
  "segment_of s = (case s of [] \<Rightarrow> Literal [] | c # _ \<Rightarrow> if c = CHR ''{'' then Parameter else Literal s)"

definition pattern_of :: "route \<Rightarrow> segment list" where
  "pattern_of r = map segment_of (split_slash (rt_path r))"

fun matches :: "segment list \<Rightarrow> string list \<Rightarrow> bool" where
  "matches [] xs \<longleftrightarrow> xs = []"
| "matches (Literal s # ps) xs \<longleftrightarrow> (case xs of [] \<Rightarrow> False | x # ys \<Rightarrow> x = s \<and> matches ps ys)"
| "matches (Parameter # ps) xs \<longleftrightarrow> (case xs of [] \<Rightarrow> False | x # ys \<Rightarrow> x \<noteq> [] \<and> matches ps ys)"

text \<open>The compiled table: patterns split once.\<close>

type_synonym entry = "http_method \<times> segment list \<times> string"

definition compiled :: "route list \<Rightarrow> entry list" where
  "compiled routes = map (\<lambda>r. (rt_method r, pattern_of r, rt_handler r)) routes"

fun resolve :: "entry list \<Rightarrow> http_method \<Rightarrow> string list \<Rightarrow> string option" where
  "resolve [] meth segs = None"
| "resolve ((m, p, h) # table) meth segs =
     (if m = meth \<and> matches p segs then Some h else resolve table meth segs)"

definition handler_of :: "http_method \<Rightarrow> string \<Rightarrow> string option" where
  "handler_of meth path = resolve (compiled api_v1_router) meth (split_slash path)"

section \<open>Shadowed routes\<close>

text \<open>A pattern that matches every path another one matches.\<close>

fun subsumes :: "segment list \<Rightarrow> segment list \<Rightarrow> bool" where
  "subsumes [] qs \<longleftrightarrow> qs = []"
| "subsumes (p # ps) [] \<longleftrightarrow> False"
| "subsumes (p # ps) (q # qs) \<longleftrightarrow> (p = q \<or> p = Parameter \<and> q \<noteq> Literal []) \<and> subsumes ps qs"

lemma subsumes_matches: "subsumes ps qs \<Longrightarrow> matches qs xs \<Longrightarrow> matches ps xs"
proof (induction ps qs arbitrary: xs rule: subsumes.induct)
  case (3 p ps q qs)
  then show ?case by (cases xs; cases p; cases q) auto
qed simp_all

fun covers :: "entry \<Rightarrow> entry \<Rightarrow> bool" where
  "covers (m, p, h) (m', p', h') \<longleftrightarrow> m = m' \<and> subsumes p p'"

text \<open>The handlers behind an earlier route with the same method and a more general pattern.\<close>

fun shadowed :: "entry list \<Rightarrow> entry list \<Rightarrow> string list" where
  "shadowed seen [] = []"
| "shadowed seen (e # es) = (if list_ex (\<lambda>a. covers a e) seen then [snd (snd e)] else []) @ shadowed (e # seen) es"

text \<open>A request that reaches an entry is not covered by the entries before it.\<close>

lemma resolve_past_seen:
  assumes "resolve es meth segs = Some h" "h \<in> set (shadowed seen es)" "distinct (map (snd \<circ> snd) es)"
  shows "\<exists>(m, p, h')\<in>set seen. m = meth \<and> matches p segs"
  using assms
proof (induction es arbitrary: seen)
  case (Cons e es)
  obtain m p h' where e: "e = (m, p, h')" by (cases e)
  have later: "g \<in> (snd \<circ> snd) ` set es" if "g \<in> set (shadowed acc es)" for g acc
    using that by (induction acc es rule: shadowed.induct) (auto split: if_splits)
  show ?case
  proof (cases "m = meth \<and> matches p segs")
    case True
    then have h: "h = h'" using Cons.prems(1) e by simp
    then have "h \<notin> set (shadowed (e # seen) es)" using later [of h "e # seen"] Cons.prems(3) e by auto
    then obtain a where "a \<in> set seen" "covers a e"
      using Cons.prems(2) by (auto simp: list_ex_iff split: if_splits)
    moreover obtain m' p' g where a: "a = (m', p', g)" by (cases a)
    ultimately have "m' = meth" "matches p' segs" using True e subsumes_matches [of p' p segs] by auto
    then show ?thesis using \<open>a \<in> set seen\<close> a by (intro bexI [of _ a]) auto
  next
    case False
    then have r: "resolve es meth segs = Some h" using Cons.prems(1) e by auto
    have names: "g \<in> (snd \<circ> snd) ` set es" if "resolve es meth segs = Some g" for g
      using that by (induction es) (auto split: if_splits)
    have "h \<noteq> h'" using names [OF r] Cons.prems(3) e by auto
    then have "h \<in> set (shadowed (e # seen) es)" using Cons.prems(2) e by (auto split: if_splits)
    then have "\<exists>(m, p, h')\<in>set (e # seen). m = meth \<and> matches p segs"
      using Cons.IH [OF r] Cons.prems(3) unfolding list.map distinct.simps by blast
    then show ?thesis using False e by simp
  qed
qed simp

lemma shadowed_unreachable:
  "h \<in> set (shadowed [] es) \<Longrightarrow> distinct (map (snd \<circ> snd) es) \<Longrightarrow> resolve es meth segs \<noteq> Some h"
  using resolve_past_seen [of es meth segs h "[]"] by auto

text \<open>A request for a route: its path with \<open>7\<close> for every parameter.\<close>

definition sample_segments :: "segment list \<Rightarrow> string list" where
  "sample_segments ps = map (\<lambda>p. case p of Literal s \<Rightarrow> s | Parameter \<Rightarrow> ''7'') ps"

lemma shadowed_handlers:
  "shadowed [] (compiled api_v1_router) = [''get_followers_list'', ''get_following_list'', ''send_media'']"
  by code_simp

lemma handlers_distinct: "distinct (map (snd \<circ> snd) (compiled api_v1_router))"
  by code_simp

fun reached :: "entry list \<Rightarrow> entry list \<Rightarrow> string list" where
  "reached table [] = []"
| "reached table ((m, p, h) # es) =
     (if resolve table m (sample_segments p) = Some h then reached table es else h # reached table es)"

lemma others_reached:
  "reached (compiled api_v1_router) (compiled api_v1_router) = [''get_followers_list'', ''get_following_list'', ''send_media'']"
  by code_simp

text \<open>Joining segments is inverted by splitting.\<close>

fun join_slash :: "string list \<Rightarrow> string" where
  "join_slash [] = []"
| "join_slash [s] = s"
| "join_slash (s # t # ts) = s @ CHR ''/'' # join_slash (t # ts)"

lemma split_no_slash: "CHR ''/'' \<notin> set s \<Longrightarrow> split_slash s = [s]"
  by (induction s) auto

lemma split_append: "CHR ''/'' \<notin> set s \<Longrightarrow> split_slash (s @ CHR ''/'' # t) = s # split_slash t"
  by (induction s) (auto split: list.split)

lemma split_join: "xs \<noteq> [] \<Longrightarrow> \<forall>s\<in>set xs. CHR ''/'' \<notin> set s \<Longrightarrow> split_slash (join_slash xs) = xs"
  by (induction xs rule: join_slash.induct) (auto simp: split_no_slash split_append)

lemma split_slash_free: "s \<in> set (split_slash t) \<Longrightarrow> CHR ''/'' \<notin> set s"
  by (induction t arbitrary: s) (auto split: if_splits list.splits)

lemma split_nonempty: "split_slash t \<noteq> []"
  by (induction t) (auto split: list.split)

lemma sample_split: "split_slash (join_slash (sample_segments (pattern_of r))) = sample_segments (pattern_of r)"
proof (rule split_join)
  show "sample_segments (pattern_of r) \<noteq> []" by (simp add: sample_segments_def pattern_of_def split_nonempty)
  show "\<forall>s\<in>set (sample_segments (pattern_of r)). CHR ''/'' \<notin> set s"
    by (auto simp: sample_segments_def pattern_of_def segment_of_def split: segment.splits list.splits if_splits
        dest: split_slash_free)
qed

lemma reached_sound:
  "(m, p, h) \<in> set es \<Longrightarrow> h \<notin> set (reached table es) \<Longrightarrow> resolve table m (sample_segments p) = Some h"
  by (induction table es rule: reached.induct) (auto split: if_splits)

section \<open>Properties\<close>

text \<open>C29: Exactly three routes of the API can never be reached: \<open>GET /users/{user_id}/followers\<close> and \<open>/following\<close> of
  \<open>connect.py\<close> (the ones that fill in \<open>is_following\<close>) lie behind the routes with the same path in \<open>users.py\<close>, and
  \<open>POST /messaging/messages/media\<close> lies behind \<open>POST /messaging/messages/{msg_id}\<close>, so that uploading media answers
  422; for every other handler some request reaches it.\<close>

theorem unreachable_routes:
  assumes "r \<in> set api_v1_router"
  shows "(\<exists>meth path. handler_of meth path = Some (rt_handler r)) \<longleftrightarrow>
    rt_handler r \<notin> {''get_followers_list'', ''get_following_list'', ''send_media''}"
proof
  assume "\<exists>meth path. handler_of meth path = Some (rt_handler r)"
  then have "rt_handler r \<notin> set (shadowed [] (compiled api_v1_router))"
    using shadowed_unreachable handlers_distinct unfolding handler_of_def by blast
  then show "rt_handler r \<notin> {''get_followers_list'', ''get_following_list'', ''send_media''}"
    unfolding shadowed_handlers by simp
next
  assume "rt_handler r \<notin> {''get_followers_list'', ''get_following_list'', ''send_media''}"
  then have "rt_handler r \<notin> set (reached (compiled api_v1_router) (compiled api_v1_router))"
    unfolding others_reached by simp
  moreover have "(rt_method r, pattern_of r, rt_handler r) \<in> set (compiled api_v1_router)"
    using assms by (force simp: compiled_def)
  ultimately have "handler_of (rt_method r) (join_slash (sample_segments (pattern_of r))) = Some (rt_handler r)"
    using reached_sound sample_split unfolding handler_of_def by simp
  then show "\<exists>meth path. handler_of meth path = Some (rt_handler r)" by blast
qed

lemma unreachable_routes_witness:
  "\<not> (\<exists>meth path. handler_of meth path = Some ''send_media'')"
proof -
  have "\<lparr>rt_method = POST, rt_path = ''/messaging/messages/media'', rt_handler = ''send_media''\<rparr> \<in> set api_v1_router"
    by (simp add: api_v1_router_def media_msg_router_def APIRouter_def)
  from unreachable_routes [OF this] show ?thesis by simp
qed

end
