(* ===== verification/Ddl.thy ===== *)
theory Ddl
  imports Prelude
begin

text \<open>
  A database schema as PostgreSQL's catalogue holds it (tables with columns, keys and constraints, indexes, enum types,
  triggers) and the statements of the migrations on it. A statement that PostgreSQL refuses is \<open>None\<close>. Every foreign
  key refers to \<open>id\<close> and cascades. \<open>TIMESTAMP(timezone=True)\<close> and \<open>DateTime(timezone=True)\<close> are the same type.
\<close>

section \<open>Catalogue\<close>

datatype sql_type = Integer | Varchar | Boolean | Timestamp | Timestamptz | Enumeration string

datatype column = Column (cl_name: string) (cl_type: sql_type) (cl_nullable: bool) (cl_default: "string option")

text \<open>Name, columns, primary key, references (column, table), unique constraints, checks (name, expression).\<close>

datatype table = Table (tb_name: string) (tb_columns: "column list") (tb_key: "string list")
  (tb_references: "(string \<times> string) list") (tb_uniques: "(string option \<times> string list) list")
  (tb_checks: "(string \<times> string) list")

text \<open>Name, table, columns or expressions, unique, predicate of a partial index.\<close>

datatype index = Index (ix_name: string) (ix_table: string) (ix_columns: "string list") (ix_unique: bool)
  (ix_where: "string option")

record catalogue =
  ct_tables :: "table list"
  ct_indexes :: "index list"
  ct_types :: "string list"
  ct_triggers :: "(string \<times> string) list"

definition empty_catalogue :: catalogue where
  "empty_catalogue = \<lparr>ct_tables = [], ct_indexes = [], ct_types = [], ct_triggers = []\<rparr>"

section \<open>Statements\<close>

text \<open>The flag of the first, seventh and eighth is \<open>IF NOT EXISTS\<close> or \<open>IF EXISTS\<close>.\<close>

datatype ddl =
    Create_table bool table
  | Drop_table string
  | Add_column string column
  | Drop_column string string
  | Alter_column string string "string option" "bool option"
  | Change_rows string
  | Create_index bool index
  | Drop_index bool string
  | Create_email_index bool
  | Add_check string string string
  | Add_unique string string "string list"
  | Drop_constraint string string
  | Create_type string
  | Drop_type string
  | Create_trigger string string
  | Drop_trigger string string

definition has_table :: "string \<Rightarrow> catalogue \<Rightarrow> bool" where
  "has_table n s \<longleftrightarrow> list_ex (\<lambda>t. tb_name t = n) (ct_tables s)"

definition has_index :: "string \<Rightarrow> catalogue \<Rightarrow> bool" where
  "has_index n s \<longleftrightarrow> list_ex (\<lambda>i. ix_name i = n) (ct_indexes s)"

definition on_table :: "string \<Rightarrow> (table \<Rightarrow> table) \<Rightarrow> catalogue \<Rightarrow> catalogue" where
  "on_table n f s = s\<lparr>ct_tables := map (\<lambda>t. if tb_name t = n then f t else t) (ct_tables s)\<rparr>"

fun set_columns :: "(column list \<Rightarrow> column list) \<Rightarrow> table \<Rightarrow> table" where
  "set_columns f (Table n cs k r u c) = Table n (f cs) k r u c"

fun set_uniques :: "((string option \<times> string list) list \<Rightarrow> (string option \<times> string list) list) \<Rightarrow> table \<Rightarrow> table" where
  "set_uniques f (Table n cs k r u c) = Table n cs k r (f u) c"

fun set_checks :: "((string \<times> string) list \<Rightarrow> (string \<times> string) list) \<Rightarrow> table \<Rightarrow> table" where
  "set_checks f (Table n cs k r u c) = Table n cs k r u (f c)"

fun alter :: "string option \<Rightarrow> bool option \<Rightarrow> column \<Rightarrow> column" where
  "alter d nl (Column n t b e) = Column n t (case nl of None \<Rightarrow> b | Some x \<Rightarrow> x) (case d of None \<Rightarrow> e | Some x \<Rightarrow> Some x)"

fun constrained :: "string \<Rightarrow> table \<Rightarrow> bool" where
  "constrained n (Table m cs k r u c) \<longleftrightarrow> list_ex (\<lambda>x. fst x = Some n) u \<or> list_ex (\<lambda>x. fst x = n) c"

definition column_names :: "table \<Rightarrow> string list" where
  "column_names t = map cl_name (tb_columns t)"

definition has_column :: "string \<Rightarrow> string \<Rightarrow> catalogue \<Rightarrow> bool" where
  "has_column n c s \<longleftrightarrow> list_ex (\<lambda>t. tb_name t = n \<and> c \<in> set (column_names t)) (ct_tables s)"

definition append_column :: "column \<Rightarrow> column list \<Rightarrow> column list" where
  "append_column c cs = cs @ [c]"

definition remove_column :: "string \<Rightarrow> column list \<Rightarrow> column list" where
  "remove_column c cs = filter (\<lambda>x. cl_name x \<noteq> c) cs"

definition alter_column :: "string \<Rightarrow> string option \<Rightarrow> bool option \<Rightarrow> column list \<Rightarrow> column list" where
  "alter_column c d nl cs = map (\<lambda>x. if cl_name x = c then alter d nl x else x) cs"

definition uses_type :: "string \<Rightarrow> table \<Rightarrow> bool" where
  "uses_type n t \<longleftrightarrow> list_ex (\<lambda>c. cl_type c = Enumeration n) (tb_columns t)"

text \<open>\<open>ADD CONSTRAINT\<close> unless the table has one of that name; \<open>DROP CONSTRAINT IF EXISTS\<close>.\<close>

definition ensure_check :: "string \<Rightarrow> string \<Rightarrow> table \<Rightarrow> table" where
  "ensure_check c e t = (if constrained c t then t else set_checks (\<lambda>cs. cs @ [(c, e)]) t)"

definition ensure_unique :: "string \<Rightarrow> string list \<Rightarrow> table \<Rightarrow> table" where
  "ensure_unique c cols t = (if constrained c t then t else set_uniques (\<lambda>us. us @ [(Some c, cols)]) t)"

definition drop_constraint :: "string \<Rightarrow> table \<Rightarrow> table" where
  "drop_constraint c t = set_checks (filter (\<lambda>x. fst x \<noteq> c)) (set_uniques (filter (\<lambda>x. fst x \<noteq> Some c)) t)"

definition add_index :: "index \<Rightarrow> catalogue \<Rightarrow> catalogue option" where
  "add_index i s = (if has_table (ix_table i) s then Some (s\<lparr>ct_indexes := ct_indexes s @ [i]\<rparr>) else None)"

text \<open>The two indexes on the lower-case e-mail: unique, unless two accounts already share an address.\<close>

definition unique_email_index :: index where
  "unique_email_index = Index ''ux_users_email_lower'' ''users'' [''lower(email)''] True (Some ''email IS NOT NULL'')"

definition plain_email_index :: index where
  "plain_email_index = Index ''ix_users_email_lower_nonunique'' ''users'' [''lower(email)''] False (Some ''email IS NOT NULL'')"

fun execute :: "ddl \<Rightarrow> catalogue \<Rightarrow> catalogue option" where
  "execute (Create_table if_not_exists t) s =
     (if has_table (tb_name t) s then (if if_not_exists then Some s else None)
      else if list_all (\<lambda>r. snd r = tb_name t \<or> has_table (snd r) s) (tb_references t)
      then Some (s\<lparr>ct_tables := ct_tables s @ [t]\<rparr>) else None)"
| "execute (Drop_table n) s =
     (if has_table n s \<and> \<not> list_ex (\<lambda>t. tb_name t \<noteq> n \<and> list_ex (\<lambda>r. snd r = n) (tb_references t)) (ct_tables s)
      then Some (s\<lparr>ct_tables := filter (\<lambda>t. tb_name t \<noteq> n) (ct_tables s), ct_indexes := filter (\<lambda>i. ix_table i \<noteq> n) (ct_indexes s),
             ct_triggers := filter (\<lambda>g. fst g \<noteq> n) (ct_triggers s)\<rparr>)
      else None)"
| "execute (Add_column n c) s =
     (if has_table n s \<and> \<not> has_column n (cl_name c) s then Some (on_table n (set_columns (append_column c)) s) else None)"
| "execute (Drop_column n c) s =
     (if has_column n c s
      then Some (on_table n (set_columns (remove_column c))
             (s\<lparr>ct_indexes := filter (\<lambda>i. \<not> (ix_table i = n \<and> c \<in> set (ix_columns i))) (ct_indexes s)\<rparr>))
      else None)"
| "execute (Alter_column n c d nl) s =
     (if has_column n c s
      then Some (on_table n (set_columns (alter_column c d nl)) s) else None)"
| "execute (Change_rows n) s = (if has_table n s then Some s else None)"
| "execute (Create_index if_not_exists i) s =
     (if has_index (ix_name i) s then (if if_not_exists then Some s else None) else add_index i s)"
| "execute (Drop_index if_exists n) s =
     (if has_index n s then Some (s\<lparr>ct_indexes := filter (\<lambda>i. ix_name i \<noteq> n) (ct_indexes s)\<rparr>)
      else if if_exists then Some s else None)"
| "execute (Create_email_index shared_addresses) s =
     (if has_index (ix_name unique_email_index) s then Some s
      else if shared_addresses
      then (if has_index (ix_name plain_email_index) s then Some s else add_index plain_email_index s)
      else add_index unique_email_index s)"
| "execute (Add_check n c e) s = (if has_table n s
      then Some (on_table n (ensure_check c e) s) else None)"
| "execute (Add_unique n c cols) s = (if has_table n s
      then Some (on_table n (ensure_unique c cols) s) else None)"
| "execute (Drop_constraint n c) s = (if has_table n s
      then Some (on_table n (drop_constraint c) s) else None)"
| "execute (Create_type n) s = Some (if n \<in> set (ct_types s) then s else s\<lparr>ct_types := ct_types s @ [n]\<rparr>)"
| "execute (Drop_type n) s =
     (if list_ex (uses_type n) (ct_tables s) then None
      else Some (s\<lparr>ct_types := filter (\<lambda>x. x \<noteq> n) (ct_types s)\<rparr>))"
| "execute (Create_trigger n g) s = (if has_table n s
      then Some (s\<lparr>ct_triggers := filter (\<lambda>x. x \<noteq> (n, g)) (ct_triggers s) @ [(n, g)]\<rparr>) else None)"
| "execute (Drop_trigger n g) s = Some (s\<lparr>ct_triggers := filter (\<lambda>x. x \<noteq> (n, g)) (ct_triggers s)\<rparr>)"

fun run :: "ddl list \<Rightarrow> catalogue \<Rightarrow> catalogue option" where
  "run [] s = Some s"
| "run (c # cs) s = Option.bind (execute c s) (run cs)"

lemma run_append: "run (xs @ ys) s = Option.bind (run xs s) (run ys)"
  by (induction xs arbitrary: s) (auto split: Option.bind_split)

section \<open>Differences\<close>

text \<open>What one catalogue has and the other has not.\<close>

datatype item =
    Whole_table string
  | Column_of string column
  | Key_of string "string list"
  | Reference_of string "string \<times> string"
  | Unique_of string "string option \<times> string list"
  | Check_of string "string \<times> string"
  | Index_of index

definition missing_in :: "table \<Rightarrow> table \<Rightarrow> item list" where
  "missing_in b a = map (Column_of (tb_name a)) (filter (\<lambda>x. x \<notin> set (tb_columns b)) (tb_columns a)) @
     (if set (tb_key a) = set (tb_key b) then [] else [Key_of (tb_name a) (tb_key a)]) @
     map (Reference_of (tb_name a)) (filter (\<lambda>x. x \<notin> set (tb_references b)) (tb_references a)) @
     map (Unique_of (tb_name a)) (filter (\<lambda>x. x \<notin> set (tb_uniques b)) (tb_uniques a)) @
     map (Check_of (tb_name a)) (filter (\<lambda>x. x \<notin> set (tb_checks b)) (tb_checks a))"

definition missing :: "catalogue \<Rightarrow> catalogue \<Rightarrow> item list" where
  "missing b a = concat (map (\<lambda>t. case find (\<lambda>u. tb_name u = tb_name t) (ct_tables b) of
       None \<Rightarrow> [Whole_table (tb_name t)] | Some u \<Rightarrow> missing_in u t) (ct_tables a)) @
     map Index_of (filter (\<lambda>i. i \<notin> set (ct_indexes b)) (ct_indexes a))"

end
