(* ===== verification/Metadata.thy ===== *)
theory Metadata
  imports Ddl
begin

text \<open>
  The schema that \<open>app/models.py\<close> declares (\<open>Base.metadata\<close>), one definition per mapped class: its table and its
  indexes. A column with \<open>index=True\<close> is an index \<open>ix_<table>_<column>\<close>, unique with \<open>unique=True\<close>; client-side defaults
  are not part of the schema.
\<close>

definition connections_metadata :: "table \<times> index list" where
  "connections_metadata = (Table ''connections''
     [Column ''followed_id'' Integer False None,
      Column ''follower_id'' Integer False None]
     [''followed_id'', ''follower_id''] [(''followed_id'', ''users''), (''follower_id'', ''users'')]
     [] [(''ck_connections_no_self_follow'', ''followed_id <> follower_id'')],
     [Index ''ix_connections_follower_followed'' ''connections'' [''follower_id'', ''followed_id''] False None])"

definition SharedPostReplies_metadata :: "table \<times> index list" where
  "SharedPostReplies_metadata = (Table ''shared_post_replies''
     [Column ''reply_msg_id'' Integer False None,
      Column ''shared_post_id'' Integer False None]
     [''reply_msg_id'', ''shared_post_id''] [(''reply_msg_id'', ''messages''), (''shared_post_id'', ''shared_posts'')]
     [] [],
     [Index ''ix_shared_post_replies_shared_post_id'' ''shared_post_replies'' [''shared_post_id''] False None])"

definition SharedPost_metadata :: "table \<times> index list" where
  "SharedPost_metadata = (Table ''shared_posts''
     [Column ''id'' Integer False None,
      Column ''post_id'' Integer False None,
      Column ''from_user_id'' Integer False None,
      Column ''to_user_id'' Integer False None,
      Column ''message'' Varchar True None,
      Column ''created_at'' Timestamptz False (Some ''now()''),
      Column ''is_read'' Boolean False (Some ''false''),
      Column ''is_deleted_for_everyone'' Boolean False (Some ''false''),
      Column ''reaction_cnt'' Integer False (Some ''0'')]
     [''id''] [(''post_id'', ''posts''), (''from_user_id'', ''users''), (''to_user_id'', ''users'')]
     [] [(''ck_shared_posts_reaction_cnt_nonnegative'', ''reaction_cnt >= 0'')],
     [Index ''ix_shared_posts_from_to_created'' ''shared_posts'' [''from_user_id'', ''to_user_id'', ''created_at''] False (Some ''is_deleted_for_everyone = false''),
      Index ''ix_shared_posts_to_from_created'' ''shared_posts'' [''to_user_id'', ''from_user_id'', ''created_at''] False (Some ''is_deleted_for_everyone = false''),
      Index ''ix_shared_posts_unread_inbox'' ''shared_posts'' [''to_user_id'', ''created_at''] False (Some ''is_read = false AND is_deleted_for_everyone = false''),
      Index ''ix_shared_posts_post_id'' ''shared_posts'' [''post_id''] False None])"

definition DeletedMessage_metadata :: "table \<times> index list" where
  "DeletedMessage_metadata = (Table ''deleted_messages''
     [Column ''id'' Integer False None,
      Column ''user_id'' Integer False None,
      Column ''message_id'' Integer False None,
      Column ''deleted_at'' Timestamp True None]
     [''id''] [(''user_id'', ''users''), (''message_id'', ''messages'')]
     [((Some ''uq_user_deleted_msg''), [''user_id'', ''message_id''])] [],
     [Index ''ix_deleted_messages_message_id'' ''deleted_messages'' [''message_id''] False None])"

definition DeletedSharedPost_metadata :: "table \<times> index list" where
  "DeletedSharedPost_metadata = (Table ''deleted_shared_posts''
     [Column ''id'' Integer False None,
      Column ''user_id'' Integer False None,
      Column ''shared_post_id'' Integer False None,
      Column ''deleted_at'' Timestamp True None]
     [''id''] [(''user_id'', ''users''), (''shared_post_id'', ''shared_posts'')]
     [((Some ''uq_user_deleted_shared_post''), [''user_id'', ''shared_post_id''])] [],
     [Index ''ix_deleted_shared_posts_shared_post_id'' ''deleted_shared_posts'' [''shared_post_id''] False None])"

definition OTP_metadata :: "table \<times> index list" where
  "OTP_metadata = (Table ''otps''
     [Column ''id'' Integer False None,
      Column ''email'' Varchar False None,
      Column ''otp'' Varchar False None,
      Column ''expires_at'' Timestamp False None,
      Column ''created_at'' Timestamp True None]
     [''id''] []
     [] [],
     [Index ''ix_otps_id'' ''otps'' [''id''] False None,
      Index ''ix_otps_email'' ''otps'' [''email''] True None,
      Index ''ix_otps_expires_at'' ''otps'' [''expires_at''] False None])"

definition Votes_metadata :: "table \<times> index list" where
  "Votes_metadata = (Table ''votes''
     [Column ''post_id'' Integer False None,
      Column ''user_id'' Integer False None,
      Column ''action'' Boolean False None]
     [''post_id'', ''user_id''] [(''post_id'', ''posts''), (''user_id'', ''users'')]
     [] [],
     [Index ''ix_votes_user_action_post'' ''votes'' [''user_id'', ''action'', ''post_id''] False None])"

definition CommentVotes_metadata :: "table \<times> index list" where
  "CommentVotes_metadata = (Table ''comment_votes''
     [Column ''comment_id'' Integer False None,
      Column ''user_id'' Integer False None,
      Column ''like'' Boolean False None]
     [''comment_id'', ''user_id''] [(''comment_id'', ''comments''), (''user_id'', ''users'')]
     [] [],
     [Index ''ix_comment_votes_user_comment'' ''comment_votes'' [''user_id'', ''comment_id''] False None])"

definition Comments_metadata :: "table \<times> index list" where
  "Comments_metadata = (Table ''comments''
     [Column ''id'' Integer False None,
      Column ''post_id'' Integer False None,
      Column ''user_id'' Integer False None,
      Column ''comment_content'' Varchar False None,
      Column ''created_at'' Timestamptz False (Some ''now()''),
      Column ''likes'' Integer False (Some ''0'')]
     [''id''] [(''post_id'', ''posts''), (''user_id'', ''users'')]
     [] [(''ck_comments_likes_nonnegative'', ''likes >= 0'')],
     [Index ''ix_comments_post_created'' ''comments'' [''post_id'', ''created_at''] False None,
      Index ''ix_comments_user_post'' ''comments'' [''user_id'', ''post_id''] False None])"

definition Post_metadata :: "table \<times> index list" where
  "Post_metadata = (Table ''posts''
     [Column ''id'' Integer False None,
      Column ''media_path'' Varchar True None,
      Column ''media_type'' Varchar True None,
      Column ''title'' Varchar False None,
      Column ''content'' Varchar False None,
      Column ''enable_comments'' Boolean False (Some ''TRUE''),
      Column ''created_at'' Timestamptz False (Some ''now()''),
      Column ''user_id'' Integer False None,
      Column ''likes'' Integer False (Some ''0''),
      Column ''dis_likes'' Integer False (Some ''0''),
      Column ''views'' Integer False (Some ''0''),
      Column ''comments_cnt'' Integer False (Some ''0''),
      Column ''hashtags'' Varchar True None]
     [''id''] [(''user_id'', ''users'')]
     [] [(''ck_posts_likes_nonnegative'', ''likes >= 0''), (''ck_posts_dislikes_nonnegative'', ''dis_likes >= 0''), (''ck_posts_views_nonnegative'', ''views >= 0''), (''ck_posts_comments_cnt_nonnegative'', ''comments_cnt >= 0''), (''ck_posts_media_type_valid'', ''(media_type IS NULL) OR (media_type IN ('image', 'video'))'')],
     [Index ''ix_posts_user_created'' ''posts'' [''user_id'', ''created_at''] False None,
      Index ''ix_posts_created_at'' ''posts'' [''created_at''] False None,
      Index ''ix_posts_likes_created'' ''posts'' [''likes'', ''created_at''] False None,
      Index ''ix_posts_hashtags'' ''posts'' [''hashtags''] False (Some ''hashtags IS NOT NULL'')])"

definition SavedPost_metadata :: "table \<times> index list" where
  "SavedPost_metadata = (Table ''saved_posts''
     [Column ''id'' Integer False None,
      Column ''user_id'' Integer False None,
      Column ''post_id'' Integer False None,
      Column ''created_at'' Timestamptz False (Some ''now()'')]
     [''id''] [(''user_id'', ''users''), (''post_id'', ''posts'')]
     [((Some ''uq_saved_user_post''), [''user_id'', ''post_id''])] [],
     [Index ''ix_saved_posts_user_created'' ''saved_posts'' [''user_id'', ''created_at''] False None])"

definition PostView_metadata :: "table \<times> index list" where
  "PostView_metadata = (Table ''post_views''
     [Column ''post_id'' Integer False None,
      Column ''user_id'' Integer False None,
      Column ''viewed_at'' Timestamp True None]
     [''post_id'', ''user_id''] [(''post_id'', ''posts''), (''user_id'', ''users'')]
     [] [],
     [Index ''ix_post_views_user_id'' ''post_views'' [''user_id''] False None,
      Index ''ix_post_views_viewed_at'' ''post_views'' [''viewed_at''] False None])"

definition User_metadata :: "table \<times> index list" where
  "User_metadata = (Table ''users''
     [Column ''id'' Integer False None,
      Column ''username'' Varchar False None,
      Column ''password'' Varchar False None,
      Column ''nickname'' Varchar True None,
      Column ''bio'' Varchar True None,
      Column ''email'' Varchar True None,
      Column ''email_verified'' Boolean False (Some ''false''),
      Column ''profile_picture'' Varchar True None,
      Column ''created_at'' Timestamptz False (Some ''now()''),
      Column ''last_seen_at'' Timestamptz True None,
      Column ''followers_cnt'' Integer False (Some ''0''),
      Column ''following_cnt'' Integer False (Some ''0''),
      Column ''version_id'' Integer False (Some ''1'')]
     [''id''] []
     [(None, [''username''])] [(''ck_users_followers_cnt_nonnegative'', ''followers_cnt >= 0''), (''ck_users_following_cnt_nonnegative'', ''following_cnt >= 0'')],
     [Index ''ix_users_username_lower'' ''users'' [''lower(username)''] False None,
      Index ''ux_users_email_lower'' ''users'' [''lower(email)''] True (Some ''email IS NOT NULL'')])"

definition MessageReplies_metadata :: "table \<times> index list" where
  "MessageReplies_metadata = (Table ''message_replies''
     [Column ''reply_id'' Integer False None,
      Column ''original_id'' Integer False None]
     [''reply_id'', ''original_id''] [(''reply_id'', ''messages''), (''original_id'', ''messages'')]
     [] [],
     [Index ''ix_message_replies_original_id'' ''message_replies'' [''original_id''] False None])"

definition Message_metadata :: "table \<times> index list" where
  "Message_metadata = (Table ''messages''
     [Column ''id'' Integer False None,
      Column ''media_url'' Varchar True (Some ''false''),
      Column ''media_type'' Varchar True (Some ''false''),
      Column ''content'' Varchar False None,
      Column ''sender_id'' Integer False None,
      Column ''receiver_id'' Integer False None,
      Column ''created_at'' Timestamptz False (Some ''now()''),
      Column ''is_read'' Boolean False (Some ''false''),
      Column ''is_deleted_for_everyone'' Boolean False (Some ''false''),
      Column ''is_edited'' Boolean False (Some ''false''),
      Column ''edited_at'' Timestamp True None,
      Column ''read_at'' Timestamptz True None,
      Column ''reaction_cnt'' Integer False (Some ''0''),
      Column ''is_reply_msg'' Boolean False (Some ''false''),
      Column ''is_reply_to_share'' Boolean False (Some ''false'')]
     [''id''] [(''sender_id'', ''users''), (''receiver_id'', ''users'')]
     [] [(''ck_messages_reaction_cnt_nonnegative'', ''reaction_cnt >= 0''), (''ck_messages_media_type_valid'', ''(media_type IS NULL) OR (media_type IN ('false', 'image', 'video', 'audio'))'')],
     [Index ''ix_messages_id'' ''messages'' [''id''] False None,
      Index ''ix_messages_sender_receiver_created'' ''messages'' [''sender_id'', ''receiver_id'', ''created_at''] False (Some ''is_deleted_for_everyone = false''),
      Index ''ix_messages_receiver_sender_created'' ''messages'' [''receiver_id'', ''sender_id'', ''created_at''] False (Some ''is_deleted_for_everyone = false''),
      Index ''ix_messages_unread_receiver_created'' ''messages'' [''receiver_id'', ''created_at''] False (Some ''is_read = false AND is_deleted_for_everyone = false'')])"

definition MessageReaction_metadata :: "table \<times> index list" where
  "MessageReaction_metadata = (Table ''message_reactions''
     [Column ''id'' Integer False None,
      Column ''message_id'' Integer False None,
      Column ''user_id'' Integer False None,
      Column ''reaction'' Varchar False None]
     [''id''] [(''message_id'', ''messages''), (''user_id'', ''users'')]
     [((Some ''unique_user_reaction''), [''message_id'', ''user_id''])] [],
     [Index ''ix_message_reactions_user_id'' ''message_reactions'' [''user_id''] False None])"

definition SharedPostReaction_metadata :: "table \<times> index list" where
  "SharedPostReaction_metadata = (Table ''shared_post_reactions''
     [Column ''id'' Integer False None,
      Column ''shared_post_id'' Integer False None,
      Column ''user_id'' Integer False None,
      Column ''reaction'' Varchar False None]
     [''id''] [(''shared_post_id'', ''shared_posts''), (''user_id'', ''users'')]
     [((Some ''unique_shared_post_reaction''), [''shared_post_id'', ''user_id''])] [],
     [Index ''ix_shared_post_reactions_user_id'' ''shared_post_reactions'' [''user_id''] False None])"

definition Notification_metadata :: "table \<times> index list" where
  "Notification_metadata = (Table ''notifications''
     [Column ''id'' Integer False None,
      Column ''owner_id'' Integer False None,
      Column ''actor_id'' Integer False None,
      Column ''type'' (Enumeration ''notificationtype'') False None,
      Column ''entity_id'' Integer True None,
      Column ''entity_type'' Varchar True None,
      Column ''text'' Varchar False None,
      Column ''is_read'' Boolean False (Some ''false''),
      Column ''created_at'' Timestamptz False (Some ''now()'')]
     [''id''] [(''owner_id'', ''users''), (''actor_id'', ''users'')]
     [] [(''ck_notifications_entity_type_valid'', ''(entity_type IS NULL) OR (entity_type IN ('post', 'comment'))'')],
     [Index ''ix_notifications_owner_id'' ''notifications'' [''owner_id''] False None,
      Index ''ix_notifications_owner_created'' ''notifications'' [''owner_id'', ''created_at''] False None,
      Index ''ix_notifications_actor_id'' ''notifications'' [''actor_id''] False None,
      Index ''ix_notifications_unread_owner_created'' ''notifications'' [''owner_id'', ''created_at''] False (Some ''is_read = false'')])"

definition RefreshToken_metadata :: "table \<times> index list" where
  "RefreshToken_metadata = (Table ''refresh_tokens''
     [Column ''id'' Integer False None,
      Column ''token'' Varchar False None,
      Column ''user_id'' Integer False None,
      Column ''family_id'' Varchar False None,
      Column ''revoked'' Boolean False (Some ''false''),
      Column ''expires_at'' Timestamptz False None,
      Column ''created_at'' Timestamptz False (Some ''now()'')]
     [''id''] [(''user_id'', ''users'')]
     [] [],
     [Index ''ix_refresh_tokens_token'' ''refresh_tokens'' [''token''] True None,
      Index ''ix_refresh_tokens_family_id'' ''refresh_tokens'' [''family_id''] False None,
      Index ''ix_refresh_tokens_user_revoked'' ''refresh_tokens'' [''user_id'', ''revoked''] False None,
      Index ''ix_refresh_tokens_expires_at'' ''refresh_tokens'' [''expires_at''] False None])"

definition metadata :: catalogue where
  "metadata = (let ms = [connections_metadata,
       SharedPostReplies_metadata,
       SharedPost_metadata,
       DeletedMessage_metadata,
       DeletedSharedPost_metadata,
       OTP_metadata,
       Votes_metadata,
       CommentVotes_metadata,
       Comments_metadata,
       Post_metadata,
       SavedPost_metadata,
       PostView_metadata,
       User_metadata,
       MessageReplies_metadata,
       Message_metadata,
       MessageReaction_metadata,
       SharedPostReaction_metadata,
       Notification_metadata,
       RefreshToken_metadata]
     in \<lparr>ct_tables = map fst ms, ct_indexes = concat (map snd ms), ct_types = [''notificationtype''], ct_triggers = []\<rparr>)"

end
