(* ===== verification/Migrations.thy ===== *)
theory Migrations
  imports Metadata
begin

text \<open>
  The migrations of \<open>alembic/versions\<close>, one list of statements for every \<open>upgrade\<close> and \<open>downgrade\<close>, and Alembic's
  walk along \<open>down_revision\<close>. Statements on rows are \<open>Change_rows\<close> here; \<open>Row_Migrations\<close> has their effect.
\<close>

section \<open>5ac7db1d4f3c: email verified\<close>

definition upgrade_email_verified :: "ddl list" where
  "upgrade_email_verified = [Add_column ''users'' (Column ''email_verified'' Boolean False (Some ''true'')),
     Alter_column ''users'' ''email_verified'' (Some ''false'') None]"

definition downgrade_email_verified :: "ddl list" where
  "downgrade_email_verified = [Drop_column ''users'' ''email_verified'']"

section \<open>622ae475b8e8: fresh start\<close>

definition otps_table :: table where
  "otps_table = Table ''otps''
     [Column ''id'' Integer False None,
      Column ''email'' Varchar True None,
      Column ''otp'' Varchar False None,
      Column ''expires_at'' Timestamp False None,
      Column ''created_at'' Timestamp True None]
     [''id''] []
     [] []"

definition users_table :: table where
  "users_table = Table ''users''
     [Column ''id'' Integer False None,
      Column ''username'' Varchar False None,
      Column ''password'' Varchar False None,
      Column ''nickname'' Varchar False None,
      Column ''bio'' Varchar True None,
      Column ''email'' Varchar True None,
      Column ''profile_picture'' Varchar True None,
      Column ''created_at'' Timestamptz False (Some ''now()''),
      Column ''followers_cnt'' Integer False (Some ''0''),
      Column ''following_cnt'' Integer False (Some ''0'')]
     [''id''] []
     [(None, [''username''])] []"

definition connections_table :: table where
  "connections_table = Table ''connections''
     [Column ''followed_id'' Integer False None,
      Column ''follower_id'' Integer False None]
     [''followed_id'', ''follower_id''] [(''followed_id'', ''users''), (''follower_id'', ''users'')]
     [] []"

definition messages_table :: table where
  "messages_table = Table ''messages''
     [Column ''id'' Integer False None,
      Column ''media_url'' Varchar True (Some ''false''),
      Column ''media_type'' Varchar True (Some ''false''),
      Column ''content'' Varchar False None,
      Column ''sender_id'' Integer False None,
      Column ''receiver_id'' Integer False None,
      Column ''created_at'' Timestamptz True (Some ''now()''),
      Column ''is_read'' Boolean True None,
      Column ''is_deleted_for_everyone'' Boolean True (Some ''false''),
      Column ''is_edited'' Boolean True (Some ''false''),
      Column ''edited_at'' Timestamp True None,
      Column ''read_at'' Timestamptz True None,
      Column ''reaction_cnt'' Integer True (Some ''0''),
      Column ''is_reply_msg'' Boolean True None,
      Column ''is_reply_to_share'' Boolean True (Some ''false'')]
     [''id''] [(''receiver_id'', ''users''), (''sender_id'', ''users'')]
     [] []"

definition posts_table :: table where
  "posts_table = Table ''posts''
     [Column ''id'' Integer False None,
      Column ''media_path'' Varchar True None,
      Column ''media_type'' Varchar True None,
      Column ''title'' Varchar False None,
      Column ''content'' Varchar False None,
      Column ''enable_comments'' Boolean False (Some ''TRUE''),
      Column ''created_at'' Timestamptz False (Some ''now()''),
      Column ''user_id'' Integer False None,
      Column ''likes'' Integer False (Some ''0''),
      Column ''dis_likes'' Integer False (Some ''0''),
      Column ''views'' Integer True (Some ''0''),
      Column ''comments_cnt'' Integer True (Some ''0''),
      Column ''hashtags'' Varchar True None]
     [''id''] [(''user_id'', ''users'')]
     [] []"

definition comments_table :: table where
  "comments_table = Table ''comments''
     [Column ''id'' Integer False None,
      Column ''post_id'' Integer False None,
      Column ''user_id'' Integer False None,
      Column ''comment_content'' Varchar False None,
      Column ''created_at'' Timestamptz True (Some ''now()''),
      Column ''likes'' Integer False (Some ''0'')]
     [''id''] [(''post_id'', ''posts''), (''user_id'', ''users'')]
     [] []"

definition upgrade_fresh_start_1 :: "ddl list" where
  "upgrade_fresh_start_1 = [Create_table False otps_table,
     Create_index False (Index ''ix_otps_email'' ''otps'' [''email''] True None),
     Create_index False (Index ''ix_otps_id'' ''otps'' [''id''] False None),
     Create_table False users_table,
     Create_table False connections_table,
     Create_table False messages_table,
     Create_index False (Index ''ix_messages_id'' ''messages'' [''id''] False None),
     Create_table False posts_table,
     Create_table False comments_table]"

definition deleted_messages_table :: table where
  "deleted_messages_table = Table ''deleted_messages''
     [Column ''id'' Integer False None,
      Column ''user_id'' Integer False None,
      Column ''message_id'' Integer False None,
      Column ''deleted_at'' Timestamp True None]
     [''id''] [(''message_id'', ''messages''), (''user_id'', ''users'')]
     [((Some ''uq_user_deleted_msg''), [''user_id'', ''message_id''])] []"

definition message_reactions_table :: table where
  "message_reactions_table = Table ''message_reactions''
     [Column ''id'' Integer False None,
      Column ''message_id'' Integer False None,
      Column ''user_id'' Integer False None,
      Column ''reaction'' Varchar False None]
     [''id''] [(''message_id'', ''messages''), (''user_id'', ''users'')]
     [((Some ''unique_user_reaction''), [''message_id'', ''user_id''])] []"

definition message_replies_table :: table where
  "message_replies_table = Table ''message_replies''
     [Column ''reply_id'' Integer False None,
      Column ''original_id'' Integer False None]
     [''reply_id'', ''original_id''] [(''original_id'', ''messages''), (''reply_id'', ''messages'')]
     [] []"

definition post_views_table :: table where
  "post_views_table = Table ''post_views''
     [Column ''post_id'' Integer False None,
      Column ''user_id'' Integer False None,
      Column ''viewed_at'' Timestamp True None]
     [''post_id'', ''user_id''] [(''post_id'', ''posts''), (''user_id'', ''users'')]
     [] []"

definition shared_posts_table :: table where
  "shared_posts_table = Table ''shared_posts''
     [Column ''id'' Integer False None,
      Column ''post_id'' Integer True None,
      Column ''from_user_id'' Integer True None,
      Column ''to_user_id'' Integer True None,
      Column ''message'' Varchar True None,
      Column ''created_at'' Timestamp True None,
      Column ''is_read'' Boolean True (Some ''false''),
      Column ''is_deleted_for_everyone'' Boolean True (Some ''false''),
      Column ''reaction_cnt'' Integer True (Some ''0'')]
     [''id''] [(''from_user_id'', ''users''), (''post_id'', ''posts''), (''to_user_id'', ''users'')]
     [] []"

definition votes_table :: table where
  "votes_table = Table ''votes''
     [Column ''post_id'' Integer False None,
      Column ''user_id'' Integer False None,
      Column ''action'' Boolean False None]
     [''post_id'', ''user_id''] [(''post_id'', ''posts''), (''user_id'', ''users'')]
     [] []"

definition comment_votes_table :: table where
  "comment_votes_table = Table ''comment_votes''
     [Column ''comment_id'' Integer False None,
      Column ''user_id'' Integer False None,
      Column ''like'' Boolean False None]
     [''comment_id'', ''user_id''] [(''comment_id'', ''comments''), (''user_id'', ''users'')]
     [] []"

definition deleted_shared_posts_table :: table where
  "deleted_shared_posts_table = Table ''deleted_shared_posts''
     [Column ''id'' Integer False None,
      Column ''user_id'' Integer True None,
      Column ''shared_post_id'' Integer True None,
      Column ''deleted_at'' Timestamp True None]
     [''id''] [(''shared_post_id'', ''shared_posts''), (''user_id'', ''users'')]
     [] []"

definition shared_post_reactions_table :: table where
  "shared_post_reactions_table = Table ''shared_post_reactions''
     [Column ''id'' Integer False None,
      Column ''shared_post_id'' Integer False None,
      Column ''user_id'' Integer False None,
      Column ''reaction'' Varchar False None]
     [''id''] [(''shared_post_id'', ''shared_posts''), (''user_id'', ''users'')]
     [((Some ''unique_shared_post_reaction''), [''shared_post_id'', ''user_id''])] []"

definition shared_post_replies_table :: table where
  "shared_post_replies_table = Table ''shared_post_replies''
     [Column ''reply_msg_id'' Integer False None,
      Column ''shared_post_id'' Integer False None]
     [''reply_msg_id'', ''shared_post_id''] [(''reply_msg_id'', ''messages''), (''shared_post_id'', ''shared_posts'')]
     [] []"

definition upgrade_fresh_start_2 :: "ddl list" where
  "upgrade_fresh_start_2 = [Create_table False deleted_messages_table,
     Create_table False message_reactions_table,
     Create_table False message_replies_table,
     Create_table False post_views_table,
     Create_table False shared_posts_table,
     Create_table False votes_table,
     Create_table False comment_votes_table,
     Create_table False deleted_shared_posts_table,
     Create_table False shared_post_reactions_table,
     Create_table False shared_post_replies_table]"

definition upgrade_fresh_start :: "ddl list" where
  "upgrade_fresh_start = upgrade_fresh_start_1 @ upgrade_fresh_start_2"

definition downgrade_fresh_start :: "ddl list" where
  "downgrade_fresh_start = [Drop_table ''shared_post_replies'',
     Drop_table ''shared_post_reactions'',
     Drop_table ''deleted_shared_posts'',
     Drop_table ''comment_votes'',
     Drop_table ''votes'',
     Drop_table ''shared_posts'',
     Drop_table ''post_views'',
     Drop_table ''message_replies'',
     Drop_table ''message_reactions'',
     Drop_table ''deleted_messages'',
     Drop_table ''comments'',
     Drop_table ''posts'',
     Drop_index False ''ix_messages_id'',
     Drop_table ''messages'',
     Drop_table ''connections'',
     Drop_table ''users'',
     Drop_index False ''ix_otps_id'',
     Drop_index False ''ix_otps_email'',
     Drop_table ''otps'']"

section \<open>6d3a844fb941: notifications\<close>

definition upgrade_notifications :: "ddl list" where
  "upgrade_notifications = []"

definition downgrade_notifications :: "ddl list" where
  "downgrade_notifications = []"

section \<open>9aafdcad5a6d: refresh tokens\<close>

definition refresh_tokens_table :: table where
  "refresh_tokens_table = Table ''refresh_tokens''
     [Column ''id'' Integer False None,
      Column ''token'' Varchar False None,
      Column ''user_id'' Integer False None,
      Column ''family_id'' Varchar False None,
      Column ''revoked'' Boolean False (Some ''false''),
      Column ''expires_at'' Timestamptz False None,
      Column ''created_at'' Timestamptz True (Some ''now()'')]
     [''id''] [(''user_id'', ''users'')]
     [] []"

definition upgrade_refresh_tokens :: "ddl list" where
  "upgrade_refresh_tokens = [Create_table False refresh_tokens_table,
     Create_index False (Index ''ix_refresh_tokens_family_id'' ''refresh_tokens'' [''family_id''] False None),
     Create_index False (Index ''ix_refresh_tokens_token'' ''refresh_tokens'' [''token''] True None)]"

definition downgrade_refresh_tokens :: "ddl list" where
  "downgrade_refresh_tokens = [Drop_index False ''ix_refresh_tokens_token'',
     Drop_index False ''ix_refresh_tokens_family_id'',
     Drop_table ''refresh_tokens'']"

section \<open>a4d7c9e2b1f0: search indexes\<close>

definition upgrade_search_indexes :: "ddl list" where
  "upgrade_search_indexes = [Create_index False (Index ''ix_users_username_lower'' ''users'' [''lower(username)''] False None),
     Create_index False (Index ''ix_posts_hashtags'' ''posts'' [''hashtags''] False (Some ''hashtags IS NOT NULL''))]"

definition downgrade_search_indexes :: "ddl list" where
  "downgrade_search_indexes = [Drop_index False ''ix_posts_hashtags'',
     Drop_index False ''ix_users_username_lower'']"

section \<open>b2c1e7d3f901: user version\<close>

definition upgrade_user_version :: "ddl list" where
  "upgrade_user_version = [Add_column ''users'' (Column ''version_id'' Integer False (Some ''1''))]"

definition downgrade_user_version :: "ddl list" where
  "downgrade_user_version = [Drop_column ''users'' ''version_id'']"

section \<open>c1f4f99c7a10: saved posts\<close>

definition saved_posts_table :: table where
  "saved_posts_table = Table ''saved_posts''
     [Column ''id'' Integer False None,
      Column ''user_id'' Integer False None,
      Column ''post_id'' Integer False None,
      Column ''created_at'' Timestamptz False (Some ''now()'')]
     [''id''] [(''post_id'', ''posts''), (''user_id'', ''users'')]
     [((Some ''uq_saved_user_post''), [''user_id'', ''post_id''])] []"

definition upgrade_saved_posts :: "ddl list" where
  "upgrade_saved_posts = [Create_table False saved_posts_table]"

definition downgrade_saved_posts :: "ddl list" where
  "downgrade_saved_posts = [Drop_table ''saved_posts'']"

section \<open>d8a5f4b7c2e1: hardening\<close>

definition notifications_table :: table where
  "notifications_table = Table ''notifications''
     [Column ''id'' Integer False None,
      Column ''owner_id'' Integer False None,
      Column ''actor_id'' Integer False None,
      Column ''type'' (Enumeration ''notificationtype'') False None,
      Column ''entity_id'' Integer True None,
      Column ''entity_type'' Varchar True None,
      Column ''text'' Varchar False None,
      Column ''is_read'' Boolean False (Some ''false''),
      Column ''created_at'' Timestamptz False (Some ''now()'')]
     [''id''] [(''owner_id'', ''users''), (''actor_id'', ''users'')] [] []"

definition harden_rows :: "ddl list" where
  "harden_rows = [Create_type ''notificationtype'',
     Create_table True notifications_table,
     Change_rows ''connections'',
     Change_rows ''shared_posts'',
     Change_rows ''deleted_shared_posts'',
     Change_rows ''deleted_shared_posts'',
     Change_rows ''otps'',
     Change_rows ''posts'',
     Change_rows ''comments'',
     Change_rows ''users'',
     Change_rows ''messages'',
     Change_rows ''shared_posts'',
     Change_rows ''notifications'',
     Change_rows ''refresh_tokens'']"

definition harden_columns :: "ddl list" where
  "harden_columns = [Alter_column ''otps'' ''email'' None (Some False),
     Alter_column ''posts'' ''views'' (Some ''0'') (Some False),
     Alter_column ''posts'' ''comments_cnt'' (Some ''0'') (Some False),
     Alter_column ''comments'' ''created_at'' None (Some False),
     Alter_column ''shared_posts'' ''post_id'' None (Some False),
     Alter_column ''shared_posts'' ''from_user_id'' None (Some False),
     Alter_column ''shared_posts'' ''to_user_id'' None (Some False),
     Alter_column ''shared_posts'' ''created_at'' (Some ''now()'') (Some False),
     Alter_column ''shared_posts'' ''is_read'' (Some ''false'') (Some False),
     Alter_column ''shared_posts'' ''is_deleted_for_everyone'' (Some ''false'') (Some False),
     Alter_column ''shared_posts'' ''reaction_cnt'' (Some ''0'') (Some False),
     Alter_column ''deleted_shared_posts'' ''user_id'' None (Some False),
     Alter_column ''deleted_shared_posts'' ''shared_post_id'' None (Some False),
     Alter_column ''messages'' ''created_at'' None (Some False),
     Alter_column ''messages'' ''is_read'' (Some ''false'') (Some False),
     Alter_column ''messages'' ''is_deleted_for_everyone'' (Some ''false'') (Some False),
     Alter_column ''messages'' ''is_edited'' (Some ''false'') (Some False),
     Alter_column ''messages'' ''reaction_cnt'' (Some ''0'') (Some False),
     Alter_column ''messages'' ''is_reply_msg'' (Some ''false'') (Some False),
     Alter_column ''messages'' ''is_reply_to_share'' (Some ''false'') (Some False),
     Alter_column ''notifications'' ''created_at'' (Some ''now()'') (Some False),
     Alter_column ''refresh_tokens'' ''created_at'' (Some ''now()'') (Some False)]"

definition harden_constraints :: "ddl list" where
  "harden_constraints = [Add_unique ''deleted_shared_posts'' ''uq_user_deleted_shared_post'' [''user_id'', ''shared_post_id''],
     Add_check ''connections'' ''ck_connections_no_self_follow'' ''followed_id <> follower_id'',
     Add_check ''posts'' ''ck_posts_likes_nonnegative'' ''likes >= 0'',
     Add_check ''posts'' ''ck_posts_dislikes_nonnegative'' ''dis_likes >= 0'',
     Add_check ''posts'' ''ck_posts_views_nonnegative'' ''views >= 0'',
     Add_check ''posts'' ''ck_posts_comments_cnt_nonnegative'' ''comments_cnt >= 0'',
     Add_check ''posts'' ''ck_posts_media_type_valid'' ''(media_type IS NULL) OR (media_type IN ('image', 'video'))'',
     Add_check ''comments'' ''ck_comments_likes_nonnegative'' ''likes >= 0'',
     Add_check ''users'' ''ck_users_followers_cnt_nonnegative'' ''followers_cnt >= 0'',
     Add_check ''users'' ''ck_users_following_cnt_nonnegative'' ''following_cnt >= 0'',
     Add_check ''messages'' ''ck_messages_reaction_cnt_nonnegative'' ''reaction_cnt >= 0'',
     Add_check ''messages'' ''ck_messages_media_type_valid'' ''(media_type IS NULL) OR (media_type IN ('false', 'image', 'video', 'audio'))'',
     Add_check ''shared_posts'' ''ck_shared_posts_reaction_cnt_nonnegative'' ''reaction_cnt >= 0'',
     Add_check ''notifications'' ''ck_notifications_entity_type_valid'' ''(entity_type IS NULL) OR (entity_type IN ('post', 'comment'))'']"

definition harden_indexes :: "ddl list" where
  "harden_indexes = [Create_index True (Index ''ix_connections_follower_followed'' ''connections'' [''follower_id'', ''followed_id''] False None),
     Create_index True (Index ''ix_shared_post_replies_shared_post_id'' ''shared_post_replies'' [''shared_post_id''] False None),
     Create_index True (Index ''ix_shared_posts_from_to_created'' ''shared_posts'' [''from_user_id'', ''to_user_id'', ''created_at''] False (Some ''is_deleted_for_everyone = false'')),
     Create_index True (Index ''ix_shared_posts_to_from_created'' ''shared_posts'' [''to_user_id'', ''from_user_id'', ''created_at''] False (Some ''is_deleted_for_everyone = false'')),
     Create_index True (Index ''ix_shared_posts_unread_inbox'' ''shared_posts'' [''to_user_id'', ''created_at''] False (Some ''is_read = false AND is_deleted_for_everyone = false'')),
     Create_index True (Index ''ix_shared_posts_post_id'' ''shared_posts'' [''post_id''] False None),
     Create_index True (Index ''ix_deleted_messages_message_id'' ''deleted_messages'' [''message_id''] False None),
     Create_index True (Index ''ix_deleted_shared_posts_shared_post_id'' ''deleted_shared_posts'' [''shared_post_id''] False None),
     Create_index True (Index ''ix_otps_expires_at'' ''otps'' [''expires_at''] False None),
     Create_index True (Index ''ix_votes_user_action_post'' ''votes'' [''user_id'', ''action'', ''post_id''] False None),
     Create_index True (Index ''ix_comment_votes_user_comment'' ''comment_votes'' [''user_id'', ''comment_id''] False None),
     Create_index True (Index ''ix_comments_post_created'' ''comments'' [''post_id'', ''created_at''] False None),
     Create_index True (Index ''ix_comments_user_post'' ''comments'' [''user_id'', ''post_id''] False None),
     Create_index True (Index ''ix_posts_user_created'' ''posts'' [''user_id'', ''created_at''] False None),
     Create_index True (Index ''ix_posts_created_at'' ''posts'' [''created_at''] False None),
     Create_index True (Index ''ix_posts_likes_created'' ''posts'' [''likes'', ''created_at''] False None),
     Create_index True (Index ''ix_saved_posts_user_created'' ''saved_posts'' [''user_id'', ''created_at''] False None),
     Create_index True (Index ''ix_post_views_user_id'' ''post_views'' [''user_id''] False None),
     Create_index True (Index ''ix_post_views_viewed_at'' ''post_views'' [''viewed_at''] False None),
     Create_index True (Index ''ix_message_replies_original_id'' ''message_replies'' [''original_id''] False None),
     Create_index True (Index ''ix_messages_sender_receiver_created'' ''messages'' [''sender_id'', ''receiver_id'', ''created_at''] False (Some ''is_deleted_for_everyone = false'')),
     Create_index True (Index ''ix_messages_receiver_sender_created'' ''messages'' [''receiver_id'', ''sender_id'', ''created_at''] False (Some ''is_deleted_for_everyone = false'')),
     Create_index True (Index ''ix_messages_unread_receiver_created'' ''messages'' [''receiver_id'', ''created_at''] False (Some ''is_read = false AND is_deleted_for_everyone = false'')),
     Create_index True (Index ''ix_message_reactions_user_id'' ''message_reactions'' [''user_id''] False None),
     Create_index True (Index ''ix_shared_post_reactions_user_id'' ''shared_post_reactions'' [''user_id''] False None),
     Create_index True (Index ''ix_notifications_owner_created'' ''notifications'' [''owner_id'', ''created_at''] False None),
     Create_index True (Index ''ix_notifications_actor_id'' ''notifications'' [''actor_id''] False None),
     Create_index True (Index ''ix_notifications_unread_owner_created'' ''notifications'' [''owner_id'', ''created_at''] False (Some ''is_read = false'')),
     Create_index True (Index ''ix_refresh_tokens_user_revoked'' ''refresh_tokens'' [''user_id'', ''revoked''] False None),
     Create_index True (Index ''ix_refresh_tokens_expires_at'' ''refresh_tokens'' [''expires_at''] False None)]"

text \<open>\<open>shared_addresses\<close>: two accounts have the same address up to case.\<close>

definition upgrade_hardening :: "bool \<Rightarrow> ddl list" where
  "upgrade_hardening shared_addresses = harden_rows @ harden_columns @ harden_constraints @ harden_indexes @
     [Create_email_index shared_addresses]"

definition downgrade_hardening :: "ddl list" where
  "downgrade_hardening = [Drop_index True ''ix_users_email_lower_nonunique'',
     Drop_index True ''ux_users_email_lower'',
     Drop_index True ''ix_refresh_tokens_expires_at'',
     Drop_index True ''ix_refresh_tokens_user_revoked'',
     Drop_index True ''ix_notifications_unread_owner_created'',
     Drop_index True ''ix_notifications_actor_id'',
     Drop_index True ''ix_notifications_owner_created'',
     Drop_index True ''ix_shared_post_reactions_user_id'',
     Drop_index True ''ix_message_reactions_user_id'',
     Drop_index True ''ix_messages_unread_receiver_created'',
     Drop_index True ''ix_messages_receiver_sender_created'',
     Drop_index True ''ix_messages_sender_receiver_created'',
     Drop_index True ''ix_message_replies_original_id'',
     Drop_index True ''ix_post_views_viewed_at'',
     Drop_index True ''ix_post_views_user_id'',
     Drop_index True ''ix_saved_posts_user_created'',
     Drop_index True ''ix_posts_likes_created'',
     Drop_index True ''ix_posts_created_at'',
     Drop_index True ''ix_posts_user_created'',
     Drop_index True ''ix_comments_user_post'',
     Drop_index True ''ix_comments_post_created'',
     Drop_index True ''ix_comment_votes_user_comment'',
     Drop_index True ''ix_votes_user_action_post'',
     Drop_index True ''ix_otps_expires_at'',
     Drop_index True ''ix_deleted_shared_posts_shared_post_id'',
     Drop_index True ''ix_deleted_messages_message_id'',
     Drop_index True ''ix_shared_posts_post_id'',
     Drop_index True ''ix_shared_posts_unread_inbox'',
     Drop_index True ''ix_shared_posts_to_from_created'',
     Drop_index True ''ix_shared_posts_from_to_created'',
     Drop_index True ''ix_shared_post_replies_shared_post_id'',
     Drop_index True ''ix_connections_follower_followed'',
     Drop_constraint ''notifications'' ''ck_notifications_entity_type_valid'',
     Drop_constraint ''shared_posts'' ''ck_shared_posts_reaction_cnt_nonnegative'',
     Drop_constraint ''messages'' ''ck_messages_media_type_valid'',
     Drop_constraint ''messages'' ''ck_messages_reaction_cnt_nonnegative'',
     Drop_constraint ''users'' ''ck_users_following_cnt_nonnegative'',
     Drop_constraint ''users'' ''ck_users_followers_cnt_nonnegative'',
     Drop_constraint ''comments'' ''ck_comments_likes_nonnegative'',
     Drop_constraint ''posts'' ''ck_posts_media_type_valid'',
     Drop_constraint ''posts'' ''ck_posts_comments_cnt_nonnegative'',
     Drop_constraint ''posts'' ''ck_posts_views_nonnegative'',
     Drop_constraint ''posts'' ''ck_posts_dislikes_nonnegative'',
     Drop_constraint ''posts'' ''ck_posts_likes_nonnegative'',
     Drop_constraint ''connections'' ''ck_connections_no_self_follow'',
     Drop_constraint ''deleted_shared_posts'' ''uq_user_deleted_shared_post'',
     Drop_table ''notifications'',
     Drop_type ''notificationtype'']"

section \<open>e9b7c6a5d4f2: counter triggers\<close>

definition upgrade_counter_triggers :: "ddl list" where
  "upgrade_counter_triggers = [Create_trigger ''votes'' ''votes_sync_post_counts'',
     Create_trigger ''comment_votes'' ''comment_votes_sync_comment_counts'',
     Create_trigger ''comments'' ''comments_sync_post_counts'',
     Create_trigger ''post_views'' ''post_views_sync_post_counts'',
     Create_trigger ''connections'' ''connections_sync_user_counts'',
     Create_trigger ''message_reactions'' ''message_reactions_sync_message_counts'',
     Create_trigger ''shared_post_reactions'' ''shared_post_reactions_sync_share_counts'']"

definition downgrade_counter_triggers :: "ddl list" where
  "downgrade_counter_triggers = [Drop_trigger ''shared_post_reactions'' ''shared_post_reactions_sync_share_counts'',
     Drop_trigger ''message_reactions'' ''message_reactions_sync_message_counts'',
     Drop_trigger ''connections'' ''connections_sync_user_counts'',
     Drop_trigger ''post_views'' ''post_views_sync_post_counts'',
     Drop_trigger ''comments'' ''comments_sync_post_counts'',
     Drop_trigger ''comment_votes'' ''comment_votes_sync_comment_counts'',
     Drop_trigger ''votes'' ''votes_sync_post_counts'']"

section \<open>f2a6c1d4b8e9: hash secrets\<close>

definition upgrade_hash_secrets :: "ddl list" where
  "upgrade_hash_secrets = [Change_rows ''refresh_tokens'',
     Change_rows ''otps'']"

definition downgrade_hash_secrets :: "ddl list" where
  "downgrade_hash_secrets = []"

section \<open>f87ab2d91c3e: last seen\<close>

definition upgrade_last_seen :: "ddl list" where
  "upgrade_last_seen = [Add_column ''users'' (Column ''last_seen_at'' Timestamptz True None)]"

definition downgrade_last_seen :: "ddl list" where
  "downgrade_last_seen = [Drop_column ''users'' ''last_seen_at'']"

section \<open>Revisions\<close>

record revision =
  rv_id :: string
  rv_down :: "string option"
  rv_upgrade :: "ddl list"
  rv_downgrade :: "ddl list"

definition versions :: "bool \<Rightarrow> revision list" where
  "versions shared_addresses =
     [\<lparr>rv_id = ''5ac7db1d4f3c'', rv_down = Some ''f87ab2d91c3e'', rv_upgrade = upgrade_email_verified, rv_downgrade = downgrade_email_verified\<rparr>,
      \<lparr>rv_id = ''622ae475b8e8'', rv_down = None, rv_upgrade = upgrade_fresh_start, rv_downgrade = downgrade_fresh_start\<rparr>,
      \<lparr>rv_id = ''6d3a844fb941'', rv_down = Some ''622ae475b8e8'', rv_upgrade = upgrade_notifications, rv_downgrade = downgrade_notifications\<rparr>,
      \<lparr>rv_id = ''9aafdcad5a6d'', rv_down = Some ''6d3a844fb941'', rv_upgrade = upgrade_refresh_tokens, rv_downgrade = downgrade_refresh_tokens\<rparr>,
      \<lparr>rv_id = ''a4d7c9e2b1f0'', rv_down = Some ''f2a6c1d4b8e9'', rv_upgrade = upgrade_search_indexes, rv_downgrade = downgrade_search_indexes\<rparr>,
      \<lparr>rv_id = ''b2c1e7d3f901'', rv_down = Some ''5ac7db1d4f3c'', rv_upgrade = upgrade_user_version, rv_downgrade = downgrade_user_version\<rparr>,
      \<lparr>rv_id = ''c1f4f99c7a10'', rv_down = Some ''9aafdcad5a6d'', rv_upgrade = upgrade_saved_posts, rv_downgrade = downgrade_saved_posts\<rparr>,
      \<lparr>rv_id = ''d8a5f4b7c2e1'', rv_down = Some ''b2c1e7d3f901'', rv_upgrade = upgrade_hardening shared_addresses, rv_downgrade = downgrade_hardening\<rparr>,
      \<lparr>rv_id = ''e9b7c6a5d4f2'', rv_down = Some ''d8a5f4b7c2e1'', rv_upgrade = upgrade_counter_triggers, rv_downgrade = downgrade_counter_triggers\<rparr>,
      \<lparr>rv_id = ''f2a6c1d4b8e9'', rv_down = Some ''e9b7c6a5d4f2'', rv_upgrade = upgrade_hash_secrets, rv_downgrade = downgrade_hash_secrets\<rparr>,
      \<lparr>rv_id = ''f87ab2d91c3e'', rv_down = Some ''c1f4f99c7a10'', rv_upgrade = upgrade_last_seen, rv_downgrade = downgrade_last_seen\<rparr>]"

text \<open>The revisions from a starting point on, each the one that names the previous one as its \<open>down_revision\<close>.\<close>

fun chain :: "nat \<Rightarrow> string option \<Rightarrow> revision list \<Rightarrow> revision list" where
  "chain 0 from revs = []"
| "chain (Suc n) from revs = (case find (\<lambda>r. rv_down r = from) revs of
     None \<Rightarrow> [] | Some r \<Rightarrow> r # chain n (Some (rv_id r)) revs)"

definition history :: "bool \<Rightarrow> revision list" where
  "history shared_addresses = chain (length (versions shared_addresses)) None (versions shared_addresses)"

text \<open>\<open>alembic upgrade head\<close> and \<open>alembic downgrade base\<close>.\<close>

definition upgrade_head :: "bool \<Rightarrow> catalogue \<Rightarrow> catalogue option" where
  "upgrade_head shared_addresses s = run (concat (map rv_upgrade (history shared_addresses))) s"

definition downgrade_base :: "catalogue \<Rightarrow> catalogue option" where
  "downgrade_base s = run (concat (map rv_downgrade (rev (history False)))) s"

end
