(* ===== verification/Migration_Properties.thy ===== *)
theory Migration_Properties
  imports Migrations
begin

text \<open>
  What the migrations produce. The catalogue is evaluated symbolically: a table stays the constant of its
  \<open>CREATE TABLE\<close> with the alterations applied to it, of which only the names are looked at until the result is compared.
\<close>

section \<open>Symbolic tables\<close>

lemma set_columns_sel [simp]:
  "tb_name (set_columns f t) = tb_name t" "tb_columns (set_columns f t) = f (tb_columns t)"
  "tb_key (set_columns f t) = tb_key t" "tb_references (set_columns f t) = tb_references t"
  "tb_uniques (set_columns f t) = tb_uniques t" "tb_checks (set_columns f t) = tb_checks t"
  by (cases t; simp)+

lemma set_checks_sel [simp]:
  "tb_name (set_checks g t) = tb_name t" "tb_columns (set_checks g t) = tb_columns t"
  "tb_key (set_checks g t) = tb_key t" "tb_references (set_checks g t) = tb_references t"
  "tb_uniques (set_checks g t) = tb_uniques t" "tb_checks (set_checks g t) = g (tb_checks t)"
  by (cases t; simp)+

lemma set_uniques_sel [simp]:
  "tb_name (set_uniques h t) = tb_name t" "tb_columns (set_uniques h t) = tb_columns t"
  "tb_key (set_uniques h t) = tb_key t" "tb_references (set_uniques h t) = tb_references t"
  "tb_uniques (set_uniques h t) = h (tb_uniques t)" "tb_checks (set_uniques h t) = tb_checks t"
  by (cases t; simp)+

lemma constraint_sel [simp]:
  "tb_name (ensure_check c e t) = tb_name t" "tb_columns (ensure_check c e t) = tb_columns t"
  "tb_key (ensure_check c e t) = tb_key t" "tb_references (ensure_check c e t) = tb_references t"
  "tb_name (ensure_unique c cols t) = tb_name t" "tb_columns (ensure_unique c cols t) = tb_columns t"
  "tb_key (ensure_unique c cols t) = tb_key t" "tb_references (ensure_unique c cols t) = tb_references t"
  "tb_name (drop_constraint c t) = tb_name t" "tb_columns (drop_constraint c t) = tb_columns t"
  "tb_key (drop_constraint c t) = tb_key t" "tb_references (drop_constraint c t) = tb_references t"
  by (simp_all add: ensure_check_def ensure_unique_def drop_constraint_def)

lemma constrained_iff:
  "constrained n t \<longleftrightarrow> list_ex (\<lambda>x. fst x = Some n) (tb_uniques t) \<or> list_ex (\<lambda>x. fst x = n) (tb_checks t)"
  by (cases t) simp

lemma cl_name_alter [simp]: "cl_name (alter d nl x) = cl_name x" "cl_type (alter d nl x) = cl_type x"
  by (cases x; simp)+

lemma column_names_altered [simp]:
  "column_names (set_columns (alter_column c d nl) t) = column_names t"
  "column_names (set_columns (append_column x) t) = column_names t @ [cl_name x]"
  "column_names (set_columns (remove_column c) t) = filter (\<lambda>n. n \<noteq> c) (column_names t)"
  "column_names (ensure_check k e t) = column_names t" "column_names (ensure_unique k cols t) = column_names t"
  "column_names (drop_constraint k t) = column_names t"
  by (simp_all add: column_names_def alter_column_def append_column_def remove_column_def filter_map o_def)

lemma uses_type_map: "uses_type n t \<longleftrightarrow> Enumeration n \<in> set (map cl_type (tb_columns t))"
  by (auto simp: uses_type_def list_ex_iff image_iff) metis

lemma cl_type_altered: "map cl_type (alter_column c d nl cs) = map cl_type cs"
  by (simp add: alter_column_def o_def)

lemma uses_type_altered [simp]:
  "uses_type n (set_columns (alter_column c d nl) t) = uses_type n t"
  "uses_type n (set_columns (append_column x) t) \<longleftrightarrow> uses_type n t \<or> cl_type x = Enumeration n"
  "uses_type n (ensure_check k e t) = uses_type n t" "uses_type n (ensure_unique k cols t) = uses_type n t"
  "uses_type n (drop_constraint k t) = uses_type n t"
  by (auto simp: uses_type_map cl_type_altered append_column_def simp del: set_map)

lemma otps_table_facts [simp]:
  "tb_name otps_table = ''otps''" "tb_references otps_table = []"
  "column_names otps_table = [''id'', ''email'', ''otp'', ''expires_at'', ''created_at'']"
  "uses_type n otps_table \<longleftrightarrow> False"
  by (simp_all add: otps_table_def column_names_def uses_type_def)

lemma users_table_facts [simp]:
  "tb_name users_table = ''users''" "tb_references users_table = []"
  "column_names users_table = [''id'', ''username'', ''password'', ''nickname'', ''bio'', ''email'', ''profile_picture'', ''created_at'', ''followers_cnt'', ''following_cnt'']"
  "uses_type n users_table \<longleftrightarrow> False"
  by (simp_all add: users_table_def column_names_def uses_type_def)

lemma connections_table_facts [simp]:
  "tb_name connections_table = ''connections''" "tb_references connections_table = [(''followed_id'', ''users''), (''follower_id'', ''users'')]"
  "column_names connections_table = [''followed_id'', ''follower_id'']"
  "uses_type n connections_table \<longleftrightarrow> False"
  by (simp_all add: connections_table_def column_names_def uses_type_def)

lemma messages_table_facts [simp]:
  "tb_name messages_table = ''messages''" "tb_references messages_table = [(''receiver_id'', ''users''), (''sender_id'', ''users'')]"
  "column_names messages_table = [''id'', ''media_url'', ''media_type'', ''content'', ''sender_id'', ''receiver_id'', ''created_at'', ''is_read'', ''is_deleted_for_everyone'', ''is_edited'', ''edited_at'', ''read_at'', ''reaction_cnt'', ''is_reply_msg'', ''is_reply_to_share'']"
  "uses_type n messages_table \<longleftrightarrow> False"
  by (simp_all add: messages_table_def column_names_def uses_type_def)

lemma posts_table_facts [simp]:
  "tb_name posts_table = ''posts''" "tb_references posts_table = [(''user_id'', ''users'')]"
  "column_names posts_table = [''id'', ''media_path'', ''media_type'', ''title'', ''content'', ''enable_comments'', ''created_at'', ''user_id'', ''likes'', ''dis_likes'', ''views'', ''comments_cnt'', ''hashtags'']"
  "uses_type n posts_table \<longleftrightarrow> False"
  by (simp_all add: posts_table_def column_names_def uses_type_def)

lemma comments_table_facts [simp]:
  "tb_name comments_table = ''comments''" "tb_references comments_table = [(''post_id'', ''posts''), (''user_id'', ''users'')]"
  "column_names comments_table = [''id'', ''post_id'', ''user_id'', ''comment_content'', ''created_at'', ''likes'']"
  "uses_type n comments_table \<longleftrightarrow> False"
  by (simp_all add: comments_table_def column_names_def uses_type_def)

lemma deleted_messages_table_facts [simp]:
  "tb_name deleted_messages_table = ''deleted_messages''" "tb_references deleted_messages_table = [(''message_id'', ''messages''), (''user_id'', ''users'')]"
  "column_names deleted_messages_table = [''id'', ''user_id'', ''message_id'', ''deleted_at'']"
  "uses_type n deleted_messages_table \<longleftrightarrow> False"
  by (simp_all add: deleted_messages_table_def column_names_def uses_type_def)

lemma message_reactions_table_facts [simp]:
  "tb_name message_reactions_table = ''message_reactions''" "tb_references message_reactions_table = [(''message_id'', ''messages''), (''user_id'', ''users'')]"
  "column_names message_reactions_table = [''id'', ''message_id'', ''user_id'', ''reaction'']"
  "uses_type n message_reactions_table \<longleftrightarrow> False"
  by (simp_all add: message_reactions_table_def column_names_def uses_type_def)

lemma message_replies_table_facts [simp]:
  "tb_name message_replies_table = ''message_replies''" "tb_references message_replies_table = [(''original_id'', ''messages''), (''reply_id'', ''messages'')]"
  "column_names message_replies_table = [''reply_id'', ''original_id'']"
  "uses_type n message_replies_table \<longleftrightarrow> False"
  by (simp_all add: message_replies_table_def column_names_def uses_type_def)

lemma post_views_table_facts [simp]:
  "tb_name post_views_table = ''post_views''" "tb_references post_views_table = [(''post_id'', ''posts''), (''user_id'', ''users'')]"
  "column_names post_views_table = [''post_id'', ''user_id'', ''viewed_at'']"
  "uses_type n post_views_table \<longleftrightarrow> False"
  by (simp_all add: post_views_table_def column_names_def uses_type_def)

lemma shared_posts_table_facts [simp]:
  "tb_name shared_posts_table = ''shared_posts''" "tb_references shared_posts_table = [(''from_user_id'', ''users''), (''post_id'', ''posts''), (''to_user_id'', ''users'')]"
  "column_names shared_posts_table = [''id'', ''post_id'', ''from_user_id'', ''to_user_id'', ''message'', ''created_at'', ''is_read'', ''is_deleted_for_everyone'', ''reaction_cnt'']"
  "uses_type n shared_posts_table \<longleftrightarrow> False"
  by (simp_all add: shared_posts_table_def column_names_def uses_type_def)

lemma votes_table_facts [simp]:
  "tb_name votes_table = ''votes''" "tb_references votes_table = [(''post_id'', ''posts''), (''user_id'', ''users'')]"
  "column_names votes_table = [''post_id'', ''user_id'', ''action'']"
  "uses_type n votes_table \<longleftrightarrow> False"
  by (simp_all add: votes_table_def column_names_def uses_type_def)

lemma comment_votes_table_facts [simp]:
  "tb_name comment_votes_table = ''comment_votes''" "tb_references comment_votes_table = [(''comment_id'', ''comments''), (''user_id'', ''users'')]"
  "column_names comment_votes_table = [''comment_id'', ''user_id'', ''like'']"
  "uses_type n comment_votes_table \<longleftrightarrow> False"
  by (simp_all add: comment_votes_table_def column_names_def uses_type_def)

lemma deleted_shared_posts_table_facts [simp]:
  "tb_name deleted_shared_posts_table = ''deleted_shared_posts''" "tb_references deleted_shared_posts_table = [(''shared_post_id'', ''shared_posts''), (''user_id'', ''users'')]"
  "column_names deleted_shared_posts_table = [''id'', ''user_id'', ''shared_post_id'', ''deleted_at'']"
  "uses_type n deleted_shared_posts_table \<longleftrightarrow> False"
  by (simp_all add: deleted_shared_posts_table_def column_names_def uses_type_def)

lemma shared_post_reactions_table_facts [simp]:
  "tb_name shared_post_reactions_table = ''shared_post_reactions''" "tb_references shared_post_reactions_table = [(''shared_post_id'', ''shared_posts''), (''user_id'', ''users'')]"
  "column_names shared_post_reactions_table = [''id'', ''shared_post_id'', ''user_id'', ''reaction'']"
  "uses_type n shared_post_reactions_table \<longleftrightarrow> False"
  by (simp_all add: shared_post_reactions_table_def column_names_def uses_type_def)

lemma shared_post_replies_table_facts [simp]:
  "tb_name shared_post_replies_table = ''shared_post_replies''" "tb_references shared_post_replies_table = [(''reply_msg_id'', ''messages''), (''shared_post_id'', ''shared_posts'')]"
  "column_names shared_post_replies_table = [''reply_msg_id'', ''shared_post_id'']"
  "uses_type n shared_post_replies_table \<longleftrightarrow> False"
  by (simp_all add: shared_post_replies_table_def column_names_def uses_type_def)

lemma refresh_tokens_table_facts [simp]:
  "tb_name refresh_tokens_table = ''refresh_tokens''" "tb_references refresh_tokens_table = [(''user_id'', ''users'')]"
  "column_names refresh_tokens_table = [''id'', ''token'', ''user_id'', ''family_id'', ''revoked'', ''expires_at'', ''created_at'']"
  "uses_type n refresh_tokens_table \<longleftrightarrow> False"
  by (simp_all add: refresh_tokens_table_def column_names_def uses_type_def)

lemma saved_posts_table_facts [simp]:
  "tb_name saved_posts_table = ''saved_posts''" "tb_references saved_posts_table = [(''post_id'', ''posts''), (''user_id'', ''users'')]"
  "column_names saved_posts_table = [''id'', ''user_id'', ''post_id'', ''created_at'']"
  "uses_type n saved_posts_table \<longleftrightarrow> False"
  by (simp_all add: saved_posts_table_def column_names_def uses_type_def)

lemma notifications_table_facts [simp]:
  "tb_name notifications_table = ''notifications''" "tb_references notifications_table = [(''owner_id'', ''users''), (''actor_id'', ''users'')]"
  "column_names notifications_table = [''id'', ''owner_id'', ''actor_id'', ''type'', ''entity_id'', ''entity_type'', ''text'', ''is_read'', ''created_at'']"
  "uses_type n notifications_table \<longleftrightarrow> ''notificationtype'' = n"
  by (simp_all add: notifications_table_def column_names_def uses_type_def)

section \<open>Blocks of statements\<close>

text \<open>Statements that edit one table in place.\<close>

fun edit :: "ddl \<Rightarrow> table \<Rightarrow> table" where
  "edit (Alter_column n c d nl) t = (if tb_name t = n then set_columns (alter_column c d nl) t else t)"
| "edit (Add_check n c e) t = (if tb_name t = n then ensure_check c e t else t)"
| "edit (Add_unique n c cols) t = (if tb_name t = n then ensure_unique c cols t else t)"
| "edit (Drop_constraint n c) t = (if tb_name t = n then drop_constraint c t else t)"
| "edit _ t = t"

fun editable :: "catalogue \<Rightarrow> ddl \<Rightarrow> bool" where
  "editable s (Alter_column n c d nl) = has_column n c s"
| "editable s (Add_check n c e) = has_table n s"
| "editable s (Add_unique n c cols) = has_table n s"
| "editable s (Drop_constraint n c) = has_table n s"
| "editable s _ = False"

lemma edit_sel [simp]:
  "tb_name (edit c t) = tb_name t" "tb_key (edit c t) = tb_key t" "tb_references (edit c t) = tb_references t"
  "column_names (edit c t) = column_names t" "uses_type n (edit c t) = uses_type n t"
  by (cases c; simp)+

lemma fold_edit_sel [simp]:
  "tb_name (fold edit cs t) = tb_name t" "tb_key (fold edit cs t) = tb_key t"
  "tb_references (fold edit cs t) = tb_references t" "column_names (fold edit cs t) = column_names t"
  "uses_type n (fold edit cs t) = uses_type n t"
  by (induction cs arbitrary: t; simp)+

lemma edited_catalogue [simp]:
  "has_table n (s\<lparr>ct_tables := map (edit c) (ct_tables s)\<rparr>) = has_table n s"
  "has_column n x (s\<lparr>ct_tables := map (edit c) (ct_tables s)\<rparr>) = has_column n x s"
  by (simp_all add: has_table_def has_column_def list_ex_iff)

lemma execute_edit: "editable s c \<Longrightarrow> execute c s = Some (s\<lparr>ct_tables := map (edit c) (ct_tables s)\<rparr>)"
  by (cases c) (simp_all add: on_table_def fun_eq_iff)

lemma editable_kept: "editable (s\<lparr>ct_tables := map (edit c) (ct_tables s)\<rparr>) x = editable s x"
  by (cases x) simp_all

lemma run_edits:
  "list_all (editable s) cs \<Longrightarrow> run cs s = Some (s\<lparr>ct_tables := map (fold edit cs) (ct_tables s)\<rparr>)"
proof (induction cs arbitrary: s)
  case (Cons c cs)
  then have "list_all (editable (s\<lparr>ct_tables := map (edit c) (ct_tables s)\<rparr>)) cs"
    by (simp add: editable_kept list_all_iff)
  then show ?case using Cons by (simp add: execute_edit o_def)
qed simp

text \<open>New indexes, dropped indexes, statements on rows.\<close>

lemma run_indexes:
  assumes "distinct (map ix_name is)" "list_all (\<lambda>i. has_table (ix_table i) s) is" "list_all (\<lambda>i. \<not> has_index (ix_name i) s) is"
  shows "run (map (Create_index b) is) s = Some (s\<lparr>ct_indexes := ct_indexes s @ is\<rparr>)"
  using assms
proof (induction "is" arbitrary: s)
  case (Cons i js)
  let ?s = "s\<lparr>ct_indexes := ct_indexes s @ [i]\<rparr>"
  have "list_all (\<lambda>i. has_table (ix_table i) ?s) js" "list_all (\<lambda>i. \<not> has_index (ix_name i) ?s) js"
    using Cons.prems by (auto simp: list_all_iff has_table_def has_index_def image_iff)
  then have "run (map (Create_index b) js) ?s = Some (?s\<lparr>ct_indexes := ct_indexes ?s @ js\<rparr>)"
    using Cons by (intro Cons.IH) simp_all
  then show ?case using Cons.prems by (simp add: add_index_def)
qed simp

lemma run_drop_indexes:
  "run (map (Drop_index True) ns) s = Some (s\<lparr>ct_indexes := filter (\<lambda>i. ix_name i \<notin> set ns) (ct_indexes s)\<rparr>)"
proof (induction ns arbitrary: s)
  case (Cons n ns)
  have same: "filter (\<lambda>i. ix_name i \<noteq> n \<and> ix_name i \<notin> set ns) is = filter (\<lambda>i. ix_name i \<notin> set ns) is"
    if "\<not> list_ex (\<lambda>i. ix_name i = n) is" for "is"
    using that by (induction "is") auto
  show ?case
    by (cases "has_index n s") (simp_all add: Cons same has_index_def conj_commute)
qed simp

lemma run_row_changes: "list_all (\<lambda>n. has_table n s) ns \<Longrightarrow> run (map Change_rows ns) s = Some s"
  by (induction ns) simp_all

section \<open>The head\<close>

lemmas catalogue_rules = run.simps execute.simps has_table_def has_index_def has_column_def on_table_def add_index_def
  unique_email_index_def plain_email_index_def empty_catalogue_def Option.bind.simps

lemmas revision_defs = upgrade_email_verified_def downgrade_email_verified_def upgrade_fresh_start_1_def upgrade_fresh_start_2_def upgrade_fresh_start_def downgrade_fresh_start_def upgrade_notifications_def downgrade_notifications_def upgrade_refresh_tokens_def downgrade_refresh_tokens_def upgrade_search_indexes_def downgrade_search_indexes_def upgrade_user_version_def downgrade_user_version_def upgrade_saved_posts_def downgrade_saved_posts_def harden_rows_def harden_columns_def harden_constraints_def harden_indexes_def upgrade_hardening_def downgrade_hardening_def upgrade_counter_triggers_def downgrade_counter_triggers_def upgrade_hash_secrets_def downgrade_hash_secrets_def upgrade_last_seen_def downgrade_last_seen_def

lemma history_order:
  "map rv_id (history b) = [''622ae475b8e8'', ''6d3a844fb941'', ''9aafdcad5a6d'', ''c1f4f99c7a10'', ''f87ab2d91c3e'', ''5ac7db1d4f3c'',
     ''b2c1e7d3f901'', ''d8a5f4b7c2e1'', ''e9b7c6a5d4f2'', ''f2a6c1d4b8e9'', ''a4d7c9e2b1f0'']"
  by (simp add: history_def versions_def numeral_eq_Suc)

lemma history_upgrades:
  "concat (map rv_upgrade (history b)) = upgrade_fresh_start @ upgrade_notifications @ upgrade_refresh_tokens @
     upgrade_saved_posts @ upgrade_last_seen @ upgrade_email_verified @ upgrade_user_version @ upgrade_hardening b @
     upgrade_counter_triggers @ upgrade_hash_secrets @ upgrade_search_indexes"
  by (simp add: history_def versions_def)

text \<open>The tables before the hardening revision, and the user table with its three later columns.\<close>

definition grown_users :: table where
  "grown_users = set_columns (append_column (Column ''version_id'' Integer False (Some ''1'')))
     (set_columns (alter_column ''email_verified'' (Some ''false'') None)
       (set_columns (append_column (Column ''email_verified'' Boolean False (Some ''true'')))
         (set_columns (append_column (Column ''last_seen_at'' Timestamptz True None)) users_table)))"

definition early_tables :: "table list" where
  "early_tables = [otps_table, grown_users, connections_table, messages_table, posts_table, comments_table,
     deleted_messages_table, message_reactions_table, message_replies_table, post_views_table, shared_posts_table, votes_table,
     comment_votes_table, deleted_shared_posts_table, shared_post_reactions_table, shared_post_replies_table,
     refresh_tokens_table, saved_posts_table]"

definition early_indexes :: "index list" where
  "early_indexes = [Index ''ix_otps_email'' ''otps'' [''email''] True None, Index ''ix_otps_id'' ''otps'' [''id''] False None,
     Index ''ix_messages_id'' ''messages'' [''id''] False None,
     Index ''ix_refresh_tokens_family_id'' ''refresh_tokens'' [''family_id''] False None,
     Index ''ix_refresh_tokens_token'' ''refresh_tokens'' [''token''] True None]"

lemma run_early:
  "run (upgrade_fresh_start @ upgrade_notifications @ upgrade_refresh_tokens @ upgrade_saved_posts @ upgrade_last_seen @
     upgrade_email_verified @ upgrade_user_version) empty_catalogue =
   Some \<lparr>ct_tables = early_tables, ct_indexes = early_indexes, ct_types = [], ct_triggers = []\<rparr>"
  by (simp add: catalogue_rules revision_defs early_tables_def early_indexes_def grown_users_def)

text \<open>The indexes that a block of statements creates.\<close>

definition indexes_of :: "ddl list \<Rightarrow> index list" where
  "indexes_of cs = List.map_filter (\<lambda>c. case c of Create_index _ i \<Rightarrow> Some i | _ \<Rightarrow> None) cs"

definition trigger_list :: "(string \<times> string) list" where
  "trigger_list = List.map_filter (\<lambda>c. case c of Create_trigger n g \<Rightarrow> Some (n, g) | _ \<Rightarrow> None) upgrade_counter_triggers"

definition edits :: "ddl list" where
  "edits = harden_columns @ harden_constraints"

definition head_catalogue :: "bool \<Rightarrow> catalogue" where
  "head_catalogue shared_addresses =
     \<lparr>ct_tables = map (fold edit edits) (early_tables @ [notifications_table]),
      ct_indexes = early_indexes @ indexes_of harden_indexes @
        (if shared_addresses then plain_email_index else unique_email_index) # indexes_of upgrade_search_indexes,
      ct_types = [''notificationtype''], ct_triggers = trigger_list\<rparr>"

lemma index_blocks:
  "harden_indexes = map (Create_index True) (indexes_of harden_indexes)"
  "upgrade_search_indexes = map (Create_index False) (indexes_of upgrade_search_indexes)"
  by (simp_all add: indexes_of_def harden_indexes_def upgrade_search_indexes_def List.map_filter_simps)

lemma run_rows:
  assumes "ct_types s = []" "ct_tables s = early_tables"
  shows "run harden_rows s = Some (s\<lparr>ct_types := [''notificationtype''], ct_tables := early_tables @ [notifications_table]\<rparr>)"
  using assms by (simp add: harden_rows_def catalogue_rules early_tables_def grown_users_def)

lemma edits_apply:
  assumes "ct_tables s = early_tables @ [notifications_table]"
  shows "run edits s = Some (s\<lparr>ct_tables := map (fold edit edits) (early_tables @ [notifications_table])\<rparr>)"
proof -
  have "list_all (editable s) edits"
    unfolding edits_def harden_columns_def harden_constraints_def
    using assms by (simp add: has_column_def has_table_def early_tables_def grown_users_def)
  then show ?thesis using assms by (simp add: run_edits)
qed

lemma has_table_iff: "has_table n s \<longleftrightarrow> n \<in> set (map tb_name (ct_tables s))"
  by (auto simp: has_table_def list_ex_iff)

lemma has_table_edited [simp]:
  "has_table n \<lparr>ct_tables = map (fold edit cs) ts, ct_indexes = is, ct_types = ty, ct_triggers = tr\<rparr> \<longleftrightarrow> n \<in> set (map tb_name ts)"
  by (auto simp: has_table_def list_ex_iff)

lemma head_table_names:
  "map tb_name (early_tables @ [notifications_table]) = [''otps'', ''users'', ''connections'', ''messages'', ''posts'', ''comments'',
     ''deleted_messages'', ''message_reactions'', ''message_replies'', ''post_views'', ''shared_posts'', ''votes'', ''comment_votes'',
     ''deleted_shared_posts'', ''shared_post_reactions'', ''shared_post_replies'', ''refresh_tokens'', ''saved_posts'', ''notifications'']"
  by (simp add: early_tables_def grown_users_def)

lemma run_new_indexes:
  "run harden_indexes \<lparr>ct_tables = map (fold edit edits) (early_tables @ [notifications_table]), ct_indexes = early_indexes,
      ct_types = ty, ct_triggers = tr\<rparr> =
   Some \<lparr>ct_tables = map (fold edit edits) (early_tables @ [notifications_table]),
      ct_indexes = early_indexes @ indexes_of harden_indexes, ct_types = ty, ct_triggers = tr\<rparr>"
proof -
  have d: "distinct (map ix_name (indexes_of harden_indexes))"
    by (simp add: indexes_of_def harden_indexes_def List.map_filter_simps)
  have t: "list_all (\<lambda>i. ix_table i \<in> set (map tb_name (early_tables @ [notifications_table]))) (indexes_of harden_indexes)"
    unfolding head_table_names by (simp add: indexes_of_def harden_indexes_def List.map_filter_simps)
  have n: "list_all (\<lambda>i. \<not> list_ex (\<lambda>j. ix_name j = ix_name i) early_indexes) (indexes_of harden_indexes)"
    by (simp add: indexes_of_def harden_indexes_def early_indexes_def List.map_filter_simps)
  show ?thesis
    by (subst index_blocks(1), subst run_indexes [OF d]) (use t n in \<open>simp_all add: has_index_def del: map_append\<close>)
qed

lemma run_last_indexes:
  assumes "ct_tables s = map (fold edit edits) (early_tables @ [notifications_table])"
    "list_all (\<lambda>i. ix_name i \<notin> {''ix_users_username_lower'', ''ix_posts_hashtags''}) (ct_indexes s)"
  shows "run upgrade_search_indexes s = Some (s\<lparr>ct_indexes := ct_indexes s @ indexes_of upgrade_search_indexes\<rparr>)"
proof -
  have i: "map ix_name (indexes_of upgrade_search_indexes) = [''ix_users_username_lower'', ''ix_posts_hashtags'']"
    "map ix_table (indexes_of upgrade_search_indexes) = [''users'', ''posts'']"
    by (simp_all add: indexes_of_def upgrade_search_indexes_def List.map_filter_simps)
  have names: "set (map tb_name (ct_tables s)) = set (map tb_name (early_tables @ [notifications_table]))"
    by (simp add: assms(1) o_def)
  have "has_table ''users'' s" "has_table ''posts'' s"
    unfolding has_table_iff names head_table_names by simp_all
  then have "list_all (\<lambda>i. has_table (ix_table i) s) (indexes_of upgrade_search_indexes)"
    by (simp add: indexes_of_def upgrade_search_indexes_def List.map_filter_simps)
  moreover have "list_all (\<lambda>i. \<not> has_index (ix_name i) s) (indexes_of upgrade_search_indexes)"
    using assms(2) by (fastforce simp: indexes_of_def upgrade_search_indexes_def List.map_filter_simps has_index_def list_all_iff list_ex_iff)
  moreover have "distinct (map ix_name (indexes_of upgrade_search_indexes))" unfolding i by simp
  ultimately have "run (map (Create_index False) (indexes_of upgrade_search_indexes)) s =
      Some (s\<lparr>ct_indexes := ct_indexes s @ indexes_of upgrade_search_indexes\<rparr>)"
    by (intro run_indexes)
  then show ?thesis unfolding index_blocks(2) [symmetric] .
qed

lemma run_triggers:
  assumes "map tb_name (ct_tables s) = map tb_name (early_tables @ [notifications_table])" "ct_triggers s = []"
  shows "run upgrade_counter_triggers s = Some (s\<lparr>ct_triggers := trigger_list\<rparr>)"
proof -
  have t: "has_table ''votes'' s" "has_table ''comment_votes'' s" "has_table ''comments'' s" "has_table ''post_views'' s"
    "has_table ''connections'' s" "has_table ''message_reactions'' s" "has_table ''shared_post_reactions'' s"
    unfolding has_table_iff assms head_table_names by simp_all
  have k: "has_table n (s\<lparr>ct_triggers := g\<rparr>) = has_table n s" for n g
    by (simp add: has_table_def)
  show ?thesis
    using assms(2) by (simp add: upgrade_counter_triggers_def trigger_list_def List.map_filter_simps t k)
qed

lemma run_row_hashing:
  assumes "map tb_name (ct_tables s) = map tb_name (early_tables @ [notifications_table])"
  shows "run upgrade_hash_secrets s = Some s"
proof -
  have "has_table ''refresh_tokens'' s" "has_table ''otps'' s"
    unfolding has_table_iff assms head_table_names by simp_all
  then show ?thesis by (simp add: upgrade_hash_secrets_def)
qed

lemma head_names: "map tb_name (map (fold edit cs) ts) = map tb_name ts"
  by simp

lemma index_absent:
  "list_all (\<lambda>i. ix_name i \<notin> {''ux_users_email_lower'', ''ix_users_email_lower_nonunique'', ''ix_users_username_lower'',
     ''ix_posts_hashtags''}) (early_indexes @ indexes_of harden_indexes)"
  by (simp add: early_indexes_def indexes_of_def harden_indexes_def List.map_filter_simps)

lemma run_hardening:
  "run (upgrade_hardening b) \<lparr>ct_tables = early_tables, ct_indexes = early_indexes, ct_types = [], ct_triggers = []\<rparr> =
   Some \<lparr>ct_tables = map (fold edit edits) (early_tables @ [notifications_table]),
     ct_indexes = early_indexes @ indexes_of harden_indexes @ [if b then plain_email_index else unique_email_index],
     ct_types = [''notificationtype''], ct_triggers = []\<rparr>"
proof -
  have order: "upgrade_hardening b = harden_rows @ edits @ harden_indexes @ [Create_email_index b]"
    by (simp add: upgrade_hardening_def edits_def)
  have users: "''users'' \<in> set (map tb_name (early_tables @ [notifications_table]))"
    unfolding head_table_names by simp
  have absent: "\<not> list_ex (\<lambda>i. ix_name i = ''ux_users_email_lower'') (early_indexes @ indexes_of harden_indexes)"
    "\<not> list_ex (\<lambda>i. ix_name i = ''ix_users_email_lower_nonunique'') (early_indexes @ indexes_of harden_indexes)"
    using index_absent by (simp_all add: list_ex_iff list_all_iff)
  show ?thesis
    unfolding order run_append using users absent
    by (simp add: run_rows edits_apply run_new_indexes has_index_def add_index_def unique_email_index_def
        plain_email_index_def del: map_append list.map append_Cons append_Nil)
qed

lemma head_reached: "upgrade_head b empty_catalogue = Some (head_catalogue b)"
proof -
  have last: "run upgrade_search_indexes \<lparr>ct_tables = map (fold edit edits) (early_tables @ [notifications_table]),
       ct_indexes = early_indexes @ indexes_of harden_indexes @ [if b then plain_email_index else unique_email_index],
       ct_types = [''notificationtype''], ct_triggers = trigger_list\<rparr> = Some (head_catalogue b)"
    using index_absent unfolding head_catalogue_def
    by (subst run_last_indexes) (simp_all add: list_all_iff unique_email_index_def plain_email_index_def)
  have split: "concat (map rv_upgrade (history b)) = (upgrade_fresh_start @ upgrade_notifications @ upgrade_refresh_tokens @
       upgrade_saved_posts @ upgrade_last_seen @ upgrade_email_verified @ upgrade_user_version) @ upgrade_hardening b @
     upgrade_counter_triggers @ upgrade_hash_secrets @ upgrade_search_indexes"
    unfolding history_upgrades by simp
  show ?thesis
    unfolding upgrade_head_def split run_append [of "upgrade_fresh_start @ _"] run_early Option.bind.simps
      run_append [of "upgrade_hardening b"] run_hardening run_append [of upgrade_counter_triggers] run_append [of upgrade_hash_secrets]
    by (simp add: run_triggers run_row_hashing last del: map_append list.map)
qed

section \<open>Against the models\<close>

lemma missing_from_head:
  "missing (head_catalogue False) metadata = [Column_of ''shared_posts'' (Column ''created_at'' Timestamptz False (Some ''now()'')),
      Column_of ''users'' (Column ''nickname'' Varchar True None),
      Index_of (Index ''ix_notifications_owner_id'' ''notifications'' [''owner_id''] False None)]"
  by code_simp

lemma missing_from_models:
  "missing metadata (head_catalogue False) = [Column_of ''users'' (Column ''nickname'' Varchar False None),
      Column_of ''shared_posts'' (Column ''created_at'' Timestamp False (Some ''now()''))]"
  by code_simp

section \<open>Properties\<close>

text \<open>C6: Running the eleven migrations on an empty database succeeds, in one linear history, and yields the schema
  that the models declare, except in exactly three places: \<open>users.nickname\<close> is \<open>NOT NULL\<close> although the model and
  the signup request make it optional, \<open>shared_posts.created_at\<close> has no time zone although the model declares one,
  and the index on \<open>notifications.owner_id\<close> is missing; every other table, column, type, default, key, reference,
  constraint and index is the same on both sides.\<close>

theorem migrations_match_models:
  "\<exists>s. upgrade_head False empty_catalogue = Some s \<and>
    missing s metadata = [Column_of ''shared_posts'' (Column ''created_at'' Timestamptz False (Some ''now()'')),
      Column_of ''users'' (Column ''nickname'' Varchar True None),
      Index_of (Index ''ix_notifications_owner_id'' ''notifications'' [''owner_id''] False None)] \<and>
    missing metadata s = [Column_of ''users'' (Column ''nickname'' Varchar False None),
      Column_of ''shared_posts'' (Column ''created_at'' Timestamp False (Some ''now()''))]"
  using head_reached [of False] missing_from_head missing_from_models by blast

end
