(* ===== verification/Row_Migrations.thy ===== *)
theory Row_Migrations
  imports Migrations Tokens Otp Samples
begin

text \<open>
  What the migrations do to the rows already stored: the clean-up of \<open>d8a5f4b7c2e1\<close>, whether the constraints that
  follow it can be added, and the hashing of \<open>f2a6c1d4b8e9\<close>. Rows are functions from column names to SQL values, so
  that the clean-up is checked against the column and constraint statements of the same revision in \<open>Migrations\<close>.
\<close>

section \<open>Values and rows\<close>

text \<open>\<open>At\<close> is a timestamp.\<close>

datatype sql = Null | Num int | Bool bool | Text string | At int

type_synonym row = "string \<Rightarrow> sql"

type_synonym rows = "string \<Rightarrow> row list"

fun has_sql_type :: "sql_type \<Rightarrow> sql \<Rightarrow> bool" where
  "has_sql_type Integer (Num _) = True"
| "has_sql_type Varchar (Text _) = True"
| "has_sql_type Boolean (Bool _) = True"
| "has_sql_type Timestamp (At _) = True"
| "has_sql_type Timestamptz (At _) = True"
| "has_sql_type (Enumeration _) (Text _) = True"
| "has_sql_type _ _ = False"

text \<open>The rows of a table have values of the declared types, no \<open>NULL\<close> where it is forbidden and distinct keys.\<close>

definition fits :: "table \<Rightarrow> row list \<Rightarrow> bool" where
  "fits t rs \<longleftrightarrow> list_all (\<lambda>r. list_all (\<lambda>c. has_sql_type (cl_type c) (r (cl_name c)) \<or>
       cl_nullable c \<and> r (cl_name c) = Null) (tb_columns t)) rs \<and> distinct (map (\<lambda>r. map r (tb_key t)) rs)"

text \<open>\<open>COALESCE(x, v)\<close> and \<open>GREATEST(COALESCE(x, 0), 0)\<close>.\<close>

definition coalesce :: "sql \<Rightarrow> sql \<Rightarrow> sql" where
  "coalesce v x = (if x = Null then v else x)"

definition greatest :: "sql \<Rightarrow> sql \<Rightarrow> sql" where
  "greatest x y = (case (x, y) of (Num a, Num b) \<Rightarrow> Num (max a b) | (Null, _) \<Rightarrow> y | _ \<Rightarrow> x)"

definition counter :: "sql \<Rightarrow> sql" where
  "counter x = greatest (coalesce (Num 0) x) (Num 0)"

text \<open>\<open>DELETE FROM t WHERE p\<close>, and \<open>UPDATE t SET c = f(c), ..\<close> of every row.\<close>

definition delete_rows :: "string \<Rightarrow> (row \<Rightarrow> bool) \<Rightarrow> rows \<Rightarrow> rows" where
  "delete_rows t p d = d(t := filter (\<lambda>r. \<not> p r) (d t))"

definition assign :: "(string \<times> (sql \<Rightarrow> sql)) list \<Rightarrow> row \<Rightarrow> row" where
  "assign sets r c = (case map_of sets c of None \<Rightarrow> r c | Some f \<Rightarrow> f (r c))"

definition update_rows :: "string \<Rightarrow> (string \<times> (sql \<Rightarrow> sql)) list \<Rightarrow> rows \<Rightarrow> rows" where
  "update_rows t sets d = d(t := map (assign sets) (d t))"

text \<open>A deleted share takes its replies, reactions and per-user deletions along (\<open>ON DELETE CASCADE\<close>).\<close>

definition delete_shares :: "(row \<Rightarrow> bool) \<Rightarrow> rows \<Rightarrow> rows" where
  "delete_shares p d =
     (let gone = map (\<lambda>r. r ''id'') (filter p (d ''shared_posts''));
          cascades = (\<lambda>t. delete_rows t (\<lambda>r. r ''shared_post_id'' \<in> set gone))
      in cascades ''deleted_shared_posts'' (cascades ''shared_post_reactions'' (cascades ''shared_post_replies''
           (delete_rows ''shared_posts'' p d))))"

section \<open>d8a5f4b7c2e1: the clean-up\<close>

definition drop_self_follows :: "rows \<Rightarrow> rows" where
  "drop_self_follows = delete_rows ''connections'' (\<lambda>r. r ''followed_id'' = r ''follower_id'')"

definition drop_broken_shares :: "rows \<Rightarrow> rows" where
  "drop_broken_shares = delete_shares (\<lambda>r. r ''post_id'' = Null \<or> r ''from_user_id'' = Null \<or> r ''to_user_id'' = Null)"

definition drop_broken_share_deletions :: "rows \<Rightarrow> rows" where
  "drop_broken_share_deletions = delete_rows ''deleted_shared_posts'' (\<lambda>r. r ''user_id'' = Null \<or> r ''shared_post_id'' = Null)"

text \<open>\<open>keep.id > dup.id\<close> and equality are not true of \<open>NULL\<close>.\<close>

fun greater :: "sql \<Rightarrow> sql \<Rightarrow> bool" where
  "greater (Num a) (Num b) = (a > b)"
| "greater _ _ = False"

definition same :: "sql \<Rightarrow> sql \<Rightarrow> bool" where
  "same x y \<longleftrightarrow> x \<noteq> Null \<and> x = y"

definition drop_duplicate_share_deletions :: "rows \<Rightarrow> rows" where
  "drop_duplicate_share_deletions d = delete_rows ''deleted_shared_posts'' (\<lambda>keep. list_ex (\<lambda>dup.
     greater (keep ''id'') (dup ''id'') \<and> same (keep ''user_id'') (dup ''user_id'') \<and>
     same (keep ''shared_post_id'') (dup ''shared_post_id'')) (d ''deleted_shared_posts'')) d"

definition drop_nameless_otps :: "rows \<Rightarrow> rows" where
  "drop_nameless_otps = delete_rows ''otps'' (\<lambda>r. r ''email'' = Null)"

definition repair_posts :: "rows \<Rightarrow> rows" where
  "repair_posts = update_rows ''posts''
     [(''likes'', counter), (''dis_likes'', counter), (''views'', counter), (''comments_cnt'', counter)]"

definition repair_comments :: "int \<Rightarrow> rows \<Rightarrow> rows" where
  "repair_comments now = update_rows ''comments'' [(''likes'', counter), (''created_at'', coalesce (At now))]"

definition repair_users :: "rows \<Rightarrow> rows" where
  "repair_users = update_rows ''users'' [(''followers_cnt'', counter), (''following_cnt'', counter)]"

definition repair_messages :: "int \<Rightarrow> rows \<Rightarrow> rows" where
  "repair_messages now = update_rows ''messages'' [(''created_at'', coalesce (At now)),
     (''is_read'', coalesce (Bool False)), (''is_deleted_for_everyone'', coalesce (Bool False)),
     (''is_edited'', coalesce (Bool False)), (''reaction_cnt'', counter), (''is_reply_msg'', coalesce (Bool False)),
     (''is_reply_to_share'', coalesce (Bool False))]"

definition repair_shares :: "int \<Rightarrow> rows \<Rightarrow> rows" where
  "repair_shares now = update_rows ''shared_posts'' [(''created_at'', coalesce (At now)),
     (''is_read'', coalesce (Bool False)), (''is_deleted_for_everyone'', coalesce (Bool False)), (''reaction_cnt'', counter)]"

definition repair_notifications :: "int \<Rightarrow> rows \<Rightarrow> rows" where
  "repair_notifications now = update_rows ''notifications''
     [(''created_at'', coalesce (At now)), (''is_read'', coalesce (Bool False))]"

definition repair_refresh_tokens :: "int \<Rightarrow> rows \<Rightarrow> rows" where
  "repair_refresh_tokens now = update_rows ''refresh_tokens''
     [(''created_at'', coalesce (At now)), (''revoked'', coalesce (Bool False))]"

definition clean_up :: "int \<Rightarrow> rows \<Rightarrow> rows" where
  "clean_up now = repair_refresh_tokens now \<circ> repair_notifications now \<circ> repair_shares now \<circ> repair_messages now \<circ>
     repair_users \<circ> repair_comments now \<circ> repair_posts \<circ> drop_nameless_otps \<circ> drop_duplicate_share_deletions \<circ>
     drop_broken_share_deletions \<circ> drop_broken_shares \<circ> drop_self_follows"

section \<open>Whether the rows allow a statement\<close>

text \<open>A check passes unless it is false; \<open>c >= 0\<close> of a \<open>NULL\<close> is unknown.\<close>

fun nonnegative :: "sql \<Rightarrow> bool" where
  "nonnegative Null = True"
| "nonnegative (Num n) = (0 \<le> n)"
| "nonnegative _ = False"

definition one_of :: "string list \<Rightarrow> sql \<Rightarrow> bool" where
  "one_of names v \<longleftrightarrow> v = Null \<or> v \<in> Text ` set names"

text \<open>The three comparisons the checks of the revision use, by their expression.\<close>

definition satisfies :: "string \<Rightarrow> row \<Rightarrow> bool" where
  "satisfies e r \<longleftrightarrow>
     (if e = ''followed_id <> follower_id'' then r ''followed_id'' = Null \<or> r ''followed_id'' \<noteq> r ''follower_id''
      else if e = ''(media_type IS NULL) OR (media_type IN ('image', 'video'))''
      then one_of [''image'', ''video''] (r ''media_type'')
      else if e = ''(media_type IS NULL) OR (media_type IN ('false', 'image', 'video', 'audio'))''
      then one_of [''false'', ''image'', ''video'', ''audio''] (r ''media_type'')
      else if e = ''(entity_type IS NULL) OR (entity_type IN ('post', 'comment'))''
      then one_of [''post'', ''comment''] (r ''entity_type'')
      else drop (length e - 5) e = '' >= 0'' \<and> nonnegative (r (take (length e - 5) e)))"

definition unique_rows :: "string list \<Rightarrow> row list \<Rightarrow> bool" where
  "unique_rows cols rs \<longleftrightarrow> distinct (filter (\<lambda>vs. Null \<notin> set vs) (map (\<lambda>r. map r cols) rs))"

text \<open>\<open>GROUP BY lower(email) HAVING count(*) > 1\<close>; \<open>fold_case\<close> is PostgreSQL's, which depends on the locale.\<close>

definition addresses :: "(sql \<Rightarrow> sql) \<Rightarrow> rows \<Rightarrow> sql list" where
  "addresses fold_case d = map (\<lambda>r. fold_case (r ''email'')) (filter (\<lambda>r. r ''email'' \<noteq> Null) (d ''users''))"

definition shared_addresses :: "(sql \<Rightarrow> sql) \<Rightarrow> rows \<Rightarrow> bool" where
  "shared_addresses fold_case d \<longleftrightarrow> \<not> distinct (addresses fold_case d)"

fun rows_allow :: "(sql \<Rightarrow> sql) \<Rightarrow> rows \<Rightarrow> ddl \<Rightarrow> bool" where
  "rows_allow fold_case d (Alter_column t c _ (Some False)) = list_all (\<lambda>r. r c \<noteq> Null) (d t)"
| "rows_allow fold_case d (Add_check t _ e) = list_all (satisfies e) (d t)"
| "rows_allow fold_case d (Add_unique t _ cols) = unique_rows cols (d t)"
| "rows_allow fold_case d (Create_email_index shared) = (shared \<or> distinct (addresses fold_case d))"
| "rows_allow fold_case d _ = True"

text \<open>The whole revision on stored rows.\<close>

definition harden :: "(sql \<Rightarrow> sql) \<Rightarrow> int \<Rightarrow> rows \<Rightarrow> rows option" where
  "harden fold_case now d =
     (let d' = clean_up now d
      in if list_all (rows_allow fold_case d') (upgrade_hardening (shared_addresses fold_case d')) then Some d' else None)"

section \<open>The rows after the clean-up\<close>

lemma coalesce_not_null [simp]: "coalesce v x = Null \<longleftrightarrow> v = Null \<and> x = Null"
  by (simp add: coalesce_def)

lemma counter_not_null [simp]: "counter x \<noteq> Null"
  by (cases x) (simp_all add: counter_def greatest_def coalesce_def)

lemma counter_nonnegative [simp]: "nonnegative (counter x) \<longleftrightarrow> x = Null \<or> (\<exists>n. x = Num n)"
  by (cases x) (simp_all add: counter_def greatest_def coalesce_def)

lemma has_sql_type_Integer: "has_sql_type Integer v \<longleftrightarrow> (\<exists>n. v = Num n)"
  by (cases v) simp_all

text \<open>Every step leaves the tables it does not name as they are.\<close>

lemma other_tables [simp]:
  "u \<noteq> t \<Longrightarrow> delete_rows t p d u = d u" "u \<noteq> t \<Longrightarrow> update_rows t sets d u = d u"
  by (simp_all add: delete_rows_def update_rows_def)

lemma this_table:
  "delete_rows t p d t = filter (\<lambda>r. \<not> p r) (d t)" "update_rows t sets d t = map (assign sets) (d t)"
  by (simp_all add: delete_rows_def update_rows_def)

lemma drop_frames:
  "t \<noteq> ''connections'' \<Longrightarrow> drop_self_follows d t = d t" "t \<noteq> ''otps'' \<Longrightarrow> drop_nameless_otps d t = d t"
  "t \<noteq> ''deleted_shared_posts'' \<Longrightarrow> drop_broken_share_deletions d t = d t"
  "t \<noteq> ''deleted_shared_posts'' \<Longrightarrow> drop_duplicate_share_deletions d t = d t"
  by (simp_all add: drop_self_follows_def drop_nameless_otps_def drop_broken_share_deletions_def
      drop_duplicate_share_deletions_def)

lemma share_frame:
  "t \<notin> {''shared_posts'', ''deleted_shared_posts'', ''shared_post_reactions'', ''shared_post_replies''} \<Longrightarrow>
   drop_broken_shares d t = d t"
  by (simp add: drop_broken_shares_def delete_shares_def Let_def)

lemma repair_frames:
  "t \<noteq> ''posts'' \<Longrightarrow> repair_posts d t = d t" "t \<noteq> ''comments'' \<Longrightarrow> repair_comments now d t = d t"
  "t \<noteq> ''users'' \<Longrightarrow> repair_users d t = d t" "t \<noteq> ''messages'' \<Longrightarrow> repair_messages now d t = d t"
  "t \<noteq> ''shared_posts'' \<Longrightarrow> repair_shares now d t = d t"
  "t \<noteq> ''notifications'' \<Longrightarrow> repair_notifications now d t = d t"
  "t \<noteq> ''refresh_tokens'' \<Longrightarrow> repair_refresh_tokens now d t = d t"
  by (simp_all add: repair_posts_def repair_comments_def repair_users_def repair_messages_def repair_shares_def
      repair_notifications_def repair_refresh_tokens_def)

lemmas frames = drop_frames share_frame repair_frames

definition kept_shares :: "rows \<Rightarrow> row list" where
  "kept_shares d = filter (\<lambda>r. r ''post_id'' \<noteq> Null \<and> r ''from_user_id'' \<noteq> Null \<and> r ''to_user_id'' \<noteq> Null) (d ''shared_posts'')"

lemma kept: "drop_broken_shares d ''shared_posts'' = kept_shares d"
  by (simp add: drop_broken_shares_def delete_shares_def Let_def this_table kept_shares_def)

lemma clean_up_rows:
  "clean_up now d ''connections'' = filter (\<lambda>r. r ''followed_id'' \<noteq> r ''follower_id'') (d ''connections'')"
  "clean_up now d ''otps'' = filter (\<lambda>r. r ''email'' \<noteq> Null) (d ''otps'')"
  by (simp_all add: clean_up_def frames, simp_all add: drop_self_follows_def drop_nameless_otps_def this_table frames)

lemma clean_up_repairs:
  "clean_up now d ''posts'' = repair_posts d ''posts''"
  "clean_up now d ''comments'' = repair_comments now d ''comments''"
  "clean_up now d ''users'' = repair_users d ''users''"
  "clean_up now d ''messages'' = repair_messages now d ''messages''"
  "clean_up now d ''notifications'' = repair_notifications now d ''notifications''"
  "clean_up now d ''refresh_tokens'' = repair_refresh_tokens now d ''refresh_tokens''"
  by (simp_all add: clean_up_def frames, simp_all add: repair_posts_def repair_comments_def repair_users_def
      repair_messages_def repair_notifications_def repair_refresh_tokens_def this_table frames)

lemma clean_up_shares:
  "clean_up now d ''shared_posts'' = repair_shares now (d(''shared_posts'' := kept_shares d)) ''shared_posts''"
  "clean_up now d ''deleted_shared_posts'' =
     drop_duplicate_share_deletions (drop_broken_share_deletions (drop_broken_shares (drop_self_follows d))) ''deleted_shared_posts''"
  by (simp_all add: clean_up_def frames, simp add: repair_shares_def this_table frames kept, simp add: kept_shares_def frames)

section \<open>The columns and constraints it allows\<close>

text \<open>The tables the clean-up works on, as the earlier revisions left them.\<close>

definition stored :: "rows \<Rightarrow> bool" where
  "stored d \<longleftrightarrow> list_all (\<lambda>t. fits t (d (tb_name t))) [otps_table, users_table, connections_table, posts_table, comments_table,
     shared_posts_table, deleted_shared_posts_table, messages_table, notifications_table, refresh_tokens_table]"

text \<open>The values of the columns no statement cleans.\<close>

definition known_kinds :: "rows \<Rightarrow> bool" where
  "known_kinds d \<longleftrightarrow> (\<forall>r\<in>set (d ''posts''). one_of [''image'', ''video''] (r ''media_type'')) \<and>
     (\<forall>r\<in>set (d ''messages''). one_of [''false'', ''image'', ''video'', ''audio''] (r ''media_type'')) \<and>
     (\<forall>r\<in>set (d ''notifications''). one_of [''post'', ''comment''] (r ''entity_type''))"

lemma assign_simps [simp]:
  "assign ((c, f) # sets) r c' = (if c' = c then f (r c') else assign sets r c')" "assign [] r c' = r c'"
  by (simp_all add: assign_def)

lemma columns_allow: "list_all (rows_allow fold_case (clean_up now d)) harden_columns"
proof -
  have "r ''user_id'' \<noteq> Null \<and> r ''shared_post_id'' \<noteq> Null" if "r \<in> set (clean_up now d ''deleted_shared_posts'')" for r
    using that by (auto simp: clean_up_shares drop_duplicate_share_deletions_def drop_broken_share_deletions_def this_table)
  then show ?thesis
    by (simp add: harden_columns_def list_all_iff clean_up_rows clean_up_repairs clean_up_shares(1) repair_posts_def
        repair_comments_def repair_messages_def repair_shares_def repair_notifications_def repair_refresh_tokens_def this_table
        kept_shares_def)
qed

lemma duplicates_dropped:
  assumes k: "distinct (map (\<lambda>r. r ''id'') (d ''deleted_shared_posts''))"
    and n: "\<And>r. r \<in> set (d ''deleted_shared_posts'') \<Longrightarrow>
      (\<exists>n. r ''id'' = Num n) \<and> r ''user_id'' \<noteq> Null \<and> r ''shared_post_id'' \<noteq> Null"
  shows "unique_rows [''user_id'', ''shared_post_id''] (drop_duplicate_share_deletions d ''deleted_shared_posts'')"
proof -
  let ?rs = "d ''deleted_shared_posts''" and ?row = "\<lambda>r. map r [''user_id'', ''shared_post_id'']"
  have id: "distinct ?rs" using k by (simp add: distinct_map)
  have first: "\<not> list_ex (\<lambda>dup. greater (r ''id'') (dup ''id'') \<and> same (r ''user_id'') (dup ''user_id'') \<and>
      same (r ''shared_post_id'') (dup ''shared_post_id'')) ?rs"
    if "r \<in> set (drop_duplicate_share_deletions d ''deleted_shared_posts'')" for r
    using that by (simp add: drop_duplicate_share_deletions_def this_table)
  have "inj_on ?row (set (drop_duplicate_share_deletions d ''deleted_shared_posts''))"
  proof (rule inj_onI)
    fix r r' assume r: "r \<in> set (drop_duplicate_share_deletions d ''deleted_shared_posts'')"
      and r': "r' \<in> set (drop_duplicate_share_deletions d ''deleted_shared_posts'')" and e: "?row r = ?row r'"
    have m: "r \<in> set ?rs" "r' \<in> set ?rs"
      using r r' by (simp_all add: drop_duplicate_share_deletions_def this_table)
    obtain a b where ids: "r ''id'' = Num a" "r' ''id'' = Num b" using n [OF m(1)] n [OF m(2)] by blast
    have "\<not> a > b" using first [OF r] m e n [OF m(1)] ids by (auto simp: list_ex_iff same_def)
    moreover have "\<not> b > a" using first [OF r'] m e n [OF m(2)] ids by (auto simp: list_ex_iff same_def)
    ultimately have "r ''id'' = r' ''id''" using ids by simp
    then show "r = r'" using k m by (auto simp: distinct_map inj_on_def)
  qed
  then show ?thesis using id by (simp add: unique_rows_def distinct_map drop_duplicate_share_deletions_def this_table)
qed

text \<open>The types of the columns that are compared with 0.\<close>

lemma counter_column:
  assumes "fits t rs" "list_ex (\<lambda>x. cl_name x = c \<and> cl_type x = Integer) (tb_columns t)" "r \<in> set rs"
  shows "nonnegative (counter (r c))"
proof -
  obtain x where x: "x \<in> set (tb_columns t)" "cl_name x = c" "cl_type x = Integer" using assms(2) by (auto simp: list_ex_iff)
  then have "has_sql_type Integer (r c) \<or> r c = Null" using assms(1,3) by (force simp: fits_def list_all_iff)
  then show ?thesis by (auto simp: has_sql_type_Integer)
qed

lemma number_column:
  assumes "fits t rs" "Column c Integer False df \<in> set (tb_columns t)" "r \<in> set rs"
  shows "\<exists>n. r c = Num n"
proof -
  have "has_sql_type Integer (r c)" using assms by (fastforce simp: fits_def list_all_iff)
  then show ?thesis by (simp add: has_sql_type_Integer)
qed

lemma satisfies_simps:
  "satisfies ''followed_id <> follower_id'' r \<longleftrightarrow> r ''followed_id'' = Null \<or> r ''followed_id'' \<noteq> r ''follower_id''"
  "satisfies ''likes >= 0'' r \<longleftrightarrow> nonnegative (r ''likes'')" "satisfies ''dis_likes >= 0'' r \<longleftrightarrow> nonnegative (r ''dis_likes'')"
  "satisfies ''views >= 0'' r \<longleftrightarrow> nonnegative (r ''views'')"
  "satisfies ''comments_cnt >= 0'' r \<longleftrightarrow> nonnegative (r ''comments_cnt'')"
  "satisfies ''followers_cnt >= 0'' r \<longleftrightarrow> nonnegative (r ''followers_cnt'')"
  "satisfies ''following_cnt >= 0'' r \<longleftrightarrow> nonnegative (r ''following_cnt'')"
  "satisfies ''reaction_cnt >= 0'' r \<longleftrightarrow> nonnegative (r ''reaction_cnt'')"
  "satisfies ''(media_type IS NULL) OR (media_type IN ('image', 'video'))'' r \<longleftrightarrow> one_of [''image'', ''video''] (r ''media_type'')"
  "satisfies ''(media_type IS NULL) OR (media_type IN ('false', 'image', 'video', 'audio'))'' r \<longleftrightarrow>
     one_of [''false'', ''image'', ''video'', ''audio''] (r ''media_type'')"
  "satisfies ''(entity_type IS NULL) OR (entity_type IN ('post', 'comment'))'' r \<longleftrightarrow> one_of [''post'', ''comment''] (r ''entity_type'')"
  by (simp_all add: satisfies_def)

lemma stored_counters:
  assumes "stored d"
  shows "r \<in> set (d ''posts'') \<Longrightarrow> nonnegative (counter (r ''likes''))"
    and "r \<in> set (d ''posts'') \<Longrightarrow> nonnegative (counter (r ''dis_likes''))"
    and "r \<in> set (d ''posts'') \<Longrightarrow> nonnegative (counter (r ''views''))"
    and "r \<in> set (d ''posts'') \<Longrightarrow> nonnegative (counter (r ''comments_cnt''))"
    and "r \<in> set (d ''comments'') \<Longrightarrow> nonnegative (counter (r ''likes''))"
    and "r \<in> set (d ''users'') \<Longrightarrow> nonnegative (counter (r ''followers_cnt''))"
    and "r \<in> set (d ''users'') \<Longrightarrow> nonnegative (counter (r ''following_cnt''))"
    and "r \<in> set (d ''messages'') \<Longrightarrow> nonnegative (counter (r ''reaction_cnt''))"
    and "r \<in> set (d ''shared_posts'') \<Longrightarrow> nonnegative (counter (r ''reaction_cnt''))"
proof -
  have f: "fits posts_table (d ''posts'')" "fits comments_table (d ''comments'')" "fits users_table (d ''users'')"
    "fits messages_table (d ''messages'')" "fits shared_posts_table (d ''shared_posts'')"
    using assms by (simp_all add: stored_def posts_table_def comments_table_def users_table_def messages_table_def shared_posts_table_def)
  show "r \<in> set (d ''posts'') \<Longrightarrow> nonnegative (counter (r ''likes''))" "r \<in> set (d ''posts'') \<Longrightarrow> nonnegative (counter (r ''dis_likes''))"
    "r \<in> set (d ''posts'') \<Longrightarrow> nonnegative (counter (r ''views''))" "r \<in> set (d ''posts'') \<Longrightarrow> nonnegative (counter (r ''comments_cnt''))"
    by (rule counter_column [OF f(1)]; simp add: posts_table_def)+
  show "r \<in> set (d ''comments'') \<Longrightarrow> nonnegative (counter (r ''likes''))"
    by (rule counter_column [OF f(2)]; simp add: comments_table_def)
  show "r \<in> set (d ''users'') \<Longrightarrow> nonnegative (counter (r ''followers_cnt''))"
    "r \<in> set (d ''users'') \<Longrightarrow> nonnegative (counter (r ''following_cnt''))"
    by (rule counter_column [OF f(3)]; simp add: users_table_def)+
  show "r \<in> set (d ''messages'') \<Longrightarrow> nonnegative (counter (r ''reaction_cnt''))"
    by (rule counter_column [OF f(4)]; simp add: messages_table_def)
  show "r \<in> set (d ''shared_posts'') \<Longrightarrow> nonnegative (counter (r ''reaction_cnt''))"
    by (rule counter_column [OF f(5)]; simp add: shared_posts_table_def)
qed

lemma share_deletions_unique:
  assumes "stored d"
  shows "unique_rows [''user_id'', ''shared_post_id''] (clean_up now d ''deleted_shared_posts'')"
proof -
  let ?e = "drop_broken_share_deletions (drop_broken_shares (drop_self_follows d))"
  have f: "fits deleted_shared_posts_table (d ''deleted_shared_posts'')"
    using assms by (simp add: stored_def deleted_shared_posts_table_def)
  have s: "\<exists>P. ?e ''deleted_shared_posts'' = filter P (d ''deleted_shared_posts'')"
    by (auto simp: drop_broken_share_deletions_def drop_broken_shares_def delete_shares_def Let_def this_table frames filter_filter)
  have ids: "distinct (map (\<lambda>r. r ''id'') (d ''deleted_shared_posts''))"
    using f by (auto simp: fits_def deleted_shared_posts_table_def distinct_map inj_on_def)
  have k: "distinct (map (\<lambda>r. r ''id'') (?e ''deleted_shared_posts''))"
    using s ids distinct_map_filter by metis
  have "(\<exists>n. r ''id'' = Num n) \<and> r ''user_id'' \<noteq> Null \<and> r ''shared_post_id'' \<noteq> Null"
    if "r \<in> set (?e ''deleted_shared_posts'')" for r
  proof -
    have "r \<in> set (d ''deleted_shared_posts'')" using that s by auto
    then have "\<exists>n. r ''id'' = Num n" by (rule number_column [OF f, rotated]) (simp add: deleted_shared_posts_table_def)
    then show ?thesis using that by (simp add: drop_broken_share_deletions_def this_table)
  qed
  then show ?thesis unfolding clean_up_shares(2) using k by (intro duplicates_dropped) auto
qed

lemma constraints_allow:
  assumes "stored d"
  shows "list_all (rows_allow fold_case (clean_up now d)) harden_constraints \<longleftrightarrow> known_kinds d"
  unfolding harden_constraints_def known_kinds_def
  by (simp add: satisfies_simps share_deletions_unique [OF assms] clean_up_rows clean_up_repairs clean_up_shares(1)
      repair_posts_def repair_comments_def repair_users_def repair_messages_def repair_shares_def repair_notifications_def
      this_table kept_shares_def stored_counters [OF assms] list_all_iff del: counter_nonnegative)

section \<open>f2a6c1d4b8e9: hashing stored secrets\<close>

text \<open>\<open>if token and len(token) != 64\<close>\<close>

definition unhashed :: "string \<Rightarrow> bool" where
  "unhashed s \<longleftrightarrow> s \<noteq> '''' \<and> length s \<noteq> 64"

text \<open>One row after the other; the update of a refresh token fails when another row has that token already.\<close>

fun hash_refresh_rows :: "(string \<Rightarrow> string) \<Rightarrow> refresh_token list \<Rightarrow> refresh_token list \<Rightarrow> refresh_token list option" where
  "hash_refresh_rows sha256_hex seen [] = Some seen"
| "hash_refresh_rows sha256_hex seen (t # ts) =
     (if unhashed (t_token t)
      then let h = sha256_hex (t_token t)
           in if h \<in> t_token ` set (seen @ ts) then None else hash_refresh_rows sha256_hex (seen @ [t\<lparr>t_token := h\<rparr>]) ts
      else hash_refresh_rows sha256_hex (seen @ [t]) ts)"

definition hash_otp_rows :: "(string \<Rightarrow> string) \<Rightarrow> otp_row list \<Rightarrow> otp_row list" where
  "hash_otp_rows sha256_hex = update_where (\<lambda>r. unhashed (o_otp r)) (\<lambda>r. r\<lparr>o_otp := sha256_hex (o_otp r)\<rparr>)"

definition hash_auth_secrets :: "(string \<Rightarrow> string) \<Rightarrow> database \<Rightarrow> database option" where
  "hash_auth_secrets sha256_hex d = map_option (\<lambda>ts. set_otps (hash_otp_rows sha256_hex (otps d)) (set_refresh_tokens ts d))
     (hash_refresh_rows sha256_hex [] (refresh_tokens d))"

text \<open>With secrets that hash to different digests every row is hashed.\<close>

lemma hash_refresh_rows_all:
  assumes "\<And>x. length (sha x) = 64" "inj_on sha (t_token ` set rows)" "distinct (map t_token rows)"
    "list_all (\<lambda>t. unhashed (t_token t)) ts" "rows = past @ ts"
  shows "hash_refresh_rows sha (map (\<lambda>t. t\<lparr>t_token := sha (t_token t)\<rparr>) past) ts = Some (map (\<lambda>t. t\<lparr>t_token := sha (t_token t)\<rparr>) rows)"
  using assms(4,5)
proof (induction ts arbitrary: past)
  case (Cons t ts)
  have "length (t_token u) \<noteq> 64" if "u \<in> set ts" for u using Cons.prems(1) that by (simp add: list_all_iff unhashed_def)
  then have "sha (t_token t) \<notin> t_token ` set ts" using assms(1) by (metis imageE)
  moreover have "sha (t_token t) \<noteq> sha (t_token u)" if "u \<in> set past" for u
    using that Cons.prems(2) assms(2,3) by (auto simp: inj_on_def)
  ultimately have "sha (t_token t) \<notin> t_token ` set (map (\<lambda>t. t\<lparr>t_token := sha (t_token t)\<rparr>) past @ ts)" by force
  then show ?case using Cons.IH [of "past @ [t]"] Cons.prems by (simp add: Let_def)
qed simp

lemma hash_refresh_rows_none:
  "list_all (\<lambda>t. \<not> unhashed (t_token t)) ts \<Longrightarrow> hash_refresh_rows sha seen ts = Some (seen @ ts)"
  by (induction ts arbitrary: seen) auto

lemma hash_otp_rows_hashed: "(\<And>x. length (sha x) = 64) \<Longrightarrow> hash_otp_rows sha (hash_otp_rows sha rs) = hash_otp_rows sha rs"
  by (simp add: hash_otp_rows_def update_where_def unhashed_def)

lemma find_hashed:
  assumes "inj_on sha S" "t_token ` set ts \<subseteq> S" "raw \<in> S"
  shows "find (\<lambda>t. t_token t = sha raw) (map (\<lambda>t. t\<lparr>t_token := sha (t_token t)\<rparr>) ts) =
    map_option (\<lambda>t. t\<lparr>t_token := sha raw\<rparr>) (find (\<lambda>t. t_token t = raw) ts)"
  using assms(2) by (induction ts) (use assms(1,3) in \<open>auto simp: inj_on_def\<close>)

lemma find_otp_hashed:
  "find (\<lambda>r. o_email r = e) (hash_otp_rows sha rs) =
   map_option (\<lambda>r. if unhashed (o_otp r) then r\<lparr>o_otp := sha (o_otp r)\<rparr> else r) (find (\<lambda>r. o_email r = e) rs)"
  by (induction rs) (auto simp: hash_otp_rows_def update_where_def)

section \<open>Properties\<close>

text \<open>C13: The hardening revision \<open>d8a5f4b7c2e1\<close> can be applied to any stored data that fits the schema before it, exactly when
  the columns it constrains but does not clean (\<open>posts.media_type\<close>, \<open>messages.media_type\<close>, \<open>notifications.entity_type\<close>)
  hold only the listed words: its clean-up alone makes every other column it tightens non-null, every counter
  non-negative, every remaining self-follow and duplicate deletion disappear.\<close>

theorem hardening_succeeds_iff:
  assumes "stored d"
  shows "harden fold_case now d = (if known_kinds d then Some (clean_up now d) else None)"
proof -
  have "list_all (rows_allow fold_case (clean_up now d)) harden_rows" "list_all (rows_allow fold_case (clean_up now d)) harden_indexes"
    by (simp_all add: harden_rows_def harden_indexes_def)
  moreover have "rows_allow fold_case e (Create_email_index (shared_addresses fold_case e))" for e
    by (simp add: shared_addresses_def)
  ultimately show ?thesis
    using columns_allow constraints_allow [OF assms] by (simp add: harden_def Let_def upgrade_hardening_def)
qed

lemma hardening_succeeds_iff_witness:
  "let r = (\<lambda>c. if c = ''media_type'' then Text ''gif'' else if c \<in> {''title'', ''content''} then Text ''t''
        else if c = ''enable_comments'' then Bool True else if c = ''created_at'' then At 0
        else if c \<in> {''media_path'', ''hashtags''} then Null else Num 1);
      d = (\<lambda>t. if t = ''posts'' then [r] else [])
   in harden id 5 d = None \<and> harden id 5 (\<lambda>t. []) \<noteq> None"
proof -
  let ?r = "\<lambda>c. if c = ''media_type'' then Text ''gif'' else if c \<in> {''title'', ''content''} then Text ''t''
        else if c = ''enable_comments'' then Bool True else if c = ''created_at'' then At 0
        else if c \<in> {''media_path'', ''hashtags''} then Null else Num 1"
  let ?d = "\<lambda>t. if t = ''posts'' then [?r] else []"
  have "stored ?d" "stored (\<lambda>t. [])"
    by (simp_all add: stored_def fits_def otps_table_def users_table_def connections_table_def posts_table_def comments_table_def
        shared_posts_table_def deleted_shared_posts_table_def messages_table_def notifications_table_def refresh_tokens_table_def)
  moreover have "\<not> known_kinds ?d" "known_kinds (\<lambda>t. [])" by (simp_all add: known_kinds_def one_of_def image_iff)
  ultimately show ?thesis using hardening_succeeds_iff [of ?d id 5] hardening_succeeds_iff [of "\<lambda>t. []" id 5]
    unfolding Let_def by simp
qed

text \<open>C24: Hashing the stored secrets (revision \<open>f2a6c1d4b8e9\<close>) keeps every session and every pending code usable: after it a
  refresh token is found by its digest exactly when the token itself was stored before, with the same owner, family and
  state; a one-time password is accepted exactly when it was the stored one and has not expired; and running the
  revision again changes nothing. This is for stored secrets none of which is empty or looks hashed already (64 characters), with
  distinct tokens and no collision of SHA-256 among the secrets concerned.\<close>

theorem hash_migration_keeps_credentials:
  assumes len: "\<And>x. length (sha x) = 64" and inj: "inj_on sha S"
    and stored: "t_token ` set (refresh_tokens d) \<subseteq> S" "o_otp ` set (otps d) \<subseteq> S" "raw \<in> S" "otp \<in> S"
    and keys: "distinct (map t_token (refresh_tokens d))"
    and fresh: "list_all (\<lambda>t. unhashed (t_token t)) (refresh_tokens d)" "list_all (\<lambda>r. unhashed (o_otp r)) (otps d)"
  shows "\<exists>d'. hash_auth_secrets sha d = Some d' \<and> hash_auth_secrets sha d' = Some d' \<and>
    find (\<lambda>t. t_token t = sha raw) (refresh_tokens d') =
      map_option (\<lambda>t. t\<lparr>t_token := sha raw\<rparr>) (find (\<lambda>t. t_token t = raw) (refresh_tokens d)) \<and>
    (fst (checkOtp sha tz email otp (w\<lparr>w_db := d'\<rparr>)) \<longleftrightarrow>
      (case find (\<lambda>r. o_email r = email) (otps d) of None \<Rightarrow> False
       | Some r \<Rightarrow> \<not> o_expires_at r < local_now tz w \<and> o_otp r = otp))"
proof -
  let ?ts = "map (\<lambda>t. t\<lparr>t_token := sha (t_token t)\<rparr>) (refresh_tokens d)"
  let ?d = "set_otps (hash_otp_rows sha (otps d)) (set_refresh_tokens ?ts d)"
  have "hash_refresh_rows sha [] (refresh_tokens d) = Some ?ts"
    using hash_refresh_rows_all [OF len inj_on_subset [OF inj stored(1)] keys fresh(1), of "[]"] by simp
  then have hashed: "hash_auth_secrets sha d = Some ?d" by (simp add: hash_auth_secrets_def)
  have again: "hash_auth_secrets sha ?d = Some ?d"
    using hash_refresh_rows_none [of ?ts sha "[]"] len hash_otp_rows_hashed [OF len]
    by (simp add: hash_auth_secrets_def list_all_iff unhashed_def set_otps_def set_refresh_tokens_def)
  have "fst (checkOtp sha tz email otp (w\<lparr>w_db := ?d\<rparr>)) \<longleftrightarrow> (case find (\<lambda>r. o_email r = email) (otps d) of None \<Rightarrow> False
       | Some r \<Rightarrow> \<not> o_expires_at r < local_now tz w \<and> o_otp r = otp)"
  proof (cases "find (\<lambda>r. o_email r = email) (otps d)")
    case (Some r)
    then have r: "r \<in> set (otps d)" by (auto simp: find_Some_iff)
    then have "unhashed (o_otp r)" "o_otp r \<in> S" using fresh(2) stored(2) by (auto simp: list_all_iff)
    then show ?thesis using Some inj stored(4) by (auto simp: checkOtp_def find_otp_hashed inj_on_def local_now_def)
  qed (simp add: checkOtp_def find_otp_hashed)
  then show ?thesis using hashed again find_hashed [OF inj stored(1,3)] by (intro exI [of _ ?d]) simp
qed

text \<open>A digest of 64 characters for the witness.\<close>

definition padded :: "string \<Rightarrow> string" where
  "padded x = take 64 (x @ replicate 64 (CHR 0x30))"

lemma hash_migration_keeps_credentials_witness:
  "let d = set_otps [\<lparr>o_email = ''e'', o_otp = ''123456'', o_expires_at = 9000001, o_created_at = 0\<rparr>]
        (set_refresh_tokens [\<lparr>t_token = ''raw'', t_user_id = 1, t_family_id = ''f'', t_revoked = False, t_expires_at = 9,
           t_created_at = 0\<rparr>] sample_db)
   in \<exists>d'. hash_auth_secrets padded d = Some d' \<and> find (\<lambda>t. t_token t = padded ''raw'') (refresh_tokens d') \<noteq> None \<and>
        fst (checkOtp padded 0 ''e'' ''123456'' (sample_world\<lparr>w_db := d'\<rparr>))"
proof -
  let ?d = "set_otps [\<lparr>o_email = ''e'', o_otp = ''123456'', o_expires_at = 9000001, o_created_at = 0\<rparr>]
        (set_refresh_tokens [\<lparr>t_token = ''raw'', t_user_id = 1, t_family_id = ''f'', t_revoked = False, t_expires_at = 9,
           t_created_at = 0\<rparr>] sample_db)"
  have len: "length (padded x) = 64" for x by (simp add: padded_def)
  have "hd (padded ''raw'') \<noteq> hd (padded ''123456'')" by (simp add: padded_def)
  then have inj: "inj_on padded {''raw'', ''123456''}" unfolding inj_on_def by auto
  have d: "refresh_tokens ?d = [\<lparr>t_token = ''raw'', t_user_id = 1, t_family_id = ''f'', t_revoked = False, t_expires_at = 9,
      t_created_at = 0\<rparr>]" "otps ?d = [\<lparr>o_email = ''e'', o_otp = ''123456'', o_expires_at = 9000001, o_created_at = 0\<rparr>]"
    by (simp_all add: set_refresh_tokens_def)
  obtain d' where "hash_auth_secrets padded ?d = Some d'"
    "find (\<lambda>t. t_token t = padded ''raw'') (refresh_tokens d') =
      map_option (\<lambda>t. t\<lparr>t_token := padded ''raw''\<rparr>) (find (\<lambda>t. t_token t = ''raw'') (refresh_tokens ?d))"
    "fst (checkOtp padded 0 ''e'' ''123456'' (sample_world\<lparr>w_db := d'\<rparr>)) \<longleftrightarrow>
      (case find (\<lambda>r. o_email r = ''e'') (otps ?d) of None \<Rightarrow> False
       | Some r \<Rightarrow> \<not> o_expires_at r < local_now 0 sample_world \<and> o_otp r = ''123456'')"
    using hash_migration_keeps_credentials [of padded "{''raw'', ''123456''}" ?d "''raw''" "''123456''" 0 "''e''" sample_world]
      len inj unfolding d by (auto simp: unhashed_def)
  then show ?thesis unfolding d Let_def by (auto simp: local_now_def sample_world_def)
qed

end
