(* ===== verification/Scheduling.thy ===== *)
theory Scheduling
  imports Views Otp
begin

text \<open>
  \<open>app/celery_app.py\<close> and \<open>app/tasks/__init__.py\<close>: the beat schedule and the tasks that a worker started with
  \<open>-A app.celery_app\<close> has registered. A task is registered when the module that defines it is imported; the worker imports
  \<open>app.celery_app\<close> and what \<open>autodiscover_tasks\<close> names: the package \<open>app.tasks\<close> and its submodule \<open>tasks\<close>, if there is one.
  A message whose name is not registered is dropped (Celery's \<open>Received unregistered task\<close>).
\<close>

section \<open>Registered tasks\<close>

text \<open>The modules of the application that the modules of the worker import at their top level.\<close>

definition module_imports :: "(string \<times> string list) list" where
  "module_imports =
     [(''app.celery_app'', [''app.config'', ''app.utils.logging'']),
      (''app.utils.logging'', [''app.config'']),
      (''app.config'', []),
      (''app.db'', [''app.config'']),
      (''app.models'', [''app.db'']),
      (''app.services.email_service'', [''app.config'']),
      (''app.services.redis_service'', [''app.config'']),
      (''app.services.reconciliation_service'', [''app.models'']),
      (''app.tasks'', [''app.tasks.email_tasks'', ''app.tasks.notification_tasks'', ''app.tasks.otp_cleanup_task'']),
      (''app.tasks.email_tasks'', [''app.celery_app'', ''app.services.email_service'']),
      (''app.tasks.notification_tasks'', [''app.celery_app'', ''app.models'']),
      (''app.tasks.otp_cleanup_task'', [''app.celery_app'', ''app.db'', ''app.models'']),
      (''app.tasks.reconciliation_task'', [''app.celery_app'', ''app.db'', ''app.services.reconciliation_service'']),
      (''app.tasks.post_view_flush_task'', [''app.celery_app'', ''app.services.redis_service'', ''app.db''])]"

definition imports_of :: "string \<Rightarrow> string list" where
  "imports_of m = (case map_of module_imports m of None \<Rightarrow> [] | Some ms \<Rightarrow> ms)"

text \<open>The names under which the decorated functions of a module are registered.\<close>

definition defined_tasks :: "string \<Rightarrow> string list" where
  "defined_tasks m =
     (if m = ''app.tasks.email_tasks''
      then [''app.tasks.email_tasks.send_otp_email'', ''app.tasks.email_tasks.send_verification_email'']
      else if m = ''app.tasks.notification_tasks'' then [''app.tasks.notification_tasks.create_notification_task'']
      else if m = ''app.tasks.otp_cleanup_task'' then [''app.tasks.otp_cleanup_task.cleanup_expired_otps'']
      else if m = ''app.tasks.reconciliation_task'' then [''app.tasks.reconciliation_task.reconcile_denormalized_counters_task'']
      else if m = ''app.tasks.post_view_flush_task'' then [''app.tasks.post_view_flush.flush_post_views'']
      else [])"

text \<open>Importing modules one after the other, each once, with the modules it imports.\<close>

fun import_all :: "nat \<Rightarrow> string list \<Rightarrow> string list \<Rightarrow> string list" where
  "import_all 0 loaded ms = loaded"
| "import_all (Suc n) loaded [] = loaded"
| "import_all (Suc n) loaded (m # ms) =
     (if m \<in> set loaded then import_all n loaded ms else import_all n (m # loaded) (imports_of m @ ms))"

definition autodiscover_tasks :: "string list \<Rightarrow> string list" where
  "autodiscover_tasks packages = concat (map (\<lambda>p. p # filter (\<lambda>m. m \<in> fst ` set module_imports) [p @ ''.tasks'']) packages)"

definition worker_modules :: "string list" where
  "worker_modules = import_all 50 [] (''app.celery_app'' # autodiscover_tasks [''app.tasks''])"

definition registered :: "string \<Rightarrow> bool" where
  "registered name \<longleftrightarrow> list_ex (\<lambda>m. name \<in> set (defined_tasks m)) worker_modules"

section \<open>The schedule\<close>

text \<open>\<open>crontab(minute=.., hour=..)\<close>: a number, \<open>*/n\<close> or \<open>*\<close>. Beat runs in UTC; time is in minutes since the epoch.\<close>

datatype field = Only nat | Each nat | Any

fun field_matches :: "field \<Rightarrow> nat \<Rightarrow> bool" where
  "field_matches (Only k) v = (v = k)"
| "field_matches (Each n) v = (v mod n = 0)"
| "field_matches Any v = True"

record schedule_entry =
  se_task :: string
  se_minute :: field
  se_hour :: field

definition beat_schedule :: "schedule_entry list" where
  "beat_schedule =
     [\<lparr>se_task = ''app.tasks.otp_cleanup_task.cleanup_expired_otps'', se_minute = Only 0, se_hour = Any\<rparr>,
      \<lparr>se_task = ''app.tasks.reconciliation_task.reconcile_denormalized_counters_task'', se_minute = Only 0, se_hour = Each 6\<rparr>,
      \<lparr>se_task = ''app.tasks.post_view_flush_task.flush_post_views'', se_minute = Each 5, se_hour = Any\<rparr>]"

definition due :: "nat \<Rightarrow> schedule_entry \<Rightarrow> bool" where
  "due t e \<longleftrightarrow> field_matches (se_minute e) (t mod 60) \<and> field_matches (se_hour e) (t div 60 mod 24)"

definition sent :: "nat \<Rightarrow> string list" where
  "sent t = map se_task (filter (due t) beat_schedule)"

section \<open>What the worker does\<close>

text \<open>The bodies behind the registered names; the e-mail and notification tasks are not scheduled.\<close>

definition run_task :: "string \<Rightarrow> world \<Rightarrow> world" where
  "run_task name w =
     (if \<not> registered name then w
      else if name = ''app.tasks.otp_cleanup_task.cleanup_expired_otps'' then cleanup_expired_otps w
      else if name = ''app.tasks.reconciliation_task.reconcile_denormalized_counters_task''
      then w\<lparr>w_db := snd (reconcile_denormalized_counters (w_db w))\<rparr>
      else if name = ''app.tasks.post_view_flush.flush_post_views'' then snd (flush_post_views True True w)
      else w)"

text \<open>The tasks sent in the minutes from \<open>t\<close> on, each executed in its minute.\<close>

fun run_schedule :: "nat \<Rightarrow> nat \<Rightarrow> world \<Rightarrow> world" where
  "run_schedule 0 t w = w"
| "run_schedule (Suc n) t w =
     run_schedule n (t + 1) (fold run_task (sent t) (w\<lparr>w_now := int t * 60 * 1000000\<rparr>))"

section \<open>Lemmas\<close>

lemma worker_modules_eq:
  "worker_modules = [''app.tasks.otp_cleanup_task'', ''app.db'', ''app.models'', ''app.tasks.notification_tasks'',
      ''app.services.email_service'', ''app.tasks.email_tasks'', ''app.tasks'', ''app.utils.logging'', ''app.config'', ''app.celery_app'']"
  by code_simp

text \<open>Fifty steps are enough: nothing that a loaded module imports is missing.\<close>

lemma worker_modules_closed: "list_all (\<lambda>m. list_all (\<lambda>x. x \<in> set worker_modules) (imports_of m)) worker_modules"
  by (simp add: worker_modules_eq imports_of_def module_imports_def)

lemma registered_iff:
  "registered ''app.tasks.otp_cleanup_task.cleanup_expired_otps''"
  "\<not> registered ''app.tasks.reconciliation_task.reconcile_denormalized_counters_task''"
  "\<not> registered ''app.tasks.post_view_flush_task.flush_post_views''"
  by (simp_all add: registered_def worker_modules_eq defined_tasks_def)

lemma sixth_hour: "(t::nat) mod 60 = 0 \<and> t div 60 mod 24 mod 6 = 0 \<longleftrightarrow> t mod 360 = 0"
proof -
  have "t div 60 mod 24 mod 6 = t div 60 mod 6" by (simp add: mod_mod_cancel)
  moreover have "t mod 360 = 60 * (t div 60 mod 6) + t mod 60" using mod_mult2_eq [of t 60 6] by simp
  ultimately show ?thesis by auto
qed

lemma sent_eq:
  "sent t = (if t mod 60 = 0 then [''app.tasks.otp_cleanup_task.cleanup_expired_otps''] else []) @
     (if t mod 360 = 0 then [''app.tasks.reconciliation_task.reconcile_denormalized_counters_task''] else []) @
     (if t mod 5 = 0 then [''app.tasks.post_view_flush_task.flush_post_views''] else [])"
proof -
  have "t mod 60 mod 5 = t mod 5" by (simp add: mod_mod_cancel)
  then have "due t \<lparr>se_task = a, se_minute = Each 5, se_hour = Any\<rparr> \<longleftrightarrow> t mod 5 = 0"
    "due t \<lparr>se_task = a, se_minute = Only 0, se_hour = Each 6\<rparr> \<longleftrightarrow> t mod 360 = 0"
    "due t \<lparr>se_task = a, se_minute = Only 0, se_hour = Any\<rparr> \<longleftrightarrow> t mod 60 = 0" for a
    using sixth_hour [of t] by (simp_all add: due_def)
  then show ?thesis by (simp add: sent_def beat_schedule_def)
qed

lemma set_otps_same: "set_otps (otps d) d = d"
  by (simp add: set_otps_def)

text \<open>What one minute of the schedule does.\<close>

lemma minute_run:
  "fold run_task (sent t) w = (if t mod 60 = 0 then cleanup_expired_otps w else w)"
  by (simp add: sent_eq run_task_def registered_iff)

section \<open>Properties\<close>

text \<open>C28: Of the three scheduled tasks a worker runs only one. Beat sends the clean-up of one-time passwords every hour, the
  reconciliation of the counters every six hours and the flush of the post views every five minutes, but the modules of the
  last two are never imported by the worker (and the flush is registered under another name than the schedule uses): over
  any number of minutes only \<open>otps\<close> changes, the queue of views is never drained and no counter is ever repaired.\<close>

theorem schedule_runs_only_cleanup:
  "filter registered (sent t) = (if t mod 60 = 0 then [''app.tasks.otp_cleanup_task.cleanup_expired_otps''] else []) \<and>
   (sent t \<noteq> [] \<longleftrightarrow> t mod 5 = 0) \<and> (\<exists>rows. w_db (run_schedule n t w) = set_otps rows (w_db w)) \<and>
   w_redis (run_schedule n t w) = w_redis w"
proof -
  have one: "filter registered (sent t) = (if t mod 60 = 0 then [''app.tasks.otp_cleanup_task.cleanup_expired_otps''] else [])"
    by (simp add: sent_eq registered_iff)
  have "t mod 60 = 0 \<Longrightarrow> t mod 5 = 0" "t mod 360 = 0 \<Longrightarrow> t mod 5 = 0" by presburger+
  then have five: "sent t \<noteq> [] \<longleftrightarrow> t mod 5 = 0" by (auto simp: sent_eq)
  have "(\<exists>rows. w_db (run_schedule n t w) = set_otps rows (w_db w)) \<and> w_redis (run_schedule n t w) = w_redis w"
  proof (induction n arbitrary: t w)
    case 0
    show ?case using set_otps_same [of "w_db w"] by (metis run_schedule.simps(1))
  next
    case (Suc n)
    let ?v = "fold run_task (sent t) (w\<lparr>w_now := int t * 60 * 1000000\<rparr>)"
    have v: "\<exists>rows. w_db ?v = set_otps rows (w_db w)" "w_redis ?v = w_redis w"
      using set_otps_same [of "w_db w"] by (auto simp: minute_run cleanup_expired_otps_def delete_otps_def intro: sym)
    obtain rows where "w_db (run_schedule n (t + 1) ?v) = set_otps rows (w_db ?v)" using Suc by blast
    then show ?case using v Suc [of "t + 1" ?v] by (auto simp: set_otps_def)
  qed
  then show ?thesis using one five by blast
qed

end
