(* ===== verification/Observability.thy ===== *)
theory Observability
  imports Errors
begin

text \<open>
  \<open>app/utils/observability.py\<close> and \<open>app/utils/logging.py\<close>: the logging middleware around every request with the
  context of structlog that the error handlers read, the address of the trace exporter, and what is set up in each mode.
  Durations are left out of the log entries. The random request id and the id of the current span are arguments.
\<close>

section \<open>The set-up of logging\<close>

text \<open>The chain of processors and the level of each mode; a bound logger drops the entries below its level.\<close>

datatype log_level = DEBUG | INFO | WARNING | ERROR

definition setup_logging :: "bool \<Rightarrow> bool \<Rightarrow> string list \<times> log_level" where
  "setup_logging production_mode benchmark_mode_enabled =
     (let shared_processors = [''merge_contextvars'', ''add_log_level'', ''TimeStamper'', ''add_otel_trace_id'', ''format_exc_info'',
            ''CallsiteParameterAdder'']
      in (shared_processors @ (if production_mode then [''dict_tracebacks'', ''JSONRenderer''] else [''ConsoleRenderer'']),
          if benchmark_mode_enabled then ERROR else if production_mode then INFO else DEBUG))"

fun enabled :: "log_level \<Rightarrow> log_level \<Rightarrow> bool" where
  "enabled DEBUG l = True"
| "enabled INFO l = (l \<noteq> DEBUG)"
| "enabled WARNING l = (l \<in> {WARNING, ERROR})"
| "enabled ERROR l = (l = ERROR)"

section \<open>The logging middleware\<close>

text \<open>The messages an ASGI application sends; other kinds (trailers, pushes) are \<open>Other\<close>.\<close>

datatype asgi_message =
    is_start: Response_start (am_status: nat) (am_headers: "(string \<times> string) list")
  | Response_body json
  | Other string

type_synonym log_context = "(string \<times> json) list"

text \<open>
  What the wrapped application does, seen from the middleware: it sends messages and binds the user's id, and returns or
  raises. It may depend on the context it starts in.
\<close>

datatype action = Send asgi_message | Bind_user int

type_synonym asgi_app = "log_context \<Rightarrow> action list \<times> raised option"

record http_request =
  rq_type :: string
  rq_method :: string
  rq_path :: string
  rq_headers :: "(string \<times> string) list"   \<comment> \<open>names in lower case, as ASGI delivers them\<close>

text \<open>\<open>format(n, '032x')\<close>\<close>

fun hex :: "nat \<Rightarrow> string" where
  "hex n = (if n < 16 then [(''0123456789abcdef'') ! n] else hex (n div 16) @ [(''0123456789abcdef'') ! (n mod 16)])"

declare hex.simps [simp del]

definition hex32 :: "nat \<Rightarrow> string" where
  "hex32 n = replicate (32 - length (hex n)) (CHR ''0'') @ hex n"

definition trace_id :: "bool \<Rightarrow> nat option \<Rightarrow> string" where
  "trace_id production_mode current =
     (if production_mode then replicate 32 (CHR ''0'')
      else case current of None \<Rightarrow> replicate 32 (CHR ''0'')
                      | Some n \<Rightarrow> if n = 0 then replicate 32 (CHR ''0'') else hex32 n)"

text \<open>\<open>send_wrapper\<close>: the message that is passed on and the context after it.\<close>

fun send_wrapper :: "string \<Rightarrow> string \<Rightarrow> asgi_message \<Rightarrow> log_context \<Rightarrow> asgi_message \<times> log_context" where
  "send_wrapper trace request_id (Response_start status headers) ctx =
     (Response_start status (headers @ [(''x-trace-id'', trace), (''x-request-id'', request_id)]),
      dict_set ''status_code'' (JInt (int status)) ctx)"
| "send_wrapper trace request_id m ctx = (m, ctx)"

fun run_actions :: "(asgi_message \<Rightarrow> log_context \<Rightarrow> asgi_message \<times> log_context) \<Rightarrow> action list \<Rightarrow> log_context \<Rightarrow>
    asgi_message list \<times> log_context" where
  "run_actions send [] ctx = ([], ctx)"
| "run_actions send (Send m # as) ctx =
     (let (m', ctx') = send m ctx; (ms, ctx'') = run_actions send as ctx' in (m' # ms, ctx''))"
| "run_actions send (Bind_user u # as) ctx = run_actions send as (dict_set ''user_id'' (JInt u) ctx)"

text \<open>What a call leaves behind: the messages sent, the entries logged, the context, the exception it raises.\<close>

record call =
  ca_sent :: "asgi_message list"
  ca_logged :: "log_context list"
  ca_context :: log_context
  ca_raised :: "raised option"

definition request_id_of :: "string \<Rightarrow> http_request \<Rightarrow> string" where
  "request_id_of new_id req = (case map_of (rq_headers req) ''x-request-id'' of None \<Rightarrow> new_id | Some i \<Rightarrow> i)"

text \<open>The entry at the end is written at level INFO.\<close>

definition LoggingASGIMiddleware :: "bool \<Rightarrow> bool \<Rightarrow> nat option \<Rightarrow> string \<Rightarrow> asgi_app \<Rightarrow> http_request \<Rightarrow> log_context \<Rightarrow> call" where
  "LoggingASGIMiddleware production_mode benchmark_mode current new_id app req ctx =
     (if rq_type req \<noteq> ''http''
      then (let (as, e) = app ctx; (ms, ctx') = run_actions Pair as ctx
            in \<lparr>ca_sent = ms, ca_logged = [], ca_context = ctx', ca_raised = e\<rparr>)
      else (let request_id = request_id_of new_id req;
                bound = [(''request_id'', JStr request_id), (''method'', JStr (rq_method req)), (''path'', JStr (rq_path req))];
                (as, e) = app bound;
                (ms, ctx') = run_actions (send_wrapper (trace_id production_mode current) request_id) as bound
            in \<lparr>ca_sent = ms,
                 ca_logged = (if enabled (snd (setup_logging production_mode benchmark_mode)) INFO
                              then [ctx' @ [(''event'', JStr ''request_processed'')]] else []),
                 ca_context = [], ca_raised = e\<rparr>))"

section \<open>Failing routes\<close>

text \<open>\<open>get_contextvars().get('request_id')\<close>\<close>

definition bound_request_id :: "log_context \<Rightarrow> string option" where
  "bound_request_id ctx = (case map_of ctx ''request_id'' of Some (JStr i) \<Rightarrow> Some i | _ \<Rightarrow> None)"

definition json_response :: "response \<Rightarrow> asgi_message list" where
  "json_response r = [Response_start (fst r) [(''content-type'', ''application/json'')], Response_body (snd r)]"

text \<open>
  A route that raises. Starlette runs the handlers of specific classes inside the middleware, and the handler of
  \<open>Exception\<close> around all of it, when nothing was sent yet. An \<open>HTTPException\<close> is answered by FastAPI with its detail
  and headers (its statuses here all allow a body); the validation handler may itself raise \<open>TypeError\<close>.
\<close>

definition failing_route :: "(exn \<Rightarrow> string list) \<Rightarrow> raised \<Rightarrow> asgi_app" where
  "failing_route mro e ctx =
     (case e of
        Http_exception status detail headers \<Rightarrow>
          (map Send [Response_start status (headers @ [(''content-type'', ''application/json'')]),
                     Response_body (JObj [(''detail'', detail)])], None)
      | _ \<Rightarrow>
          (case first_handler (\<lambda>c. if c = ''Exception'' then None
                                    else register_exception_handlers (bound_request_id ctx) e c) (class_chain mro e) of
             Some r \<Rightarrow> (map Send (json_response r), None)
           | None \<Rightarrow> ([], Some (if e = Invalid_request None then Escaped TypeError [] else e))))"

definition server_error :: "call \<Rightarrow> asgi_message list" where
  "server_error c = (case ca_raised c of
      None \<Rightarrow> ca_sent c
    | Some e \<Rightarrow> ca_sent c @ (if list_ex is_start (ca_sent c) then []
                            else json_response (universal_exception_handler (bound_request_id (ca_context c)))))"

section \<open>The exporter of traces\<close>

text \<open>\<open>urlparse\<close>: leading controls and spaces, tabs and line ends are dropped; scheme, network location and path.\<close>

definition is_alpha :: "char \<Rightarrow> bool" where
  "is_alpha c \<longleftrightarrow> (let n = of_char c :: nat in 65 \<le> n \<and> n \<le> 90 \<or> 97 \<le> n \<and> n \<le> 122)"

definition scheme_char :: "char \<Rightarrow> bool" where
  "scheme_char c \<longleftrightarrow> is_alpha c \<or> (of_char c :: nat) \<in> {48..57} \<or> c \<in> set ''+-.''"

definition until :: "string \<Rightarrow> string \<Rightarrow> string" where
  "until stops s = takeWhile (\<lambda>c. c \<notin> set stops) s"

definition split_scheme :: "string \<Rightarrow> string \<times> string" where
  "split_scheme url =
     (let s = until '':'' url
      in if s \<noteq> '''' \<and> length s < length url \<and> is_alpha (hd s) \<and> list_all scheme_char s
         then (lower s, drop (length s + 1) url) else ('''', url))"

text \<open>The parameters behind \<open>;\<close> in the last segment of the path are split off for the usual schemes.\<close>

definition without_params :: "string \<Rightarrow> string" where
  "without_params p = (let tail = rev (until ''/'' (rev p)) in take (length p - length tail) p @ until '';'' tail)"

definition urlparse :: "string \<Rightarrow> (string \<times> string \<times> string) outcome" where
  "urlparse text =
     (let url = filter (\<lambda>c. (of_char c :: nat) \<notin> {9, 10, 13}) (dropWhile (\<lambda>c. (of_char c :: nat) \<le> 32) text);
          (scheme, rest) = split_scheme url;
          netloc = (if take 2 rest = ''//'' then until ''/?#'' (drop 2 rest) else '''');
          path = until ''?'' (until ''#'' (if take 2 rest = ''//'' then drop (2 + length netloc) rest else rest))
      in if (CHR ''['' \<in> set netloc) \<noteq> (CHR '']'' \<in> set netloc) then Raise ValueError
         else Return (scheme, netloc, if scheme \<in> set ['''', ''ftp'', ''hdl'', ''prospero'', ''http'', ''https'', ''shttp'', ''rtsp'', ''rtsps'', ''sip'', ''sips'', ''mms'', ''sftp'', ''tel''] then without_params path else path))"

definition rstrip_slash :: "string \<Rightarrow> string" where
  "rstrip_slash s = rev (dropWhile (\<lambda>c. c = CHR ''/'') (rev s))"

definition lstrip_slash :: "string \<Rightarrow> string" where
  "lstrip_slash s = dropWhile (\<lambda>c. c = CHR ''/'') s"

datatype exporter = Http_exporter string | Grpc_exporter string

definition or_default :: "string \<Rightarrow> string \<Rightarrow> string" where
  "or_default s d = (if s = '''' then d else s)"

definition build_otlp_span_exporter :: "string \<Rightarrow> string \<Rightarrow> exporter option outcome" where
  "build_otlp_span_exporter protocol endpoint =
     (let proto = lower (or_default protocol ''grpc'')
      in if endpoint = '''' then Return None
         else if proto \<in> set [''http'', ''http/protobuf'', ''http-protobuf'', ''protobuf'']
         then map_outcome (\<lambda>(scheme, netloc, path).
                let base_url = rstrip_slash (scheme @ ''://'' @ or_default netloc path)
                in Some (Http_exporter (if suffix ''/v1/traces'' base_url then base_url else base_url @ ''/v1/traces'')))
                (urlparse (if sublist ''://'' endpoint then endpoint else ''http://'' @ endpoint))
         else if sublist ''://'' endpoint
         then map_outcome (\<lambda>(scheme, netloc, path). Some (Grpc_exporter (or_default netloc (lstrip_slash path)))) (urlparse endpoint)
         else Return (Some (Grpc_exporter endpoint)))"

section \<open>Set-up\<close>

datatype set_up =
    Logging_middleware
  | Batch_processor exporter
  | Console_processor
  | Tracer_provider
  | Instrument_fastapi
  | Instrument_sqlalchemy
  | Expose_metrics

definition configure_observability :: "bool \<Rightarrow> string \<Rightarrow> string \<Rightarrow> bool \<Rightarrow> set_up list outcome" where
  "configure_observability production_mode protocol endpoint console =
     (if production_mode then Return [Logging_middleware]
      else map_outcome (\<lambda>otlp. (case otlp of None \<Rightarrow> [] | Some e \<Rightarrow> [Batch_processor e]) @
             (if console then [Console_processor] else []) @
             [Tracer_provider, Instrument_fastapi, Instrument_sqlalchemy, Expose_metrics, Logging_middleware])
             (build_otlp_span_exporter protocol endpoint))"

text \<open>
  \<open>app/utils/logging.py\<close>: the two processors of the module. A span is
  its trace and span id, valid when neither is 0.
\<close>

definition hex16 :: "nat \<Rightarrow> string" where
  "hex16 n = replicate (16 - length (hex n)) (CHR ''0'') @ hex n"

definition add_otel_trace_id :: "bool \<Rightarrow> (nat \<times> nat) option \<Rightarrow> log_context \<Rightarrow> log_context" where
  "add_otel_trace_id production_mode current event_dict =
     (if production_mode then event_dict
      else case current of
          None \<Rightarrow> event_dict
        | Some (t, s) \<Rightarrow> if t = 0 \<or> s = 0 then event_dict
                         else dict_set ''span_id'' (JStr (hex16 s)) (dict_set ''trace_id'' (JStr (hex32 t)) event_dict))"

definition drop_color_if_prod :: "bool \<Rightarrow> log_context \<Rightarrow> log_context" where
  "drop_color_if_prod production_mode event_dict =
     (if production_mode then filter (\<lambda>(k, _). k \<notin> {''_record'', ''_from_structlog''}) event_dict else event_dict)"

section \<open>Lemmas\<close>

text \<open>\<open>drop_color_if_prod\<close> is defined but part of no chain.\<close>

lemma colour_filter_unused: "''drop_color_if_prod'' \<notin> set (fst (setup_logging p b))"
  by (simp add: setup_logging_def)


text \<open>The messages of the application with the two headers on every start, and the status it ends with.\<close>

fun tagged :: "string \<Rightarrow> string \<Rightarrow> action list \<Rightarrow> asgi_message list" where
  "tagged trace rid [] = []"
| "tagged trace rid (Send (Response_start st hs) # as) =
     Response_start st (hs @ [(''x-trace-id'', trace), (''x-request-id'', rid)]) # tagged trace rid as"
| "tagged trace rid (Send m # as) = m # tagged trace rid as"
| "tagged trace rid (Bind_user u # as) = tagged trace rid as"

fun final_status :: "json option \<Rightarrow> action list \<Rightarrow> json option" where
  "final_status s [] = s"
| "final_status s (Send (Response_start st hs) # as) = final_status (Some (JInt (int st))) as"
| "final_status s (_ # as) = final_status s as"

lemma run_actions_tagged: "fst (run_actions (send_wrapper trace rid) as ctx) = tagged trace rid as"
  by (induction trace rid as arbitrary: ctx rule: tagged.induct) (simp_all add: Let_def case_prod_beta)

lemma map_of_dict_set: "map_of (dict_set k v d) = (map_of d)(k \<mapsto> v)"
  by (simp add: dict_set_def update_conv')

lemma run_actions_context:
  "k \<notin> {''user_id'', ''status_code''} \<Longrightarrow> map_of (snd (run_actions (send_wrapper trace rid) as ctx)) k = map_of ctx k"
  by (induction trace rid as arbitrary: ctx rule: tagged.induct) (simp_all add: Let_def case_prod_beta map_of_dict_set)

lemma run_actions_status:
  "map_of (snd (run_actions (send_wrapper trace rid) as ctx)) ''status_code'' = final_status (map_of ctx ''status_code'') as"
  by (induction trace rid as arbitrary: ctx rule: tagged.induct) (simp_all add: Let_def case_prod_beta map_of_dict_set)

lemma first_handler_None: "first_handler h cs = None \<longleftrightarrow> (\<forall>c\<in>set cs. h c = None)"
  by (induction cs) (auto split: option.splits)

lemma first_handler_Some: "first_handler h cs = Some r \<Longrightarrow> \<exists>c\<in>set cs. h c = Some r"
  by (induction cs) (auto split: option.splits)

text \<open>Whether a class has a handler does not depend on the request id, and every answer carries the id it is given.\<close>

lemma handler_exists: "register_exception_handlers rid e c = None \<longleftrightarrow> register_exception_handlers rid' e c = None"
  by (cases e) (simp_all add: validation_exception_handler_def)

lemma handler_body:
  "register_exception_handlers (Some rid) e c = Some r \<Longrightarrow> \<exists>body. snd r = JObj body \<and> map_of body ''request_id'' = Some (JStr rid)"
  by (cases e) (auto simp: app_exception_handler_def universal_exception_handler_def validation_exception_handler_def
      integrity_exception_handler_def operational_error_handler_def sqlalchemy_exception_handler_def error_body_def jstr_opt_def
      split: if_splits)

section \<open>Properties\<close>

text \<open>C32: Whatever the application does with a request, including raising, the logging middleware passes its messages on
  with the trace and request id on every response start, logs exactly one entry with the request's id, method, path and
  final status (none in benchmark mode, whose level is ERROR), and leaves no context behind; the exception is passed on.\<close>

theorem request_logged_once:
  "let rid = request_id_of new_id req;
       c = LoggingASGIMiddleware production benchmark current new_id app (req\<lparr>rq_type := ''http''\<rparr>) ctx;
       (as, e) = app [(''request_id'', JStr rid), (''method'', JStr (rq_method req)), (''path'', JStr (rq_path req))]
   in ca_sent c = tagged (trace_id production current) rid as \<and> ca_raised c = e \<and> ca_context c = [] \<and>
      (\<exists>entry. ca_logged c = (if benchmark then [] else [entry]) \<and> map_of entry ''request_id'' = Some (JStr rid) \<and>
         map_of entry ''method'' = Some (JStr (rq_method req)) \<and> map_of entry ''path'' = Some (JStr (rq_path req)) \<and>
         map_of entry ''status_code'' = final_status None as)"
proof -
  let ?rid = "request_id_of new_id req"
  let ?bound = "[(''request_id'', JStr ?rid), (''method'', JStr (rq_method req)), (''path'', JStr (rq_path req))]"
  obtain as e where a: "app ?bound = (as, e)" by fastforce
  obtain ms ctx' where r: "run_actions (send_wrapper (trace_id production current) ?rid) as ?bound = (ms, ctx')" by fastforce
  have same: "request_id_of new_id (req\<lparr>rq_type := ''http''\<rparr>) = ?rid" by (simp add: request_id_of_def)
  have "ms = tagged (trace_id production current) ?rid as" using run_actions_tagged [of _ _ as ?bound] r by (metis fst_conv)
  moreover have "map_of ctx' ''request_id'' = map_of ?bound ''request_id''" "map_of ctx' ''method'' = map_of ?bound ''method''"
    "map_of ctx' ''path'' = map_of ?bound ''path''"
    using run_actions_context [of _ "trace_id production current" ?rid as ?bound] r by simp_all
  moreover have "map_of ctx' ''status_code'' = final_status None as" using run_actions_status [of "trace_id production current" ?rid as ?bound] r by simp
  moreover have "enabled (snd (setup_logging production benchmark)) INFO = (\<not> benchmark)"
    by (simp add: setup_logging_def)
  ultimately show ?thesis using a r
    by (simp add: LoggingASGIMiddleware_def same Let_def)
      (intro conjI impI exI [of _ "ctx' @ [(''event'', JStr ''request_processed'')]"], simp_all add: map_add_def split: option.split)
qed

text \<open>C33: The request id is in the body of a failure response exactly for the failures that a handler of the application for
  a specific class answers; there, and with an \<open>HTTPException\<close>, whose body is its bare detail, the two id headers are
  set. Any other failure, including a rejected request whose errors can not be rendered as JSON, is answered outside the
  logging middleware, after the context is cleared: the 500 response has \<open>request_id: null\<close> in its body and no
  \<open>X-Request-Id\<close> or \<open>X-Trace-Id\<close> header.\<close>

theorem unhandled_error_untraceable:
  "let rid = request_id_of new_id req;
       ids = [(''x-trace-id'', trace_id production current), (''x-request-id'', rid)];
       handled = (\<exists>c\<in>set (class_chain mro e). c \<noteq> ''Exception'' \<and> register_exception_handlers None e c \<noteq> None);
       out = server_error (LoggingASGIMiddleware production benchmark current new_id (failing_route mro e) (req\<lparr>rq_type := ''http''\<rparr>) ctx)
   in case e of
        Http_exception st detail hs \<Rightarrow> out = [Response_start st (hs @ [(''content-type'', ''application/json'')] @ ids),
             Response_body (JObj [(''detail'', detail)])]
      | _ \<Rightarrow> if handled
             then \<exists>st body. out = [Response_start st ((''content-type'', ''application/json'') # ids), Response_body (JObj body)] \<and>
               map_of body ''request_id'' = Some (JStr rid)
             else out = [Response_start 500 [(''content-type'', ''application/json'')],
               Response_body (error_body ''INTERNAL_SERVER_ERROR'' ''An unexpected error occurred. Please try again later.'' [] None)]"
proof (cases "\<exists>st d hs. e = Http_exception st d hs")
  case True
  then show ?thesis
    by (auto simp: LoggingASGIMiddleware_def failing_route_def server_error_def request_id_of_def Let_def)
next
  case False
  let ?rid = "request_id_of new_id req"
  let ?bound = "[(''request_id'', JStr ?rid), (''method'', JStr (rq_method req)), (''path'', JStr (rq_path req))]"
  let ?h = "\<lambda>c. if c = ''Exception'' then None else register_exception_handlers (Some ?rid) e c"
  let ?handled = "\<exists>c\<in>set (class_chain mro e). c \<noteq> ''Exception'' \<and> register_exception_handlers None e c \<noteq> None"
  let ?out = "server_error (LoggingASGIMiddleware production benchmark current new_id (failing_route mro e) (req\<lparr>rq_type := ''http''\<rparr>) ctx)"
  have id: "bound_request_id ?bound = Some ?rid" "request_id_of new_id (req\<lparr>rq_type := ''http''\<rparr>) = ?rid"
    by (simp_all add: bound_request_id_def request_id_of_def)
  have route: "failing_route mro e ?bound = (case first_handler ?h (class_chain mro e) of
      Some r \<Rightarrow> (map Send (json_response r), None)
    | None \<Rightarrow> ([], Some (if e = Invalid_request None then Escaped TypeError [] else e)))"
    using False by (cases e) (simp_all only: failing_route_def id raised.case, blast+)
  have "if ?handled
      then \<exists>st body. ?out = [Response_start st [(''content-type'', ''application/json''),
             (''x-trace-id'', trace_id production current), (''x-request-id'', ?rid)], Response_body (JObj body)] \<and>
             map_of body ''request_id'' = Some (JStr ?rid)
      else ?out = [Response_start 500 [(''content-type'', ''application/json'')],
             Response_body (error_body ''INTERNAL_SERVER_ERROR'' ''An unexpected error occurred. Please try again later.'' [] None)]"
  proof (cases "first_handler ?h (class_chain mro e)")
    case None
    then have "\<forall>c\<in>set (class_chain mro e). ?h c = None" by (simp add: first_handler_None)
    then have "\<not> ?handled"
      using handler_exists [of None e _ "Some ?rid"] by auto
    moreover have "?out = json_response (universal_exception_handler None)"
      using route None by (simp add: LoggingASGIMiddleware_def id(2) Let_def server_error_def bound_request_id_def)
    ultimately show ?thesis by (simp add: json_response_def universal_exception_handler_def)
  next
    case (Some r)
    then obtain c where c: "c \<in> set (class_chain mro e)" "?h c = Some r" using first_handler_Some [OF Some] by blast
    then have h: "c \<noteq> ''Exception''" "register_exception_handlers (Some ?rid) e c = Some r" by (simp_all split: if_splits)
    then have "register_exception_handlers None e c \<noteq> None" using handler_exists [of None e c "Some ?rid"] by simp
    then have handled: "?handled = True"
      using c(1) h(1) by blast
    obtain body where body: "snd r = JObj body" "map_of body ''request_id'' = Some (JStr ?rid)"
      using handler_body [OF h(2)] by blast
    have "?out = [Response_start (fst r) [(''content-type'', ''application/json''), (''x-trace-id'', trace_id production current),
           (''x-request-id'', ?rid)], Response_body (JObj body)]"
      using body route Some by (simp add: LoggingASGIMiddleware_def id(2) Let_def server_error_def json_response_def)
    then show ?thesis using body unfolding handled if_True by blast
  qed
  then show ?thesis using False by (cases e) (simp_all only: Let_def raised.case append.simps, blast+)
qed

text \<open>The scheme and the network location of an address.\<close>

definition plain_host :: "string \<Rightarrow> bool" where
  "plain_host host \<longleftrightarrow> host \<noteq> '''' \<and> list_all (\<lambda>c. c \<notin> set ''/?#[]'' \<and> (of_char c :: nat) > 32) host"

lemma until_stop: "list_all (\<lambda>c. c \<notin> set stops) s \<Longrightarrow> x \<in> set stops \<Longrightarrow> until stops (s @ x # rest) = s"
  unfolding until_def by (subst takeWhile_append2) (auto simp: list_all_iff)

lemma host_kept: "plain_host host \<Longrightarrow> filter (\<lambda>c. (of_char c :: nat) \<notin> {9, 10, 13}) host = host"
proof (rule filter_True, rule ballI)
  fix c assume h: "plain_host host" "c \<in> set host"
  have "(of_char c :: nat) > 32" using h by (simp add: plain_host_def list_all_iff)
  moreover have "n > 32 \<Longrightarrow> n \<notin> {9, 10, 13}" for n :: nat by simp
  ultimately show "(of_char c :: nat) \<notin> {9, 10, 13}" by blast
qed

lemma urlparse_address:
  assumes h: "plain_host host"
  shows "\<exists>path'. urlparse (''http://'' @ host @ ''/'' @ path) = Return (''http'', host, path')"
    and "\<exists>path'. urlparse (''https://'' @ host @ ''/'' @ path) = Return (''https'', host, path')"
proof -
  let ?path = "filter (\<lambda>c. (of_char c :: nat) \<notin> {9, 10, 13}) path"
  have n: "until ''/?#'' (host @ CHR ''/'' # ?path) = host"
    by (rule until_stop) (use h in \<open>auto simp: plain_host_def list_all_iff\<close>)
  have b: "CHR ''['' \<notin> set host" "CHR '']'' \<notin> set host" using h by (auto simp: plain_host_def list_all_iff)
  have f: "filter (\<lambda>c. (of_char c :: nat) \<notin> {9, 10, 13}) (dropWhile (\<lambda>c. (of_char c :: nat) \<le> 32) (s @ ''://'' @ host @ ''/'' @ path))
      = s @ ''://'' @ host @ CHR ''/'' # ?path" if "s = ''http'' \<or> s = ''https''" for s
    using that host_kept [OF h] by auto
  have s: "split_scheme (s @ ''://'' @ u) = (s, ''//'' @ u)" if "s = ''http'' \<or> s = ''https''" for s u
    using that by (auto simp: split_scheme_def until_def is_alpha_def scheme_char_def lower_def Let_def)
  show "\<exists>path'. urlparse (''http://'' @ host @ ''/'' @ path) = Return (''http'', host, path')"
    using f [of "''http''"] s [of "''http''"] n b by (simp add: urlparse_def Let_def)
  show "\<exists>path'. urlparse (''https://'' @ host @ ''/'' @ path) = Return (''https'', host, path')"
    using f [of "''https''"] s [of "''https''"] n b by (simp add: urlparse_def Let_def)
qed

lemma base_url_kept:
  assumes h: "plain_host host" and s: "scheme \<in> {''http'', ''https''}"
  shows "rstrip_slash (scheme @ ''://'' @ host) = scheme @ ''://'' @ host" "\<not> suffix ''/v1/traces'' (scheme @ ''://'' @ host)"
proof -
  have no: "CHR ''/'' \<notin> set host" and "host \<noteq> ''''" using h by (auto simp: plain_host_def list_all_iff)
  then obtain c u where u: "rev host = c # u" "c \<noteq> CHR ''/''" by (metis list.exhaust list.set_intros(1) rev_is_Nil_conv set_rev)
  then have r: "rev (scheme @ ''://'' @ host) = c # u @ rev (scheme @ ''://'')" by simp
  have "dropWhile (\<lambda>c. c = CHR ''/'') (rev (scheme @ ''://'' @ host)) = rev (scheme @ ''://'' @ host)"
    unfolding r using u(2) by simp
  then show "rstrip_slash (scheme @ ''://'' @ host) = scheme @ ''://'' @ host"
    unfolding rstrip_slash_def by (metis rev_rev_ident)
  show "\<not> suffix ''/v1/traces'' (scheme @ ''://'' @ host)"
  proof
    assume "suffix ''/v1/traces'' (scheme @ ''://'' @ host)"
    then obtain zs where z: "scheme @ ''://'' @ host = zs @ ''/v1/traces''" by (auto simp: suffix_def)
    have t: "takeWhile (\<lambda>c. c \<noteq> CHR ''/'') (rev host @ ''//:'' @ rev scheme) = rev host"
      using no by (subst takeWhile_append2) auto
    have "rev host @ ''//:'' @ rev scheme = rev (zs @ ''/v1/traces'')" using z by (metis rev_append rev_swap append.assoc append_Cons append_Nil rev.simps)
    then have "rev host = ''secart''" using t by simp
    then have "host = ''traces''" by (simp add: rev_swap)
    then show False using z s by auto
  qed
qed

text \<open>With an HTTP protocol the exporter keeps only the scheme and the host of the configured endpoint: whatever path it
  has, also the base path of a collector behind a gateway, traces go to \<open>/v1/traces\<close> of the host.\<close>

theorem http_exporter_drops_path:
  assumes "plain_host host" "scheme \<in> {''http'', ''https''}" "lower protocol \<in> {''http'', ''http/protobuf'', ''http-protobuf'', ''protobuf''}"
  shows "build_otlp_span_exporter protocol (scheme @ ''://'' @ host @ ''/'' @ path) =
    Return (Some (Http_exporter (scheme @ ''://'' @ host @ ''/v1/traces'')))"
proof -
  have p: "or_default protocol ''grpc'' = protocol" using assms(3) by (auto simp: or_default_def lower_def)
  have "sublist ''://'' (scheme @ ''://'' @ host @ ''/'' @ path)" by (metis sublist_appendI append.assoc)
  moreover obtain path' where "urlparse (scheme @ ''://'' @ host @ ''/'' @ path) = Return (scheme, host, path')"
    using assms(2) urlparse_address [OF assms(1)] by fastforce
  moreover have "or_default host path' = host" using assms(1) by (simp add: or_default_def plain_host_def)
  moreover have "scheme @ ''://'' @ host @ ''/'' @ path \<noteq> ''''" by simp
  ultimately show ?thesis using base_url_kept [OF assms(1,2)] assms(3)
    by (simp add: build_otlp_span_exporter_def p Let_def)
qed

lemma http_exporter_drops_path_witness:
  "build_otlp_span_exporter ''HTTP'' ''https://otlp.example.org/otlp'' = Return (Some (Http_exporter ''https://otlp.example.org/v1/traces''))"
proof -
  have "lower ''HTTP'' = ''http''" by code_simp
  then show ?thesis using http_exporter_drops_path [of "''otlp.example.org''" "''https''" "''HTTP''" "''otlp''"]
    by (simp add: plain_host_def)
qed

end
