(* ===== verification/Request_Types.thy ===== *)
theory Request_Types
  imports Otp Json
begin

text \<open>
  The request models of \<open>app/schemas.py\<close>. A body is validated field by field before the handler runs: an absent field
  takes its default, a present one is converted to the declared type (\<open>coerce\<close>, pydantic's conversion, which keeps a value
  that has the type already) and checked against the limits of its \<open>Field\<close>. \<open>email_ok\<close> is the address check of \<open>EmailStr\<close>.
  Unknown fields are ignored.
\<close>

section \<open>Fields\<close>

text \<open>\<open>str\<close> with \<open>min_length\<close> and \<open>max_length\<close>, \<open>int\<close> with \<open>ge\<close> and \<open>le\<close>, \<open>bool\<close>, \<open>EmailStr\<close>.\<close>

datatype kind = Chars nat "nat option" | Whole "int option" "int option" | Flag | Email

text \<open>Name, kind, whether \<open>None\<close> is allowed, the default.\<close>

datatype request_field = Field (fd_name: string) (fd_kind: kind) (fd_optional: bool) (fd_default: "json option")

fun in_limits :: "(string \<Rightarrow> bool) \<Rightarrow> kind \<Rightarrow> json \<Rightarrow> bool" where
  "in_limits email_ok (Chars lo hi) (JStr s) \<longleftrightarrow> lo \<le> length s \<and> (case hi of None \<Rightarrow> True | Some n \<Rightarrow> length s \<le> n)"
| "in_limits email_ok (Whole lo hi) (JInt i) \<longleftrightarrow>
     (case lo of None \<Rightarrow> True | Some n \<Rightarrow> n \<le> i) \<and> (case hi of None \<Rightarrow> True | Some n \<Rightarrow> i \<le> n)"
| "in_limits email_ok Flag (JBool b) \<longleftrightarrow> True"
| "in_limits email_ok Email (JStr s) \<longleftrightarrow> email_ok s"
| "in_limits email_ok _ _ \<longleftrightarrow> False"

definition validate_field :: "(kind \<Rightarrow> json \<Rightarrow> json option) \<Rightarrow> (string \<Rightarrow> bool) \<Rightarrow> (string \<times> json) list \<Rightarrow> request_field \<Rightarrow> json option" where
  "validate_field coerce email_ok d f = (case map_of d (fd_name f) of
      None \<Rightarrow> fd_default f
    | Some v \<Rightarrow> if v = JNull \<and> fd_optional f then Some JNull
               else (case coerce (fd_kind f) v of
                       None \<Rightarrow> None
                     | Some v' \<Rightarrow> if in_limits email_ok (fd_kind f) v' then Some v' else None))"

text \<open>The fields of the model, or a 422 response that names every rejected field.\<close>

definition validate :: "(kind \<Rightarrow> json \<Rightarrow> json option) \<Rightarrow> (string \<Rightarrow> bool) \<Rightarrow> request_field list \<Rightarrow> (string \<times> json) list \<Rightarrow>
    string list + (string \<times> json) list" where
  "validate coerce email_ok fs d =
     (let rejected = filter (\<lambda>f. validate_field coerce email_ok d f = None) fs
      in if rejected = [] then Inr (map (\<lambda>f. (fd_name f, the (validate_field coerce email_ok d f))) fs) else Inl (map fd_name rejected))"

section \<open>The models\<close>

definition UserSignupRequest :: "request_field list" where
  "UserSignupRequest =
     [Field ''username'' (Chars 3 (Some 50)) False None,
      Field ''password'' (Chars 6 (Some 72)) False None,
      Field ''nickname'' (Chars 0 (Some 50)) True (Some JNull),
      Field ''email'' Email False None]"

definition UserLoginRequest :: "request_field list" where
  "UserLoginRequest =
     [Field ''username'' (Chars 0 None) False None,
      Field ''password'' (Chars 0 None) False None]"

definition UserUpdateRequest :: "request_field list" where
  "UserUpdateRequest =
     [Field ''username'' (Chars 3 (Some 50)) True (Some JNull),
      Field ''bio'' (Chars 0 (Some 500)) True (Some JNull),
      Field ''email'' Email True (Some JNull)]"

definition RefreshTokenRequest :: "request_field list" where
  "RefreshTokenRequest =
     [Field ''refresh_token'' (Chars 0 None) False None]"

definition VerifyEmailRequest :: "request_field list" where
  "VerifyEmailRequest =
     [Field ''email'' Email False None,
      Field ''otp'' (Chars 6 (Some 6)) False None]"

definition ResendVerificationOtpRequest :: "request_field list" where
  "ResendVerificationOtpRequest =
     [Field ''email'' Email False None]"

definition ForgotPasswordSchema :: "request_field list" where
  "ForgotPasswordSchema =
     [Field ''email'' Email False None]"

definition ResetPasswordSchema :: "request_field list" where
  "ResetPasswordSchema =
     [Field ''email'' Email False None,
      Field ''otp'' (Chars 6 (Some 6)) False None,
      Field ''new_password'' (Chars 6 (Some 72)) False None]"

definition PostCreateRequest :: "request_field list" where
  "PostCreateRequest =
     [Field ''title'' (Chars 1 (Some 200)) False None,
      Field ''content'' (Chars 1 None) False None,
      Field ''enable_comments'' Flag False (Some (JBool True)),
      Field ''hashtags'' (Chars 0 None) True (Some JNull)]"

definition PostUpdateRequest :: "request_field list" where
  "PostUpdateRequest =
     [Field ''title'' (Chars 1 (Some 200)) True (Some JNull),
      Field ''content'' (Chars 1 None) True (Some JNull),
      Field ''enable_comments'' Flag True (Some JNull),
      Field ''hashtags'' (Chars 0 None) True (Some JNull)]"

definition CommentCreateRequest :: "request_field list" where
  "CommentCreateRequest =
     [Field ''post_id'' (Whole None None) False None,
      Field ''content'' (Chars 1 (Some 1000)) False None]"

definition CommentUpdateRequest :: "request_field list" where
  "CommentUpdateRequest =
     [Field ''comment_content'' (Chars 1 (Some 1000)) False None]"

definition VoteRequest :: "request_field list" where
  "VoteRequest =
     [Field ''post_id'' (Whole None None) False None,
      Field ''choice'' Flag False None]"

definition CommentVoteRequest :: "request_field list" where
  "CommentVoteRequest =
     [Field ''comment_id'' (Whole None None) False None,
      Field ''choice'' Flag False None]"

definition SearchRequest :: "request_field list" where
  "SearchRequest =
     [Field ''q'' (Chars 1 None) False None,
      Field ''limit'' (Whole (Some 1) (Some 100)) False (Some (JInt 10)),
      Field ''offset'' (Whole (Some 0) None) False (Some (JInt 0)),
      Field ''orderBy'' (Chars 0 None) True (Some (JStr ''created_at''))]"

definition PasswordChangeInitRequest :: "request_field list" where
  "PasswordChangeInitRequest =
     [Field ''email'' Email False None]"

definition PasswordResetRequest :: "request_field list" where
  "PasswordResetRequest =
     [Field ''otp'' (Chars 6 (Some 6)) False None,
      Field ''old_password'' (Chars 0 None) False None,
      Field ''new_password'' (Chars 6 (Some 72)) False None]"

definition MessageCreateRequest :: "request_field list" where
  "MessageCreateRequest =
     [Field ''to'' (Whole None None) False None,
      Field ''content'' (Chars 0 None) True (Some JNull),
      Field ''media_url'' (Chars 0 None) True (Some JNull),
      Field ''media_type'' (Chars 0 None) True (Some JNull)]"

definition MessageEditRequest :: "request_field list" where
  "MessageEditRequest =
     [Field ''message_id'' (Whole None None) False None,
      Field ''new_content'' (Chars 0 None) False None,
      Field ''receiver_id'' (Whole None None) False None]"

definition MessageDeleteRequest :: "request_field list" where
  "MessageDeleteRequest =
     [Field ''message_id'' (Whole None None) False None,
      Field ''receiver_id'' (Whole None None) False None]"

definition ReactionPayload :: "request_field list" where
  "ReactionPayload =
     [Field ''message_id'' (Whole None None) False None,
      Field ''reaction'' (Chars 0 None) False None]"

definition ReplyMessageRequest :: "request_field list" where
  "ReplyMessageRequest =
     [Field ''to'' (Whole None None) False None,
      Field ''reply_msg_id'' (Whole None None) False None,
      Field ''content'' (Chars 0 None) True (Some JNull),
      Field ''media_url'' (Chars 0 None) True (Some JNull),
      Field ''media_type'' (Chars 0 None) True (Some JNull)]"

definition SharePostRequest :: "request_field list" where
  "SharePostRequest =
     [Field ''post_id'' (Whole None None) False None,
      Field ''to_user_id'' (Whole None None) False None,
      Field ''message'' (Chars 0 None) True (Some JNull)]"

definition ReplyToShareRequest :: "request_field list" where
  "ReplyToShareRequest =
     [Field ''shared_post_id'' (Whole None None) False None,
      Field ''to'' (Whole None None) False None,
      Field ''content'' (Chars 0 None) True (Some JNull),
      Field ''media_url'' (Chars 0 None) True (Some JNull),
      Field ''media_type'' (Chars 0 None) True (Some JNull)]"

definition ShareReactionRequest :: "request_field list" where
  "ShareReactionRequest =
     [Field ''shared_post_id'' (Whole None None) False None,
      Field ''reaction'' (Chars 0 None) False None]"

definition MessageSchema :: "request_field list" where
  "MessageSchema =
     [Field ''to'' (Whole None None) False None,
      Field ''content'' (Chars 0 None) True (Some JNull),
      Field ''media_url'' (Chars 0 None) True (Some JNull),
      Field ''media_type'' (Chars 0 None) True (Some JNull)]"

definition ReplyMessageSchema :: "request_field list" where
  "ReplyMessageSchema =
     [Field ''to'' (Whole None None) False None,
      Field ''reply_msg_id'' (Whole None None) False None,
      Field ''content'' (Chars 0 None) True (Some JNull),
      Field ''media_url'' (Chars 0 None) True (Some JNull),
      Field ''media_type'' (Chars 0 None) True (Some JNull)]"

definition ReplyToShareSchema :: "request_field list" where
  "ReplyToShareSchema =
     [Field ''shared_post_id'' (Whole None None) False None,
      Field ''content'' (Chars 0 None) True (Some JNull),
      Field ''media_url'' (Chars 0 None) True (Some JNull),
      Field ''media_type'' (Chars 0 None) True (Some JNull),
      Field ''to'' (Whole None None) False None]"

section \<open>What a validated body satisfies\<close>

lemma validate_field_fits:
  assumes "validate_field coerce email_ok d f = Some v"
  shows "(map_of d (fd_name f) = None \<and> fd_default f = Some v) \<or> (v = JNull \<and> fd_optional f) \<or> in_limits email_ok (fd_kind f) v"
  using assms by (auto simp: validate_field_def split: option.splits if_splits)

lemma validate_accepts:
  "validate coerce email_ok fs d = Inr d' \<longleftrightarrow>
     (\<forall>f\<in>set fs. validate_field coerce email_ok d f \<noteq> None) \<and>
     d' = map (\<lambda>f. (fd_name f, the (validate_field coerce email_ok d f))) fs"
  by (auto simp: validate_def Let_def filter_empty_conv)

lemma validate_rejects:
  "validate coerce email_ok fs d = Inl names \<longleftrightarrow> names \<noteq> [] \<and>
     names = map fd_name (filter (\<lambda>f. validate_field coerce email_ok d f = None) fs)"
  by (auto simp: validate_def Let_def)

text \<open>A code has six digits.\<close>

lemma length_str_nat: "k \<ge> 1 \<Longrightarrow> 10 ^ (k - 1) \<le> n \<Longrightarrow> n < 10 ^ k \<Longrightarrow> length (str_nat n) = k"
proof (induction k arbitrary: n)
  case (Suc k)
  show ?case
  proof (cases "k = 0")
    case True
    then show ?thesis using Suc.prems by (subst str_nat.simps) simp
  next
    case False
    have "\<not> n < 10" using Suc.prems(2) False self_le_power [of "10 :: nat" k] by simp
    moreover have "10 ^ (k - 1) \<le> n div 10" "n div 10 < 10 ^ k"
      using Suc.prems(2,3) False by (auto simp: less_eq_div_iff_mult_less_eq power_eq_if mult.commute div_less_iff_less_mult)
    ultimately show ?thesis using Suc.IH [of "n div 10"] False by (subst str_nat.simps) simp
  qed
qed simp

lemma generateOtp_length: "100000 \<le> drawn \<Longrightarrow> drawn \<le> 999999 \<Longrightarrow> length (generateOtp drawn) = 6"
  using length_str_nat [of 6 "nat drawn"] by (simp add: generateOtp_def str_int_def)

section \<open>Properties\<close>

text \<open>Every code that \<open>generateOtp\<close> can produce passes the request models it is sent back in, and no text of another length
  does: for a valid address and a new password of 6 to 72 characters the models of e-mail verification and password reset
  accept the body as it is exactly when the code has six characters, and otherwise reject the field \<open>otp\<close> alone.\<close>

theorem generated_code_accepted:
  assumes keeps: "\<And>lo hi s. coerce (Chars lo hi) (JStr s) = Some (JStr s)" "\<And>s. coerce Email (JStr s) = Some (JStr s)"
    and ok: "email_ok e" "6 \<le> length pw" "length pw \<le> 72"
  shows "validate coerce email_ok VerifyEmailRequest [(''email'', JStr e), (''otp'', JStr code)] =
      (if length code = 6 then Inr [(''email'', JStr e), (''otp'', JStr code)] else Inl [''otp'']) \<and>
    validate coerce email_ok ResetPasswordSchema [(''email'', JStr e), (''otp'', JStr code), (''new_password'', JStr pw)] =
      (if length code = 6 then Inr [(''email'', JStr e), (''otp'', JStr code), (''new_password'', JStr pw)] else Inl [''otp'']) \<and>
    (100000 \<le> drawn \<and> drawn \<le> 999999 \<longrightarrow> length (generateOtp drawn) = 6)"
  using generateOtp_length [of drawn] keeps ok
  by (simp add: validate_def Let_def validate_field_def VerifyEmailRequest_def ResetPasswordSchema_def)

lemma generated_code_accepted_witness:
  "validate (\<lambda>_ v. Some v) (\<lambda>s. CHR ''@'' \<in> set s) VerifyEmailRequest [(''email'', JStr ''a@b''), (''otp'', JStr (generateOtp 123456))] =
     Inr [(''email'', JStr ''a@b''), (''otp'', JStr (generateOtp 123456))]"
proof -
  have "length (generateOtp 123456) = 6" by (rule generateOtp_length) simp_all
  then show ?thesis
    using generated_code_accepted [of "\<lambda>_ v. Some v" "\<lambda>s. CHR ''@'' \<in> set s" "''a@b''" "''secret''" "generateOtp 123456" 123456]
    by simp
qed

end
