(* ===== verification/Mail.thy ===== *)
theory Mail
  imports Auth Samples "HOL-Library.Sublist"
begin

text \<open>
  \<open>app/services/email_service.py\<close>: the two messages that are handed to the mail library, and what they promise about the
  code they carry.
\<close>

section \<open>Messages\<close>

record mail =
  ml_subject :: string
  ml_recipients :: "string list"
  ml_body :: string
  ml_subtype :: string

definition bold_code :: "string \<Rightarrow> string" where
  "bold_code otp = ''<b style='' @ [CHR 0x22] @ ''font-size: 20px;'' @ [CHR 0x22] @ ''>'' @ otp @ ''</b></p>''"

definition validity_notice :: string where
  "validity_notice = [CHR 0x0A] @ ''    <p>Valid for 5 minutes only.</p>'' @ [CHR 0x0A] @ ''    ''"

definition otp_email :: "string \<Rightarrow> string \<Rightarrow> mail" where
  "otp_email to_email otp = \<lparr>ml_subject = ''Your OTP Code'', ml_recipients = [to_email],
     ml_body = ([CHR 0x0A] @ ''    <h3>Password Reset OTP</h3>'' @ [CHR 0x0A] @ ''    <p>Your OTP is: '' @ bold_code otp) @ validity_notice,
     ml_subtype = ''html''\<rparr>"

definition verification_email :: "string \<Rightarrow> string \<Rightarrow> mail" where
  "verification_email to_email otp = \<lparr>ml_subject = ''Verify your email'', ml_recipients = [to_email],
     ml_body = ([CHR 0x0A] @ ''    <h3>Verify Your Email</h3>'' @ [CHR 0x0A] @ ''    <p>Use this OTP to verify your account: '' @
       bold_code otp) @ validity_notice,
     ml_subtype = ''html''\<rparr>"

section \<open>Properties\<close>

lemma notice_in_body:
  "sublist ''Valid for 5 minutes only.'' (ml_body (otp_email e otp))"
  "sublist ''Valid for 5 minutes only.'' (ml_body (verification_email e otp))"
proof -
  have n: "sublist ''Valid for 5 minutes only.'' validity_notice" unfolding validity_notice_def by code_simp
  have s: "sublist validity_notice (x @ validity_notice)" for x by (intro suffix_imp_sublist) (simp add: suffix_def)
  show "sublist ''Valid for 5 minutes only.'' (ml_body (otp_email e otp))"
    unfolding otp_email_def mail.select_convs by (rule sublist_order.order.trans [OF n s])
  show "sublist ''Valid for 5 minutes only.'' (ml_body (verification_email e otp))"
    unfolding verification_email_def mail.select_convs by (rule sublist_order.order.trans [OF n s])
qed

text \<open>The mail of a password change promises more than the code holds: \<open>POST /auth/password/change\<close> stores a code for two
  minutes and sends the mail that says five, so the code the user was told to use is refused from the third minute on,
  by the clock of the server, although nothing else happened to it.\<close>

theorem mail_overstates_validity:
  assumes "pr_email currentUser = Some e" "change_password sha tz drawn currentUser w = (Return b, w')"
    and "minutes 2 < elapsed" "elapsed \<le> minutes 5"
  shows "send_otp_email e (generateOtp drawn) \<in> set (w_tasks w') \<and>
    sublist ''Valid for 5 minutes only.'' (ml_body (otp_email e (generateOtp drawn))) \<and>
    fst (verifyOtp sha tz (generateOtp drawn) (Some e) (w'\<lparr>w_now := w_now w + elapsed\<rparr>)) = Http 400 ''Wrong or expired OTP''"
proof -
  have w': "w' = enqueue (send_otp_email e (generateOtp drawn)) (saveOtp sha tz e (generateOtp drawn) 2 w)"
    using assms(1,2) by (simp add: change_password_def Let_def)
  have "find (\<lambda>r. o_email r = e) (delete_where (\<lambda>r. o_email r = e) rs @ [x]) = Some x" if "o_email x = e" for rs and x :: otp_row
    using that by (induction rs) (auto simp: delete_where_def)
  then show ?thesis using assms(3) notice_in_body
    by (simp add: w' enqueue_def saveOtp_def verifyOtp_def checkOtp_def Let_def local_now_def)
qed

lemma mail_overstates_validity_witness:
  "let p = (principal_of_user (sample_user 1 ''ann'' 1 0))\<lparr>pr_email := Some ''ann@x''\<rparr>;
       w' = snd (change_password id 0 123456 p sample_world)
   in send_otp_email ''ann@x'' (generateOtp 123456) \<in> set (w_tasks w') \<and>
      fst (verifyOtp id 0 (generateOtp 123456) (Some ''ann@x'') (w'\<lparr>w_now := w_now sample_world + minutes 3\<rparr>)) =
        Http 400 ''Wrong or expired OTP''"
proof -
  let ?p = "(principal_of_user (sample_user 1 ''ann'' 1 0))\<lparr>pr_email := Some ''ann@x''\<rparr>"
  have "change_password id 0 123456 ?p sample_world = (Return (message_body ''OTP sent to your email! Check inbox''),
      snd (change_password id 0 123456 ?p sample_world))" by (simp add: change_password_def Let_def)
  then show ?thesis using mail_overstates_validity [of ?p "''ann@x''" id 0 123456 sample_world _ _ "minutes 3"]
    unfolding Let_def by (simp add: minutes_def)
qed

end
