(* ===== verification/Spec2Isabelle.thy ===== *)
theory Spec2Isabelle
  imports RateLimit Idempotency App Responses Errors Operations Routing Migration_Properties Row_Migrations Scheduling
    Observability Request_Types Settings Mail
begin

text \<open>
  A model of the social-media backend under \<open>app/\<close> and of its migrations under \<open>alembic/versions/\<close>, with the theorems
  that say what the code promises and where it does not keep the promise.

  \<^bold>\<open>The program.\<close> FastAPI routes (\<open>routes/\<close>, \<open>messaging/\<close>) act on a PostgreSQL database through SQLAlchemy (\<open>models.py\<close>),
  on Redis (cache, token blacklist, rate-limit buckets, idempotency records, pub/sub, the queue of views), on blob storage
  and on the WebSocket registry of their worker process (\<open>utils/socket_manager.py\<close>). Counters in the tables are kept by row
  triggers and repaired by a background task. Celery workers send e-mail, create notifications and run the scheduled
  clean-up tasks. Frames for connected users are published on two Redis channels and handed to the sockets by a listener in
  every worker.

  \<^bold>\<open>State.\<close> \<open>World\<close> has the record \<open>world\<close>: the committed \<open>database\<close> (\<open>Schema\<close>: one list of records per table, nullable columns
  as options, timestamps in microseconds), \<open>redis\<close> (\<open>Redis\<close>: values with deadlines), the clock, the Celery queue, the
  registry \<open>manager\<close> (\<open>Sockets\<close>) and the blob store (\<open>Blob\<close>). A handler is a function from a world to its outcome
  (\<open>Return\<close>, \<open>Http\<close> status and message, \<open>Raise\<close> exception; \<open>Prelude\<close>) and the world it leaves. \<open>Json\<close> has the payloads,
  \<open>Python\<close>, \<open>Time_Formatting\<close> and \<open>Binary64\<close> (doubles; locale \<open>rounding\<close>) the parts of the language and its standard library that
  decide results.

  \<^bold>\<open>Theories and sources.\<close>
  \<^item> \<open>Schema\<close>, \<open>Tables\<close>, \<open>Table_Invariants\<close>: \<open>models.py\<close>; INSERT, UPDATE and DELETE with constraints and cascades, and the
    invariant \<open>db_ok\<close> (keys, references, counters) that every statement keeps.
  \<^item> \<open>Counters\<close>: the triggers of \<open>e9b7c6a5d4f2\<close>; the locale \<open>counter\<close> is the contract of a denormalised counter, interpreted for
    the nine columns, \<open>synced\<close> the contract of a trigger, interpreted for each trigger. \<open>Reconcile\<close>: \<open>reconciliation_service.py\<close>.
  \<^item> \<open>Redis\<close> (locale \<open>keyspace\<close>), \<open>RateLimit\<close>, \<open>Idempotency\<close>, \<open>Concurrency\<close>, \<open>Blob\<close>: the services of the same names.
  \<^item> \<open>Oauth2\<close>, \<open>Tokens\<close>, \<open>Otp\<close>, \<open>Auth\<close>, \<open>Auth_Properties\<close>: \<open>oauth2.py\<close>, \<open>token_service.py\<close>, \<open>otp_service.py\<close>,
    \<open>otp_cleanup_task.py\<close>, \<open>auth.py\<close>, \<open>changepassword.py\<close>, \<open>thread_helpers.py\<close>.
  \<^item> \<open>Posts\<close>, \<open>Connections\<close>, \<open>Profiles\<close> and their \<open>_Properties\<close>: \<open>posts.py\<close>, \<open>like.py\<close>, \<open>comment.py\<close>, \<open>saved.py\<close>; \<open>connect.py\<close>,
    \<open>feed.py\<close>; \<open>users.py\<close>, \<open>me.py\<close>, \<open>search.py\<close>.
  \<^item> \<open>Sockets\<close>, \<open>Presence\<close>, \<open>Messaging\<close>, \<open>Shares\<close>, \<open>Chat_History\<close>, \<open>Chat\<close>: \<open>socket_manager.py\<close>, the listeners of \<open>main.py\<close> and
    the modules of \<open>messaging/\<close>; \<open>Messaging_Lemmas\<close>, \<open>Messaging_Properties\<close>, \<open>Dm_Properties\<close>, \<open>Reaction_Properties\<close>,
    \<open>Session_Properties\<close> hold their theorems.
  \<^item> \<open>Notifications\<close>, \<open>Notifications_Properties\<close>, \<open>Views\<close>: the notification service, task and routes; the view flush.
  \<^item> \<open>App\<close>: any sequence of requests, frames and tasks as one step relation over all components.
  \<^item> \<open>Response_Types\<close>, \<open>Responses\<close>, \<open>Request_Types\<close>: \<open>schemas.py\<close>, the models the routes declare, and the cached bodies.
  \<^item> \<open>Errors\<close>, \<open>Observability\<close>: \<open>exceptions.py\<close>, \<open>exception_handlers.py\<close>, \<open>observability.py\<close>, \<open>logging.py\<close>.
  \<^item> \<open>Routing\<close>: \<open>api_router.py\<close> and the decorators of every router. \<open>Operations\<close>: the health check, \<open>celery_tasks.py\<close> and
    \<open>email_tasks.py\<close>; the locale \<open>retried_task\<close> is the contract of a retrying task, interpreted for the three tasks that retry.
    \<open>Mail\<close>: \<open>email_service.py\<close>. \<open>Scheduling\<close>: \<open>celery_app.py\<close>. \<open>Settings\<close>: \<open>config.py\<close>, the addresses of \<open>db.py\<close>, the limiters.
  \<^item> \<open>Ddl\<close>, \<open>Metadata\<close>, \<open>Migrations\<close>, \<open>Migration_Properties\<close>, \<open>Row_Migrations\<close>: the catalogue and its statements, the metadata
    of \<open>models.py\<close>, the eleven revisions, what they build, and what they do to stored rows.

  \<^bold>\<open>What the theorems show.\<close> \<open>App.app_reachable_consistent\<close> lifts the per-operation lemmas \<open>.._ok\<close> to all reachable databases;
  \<open>Auth_Properties.auth_reachable_safe\<close> does the same for sessions and \<open>Responses.responses_fit_models\<close> for the types of
  all bodies, cached ones included. Refinements relate votes, reactions, follows, bookmarks and stored secrets to toggles,
  graphs, sets and plain secrets; the idempotency decorator is shown to let a handler succeed at most once, and never run
  twice at a time, under every interleaving of duplicates; the rate limiter is bounded by its refill, and its waiting time is
  right up to one millisecond of rounding; the migrations
  are compared with the declared schema and with the rows they find. Theorems of the kind error state exactly when the code
  fails its intention, such as the tasks that no worker runs or the routes that no request reaches.

  \<^bold>\<open>Bounds.\<close> Recursions are structural or have a measure. The retry loops take the list of failures to come; the import
  closure of \<open>Scheduling\<close> and the revision chain of \<open>Migrations\<close> take a number of steps that is shown to be enough
  (\<open>worker_modules_closed\<close>; one step per revision).

  \<^bold>\<open>Assumptions.\<close> A request is one atomic step, except in the idempotency decorator (interleaved steps), the rate limiter
  (conflicting writes between WATCH and EXEC), the retry wrapper (failing attempts) and the caching of a principal, which happens
  a \<open>lag\<close> after the token was issued or checked. Integers are unbounded: the 32-bit
  range of database columns is not modelled. The floats of the rate limiter are doubles with unbounded exponents (every
  operation rounded by \<open>fl64\<close>). Text is a list of characters; lower-casing and stripping are those of ASCII. The feeds, the
  posts of a user, the search and the comments take the order of rows with equal sort keys as an argument \<open>tie\<close>, one per query;
  the other queries keep the order of the table. A parameter for a text column must be a string, as asyncpg demands, and
  users.nickname is NOT NULL, as the migrations leave it. The messaging code runs in a process whose local time is UTC. SHA-256,
  bcrypt, the JWT library, the address check and the type conversion of pydantic, the random values, and what Celery's
  inspection reports are arguments, with the documented law a theorem needs as its hypothesis. Theorems on Redis state whether it answers: without
  it the rate limiter and the idempotency decorator fail open and the caches miss.

  \<^bold>\<open>Not modelled.\<close> Connection pools, engines and the expiry of ORM objects beyond the accesses that raise (noted where they
  occur); a failure of Redis between the two publications of one message; surrogate keys that nothing reads; the rendering
  of log lines, metrics and traces; the landing page, CORS and static files of \<open>main.py\<close>; \<open>alembic/env.py\<close> and
  \<open>tuned_worker.py\<close>, which pass arguments to libraries; ten response classes of \<open>schemas.py\<close> that no route uses.
\<close>

end
